(* ===== verification/Prelude.thy ===== *)
theory Prelude
  imports Main "HOL-Library.Multiset"
begin

section \<open>Shared vocabulary of the development\<close>

text \<open>
  Lemmas and collections every component uses: decimal printing of identifiers
  (\<open>%d\<close> of the format strings), association lists standing for the Go maps, and the
  collections of facts that carry the component proofs.
  \<^item> \<open>go_defs\<close>: the one-step definitions of a component, unfolded together;
  \<^item> \<open>frame\<close>: what an operation leaves alone.
\<close>

named_theorems go_defs \<open>definitions of the operations, unfolded together\<close>
named_theorems frame \<open>state components an operation does not touch\<close>

subsection \<open>Decimal printing\<close>

definition digit :: "nat \<Rightarrow> char" where
  "digit d = char_of (48 + d)"

fun show_nat :: "nat \<Rightarrow> string" where
  "show_nat n = (if n < 10 then [digit n] else show_nat (n div 10) @ [digit (n mod 10)])"

declare show_nat.simps [simp del]

definition show_int :: "int \<Rightarrow> string" where
  "show_int i = (if i < 0 then CHR ''-'' # show_nat (nat (- i)) else show_nat (nat i))"

lemma digit_inj: "a < 10 \<Longrightarrow> b < 10 \<Longrightarrow> digit a = digit b \<Longrightarrow> a = b"
proof -
  assume a: "a < 10" and b: "b < 10" and "digit a = digit b"
  then have "of_char (digit a) = (of_char (digit b) :: nat)" by simp
  with a b show "a = b" by (simp add: digit_def)
qed

lemma digit_not_hash: "a < 10 \<Longrightarrow> digit a \<noteq> CHR ''#''"
proof
  assume a: "a < 10" and "digit a = CHR ''#''"
  then have "of_char (digit a) = (of_char (CHR ''#'') :: nat)" by simp
  with a show False by (simp add: digit_def)
qed

lemma show_nat_nonempty [simp]: "show_nat n \<noteq> []"
  by (subst show_nat.simps) simp

lemma show_nat_no_hash: "CHR ''#'' \<notin> set (show_nat n)"
proof (induction n rule: show_nat.induct)
  case (1 n)
  have "digit n \<noteq> CHR ''#''" if "n < 10" using that by (rule digit_not_hash)
  moreover have "digit (n mod 10) \<noteq> CHR ''#''" by (rule digit_not_hash) simp
  ultimately show ?case
    using 1 by (subst show_nat.simps) (auto split: if_splits)
qed

lemma show_nat_inj: "show_nat a = show_nat b \<Longrightarrow> a = b"
proof (induction a arbitrary: b rule: show_nat.induct)
  case (1 a)
  note eq = "1.prems"
  show ?case
  proof (cases "a < 10")
    case True
    with eq have e: "[digit a] = show_nat b" by (simp add: show_nat.simps [of a])
    then have "length (show_nat b) = 1" by (metis length_Cons list.size(3) One_nat_def)
    then have "b < 10"
      by (rule contrapos_pp) (simp add: show_nat.simps [of b])
    with e True show ?thesis by (simp add: show_nat.simps [of b] digit_inj)
  next
    case False
    with eq have e: "show_nat (a div 10) @ [digit (a mod 10)] = show_nat b"
      by (simp add: show_nat.simps [of a])
    then have b: "\<not> b < 10"
      by (cases "b < 10") (simp_all add: show_nat.simps [of b])
    with e have "show_nat (a div 10) = show_nat (b div 10)"
      and d: "digit (a mod 10) = digit (b mod 10)"
      by (simp_all add: show_nat.simps [of b])
    with "1.IH" False have "a div 10 = b div 10" by blast
    moreover from d have "a mod 10 = b mod 10" by (rule digit_inj [rotated 2]) simp_all
    ultimately show ?thesis by (metis mult_div_mod_eq)
  qed
qed

subsection \<open>Splitting at the first separator\<close>

lemma append_sep_inj:
  assumes "c \<notin> set xs" and "c \<notin> set ys" and "xs @ c # us = ys @ c # vs"
  shows "xs = ys \<and> us = vs"
  using assms
proof (induction xs arbitrary: ys)
  case Nil
  then show ?case by (cases ys) auto
next
  case (Cons x xs)
  then show ?case by (cases ys) auto
qed

subsection \<open>Association lists for the Go maps\<close>

text \<open>
  A Go map with an iteration order is an association list with distinct keys; the order of
  the list is the order one \<open>range\<close> loop happens to take.
\<close>

fun alist_upd :: "'k \<Rightarrow> 'v \<Rightarrow> ('k \<times> 'v) list \<Rightarrow> ('k \<times> 'v) list" where
  "alist_upd k v [] = [(k, v)]"
| "alist_upd k v ((k', v') # m) =
     (if k' = k then (k, v) # m else (k', v') # alist_upd k v m)"

lemma map_of_alist_upd: "map_of (alist_upd k v m) = (map_of m)(k \<mapsto> v)"
  by (induction m) auto

lemma keys_alist_upd:
  "map fst (alist_upd k v m) = (if k \<in> fst ` set m then map fst m else map fst m @ [k])"
proof (induction m)
  case Nil
  show ?case by simp
next
  case (Cons p m)
  obtain k' v' where p: "p = (k', v')" by (cases p)
  show ?case
  proof (cases "k' = k")
    case True
    with p show ?thesis by simp
  next
    case False
    with p Cons.IH show ?thesis by simp
  qed
qed

lemma dom_alist_upd [simp]: "fst ` set (alist_upd k v m) = insert k (fst ` set m)"
proof -
  have "set (map fst (alist_upd k v m)) = insert k (set (map fst m))"
    unfolding keys_alist_upd by auto
  then show ?thesis by simp
qed

lemma distinct_alist_upd: "distinct (map fst m) \<Longrightarrow> distinct (map fst (alist_upd k v m))"
  by (auto simp: keys_alist_upd)

lemma alist_upd_nonempty [simp]: "alist_upd k v m \<noteq> []"
  by (cases "(k, v, m)" rule: alist_upd.cases) simp_all

subsection \<open>Sums over lists\<close>

lemma sum_list_filter_split:
  fixes f :: "'a \<Rightarrow> 'b::comm_monoid_add"
  shows "sum_list (map f xs) =
    sum_list (map f (filter P xs)) + sum_list (map f (filter (\<lambda>x. \<not> P x) xs))"
  by (induction xs) (simp_all add: algebra_simps)

lemma find_SomeD: "find P xs = Some x \<Longrightarrow> P x \<and> x \<in> set xs"
  by (induction xs) (auto split: if_splits)


subsection \<open>Latched errors\<close>

text \<open>
  The builders of the package (\<open>createEntryImpl\<close>, \<open>createTansactionImpl\<close>,
  \<open>transactionMutationImpl\<close>) record the first error of a chain of calls and keep it:
  the contract of their \<open>setErr\<close>.
\<close>

locale error_latch =
  fixes get_err :: "'c \<Rightarrow> 'e option"
    and set_err :: "'e \<Rightarrow> 'c \<Rightarrow> 'c"
  assumes set_first: "get_err c = None \<Longrightarrow> get_err (set_err e c) = Some e"
    and set_later: "get_err c = Some e' \<Longrightarrow> set_err e c = c"
begin

definition latched :: "('c \<Rightarrow> 'c) \<Rightarrow> bool" where
  "latched f \<longleftrightarrow> (\<forall>c e. get_err c = Some e \<longrightarrow> get_err (f c) = Some e)"

lemma latchedI: "(\<And>c e. get_err c = Some e \<Longrightarrow> get_err (f c) = Some e) \<Longrightarrow> latched f"
  by (simp add: latched_def)

lemma latchedD: "latched f \<Longrightarrow> get_err c = Some e \<Longrightarrow> get_err (f c) = Some e"
  by (simp add: latched_def)

lemma set_err_some: "get_err (set_err e c) \<noteq> None"
  by (cases "get_err c") (simp_all add: set_first set_later)

lemma latched_set_err: "latched (set_err e)"
  by (rule latchedI) (simp add: set_later)

lemma latched_id: "latched (\<lambda>c. c)"
  by (rule latchedI)

lemma latched_comp: "latched f \<Longrightarrow> latched g \<Longrightarrow> latched (\<lambda>c. g (f c))"
  by (simp add: latched_def)

lemma latched_fold: "(\<And>x. x \<in> set xs \<Longrightarrow> latched (f x)) \<Longrightarrow> latched (fold f xs)"
  by (induction xs) (auto simp: latched_def)

text \<open>A chain of latched steps that ends without an error met none on the way.\<close>

lemma no_err_before: "latched f \<Longrightarrow> get_err (f c) = None \<Longrightarrow> get_err c = None"
  by (cases "get_err c") (auto dest: latchedD)

end

lemma find_append: "find P xs = Some x \<Longrightarrow> find P (xs @ ys) = Some x"
  by (induction xs) (auto split: if_splits)

end
