(* ===== verification/Float64.thy ===== *)
theory Float64
  imports Prelude "HOL-Library.Log_Nat"
begin

section \<open>The amounts: Go's float64\<close>

text \<open>
  Every amount of the program is a \<open>float64\<close>. A finite double is modelled by the rational
  number it stands for, and every operation rounds the exact result to the nearest number
  with a 53-bit significand, ties to even, as IEEE 754 prescribes. The exponent is not
  bounded: overflow to an infinity and subnormal numbers are outside the model.
  Addition is therefore commutative and has 0 as its unit, but is not associative; sums
  are exact where the amounts are whole and stay within \<open>2^53\<close>.
\<close>

subsection \<open>Rounding to nearest, ties to even\<close>

definition rne :: "rat \<Rightarrow> int" where
  "rne y = (let f = \<lfloor>y\<rfloor>; d = y - of_int f
            in if d < 1/2 then f else if d > 1/2 then f + 1
               else if even f then f else f + 1)"

lemma rne_of_int [simp]: "rne (of_int k) = k"
  by (simp add: rne_def)

lemma rne_bounds: "\<lfloor>y\<rfloor> \<le> rne y \<and> rne y \<le> \<lfloor>y\<rfloor> + 1"
  by (simp add: rne_def Let_def)

lemma rne_mono: "y \<le> z \<Longrightarrow> rne y \<le> rne z"
proof -
  assume yz: "y \<le> z"
  show ?thesis
  proof (cases "\<lfloor>y\<rfloor> = \<lfloor>z\<rfloor>")
    case True
    with yz show ?thesis by (auto simp: rne_def Let_def)
  next
    case False
    with yz have "\<lfloor>y\<rfloor> + 1 \<le> \<lfloor>z\<rfloor>" using floor_mono [OF yz] by linarith
    with rne_bounds [of y] rne_bounds [of z] show ?thesis by linarith
  qed
qed

lemma rne_uminus: "rne (- y) = - rne y"
proof (cases "y = of_int \<lfloor>y\<rfloor>")
  case True
  then have "- y = of_int (- \<lfloor>y\<rfloor>)" by simp
  with True show ?thesis by (metis rne_of_int)
next
  case False
  have le: "of_int \<lfloor>y\<rfloor> \<le> y" and lt: "y < of_int \<lfloor>y\<rfloor> + 1" by linarith+
  with False have lt': "of_int \<lfloor>y\<rfloor> < y" by linarith
  with lt have "\<lfloor>- y\<rfloor> = - \<lfloor>y\<rfloor> - 1"
    by (intro floor_unique) simp_all
  then show ?thesis
    by (simp add: rne_def Let_def)
qed

subsection \<open>The binary exponent\<close>

definition expo :: "rat \<Rightarrow> int" where
  "expo x = (let (p, q) = quotient_of x; k = bitlen p - bitlen q
             in if (2::rat) powi k \<le> x then k else k - 1)"

lemma bitlen_powi:
  assumes "p > 0"
  shows "2 powi (bitlen p - 1) \<le> (of_int p :: rat) \<and> of_int p < (2::rat) powi bitlen p"
proof -
  from assms have b: "2 ^ nat (bitlen p - 1) \<le> p \<and> p < 2 ^ nat (bitlen p)"
    by (rule bitlen_bounds)
  have pos: "bitlen p > 0" using assms b by (cases "bitlen p > 0") auto
  from b have "(of_int (2 ^ nat (bitlen p - 1)) :: rat) \<le> of_int p"
    and "(of_int p :: rat) < of_int (2 ^ nat (bitlen p))"
    by (simp_all only: of_int_le_iff of_int_less_iff)
  with pos show ?thesis by (simp add: power_int_def)
qed

lemma expo_bounds:
  assumes "x > 0"
  shows "2 powi expo x \<le> x \<and> x < 2 powi (expo x + 1)"
proof -
  obtain p q where pq: "quotient_of x = (p, q)" by (cases "quotient_of x")
  have q: "q > 0" using pq by (rule quotient_of_denom_pos)
  have x: "x = of_int p / of_int q" using pq by (rule quotient_of_div)
  with assms q have p: "p > 0" by (simp add: zero_less_divide_iff)
  let ?k = "bitlen p - bitlen q"
  note P = bitlen_powi [OF p] and Q = bitlen_powi [OF q]
  have qr: "(of_int q :: rat) > 0" using q by simp
  have up: "x < 2 powi (?k + 1)"
  proof -
    have "(of_int p :: rat) < 2 powi (bitlen p)" using P by simp
    also have "\<dots> = 2 powi (?k + 1) * 2 powi (bitlen q - 1)"
      by (simp flip: power_int_add)
    also have "\<dots> \<le> 2 powi (?k + 1) * of_int q"
      using Q by (intro mult_left_mono) simp_all
    finally show ?thesis using qr by (simp add: x divide_less_eq)
  qed
  have lo: "2 powi (?k - 1) \<le> x"
  proof -
    have "2 powi (?k - 1) * of_int q \<le> 2 powi (?k - 1) * (2::rat) powi (bitlen q)"
      using Q by (intro mult_left_mono) simp_all
    also have "\<dots> = 2 powi (bitlen p - 1)"
      by (simp flip: power_int_add)
    also have "\<dots> \<le> (of_int p :: rat)" using P by simp
    finally show ?thesis using qr by (simp add: x le_divide_eq)
  qed
  from up lo show ?thesis by (auto simp: expo_def pq Let_def)
qed

lemma powi_less_imp_less: "(2::rat) powi a < 2 powi b \<Longrightarrow> a < b"
  by (rule ccontr) (use power_int_increasing [of b a "2::rat"] in auto)

lemma expo_unique:
  assumes "2 powi e \<le> x" and "x < 2 powi (e + 1)"
  shows "expo x = e"
proof -
  have x: "x > 0" using assms(1) zero_less_power_int [of "2::rat" e] by linarith
  note b = expo_bounds [OF x]
  from assms b have "(2::rat) powi e < 2 powi (expo x + 1)"
    and "(2::rat) powi expo x < 2 powi (e + 1)" by linarith+
  then have "e < expo x + 1" and "expo x < e + 1" by (blast intro: powi_less_imp_less)+
  then show ?thesis by linarith
qed

lemma expo_mono: "0 < x \<Longrightarrow> x \<le> y \<Longrightarrow> expo x \<le> expo y"
proof -
  assume "0 < x" and "x \<le> y"
  with expo_bounds [of x] expo_bounds [of y] have "(2::rat) powi expo x < 2 powi (expo y + 1)"
    by linarith
  then show ?thesis using powi_less_imp_less by fastforce
qed


subsection \<open>Rounding to 53 significant bits\<close>

definition ulp :: "rat \<Rightarrow> rat" where
  "ulp x = 2 powi (expo \<bar>x\<bar> - 52)"

definition rnd :: "rat \<Rightarrow> rat" where
  "rnd x = (if x = 0 then 0 else of_int (rne (x / ulp x)) * ulp x)"

lemma powi_shift: "(2::rat) powi e = 2 ^ k * 2 powi (e - int k)"
  by (simp add: power_int_diff)

lemma powi_52: "(2::rat) powi e = 2 ^ 52 * 2 powi (e - 52)"
  using powi_shift [of e 52] by simp

lemma powi_53: "(2::rat) powi (e + 1) = 2 ^ 53 * 2 powi (e - 52)"
  using powi_shift [of "e + 1" 53] by simp

lemma ulp_pos [simp]: "ulp x > 0"
  by (simp add: ulp_def)

lemma ulp_nonzero [simp]: "ulp x \<noteq> 0"
  by (metis ulp_pos less_irrefl)

lemma ulp_uminus [simp]: "ulp (- x) = ulp x"
  by (simp add: ulp_def)

lemma rnd_0 [simp]: "rnd 0 = 0"
  by (simp add: rnd_def)

lemma rnd_uminus: "rnd (- x) = - rnd x"
  by (simp add: rnd_def rne_uminus)

lemma significand_bounds:
  assumes "x > 0"
  shows "2 ^ 52 \<le> x / ulp x \<and> x / ulp x < 2 ^ 53"
proof -
  note b = expo_bounds [OF assms]
  note e = powi_52 [of "expo x"] and e' = powi_53 [of "expo x"]
  have u: "ulp x = 2 powi (expo x - 52)" using assms by (simp add: ulp_def)
  have pos: "(0::rat) < 2 powi (expo x - 52)" by simp
  show ?thesis
    using b unfolding e e' u pos_le_divide_eq [OF pos] pos_divide_less_eq [OF pos] by blast
qed

lemma rne_significand:
  assumes "x > 0"
  shows "2 ^ 52 \<le> rne (x / ulp x) \<and> rne (x / ulp x) \<le> 2 ^ 53"
proof -
  note b = significand_bounds [OF assms]
  have "rne (of_int (2 ^ 52)) \<le> rne (x / ulp x)"
    using b by (intro rne_mono) simp
  moreover have "rne (x / ulp x) \<le> rne (of_int (2 ^ 53))"
    using b by (intro rne_mono) simp
  ultimately show ?thesis unfolding rne_of_int by simp
qed

lemma rnd_binade:
  assumes "x > 0"
  shows "2 powi expo x \<le> rnd x \<and> rnd x \<le> 2 powi (expo x + 1)"
proof -
  let ?m = "rne (x / ulp x)"
  note m = rne_significand [OF assms]
  have u: "ulp x = 2 powi (expo x - 52)" using assms by (simp add: ulp_def)
  have r: "rnd x = of_int ?m * ulp x" using assms by (simp add: rnd_def)
  have "(of_int (2 ^ 52) :: rat) \<le> of_int ?m" and "(of_int ?m :: rat) \<le> of_int (2 ^ 53)"
    using m by (simp_all only: of_int_le_iff)
  then have "(2::rat) ^ 52 * ulp x \<le> rnd x" and "rnd x \<le> 2 ^ 53 * ulp x"
    unfolding r by (simp_all add: mult_right_mono)
  moreover have "(2::rat) ^ 52 * ulp x = 2 powi expo x"
    and "(2::rat) ^ 53 * ulp x = 2 powi (expo x + 1)"
    unfolding u by (rule powi_52 [symmetric], rule powi_53 [symmetric])
  ultimately show ?thesis by simp
qed

lemma rnd_pos: "x > 0 \<Longrightarrow> rnd x > 0"
  using rnd_binade [of x] zero_less_power_int [of "2::rat" "expo x"] by linarith

lemma rnd_mono_pos:
  assumes "0 < x" and "x \<le> y"
  shows "rnd x \<le> rnd y"
proof (cases "expo x = expo y")
  case True
  with assms have u: "ulp x = ulp y" by (simp add: ulp_def)
  from assms have "rne (x / ulp x) \<le> rne (y / ulp x)"
    by (intro rne_mono) (simp add: divide_right_mono less_imp_le)
  with assms u show ?thesis by (simp add: rnd_def mult_right_mono less_imp_le)
next
  case False
  with expo_mono [OF assms] have "expo x + 1 \<le> expo y" by linarith
  then have "(2::rat) powi (expo x + 1) \<le> 2 powi expo y" by (intro power_int_increasing) simp_all
  with rnd_binade [of x] rnd_binade [of y] assms show ?thesis by linarith
qed

lemma rnd_sgn: "0 < rnd x \<longleftrightarrow> 0 < x" "rnd x < 0 \<longleftrightarrow> x < 0" "rnd x = 0 \<longleftrightarrow> x = 0"
proof -
  have neg: "x < 0 \<Longrightarrow> rnd x < 0" using rnd_pos [of "- x"] by (simp add: rnd_uminus)
  show "0 < rnd x \<longleftrightarrow> 0 < x" "rnd x < 0 \<longleftrightarrow> x < 0" "rnd x = 0 \<longleftrightarrow> x = 0"
    using rnd_pos [of x] neg by (cases "x > 0"; cases "x < 0"; force)+
qed

lemma rnd_mono:
  assumes "x \<le> y"
  shows "rnd x \<le> rnd y"
proof -
  consider (pos) "0 < x" | (neg) "y < 0" | (mid) "x \<le> 0" "0 \<le> y" using assms by linarith
  then show ?thesis
  proof cases
    case pos
    then show ?thesis using assms by (rule rnd_mono_pos)
  next
    case neg
    with assms have "rnd (- y) \<le> rnd (- x)" by (intro rnd_mono_pos) simp_all
    then show ?thesis by (simp add: rnd_uminus)
  next
    case mid
    then have "rnd x \<le> 0" and "0 \<le> rnd y" using rnd_sgn(1) [of x] rnd_sgn(2) [of y] by linarith+
    then show ?thesis by linarith
  qed
qed

lemma rnd_idem_pos:
  assumes "x > 0"
  shows "rnd (rnd x) = rnd x"
proof -
  let ?m = "rne (x / ulp x)"
  have u: "ulp x = 2 powi (expo x - 52)" using assms by (simp add: ulp_def)
  have r: "rnd x = of_int ?m * ulp x" using assms by (simp add: rnd_def)
  have rp: "rnd x > 0" using assms by (rule rnd_pos)
  note b = rnd_binade [OF assms]
  show ?thesis
  proof (cases "rnd x < 2 powi (expo x + 1)")
    case True
    with b have "expo (rnd x) = expo x" by (blast intro: expo_unique)
    with rp u have "ulp (rnd x) = ulp x" by (simp add: ulp_def)
    then have "rnd x / ulp (rnd x) = of_int ?m" by (simp add: r)
    with \<open>ulp (rnd x) = ulp x\<close> have "of_int (rne (rnd x / ulp (rnd x))) * ulp (rnd x) = rnd x"
      by (metis r rne_of_int)
    with rp show ?thesis by (simp add: rnd_def [of "rnd x"])
  next
    case False
    with b have r2: "rnd x = 2 powi (expo x + 1)" by linarith
    then have "expo (rnd x) = expo x + 1"
      by (intro expo_unique) (simp_all add: power_int_strict_increasing)
    with rp have u2: "ulp (rnd x) = 2 powi (expo x - 51)" by (simp add: ulp_def)
    have "rnd x = 2 ^ 52 * ulp (rnd x)"
      using powi_52 [of "expo x + 1"] unfolding u2 by (simp only: r2) simp
    then have "rnd x / ulp (rnd x) = of_int (2 ^ 52)"
      by (simp add: field_simps)
    then have "rne (rnd x / ulp (rnd x)) = 2 ^ 52" by (metis rne_of_int)
    with \<open>rnd x = 2 ^ 52 * ulp (rnd x)\<close>
    have "of_int (rne (rnd x / ulp (rnd x))) * ulp (rnd x) = rnd x"
      by simp
    with rp show ?thesis by (simp add: rnd_def [of "rnd x"])
  qed
qed

lemma rnd_idem [simp]: "rnd (rnd x) = rnd x"
proof -
  consider "x = 0" | "x > 0" | "- x > 0" by linarith
  then show ?thesis
  proof cases
    case 3
    then have "rnd (rnd (- x)) = rnd (- x)" by (rule rnd_idem_pos)
    then show ?thesis by (simp add: rnd_uminus)
  qed (simp_all add: rnd_idem_pos)
qed

lemma rnd_of_nat_pos:
  assumes "0 < n" and "n \<le> 2 ^ 53"
  shows "rnd (of_int n) = of_int n"
proof (cases "n = 2 ^ 53")
  case True
  have "expo (2 ^ 53) = 53" by (rule expo_unique) simp_all
  then have "ulp (2 ^ 53) = 2" by (simp add: ulp_def)
  then have "(2 ^ 53 :: rat) / ulp (2 ^ 53) = of_int (2 ^ 52)" by simp
  then have "rne ((2 ^ 53 :: rat) / ulp (2 ^ 53)) = 2 ^ 52" by (metis rne_of_int)
  with True \<open>ulp (2 ^ 53) = 2\<close> show ?thesis by (simp add: rnd_def)
next
  case False
  let ?x = "of_int n :: rat"
  have x: "?x > 0" using assms by simp
  have n1: "?x \<ge> 1" using assms by simp
  have "?x < of_int (2 ^ 53)" using False assms by (simp only: of_int_less_iff)
  then have lt: "?x < 2 powi 53" by simp
  note b = expo_bounds [OF x]
  have "(2::rat) powi expo ?x < 2 powi 53" using b lt by linarith
  then have hi: "expo ?x < 53" by (rule powi_less_imp_less)
  have "(2::rat) powi 0 < 2 powi (expo ?x + 1)" using b n1 by simp
  then have "0 < expo ?x + 1" by (rule powi_less_imp_less)
  have one: "ulp ?x * 2 ^ nat (52 - expo ?x) = 1"
    using powi_shift [of 0 "nat (52 - expo ?x)"] hi x by (simp add: ulp_def mult.commute)
  have "?x = ?x * (ulp ?x * 2 ^ nat (52 - expo ?x))" unfolding one by simp
  then have d: "?x / ulp ?x = of_int (n * 2 ^ nat (52 - expo ?x))"
    by (simp add: field_simps)
  then have "rne (?x / ulp ?x) = n * 2 ^ nat (52 - expo ?x)" by (metis rne_of_int)
  with d have "of_int (rne (?x / ulp ?x)) * ulp ?x = ?x" by (metis ulp_nonzero nonzero_eq_divide_eq)
  with x show ?thesis by (simp add: rnd_def)
qed

lemma rnd_of_int [simp]:
  assumes "\<bar>n\<bar> \<le> 2 ^ 53"
  shows "rnd (of_int n) = of_int n"
proof -
  consider "n = 0" | "n > 0" | "n < 0" by linarith
  then show ?thesis
  proof cases
    case 3
    with assms have "rnd (of_int (- n)) = of_int (- n)" by (intro rnd_of_nat_pos) simp_all
    then show ?thesis by (simp add: rnd_uminus)
  qed (use assms in \<open>simp_all add: rnd_of_nat_pos\<close>)
qed


subsection \<open>The type of finite doubles and its operations\<close>

typedef f64 = "{x :: rat. rnd x = x}" morphisms val mk_f64
  by (rule exI [of _ 0]) simp

setup_lifting type_definition_f64

lift_definition f64_of :: "int \<Rightarrow> f64" is "\<lambda>n. rnd (of_int n)" by simp
lift_definition f64_rat :: "rat \<Rightarrow> f64" is rnd by simp

instantiation f64 :: "{zero, plus, minus, uminus, times, abs, linorder}"
begin

lift_definition zero_f64 :: f64 is 0 by simp
lift_definition plus_f64 :: "f64 \<Rightarrow> f64 \<Rightarrow> f64" is "\<lambda>x y. rnd (x + y)" by simp
lift_definition minus_f64 :: "f64 \<Rightarrow> f64 \<Rightarrow> f64" is "\<lambda>x y. rnd (x - y)" by simp
lift_definition uminus_f64 :: "f64 \<Rightarrow> f64" is uminus by (simp add: rnd_uminus)
lift_definition times_f64 :: "f64 \<Rightarrow> f64 \<Rightarrow> f64" is "\<lambda>x y. rnd (x * y)" by simp
lift_definition abs_f64 :: "f64 \<Rightarrow> f64" is abs by (simp add: abs_if rnd_uminus)
lift_definition less_eq_f64 :: "f64 \<Rightarrow> f64 \<Rightarrow> bool" is "(\<le>)" .
lift_definition less_f64 :: "f64 \<Rightarrow> f64 \<Rightarrow> bool" is "(<)" .

instance
  by standard (transfer, auto)+

end

instantiation f64 :: equal
begin

lift_definition equal_f64 :: "f64 \<Rightarrow> f64 \<Rightarrow> bool" is "(=)" .

instance
  by standard (transfer, simp)

end

text \<open>
  \<open>math.Abs\<close> is \<open>abs\<close>. Division is the one partial operation: by zero Go yields an infinity
  or a NaN, which is no value of \<^typ>\<open>f64\<close>.
\<close>

lift_definition f64_quot :: "f64 \<Rightarrow> f64 \<Rightarrow> f64" is "\<lambda>x y. rnd (x / y)" by simp

definition f64_div :: "f64 \<Rightarrow> f64 \<Rightarrow> f64 option" where
  "f64_div x y = (if y = 0 then None else Some (f64_quot x y))"

lemma val_zero [simp]: "val 0 = 0"
  by transfer simp

lemma rnd_val [simp]: "rnd (val x) = val x"
  using val [of x] by simp

lemma rnd_uminus_val [simp]: "rnd (- val x) = - val x"
  by (simp add: rnd_uminus)

lemma rnd_1 [simp]: "rnd 1 = 1"
  using rnd_of_int [of 1] by simp

lemma val_plus: "val (x + y) = rnd (val x + val y)"
  by transfer simp

lemma val_minus: "val (x - y) = rnd (val x - val y)"
  by transfer simp

lemma val_uminus [simp]: "val (- x) = - val x"
  by transfer simp

lemma val_abs [simp]: "val \<bar>x\<bar> = \<bar>val x\<bar>"
  by transfer simp

lemma val_less: "x < y \<longleftrightarrow> val x < val y" for x y :: f64
  by transfer simp

lemma val_le: "x \<le> y \<longleftrightarrow> val x \<le> val y" for x y :: f64
  by transfer simp

lemma val_eq: "x = y \<longleftrightarrow> val x = val y"
  by (simp add: val_inject)

lemma f64_add_0 [simp]: "0 + x = x" "x + 0 = x" for x :: f64
  by (simp_all add: val_eq val_plus)

lemma f64_add_commute: "x + y = y + x" for x y :: f64
  by (simp add: val_eq val_plus add.commute)

lemma f64_diff_0 [simp]: "x - 0 = x" "0 - x = - x" "x - x = 0" for x :: f64
  by (simp_all add: val_eq val_minus)

lemma f64_minus_minus [simp]: "- (- x) = x" for x :: f64
  by (simp add: val_eq)

lemma f64_minus_zero [simp]: "- (0::f64) = 0"
  by (simp add: val_eq)

lemma f64_neg_iff [simp]: "- x = 0 \<longleftrightarrow> x = 0" "0 < - x \<longleftrightarrow> x < 0" "- x < 0 \<longleftrightarrow> 0 < x"
  for x :: f64
  by (simp_all add: val_eq val_less)

lemma f64_minus_diff: "- (x - y) = y - x" for x y :: f64
  by (simp add: val_eq val_minus flip: rnd_uminus)

lemma f64_diff_sgn [simp]:
  "0 < x - y \<longleftrightarrow> y < x" "x - y < 0 \<longleftrightarrow> x < y" "x - y = 0 \<longleftrightarrow> x = y" for x y :: f64
  by (simp_all add: val_eq val_less val_minus rnd_sgn)

lemma f64_abs_pos [simp]: "0 < x \<Longrightarrow> \<bar>x\<bar> = x" "x < 0 \<Longrightarrow> \<bar>x\<bar> = - x" "\<bar>0\<bar> = (0::f64)"
  "\<bar>\<bar>x\<bar>\<bar> = \<bar>x\<bar>" "\<bar>- x\<bar> = \<bar>x\<bar>" for x :: f64
  by (simp_all add: val_eq val_less)

lemma f64_add_pos: "0 \<le> x \<Longrightarrow> 0 < y \<Longrightarrow> 0 < x + y" "0 \<le> x \<Longrightarrow> 0 \<le> y \<Longrightarrow> 0 \<le> x + y"
  for x y :: f64
  by (simp_all add: val_less val_le val_plus rnd_sgn flip: linorder_not_less)

subsection \<open>Whole amounts are exact up to \<open>2^53\<close>\<close>

text \<open>
  \<open>whole x\<close>: the amount is an integer. A sum of whole amounts is the exact sum as long as
  it stays within \<open>2^53\<close>; \<open>f64_of n\<close> is the literal or the \<open>float64(n)\<close> conversion.
\<close>

definition whole :: "f64 \<Rightarrow> bool" where
  "whole x \<longleftrightarrow> val x \<in> \<int>"

lemma whole_0 [simp]: "whole 0"
  by (simp add: whole_def)

lemma whole_uminus [simp]: "whole (- x) \<longleftrightarrow> whole x"
  by (simp add: whole_def)

lemma exact_rnd:
  assumes "r \<in> \<int>" and "\<bar>r\<bar> \<le> 2 ^ 53"
  shows "rnd r = r"
proof -
  from assms(1) obtain n where n: "r = of_int n" by (auto elim: Ints_cases)
  with assms(2) have "(of_int \<bar>n\<bar> :: rat) \<le> of_int (2 ^ 53)" by simp
  then have "\<bar>n\<bar> \<le> 2 ^ 53" by (simp only: of_int_le_iff)
  with n show ?thesis by (simp only: rnd_of_int)
qed

lemma val_plus_whole:
  assumes "whole x" and "whole y" and "\<bar>val x + val y\<bar> \<le> 2 ^ 53"
  shows "val (x + y) = val x + val y"
  using assms by (simp add: val_plus whole_def exact_rnd)

lemma val_minus_whole:
  assumes "whole x" and "whole y" and "\<bar>val x - val y\<bar> \<le> 2 ^ 53"
  shows "val (x - y) = val x - val y"
  using assms by (simp add: val_minus whole_def exact_rnd)

lemma val_f64_of: "\<bar>n\<bar> \<le> 2 ^ 53 \<Longrightarrow> val (f64_of n) = of_int n"
  by transfer simp

lemma whole_f64_of: "\<bar>n\<bar> \<le> 2 ^ 53 \<Longrightarrow> whole (f64_of n)"
  by (simp add: whole_def val_f64_of)

lemma f64_of_0 [simp]: "f64_of 0 = 0"
  by transfer simp

lemma f64_of_uminus: "f64_of (- n) = - f64_of n"
  by transfer (simp add: rnd_uminus)

lemma f64_of_mono: "m \<le> n \<Longrightarrow> f64_of m \<le> f64_of n"
  by transfer (simp add: rnd_mono)

lemma f64_of_pos [simp]: "0 < f64_of n \<longleftrightarrow> 0 < n" "f64_of n < 0 \<longleftrightarrow> n < 0" "f64_of n = 0 \<longleftrightarrow> n = 0"
  by (transfer, simp add: rnd_sgn)+

lemma f64_times_minus_1: "x * f64_of (- 1) = - x"
proof -
  have "val (x * f64_of (- 1)) = rnd (val x * val (f64_of (- 1)))" by transfer simp
  also have "val (f64_of (- 1)) = - 1" by (subst val_f64_of) simp_all
  finally show ?thesis by (simp add: val_eq)
qed

text \<open>Evaluation of concrete whole amounts by \<open>simp\<close>.\<close>

lemma f64_of_arith:
  assumes "\<bar>m\<bar> \<le> 2 ^ 53" and "\<bar>n\<bar> \<le> 2 ^ 53"
  shows "\<bar>m + n\<bar> \<le> 2 ^ 53 \<Longrightarrow> f64_of m + f64_of n = f64_of (m + n)"
    and "\<bar>m - n\<bar> \<le> 2 ^ 53 \<Longrightarrow> f64_of m - f64_of n = f64_of (m - n)"
    and "\<bar>m * n\<bar> \<le> 2 ^ 53 \<Longrightarrow> f64_of m * f64_of n = f64_of (m * n)"
    and "f64_of m < f64_of n \<longleftrightarrow> m < n"
    and "f64_of m \<le> f64_of n \<longleftrightarrow> m \<le> n"
    and "f64_of m = f64_of n \<longleftrightarrow> m = n"
proof -
  note v = val_f64_of [OF assms(1)] val_f64_of [OF assms(2)]
  show "f64_of m + f64_of n = f64_of (m + n)" if "\<bar>m + n\<bar> \<le> 2 ^ 53"
    unfolding val_eq val_plus v val_f64_of [OF that] of_int_add [symmetric] by (rule rnd_of_int [OF that])
  show "f64_of m - f64_of n = f64_of (m - n)" if "\<bar>m - n\<bar> \<le> 2 ^ 53"
    unfolding val_eq val_minus v val_f64_of [OF that] of_int_diff [symmetric] by (rule rnd_of_int [OF that])
  have t: "val (f64_of m * f64_of n) = rnd (val (f64_of m) * val (f64_of n))" by transfer simp
  show "f64_of m * f64_of n = f64_of (m * n)" if "\<bar>m * n\<bar> \<le> 2 ^ 53"
    unfolding val_eq t v val_f64_of [OF that] of_int_mult [symmetric] by (rule rnd_of_int [OF that])
  show "f64_of m < f64_of n \<longleftrightarrow> m < n" and "f64_of m \<le> f64_of n \<longleftrightarrow> m \<le> n"
    and "f64_of m = f64_of n \<longleftrightarrow> m = n"
    unfolding val_less val_le val_eq v by simp_all
qed

lemma f64_of_1_eval:
  "f64_of m + f64_of n = f64_of (m + n)" "f64_of m - f64_of n = f64_of (m - n)"
  "f64_of m < f64_of n \<longleftrightarrow> m < n" "f64_of m = f64_of n \<longleftrightarrow> m = n"
  if "\<bar>m\<bar> \<le> 2 ^ 52" "\<bar>n\<bar> \<le> 2 ^ 52"
  using that by (simp_all add: f64_of_arith)

subsection \<open>Comparison up to an epsilon\<close>

lemma f64_rat_pos: "0 < r \<Longrightarrow> 0 < f64_rat r"
  by transfer (simp add: rnd_sgn)

lemma whole_close:
  assumes "whole x" and "whole y" and "\<bar>x - y\<bar> < f64_rat e" and "e \<le> 1"
  shows "x = y"
proof (rule ccontr)
  assume ne: "x \<noteq> y"
  from assms(1,2) have "val x - val y \<in> \<int>" by (simp add: whole_def)
  then obtain n where n: "val x - val y = of_int n" by (auto elim: Ints_cases)
  with ne have n0: "n \<noteq> 0" by (auto simp: val_eq)
  have "rnd e \<le> rnd (of_int 1)" using assms(4) by (intro rnd_mono) simp
  then have e1: "rnd e \<le> 1" by simp
  have "\<bar>rnd (of_int n)\<bar> \<ge> 1"
  proof (cases "n > 0")
    case True
    then have "rnd (of_int 1) \<le> rnd (of_int n)" by (intro rnd_mono) simp
    then show ?thesis by simp
  next
    case False
    with n0 have "rnd (of_int n) \<le> rnd (of_int (- 1))" by (intro rnd_mono) simp
    then show ?thesis by (simp add: rnd_uminus)
  qed
  moreover have "\<bar>rnd (of_int n)\<bar> < rnd e"
    using assms(3) n by (simp add: val_less val_minus f64_rat.rep_eq)
  ultimately show False using e1 by linarith
qed


subsection \<open>Exact sums\<close>

definition abs_sum :: "f64 list \<Rightarrow> rat" where
  "abs_sum xs = sum_list (map (\<lambda>x. \<bar>val x\<bar>) xs)"

definition val_sum :: "f64 list \<Rightarrow> rat" where
  "val_sum xs = sum_list (map val xs)"

lemma abs_sum_simps [simp]: "abs_sum [] = 0" "abs_sum (x # xs) = \<bar>val x\<bar> + abs_sum xs"
  "abs_sum (xs @ ys) = abs_sum xs + abs_sum ys"
  by (simp_all add: abs_sum_def)

lemma val_sum_simps [simp]: "val_sum [] = 0" "val_sum (x # xs) = val x + val_sum xs"
  "val_sum (xs @ ys) = val_sum xs + val_sum ys"
  by (simp_all add: val_sum_def)

lemma abs_sum_nonneg [simp]: "0 \<le> abs_sum xs"
  by (induction xs) simp_all

lemma val_sum_le_abs: "\<bar>val_sum xs\<bar> \<le> abs_sum xs"
  by (induction xs) auto

lemma abs_sum_mset: "mset xs = mset ys \<Longrightarrow> abs_sum xs = abs_sum ys"
  unfolding abs_sum_def by (metis mset_map sum_mset_sum_list)

lemma val_sum_mset: "mset xs = mset ys \<Longrightarrow> val_sum xs = val_sum ys"
  unfolding val_sum_def by (metis mset_map sum_mset_sum_list)

text \<open>\<open>whole_list xs\<close>: whole amounts whose magnitudes sum to at most \<open>2^53\<close>.\<close>

definition whole_list :: "f64 list \<Rightarrow> bool" where
  "whole_list xs \<longleftrightarrow> list_all whole xs \<and> abs_sum xs \<le> 2 ^ 53"

lemma foldl_exact:
  assumes "whole a" and "list_all whole xs" and "\<bar>val a\<bar> + abs_sum xs \<le> 2 ^ 53"
  shows "val (foldl (+) a xs) = val a + val_sum xs \<and> whole (foldl (+) a xs)"
  using assms
proof (induction xs arbitrary: a)
  case Nil
  then show ?case by simp
next
  case (Cons x xs)
  have b: "\<bar>val a + val x\<bar> \<le> \<bar>val a\<bar> + \<bar>val x\<bar>" by (rule abs_triangle_ineq)
  from b Cons.prems(3) abs_sum_nonneg [of xs] have "\<bar>val a + val x\<bar> \<le> 2 ^ 53"
    unfolding abs_sum_simps by linarith
  with Cons.prems have v: "val (a + x) = val a + val x" by (intro val_plus_whole) simp_all
  with Cons.prems have w: "whole (a + x)" by (simp add: whole_def)
  have "val (foldl (+) (a + x) xs) = val (a + x) + val_sum xs \<and> whole (foldl (+) (a + x) xs)"
    using Cons.prems w b unfolding abs_sum_simps by (intro Cons.IH) (simp_all add: v)
  then show ?case by (simp add: v)
qed

lemma whole_list_sum:
  "whole_list xs \<Longrightarrow> val (foldl (+) 0 xs) = val_sum xs \<and> whole (foldl (+) 0 xs)"
  using foldl_exact [of 0 xs] by (simp add: whole_list_def)

end
