(* ===== verification/Reserved.thy ===== *)
theory Reserved
  imports Float64
begin

section \<open>Reserved account keys\<close>

text \<open>
  \<open>accounting_core/reserved_account.go\<close>: the account keys the services book on, the
  chart-of-accounts codes and balance types of \<open>accounting_core/model.go\<close>, and the seed
  list \<open>Setup\<close> creates for a team. Keys arrive from requests as strings, so
  a key is a string and the reserved ones are constants.
\<close>

type_synonym AccountKey = string
type_synonym BalanceType = string
type_synonym CoaCode = int

subsection \<open>Codes and balance types\<close>

definition ASSET :: CoaCode where "ASSET = 10"
definition LIABILITY :: CoaCode where "LIABILITY = 20"
definition EQUITY :: CoaCode where "EQUITY = 30"
definition REVENUE :: CoaCode where "REVENUE = 40"
definition EXPENSE :: CoaCode where "EXPENSE = 50"

lemmas coa_defs = ASSET_def LIABILITY_def EQUITY_def REVENUE_def EXPENSE_def

definition CoaCode_String :: "CoaCode \<Rightarrow> string" where
  "CoaCode_String coa =
     (if coa = ASSET then ''asset''
      else if coa = LIABILITY then ''liability''
      else if coa = EQUITY then ''equity''
      else if coa = REVENUE then ''revenue''
      else if coa = EXPENSE then ''expense''
      else ''unknown'')"

definition CreditBalance :: BalanceType where "CreditBalance = ''c''"
definition DebitBalance :: BalanceType where "DebitBalance = ''d''"

lemma balance_types_distinct [simp]: "DebitBalance \<noteq> CreditBalance" "CreditBalance \<noteq> DebitBalance"
  by (simp_all add: CreditBalance_def DebitBalance_def)

definition DiffBalance :: "BalanceType \<Rightarrow> f64 \<Rightarrow> f64 \<Rightarrow> f64" where
  "DiffBalance b debit credit =
     (if b = CreditBalance then credit - debit
      else if b = DebitBalance then debit - credit
      else 0)"

lemma DiffBalance_flip: "DiffBalance b credit debit = - DiffBalance b debit credit"
  by (simp add: DiffBalance_def f64_minus_diff)

subsection \<open>The reserved keys\<close>

definition SuplierCashAccount :: AccountKey where "SuplierCashAccount = ''supplier_cash''"
definition SuplierReceivableAccount :: AccountKey where "SuplierReceivableAccount = ''supplier_receivable''"
definition StockReadyAccount :: AccountKey where "StockReadyAccount = ''stock_ready''"
definition StockCrossAccount :: AccountKey where "StockCrossAccount = ''stock_cross''"
definition SupplierPayableAccount :: AccountKey where "SupplierPayableAccount = ''supplier_payable''"
definition ShippingPayableAccount :: AccountKey where "ShippingPayableAccount = ''shipping_payable''"
definition StockCrossReceivableAccount :: AccountKey where "StockCrossReceivableAccount = ''stock_cross_receivable''"
definition StockCrossPayableAccount :: AccountKey where "StockCrossPayableAccount = ''stock_cross_payable''"
definition DebtAccount :: AccountKey where "DebtAccount = ''debt''"
definition OtherExpenseAccount :: AccountKey where "OtherExpenseAccount = ''other_expense''"
definition CapitalStartAccount :: AccountKey where "CapitalStartAccount = ''capital_start''"
definition BankFeeAccount :: AccountKey where "BankFeeAccount = ''bank_fee''"
definition CashAccount :: AccountKey where "CashAccount = ''cash''"
definition ShopeepayAccount :: AccountKey where "ShopeepayAccount = ''shopeepay''"
definition SellingEstReceivableAccount :: AccountKey where "SellingEstReceivableAccount = ''selling_est_receivable''"
definition SellingAdjReceivableAccount :: AccountKey where "SellingAdjReceivableAccount = ''selling_adj_receivable''"
definition SellingReceivableAccount :: AccountKey where "SellingReceivableAccount = ''selling_receivable''"
definition StockPendingAccount :: AccountKey where "StockPendingAccount = ''stock_pending''"
definition StockTransferAccount :: AccountKey where "StockTransferAccount = ''stock_transfer''"
definition StockLostAccount :: AccountKey where "StockLostAccount = ''stock_lost''"
definition StockBrokenAccount :: AccountKey where "StockBrokenAccount = ''stock_broken''"
definition StockCodFeeAccount :: AccountKey where "StockCodFeeAccount = ''stock_cod_fee''"
definition ReceivableAccount :: AccountKey where "ReceivableAccount = ''receivable''"
definition PendingPaymentReceiveAccount :: AccountKey where "PendingPaymentReceiveAccount = ''pending_payment_receive''"
definition PendingPaymentPayAccount :: AccountKey where "PendingPaymentPayAccount = ''pending_payment_pay''"
definition AdjAssetAccount :: AccountKey where "AdjAssetAccount = ''adj_asset''"
definition AdjEquityAccount :: AccountKey where "AdjEquityAccount = ''adj_equity''"
definition OwnerCapitalAccount :: AccountKey where "OwnerCapitalAccount = ''owner_capital''"
definition Prive :: AccountKey where "Prive = ''prive''"
definition PayableAccount :: AccountKey where "PayableAccount = ''payable''"
definition AdjLiabilityAccount :: AccountKey where "AdjLiabilityAccount = ''adj_liability''"
definition SellingOtherExpenseAccount :: AccountKey where "SellingOtherExpenseAccount = ''selling_other_expense''"
definition CodCostAccount :: AccountKey where "CodCostAccount = ''cod_cost_account''"
definition StockCostAccount :: AccountKey where "StockCostAccount = ''stock_cost_account''"
definition StockToBorrowCostAccount :: AccountKey where "StockToBorrowCostAccount = ''stock_to_borrow_cost''"
definition StockBorrowCostAccount :: AccountKey where "StockBorrowCostAccount = ''stock_borrow_cost''"
definition StockBrokenCostAccount :: AccountKey where "StockBrokenCostAccount = ''stock_broken_expense''"
definition StockLostCostAccount :: AccountKey where "StockLostCostAccount = ''stock_lost_expense''"
definition WarehouseCostAccount :: AccountKey where "WarehouseCostAccount = ''warehouse_cost''"
definition SalaryAccount :: AccountKey where "SalaryAccount = ''salary''"
definition InternetConnectionAccount :: AccountKey where "InternetConnectionAccount = ''internet_connection''"
definition PackingExpenseAccount :: AccountKey where "PackingExpenseAccount = ''packing_cost''"
definition ElectricityExpenseAccount :: AccountKey where "ElectricityExpenseAccount = ''electricity''"
definition KitchenExpenseAccount :: AccountKey where "KitchenExpenseAccount = ''kitchen_expense''"
definition EquipmentExpenseAccount :: AccountKey where "EquipmentExpenseAccount = ''equipment_expense''"
definition ToolExpenseAccount :: AccountKey where "ToolExpenseAccount = ''tool_expense''"
definition TransportExpenseAccount :: AccountKey where "TransportExpenseAccount = ''transport''"
definition OwnerAccommodationAccount :: AccountKey where "OwnerAccommodationAccount = ''owner_accomodation''"
definition ServerExpenseAccount :: AccountKey where "ServerExpenseAccount = ''server''"
definition ShippingExpenseAccount :: AccountKey where "ShippingExpenseAccount = ''shipping_expense''"
definition AdsExpenseAccount :: AccountKey where "AdsExpenseAccount = ''ads_expense''"
definition AdjExpenseAccount :: AccountKey where "AdjExpenseAccount = ''adj_expense''"
definition BonusesExpenseAccount :: AccountKey where "BonusesExpenseAccount = ''bonuses_expense''"
definition ContentMediaExpenseAccount :: AccountKey where "ContentMediaExpenseAccount = ''content_media_expense''"
definition SellingReturnExpenseAccount :: AccountKey where "SellingReturnExpenseAccount = ''return_expense''"
definition FakeOrderExpenseAccount :: AccountKey where "FakeOrderExpenseAccount = ''fake_order_expense''"
definition ServiceRevenueAccount :: AccountKey where "ServiceRevenueAccount = ''service_revenue''"
definition BorrowStockRevenueAccount :: AccountKey where "BorrowStockRevenueAccount = ''borrow_stock_revenue''"
definition SalesRevenueAdjustmentAccount :: AccountKey where "SalesRevenueAdjustmentAccount = ''sales_revenue_adjustment''"
definition SalesRevenueAccount :: AccountKey where "SalesRevenueAccount = ''sales_revenue''"
definition OtherRevenueAccount :: AccountKey where "OtherRevenueAccount = ''other_revenue''"
definition SalesReturnRevenueAccount :: AccountKey where "SalesReturnRevenueAccount = ''sales_return_revenue''"
definition AdjRevenueAccount :: AccountKey where "AdjRevenueAccount = ''adj_revenue''"

lemmas account_key_defs =
  SuplierCashAccount_def SuplierReceivableAccount_def StockReadyAccount_def
  StockCrossAccount_def SupplierPayableAccount_def ShippingPayableAccount_def
  StockCrossReceivableAccount_def StockCrossPayableAccount_def DebtAccount_def
  OtherExpenseAccount_def CapitalStartAccount_def BankFeeAccount_def
  CashAccount_def ShopeepayAccount_def SellingEstReceivableAccount_def
  SellingAdjReceivableAccount_def SellingReceivableAccount_def StockPendingAccount_def
  StockTransferAccount_def StockLostAccount_def StockBrokenAccount_def
  StockCodFeeAccount_def ReceivableAccount_def PendingPaymentReceiveAccount_def
  PendingPaymentPayAccount_def AdjAssetAccount_def AdjEquityAccount_def
  OwnerCapitalAccount_def Prive_def PayableAccount_def
  AdjLiabilityAccount_def SellingOtherExpenseAccount_def CodCostAccount_def
  StockCostAccount_def StockToBorrowCostAccount_def StockBorrowCostAccount_def
  StockBrokenCostAccount_def StockLostCostAccount_def WarehouseCostAccount_def
  SalaryAccount_def InternetConnectionAccount_def PackingExpenseAccount_def
  ElectricityExpenseAccount_def KitchenExpenseAccount_def EquipmentExpenseAccount_def
  ToolExpenseAccount_def TransportExpenseAccount_def OwnerAccommodationAccount_def
  ServerExpenseAccount_def ShippingExpenseAccount_def AdsExpenseAccount_def
  AdjExpenseAccount_def BonusesExpenseAccount_def ContentMediaExpenseAccount_def
  SellingReturnExpenseAccount_def FakeOrderExpenseAccount_def ServiceRevenueAccount_def
  BorrowStockRevenueAccount_def SalesRevenueAdjustmentAccount_def SalesRevenueAccount_def
  OtherRevenueAccount_def SalesReturnRevenueAccount_def AdjRevenueAccount_def

subsection \<open>The seed list\<close>

definition DefaultSeedAccount :: "(AccountKey \<times> CoaCode \<times> BalanceType) list" where
  "DefaultSeedAccount = [
     (AdjRevenueAccount, REVENUE, CreditBalance),
     (ServiceRevenueAccount, REVENUE, CreditBalance),
     (SalesRevenueAdjustmentAccount, REVENUE, CreditBalance),
     (SalesRevenueAccount, REVENUE, CreditBalance),
     (SalesReturnRevenueAccount, REVENUE, CreditBalance),
     (BorrowStockRevenueAccount, REVENUE, CreditBalance),
     (OtherRevenueAccount, REVENUE, CreditBalance),
     (AdjAssetAccount, ASSET, DebitBalance),
     (PendingPaymentPayAccount, ASSET, DebitBalance),
     (PendingPaymentReceiveAccount, ASSET, DebitBalance),
     (ShopeepayAccount, ASSET, DebitBalance),
     (ReceivableAccount, ASSET, DebitBalance),
     (SellingEstReceivableAccount, ASSET, DebitBalance),
     (SellingAdjReceivableAccount, ASSET, DebitBalance),
     (SellingReceivableAccount, ASSET, DebitBalance),
     (StockLostAccount, ASSET, DebitBalance),
     (StockTransferAccount, ASSET, DebitBalance),
     (StockPendingAccount, ASSET, DebitBalance),
     (StockBrokenAccount, ASSET, DebitBalance),
     (StockCodFeeAccount, ASSET, DebitBalance),
     (StockReadyAccount, ASSET, DebitBalance),
     (SellingOtherExpenseAccount, EXPENSE, DebitBalance),
     (AdjExpenseAccount, EXPENSE, DebitBalance),
     (FakeOrderExpenseAccount, EXPENSE, DebitBalance),
     (AdsExpenseAccount, EXPENSE, DebitBalance),
     (BonusesExpenseAccount, EXPENSE, DebitBalance),
     (ContentMediaExpenseAccount, EXPENSE, DebitBalance),
     (CodCostAccount, EXPENSE, DebitBalance),
     (WarehouseCostAccount, EXPENSE, DebitBalance),
     (ShippingExpenseAccount, EXPENSE, DebitBalance),
     (StockCostAccount, EXPENSE, DebitBalance),
     (StockLostCostAccount, EXPENSE, DebitBalance),
     (StockBrokenCostAccount, EXPENSE, DebitBalance),
     (StockBorrowCostAccount, EXPENSE, DebitBalance),
     (StockToBorrowCostAccount, EXPENSE, DebitBalance),
     (SellingReturnExpenseAccount, EXPENSE, DebitBalance),
     (AdjLiabilityAccount, LIABILITY, CreditBalance),
     (PayableAccount, LIABILITY, CreditBalance),
     (CashAccount, ASSET, DebitBalance),
     (OwnerAccommodationAccount, EXPENSE, DebitBalance),
     (SalaryAccount, EXPENSE, DebitBalance),
     (InternetConnectionAccount, EXPENSE, DebitBalance),
     (PackingExpenseAccount, EXPENSE, DebitBalance),
     (ElectricityExpenseAccount, EXPENSE, DebitBalance),
     (KitchenExpenseAccount, EXPENSE, DebitBalance),
     (EquipmentExpenseAccount, EXPENSE, DebitBalance),
     (ToolExpenseAccount, EXPENSE, DebitBalance),
     (TransportExpenseAccount, EXPENSE, DebitBalance),
     (ServerExpenseAccount, EXPENSE, DebitBalance),
     (KitchenExpenseAccount, EXPENSE, DebitBalance),
     (OtherExpenseAccount, EXPENSE, DebitBalance),
     (BankFeeAccount, EXPENSE, DebitBalance)]"

end
