(* ===== verification/Model.thy ===== *)
theory Model
  imports Reserved
begin

section \<open>The data model\<close>

text \<open>
  \<open>accounting_core/model.go\<close>: accounts, journal entries, transactions, reference ids, tags.
  Row identifiers are \<^typ>\<open>nat\<close> (the code never computes with them). Strings are byte
  strings. A time is its instant in nanoseconds since Go's zero time with the offset
  of its location.
\<close>

subsection \<open>Errors\<close>

text \<open>
  The sentinel errors of the package, the error carrying an unbalanced entry list, the
  messages made with \<open>errors.New\<close> and \<open>fmt.Errorf\<close>, an error of the database driver with its
  text, and a run-time panic.
\<close>

datatype err =
    ErrEmptyEntry
  | ErrEntryInvalid f64 f64
  | ErrTransactionNotCreated
  | ErrTransactionNotFound
  | ErrTransactionAlreadyExist
  | ErrTransactionNotLoaded
  | ErrSkipTransaction
  | ErrRecordNotFound
  | ErrMsg string
  | ErrDB string
  | Panic string

subsection \<open>Times\<close>

record Time =
  nanos :: int
  offset :: int

definition IsZero :: "Time \<Rightarrow> bool" where
  "IsZero t \<longleftrightarrow> nanos t = 0"

definition zeroTime :: Time where
  "zeroTime = \<lparr>nanos = 0, offset = 0\<rparr>"

definition day_ns :: int where
  "day_ns = 86400000000000"

text \<open>
  \<open>ParseDate\<close> takes year, month and day of \<open>t\<close> in its own location and adds them to the zero
  time, which is midnight UTC of that date.
\<close>

definition ParseDate :: "Time \<Rightarrow> Time" where
  "ParseDate t = \<lparr>nanos = ((nanos t + offset t) div day_ns) * day_ns, offset = 0\<rparr>"

definition AsUTC :: "Time \<Rightarrow> Time" where
  "AsUTC t = \<lparr>nanos = nanos t, offset = 0\<rparr>"

subsection \<open>Accounts and journal entries\<close>

record Account =
  acc_ID :: nat
  acc_Key :: AccountKey
  acc_TeamID :: nat
  acc_Coa :: CoaCode
  acc_BalanceType :: BalanceType
  acc_CanAdjust :: bool
  acc_Name :: string
  acc_Created :: Time

definition emptyAccount :: Account where
  "emptyAccount = \<lparr>acc_ID = 0, acc_Key = [], acc_TeamID = 0, acc_Coa = 0,
     acc_BalanceType = [], acc_CanAdjust = False, acc_Name = [], acc_Created = zeroTime\<rparr>"

record JournalEntry =
  je_ID :: nat
  je_AccountID :: nat
  je_TeamID :: nat
  je_TransactionID :: nat
  je_CreatedByID :: nat
  je_EntryTime :: Time
  je_Debit :: f64
  je_Credit :: f64
  je_Desc :: string
  je_Rollback :: bool
  je_Account :: "Account option"

definition newEntry :: "nat \<Rightarrow> JournalEntry" where
  "newEntry accID = \<lparr>je_ID = 0, je_AccountID = accID, je_TeamID = 0, je_TransactionID = 0,
     je_CreatedByID = 0, je_EntryTime = zeroTime, je_Debit = 0, je_Credit = 0, je_Desc = [],
     je_Rollback = False, je_Account = None\<rparr>"

record ChangeBalance =
  cb_Account :: Account
  cb_Debit :: f64
  cb_Credit :: f64

definition Change :: "ChangeBalance \<Rightarrow> f64" where
  "Change cb =
     (if acc_BalanceType (cb_Account cb) = DebitBalance then cb_Debit cb - cb_Credit cb
      else if acc_BalanceType (cb_Account cb) = CreditBalance then cb_Credit cb - cb_Debit cb
      else 0)"

text \<open>
  \<open>AccountBalance\<close> sums debits and credits per account id. The resulting Go map is an
  association list in order of first occurrence; a loop over it takes any order (below).
\<close>

fun AccountBalance_from ::
  "(nat \<times> ChangeBalance) list \<Rightarrow> JournalEntry list \<Rightarrow> err + (nat \<times> ChangeBalance) list" where
  "AccountBalance_from m [] = Inr m"
| "AccountBalance_from m (en # ens) =
     (case je_Account en of
        None \<Rightarrow> Inl (ErrMsg ''please preload account in entry'')
      | Some acc \<Rightarrow>
          let change = (case map_of m (je_AccountID en) of
                 Some c \<Rightarrow> c
               | None \<Rightarrow> \<lparr>cb_Account = acc, cb_Debit = 0, cb_Credit = 0\<rparr>)
          in AccountBalance_from
               (alist_upd (je_AccountID en)
                  (change\<lparr>cb_Debit := cb_Debit change + je_Debit en,
                          cb_Credit := cb_Credit change + je_Credit en\<rparr>) m) ens)"

definition AccountBalance :: "JournalEntry list \<Rightarrow> err + (nat \<times> ChangeBalance) list" where
  "AccountBalance entries = AccountBalance_from [] entries"

text \<open>
  Go leaves the order of a \<open>range\<close> loop over a map open. \<open>it\<close> is the order the run takes:
  a rearrangement of the keys.
\<close>

definition iter_ok :: "(nat list \<Rightarrow> nat list) \<Rightarrow> bool" where
  "iter_ok it \<longleftrightarrow> (\<forall>ks. mset (it ks) = mset ks)"

definition range_map :: "(nat list \<Rightarrow> nat list) \<Rightarrow> (nat \<times> 'v) list \<Rightarrow> (nat \<times> 'v) list" where
  "range_map it m = List.map_filter (\<lambda>k. map_option (Pair k) (map_of m k)) (it (map fst m))"

definition AccountBalanceKey ::
  "(nat list \<Rightarrow> nat list) \<Rightarrow> JournalEntry list \<Rightarrow> AccountKey \<Rightarrow> ChangeBalance \<times> err option" where
  "AccountBalanceKey it entries key =
     (let res = \<lparr>cb_Account = emptyAccount, cb_Debit = 0, cb_Credit = 0\<rparr>
      in case AccountBalance entries of
           Inl e \<Rightarrow> (res, Some e)
         | Inr accmap \<Rightarrow>
             (case find (\<lambda>ac. acc_Key (cb_Account ac) = key) (map snd (range_map it accmap)) of
                Some ac \<Rightarrow> (ac, None)
              | None \<Rightarrow> (res, Some (ErrMsg (''account not found '' @ key)))))"

fun DebitCredit_from :: "f64 \<Rightarrow> f64 \<Rightarrow> JournalEntry list \<Rightarrow> f64 \<times> f64" where
  "DebitCredit_from debit credit [] = (debit, credit)"
| "DebitCredit_from debit credit (e # es) =
     DebitCredit_from (debit + je_Debit e) (credit + je_Credit e) es"

definition DebitCredit :: "JournalEntry list \<Rightarrow> f64 \<times> f64" where
  "DebitCredit entries = DebitCredit_from 0 0 entries"

definition SetAmountEntry :: "Account \<Rightarrow> f64 \<Rightarrow> JournalEntry \<Rightarrow> err + JournalEntry" where
  "SetAmountEntry ac amount entry =
     (if amount = 0 then
        Inl (ErrMsg (''account '' @ acc_Key ac @ '' amount entry set is zero''))
      else let amountAbs = \<bar>amount\<bar> in
        if acc_BalanceType ac = CreditBalance then
          Inr (if amount > 0 then entry\<lparr>je_Credit := amountAbs\<rparr>
               else if amount < 0 then entry\<lparr>je_Debit := amountAbs\<rparr> else entry)
        else if acc_BalanceType ac = DebitBalance then
          Inr (if amount > 0 then entry\<lparr>je_Debit := amountAbs\<rparr>
               else if amount < 0 then entry\<lparr>je_Credit := amountAbs\<rparr> else entry)
        else Inl (ErrMsg (''account type invalid '' @ acc_BalanceType ac)))"

subsection \<open>Reference ids\<close>

type_synonym RefType = string
type_synonym RefID = string

definition WithdrawalRef :: RefType where "WithdrawalRef = ''wd''"
definition SellingReceivableRef :: RefType where "SellingReceivableRef = ''selling_receivable''"
definition SellingReceivableReturnRef :: RefType where
  "SellingReceivableReturnRef = ''selling_receivable_return''"
definition SellingReceivableRefundLostRef :: RefType where
  "SellingReceivableRefundLostRef = ''selling_receivable_refund_lost''"
definition RevenueAdjustmentRef :: RefType where "RevenueAdjustmentRef = ''revenue_adjustment''"
definition SellingExpenseOtherRef :: RefType where
  "SellingExpenseOtherRef = ''selling_expense_other''"
definition OrderRef :: RefType where "OrderRef = ''order''"
definition OrderReturnRef :: RefType where "OrderReturnRef = ''order_return''"
definition OrderProblemRef :: RefType where "OrderProblemRef = ''order_problem''"
definition OrderFundRef :: RefType where "OrderFundRef = ''order_fund''"
definition StockAcceptRef :: RefType where "StockAcceptRef = ''stock_accept''"
definition StockTransferRef :: RefType where "StockTransferRef = ''stock_transfer''"
definition StockTransferAcceptRef :: RefType where
  "StockTransferAcceptRef = ''stock_transfer_accept''"
definition StockReturnRef :: RefType where "StockReturnRef = ''stock_return''"
definition StockReturnAcceptRef :: RefType where "StockReturnAcceptRef = ''stock_return_accept''"
definition StockAdjustmentRef :: RefType where "StockAdjustmentRef = ''stock_adjustment''"
definition ExpenseRef :: RefType where "ExpenseRef = ''expense''"
definition RestockRef :: RefType where "RestockRef = ''restock''"
definition PaymentRef :: RefType where "PaymentRef = ''payment''"
definition AdminAdjustmentRef :: RefType where "AdminAdjustmentRef = ''admin_adjustment''"
definition AdsPaymentRef :: RefType where "AdsPaymentRef = ''ads_payment''"
definition AdjustmentRef :: RefType where "AdjustmentRef = ''common_adjustment''"
definition TransferRef :: RefType where "TransferRef = ''transfer''"

lemmas ref_type_defs =
  WithdrawalRef_def SellingReceivableRef_def SellingReceivableReturnRef_def
  SellingReceivableRefundLostRef_def RevenueAdjustmentRef_def SellingExpenseOtherRef_def
  OrderRef_def OrderReturnRef_def OrderProblemRef_def OrderFundRef_def StockAcceptRef_def
  StockTransferRef_def StockTransferAcceptRef_def StockReturnRef_def StockReturnAcceptRef_def
  StockAdjustmentRef_def ExpenseRef_def RestockRef_def PaymentRef_def AdminAdjustmentRef_def
  AdsPaymentRef_def AdjustmentRef_def TransferRef_def

definition reserved_ref_types :: "RefType list" where
  "reserved_ref_types =
     [WithdrawalRef, SellingReceivableRef, SellingReceivableReturnRef,
      SellingReceivableRefundLostRef, RevenueAdjustmentRef, SellingExpenseOtherRef, OrderRef,
      OrderReturnRef, OrderProblemRef, OrderFundRef, StockAcceptRef, StockTransferRef,
      StockTransferAcceptRef, StockReturnRef, StockReturnAcceptRef, StockAdjustmentRef,
      ExpenseRef, RestockRef, PaymentRef, AdminAdjustmentRef, AdsPaymentRef, AdjustmentRef,
      TransferRef]"

record RefData =
  rd_RefType :: RefType
  rd_ID :: nat

definition NewRefID :: "RefData \<Rightarrow> RefID" where
  "NewRefID data = rd_RefType data @ ''#'' @ show_nat (rd_ID data)"

record StringRefData =
  srd_RefType :: RefType
  srd_ID :: string

definition NewStringRefID :: "StringRefData \<Rightarrow> RefID" where
  "NewStringRefID data = srd_RefType data @ ''#'' @ srd_ID data"

text \<open>\<open>strings.Split\<close> on a one-byte separator and \<open>strconv.ParseUint(s, 10, 64)\<close>.\<close>

fun split_on :: "char \<Rightarrow> string \<Rightarrow> string list" where
  "split_on c [] = [[]]"
| "split_on c (x # xs) =
     (if x = c then [] # split_on c xs
      else case split_on c xs of [] \<Rightarrow> [[x]] | s # ss \<Rightarrow> (x # s) # ss)"

definition is_digit :: "char \<Rightarrow> bool" where
  "is_digit c \<longleftrightarrow> 48 \<le> (of_char c :: nat) \<and> (of_char c :: nat) \<le> 57"

definition ParseUint :: "string \<Rightarrow> err + nat" where
  "ParseUint s =
     (if s = [] \<or> \<not> list_all is_digit s then
        Inl (ErrMsg (''strconv.ParseUint: invalid syntax '' @ s))
      else let n = foldl (\<lambda>acc c. 10 * acc + (of_char c - 48)) 0 s
        in if n < 2 ^ 64 then Inr n
           else Inl (ErrMsg (''strconv.ParseUint: value out of range '' @ s)))"

definition RefID_Extract :: "RefID \<Rightarrow> err + RefData" where
  "RefID_Extract r =
     (let ss = split_on (CHR ''#'') r
      in case ParseUint (ss ! 0) of
           Inl e \<Rightarrow> Inl e
         | Inr idx \<Rightarrow> Inr \<lparr>rd_RefType = ss ! 0, rd_ID = idx\<rparr>)"

subsection \<open>Transactions and labels\<close>

record Transaction =
  tx_ID :: nat
  tx_RefID :: RefID
  tx_TeamID :: nat
  tx_CreatedByID :: nat
  tx_OrderID :: "nat option"
  tx_Desc :: string
  tx_Created :: Time

text \<open>
  \<open>SanityTag\<close> trims blanks, lowers the letters and turns the remaining spaces into
  underscores (on ASCII bytes).
\<close>

definition is_space :: "char \<Rightarrow> bool" where
  "is_space c \<longleftrightarrow> c = CHR '' '' \<or> (9 \<le> (of_char c :: nat) \<and> (of_char c :: nat) \<le> 13)"

definition TrimSpace :: "string \<Rightarrow> string" where
  "TrimSpace s = rev (dropWhile is_space (rev (dropWhile is_space s)))"

definition lower_char :: "char \<Rightarrow> char" where
  "lower_char c = (let n = (of_char c :: nat) in if 65 \<le> n \<and> n \<le> 90 then char_of (n + 32) else c)"

definition SanityTag :: "string \<Rightarrow> string" where
  "SanityTag name =
     (let name = TrimSpace name;
          name = map lower_char name
      in map (\<lambda>c. if c = CHR '' '' then CHR ''_'' else c) name)"

datatype LabelKey =
    LABEL_KEY_MARKETPLACE
  | LABEL_KEY_REVENUE_SOURCE
  | LABEL_KEY_WAREHOUSE_TRANSACTION_TYPE
  | LABEL_KEY_TRANSFER_PURPOSE
  | LABEL_KEY_ORDER_TYPE
  | LABEL_KEY_OTHER nat

record TypeLabel =
  tl_ID :: nat
  tl_Key :: LabelKey
  tl_Label :: string

record TxLabelExtra =
  le_ShopID :: nat
  le_CsID :: nat
  le_SupplierID :: nat
  le_TagIDs :: "nat list"

definition emptyLabel :: TxLabelExtra where
  "emptyLabel = \<lparr>le_ShopID = 0, le_CsID = 0, le_SupplierID = 0, le_TagIDs = []\<rparr>"

subsection \<open>References are unique\<close>

lemma split_on_no_sep: "c \<notin> set xs \<Longrightarrow> split_on c (xs @ c # ys) = xs # split_on c ys"
  by (induction xs) (auto split: list.splits)

lemma reserved_no_hash: "t \<in> set reserved_ref_types \<Longrightarrow> CHR ''#'' \<notin> set t"
  by (auto simp: reserved_ref_types_def ref_type_defs)

lemma reserved_not_digits: "t \<in> set reserved_ref_types \<Longrightarrow> \<not> list_all is_digit t"
  by (auto simp: reserved_ref_types_def ref_type_defs is_digit_def)

lemma NewRefID_reserved_inj:
  assumes "NewRefID d = NewRefID d'" and "rd_RefType d \<in> set reserved_ref_types"
    and "rd_RefType d' \<in> set reserved_ref_types"
  shows "d = d'"
proof -
  from append_sep_inj [OF reserved_no_hash [OF assms(2)] reserved_no_hash [OF assms(3)]] assms(1)
  have "rd_RefType d = rd_RefType d'" and "show_nat (rd_ID d) = show_nat (rd_ID d')"
    by (simp_all add: NewRefID_def)
  then show ?thesis by (cases d; cases d') (simp add: show_nat_inj)
qed

lemma RefID_Extract_reserved:
  assumes "rd_RefType d \<in> set reserved_ref_types"
  shows "RefID_Extract (NewRefID d) =
    Inl (ErrMsg (''strconv.ParseUint: invalid syntax '' @ rd_RefType d))"
  using reserved_not_digits [OF assms] reserved_no_hash [OF assms]
  by (simp add: RefID_Extract_def NewRefID_def split_on_no_sep ParseUint_def)

subsection \<open>Tag names\<close>

lemma of_char_lower: "(of_char (lower_char c) :: nat) =
    (if 65 \<le> (of_char c :: nat) \<and> (of_char c :: nat) \<le> 90 then of_char c + 32 else of_char c)"
  by (simp add: lower_char_def Let_def)

lemma char_eq_code: "c = d \<longleftrightarrow> (of_char c :: nat) = of_char d"
  by simp

lemma lower_char_idem: "lower_char (lower_char c) = lower_char c"
  unfolding char_eq_code [of "lower_char (lower_char c)"] of_char_lower by simp

lemma lower_char_blank: "lower_char c = CHR '' '' \<longleftrightarrow> c = CHR '' ''"
  unfolding char_eq_code [of _ "CHR '' ''"] of_char_lower by simp

lemma is_space_lower: "is_space (lower_char c) = is_space c"
  unfolding is_space_def lower_char_blank of_char_lower by auto

definition tag_char :: "char \<Rightarrow> char" where
  "tag_char c = (let c = lower_char c in if c = CHR '' '' then CHR ''_'' else c)"

lemma SanityTag_eq: "SanityTag n = map tag_char (TrimSpace n)"
  by (simp add: SanityTag_def tag_char_def Let_def)

lemma tag_char_props: "tag_char (tag_char c) = tag_char c" "tag_char c \<noteq> CHR '' ''"
  "lower_char (tag_char c) = tag_char c" "is_space (tag_char c) \<Longrightarrow> is_space c"
proof -
  have u: "lower_char (CHR ''_'') = CHR ''_''" "\<not> is_space (CHR ''_'')"
    by (simp_all add: lower_char_def is_space_def)
  show "tag_char (tag_char c) = tag_char c" "tag_char c \<noteq> CHR '' ''"
    "lower_char (tag_char c) = tag_char c" "is_space (tag_char c) \<Longrightarrow> is_space c"
    using u by (auto simp: tag_char_def Let_def lower_char_idem is_space_lower split: if_splits)
qed

definition trimmed :: "string \<Rightarrow> bool" where
  "trimmed s \<longleftrightarrow> s = [] \<or> \<not> is_space (hd s) \<and> \<not> is_space (last s)"

lemma TrimSpace_trimmed: "trimmed (TrimSpace s)"
proof (cases "TrimSpace s = []")
  case False
  let ?d = "dropWhile is_space s"
  have r: "TrimSpace s = rev (dropWhile is_space (rev ?d))" by (simp add: TrimSpace_def)
  with False have l: "\<not> is_space (last (TrimSpace s))"
    by (simp add: last_rev hd_dropWhile)
  have "rev ?d = takeWhile is_space (rev ?d) @ rev (TrimSpace s)" by (simp add: r)
  then have "?d = TrimSpace s @ rev (takeWhile is_space (rev ?d))"
    by (metis rev_append rev_rev_ident)
  with False have "hd ?d = hd (TrimSpace s)" by (metis hd_append2)
  moreover have "?d \<noteq> []" using False r by (metis dropWhile.simps(1) rev.simps(1))
  ultimately have "\<not> is_space (hd (TrimSpace s))" using hd_dropWhile [of is_space s] by metis
  with l show ?thesis by (simp add: trimmed_def)
qed (simp add: trimmed_def)

lemma trimmed_TrimSpace: "trimmed s \<Longrightarrow> TrimSpace s = s"
proof (cases s)
  case (Cons c cs)
  assume t: "trimmed s"
  with Cons have "dropWhile is_space s = s" by (simp add: trimmed_def)
  moreover from t Cons have "dropWhile is_space (rev s) = rev s"
    by (cases "rev s") (auto simp: trimmed_def last_rev hd_rev [symmetric])
  ultimately show ?thesis by (simp add: TrimSpace_def)
qed (simp add: TrimSpace_def)

lemma SanityTag_trimmed: "trimmed (SanityTag n)"
proof -
  have "hd (SanityTag n) = tag_char (hd (TrimSpace n))" "last (SanityTag n) = tag_char (last (TrimSpace n))"
    if "TrimSpace n \<noteq> []" using that by (simp_all add: SanityTag_eq list.map_sel last_map)
  with TrimSpace_trimmed [of n] tag_char_props(4) show ?thesis
    by (auto simp: trimmed_def SanityTag_eq)
qed

lemma SanityTag_idem: "SanityTag (SanityTag n) = SanityTag n"
  unfolding SanityTag_eq [of "SanityTag n"] trimmed_TrimSpace [OF SanityTag_trimmed]
  by (simp add: SanityTag_eq comp_def tag_char_props)

lemma SanityTag_chars: "CHR '' '' \<notin> set (SanityTag n)"
  "list_all (\<lambda>c. lower_char c = c) (SanityTag n)"
  using tag_char_props(2) by (auto simp: SanityTag_eq list_all_iff tag_char_props(3)) metis
end
