(* ===== verification/Store.thy ===== *)
theory Store
  imports Model
begin

section \<open>The store\<close>

text \<open>
  The tables the services read and write through gorm, as lists of rows in insertion
  order, with the row types of \<open>accounting_model\<close>. A query of the source (\<open>Where\<close>, \<open>First\<close>,
  \<open>Find\<close>, \<open>Save\<close>, \<open>Updates\<close>) is the list operation it denotes; a \<open>Save\<close> of a row without id
  takes the next number of one sequence. The conditions the code tests for are modelled
  (no row found, unique index violated); a lost connection is not.

  The run-time environment of a request is a record: the clock, the order in which a
  \<open>range\<close> loop visits a map, the text the driver reports for a unique violation, and the
  registered handlers of \<open>accounting_core/custom_handler.go\<close>.
\<close>

subsection \<open>Rows of the service tables\<close>

datatype PaymentStatus =
    PAYMENT_STATUS_PENDING
  | PAYMENT_STATUS_ACCEPTED
  | PAYMENT_STATUS_CANCELED
  | PAYMENT_STATUS_REJECTED

record Payment =
  pm_ID :: nat
  pm_FromTeamID :: nat
  pm_ToTeamID :: nat
  pm_Status :: PaymentStatus
  pm_PaymentType :: nat
  pm_Amount :: f64
  pm_CreatedByID :: nat
  pm_CreatedAt :: Time
  pm_AcceptedAt :: Time

record Expense =
  ex_ID :: nat
  ex_TeamID :: nat
  ex_CreatedByID :: nat
  ex_Desc :: string
  ex_ExpenseType :: nat
  ex_ExpenseKey :: string
  ex_Amount :: f64
  ex_CreatedAt :: Time

record BankAccountV2 =
  ba_ID :: nat
  ba_TeamID :: nat
  ba_AccountTypeID :: nat
  ba_Name :: string
  ba_NumberID :: string
  ba_Balance :: f64
  ba_Disabled :: bool
  ba_Deleted :: bool
  ba_CreatedAt :: Time
  ba_DeletedAt :: Time

record BankAccountLabel =
  bl_ID :: nat
  bl_Key :: string
  bl_Value :: string

record BankTransferHistory =
  bh_ID :: nat
  bh_TxID :: nat
  bh_TeamID :: nat
  bh_FromAccountID :: nat
  bh_ToAccountID :: nat
  bh_Amount :: f64
  bh_FeeAmount :: f64
  bh_Desc :: string
  bh_Purpose :: nat
  bh_Created :: Time

record AccountingTag =
  tag_ID :: nat
  tag_Name :: string

record db =
  db_seq :: nat
  db_accounts :: "Account list"
  db_entries :: "JournalEntry list"
  db_txs :: "Transaction list"
  db_type_labels :: "TypeLabel list"
  db_tags :: "AccountingTag list"
  db_tx_type_labels :: "(nat \<times> nat) list"
  db_tx_tags :: "(nat \<times> nat) list"
  db_tx_shops :: "(nat \<times> nat) list"
  db_tx_cs :: "(nat \<times> nat) list"
  db_tx_suppliers :: "(nat \<times> nat) list"
  db_marketplaces :: "(nat \<times> string) list"
  db_payments :: "Payment list"
  db_expenses :: "Expense list"
  db_bank_accounts :: "BankAccountV2 list"
  db_transfers :: "BankTransferHistory list"
  db_bank_labels :: "BankAccountLabel list"
  db_bank_label_rels :: "(nat \<times> nat) list"

text \<open>A relation row with a composite primary key: saving it twice keeps one row.\<close>

definition save_rel :: "nat \<times> nat \<Rightarrow> (nat \<times> nat) list \<Rightarrow> (nat \<times> nat) list" where
  "save_rel r rs = (if r \<in> set rs then rs else rs @ [r])"

lemma set_save_rel [simp]: "set (save_rel r rs) = insert r (set rs)"
  by (auto simp: save_rel_def)

lemma distinct_save_rel: "distinct rs \<Longrightarrow> distinct (save_rel r rs)"
  by (simp add: save_rel_def)

subsection \<open>Accounts\<close>

definition find_account :: "db \<Rightarrow> AccountKey \<Rightarrow> nat \<Rightarrow> Account option" where
  "find_account d key team = find (\<lambda>a. acc_Key a = key \<and> acc_TeamID a = team) (db_accounts d)"

definition account_by_id :: "db \<Rightarrow> nat \<Rightarrow> Account option" where
  "account_by_id d i = find (\<lambda>a. acc_ID a = i) (db_accounts d)"

text \<open>
  The account table is well formed: ids are not 0, unique, and the index \<open>team_key\<close>
  holds.
\<close>

definition accounts_ok :: "db \<Rightarrow> bool" where
  "accounts_ok d \<longleftrightarrow>
     distinct (map acc_ID (db_accounts d)) \<and>
     distinct (map (\<lambda>a. (acc_Key a, acc_TeamID a)) (db_accounts d)) \<and>
     list_all (\<lambda>a. acc_ID a \<noteq> 0) (db_accounts d)"

lemma find_accountD:
  "find_account d key team = Some a \<Longrightarrow>
     acc_Key a = key \<and> acc_TeamID a = team \<and> a \<in> set (db_accounts d)"
  unfolding find_account_def by (drule find_SomeD) simp

lemma account_by_idD: "account_by_id d i = Some a \<Longrightarrow> acc_ID a = i \<and> a \<in> set (db_accounts d)"
  unfolding account_by_id_def by (drule find_SomeD) simp

lemma find_account_nonzero:
  "accounts_ok d \<Longrightarrow> find_account d key team = Some a \<Longrightarrow> acc_ID a \<noteq> 0"
  by (auto simp: accounts_ok_def list_all_iff dest: find_accountD)

lemma distinct_map_eq:
  "distinct (map f xs) \<Longrightarrow> x \<in> set xs \<Longrightarrow> y \<in> set xs \<Longrightarrow> f x = f y \<Longrightarrow> x = y"
  by (simp add: distinct_map inj_on_def)

lemma find_account_id_inj:
  assumes "accounts_ok d" and "find_account d k t = Some a" and "find_account d k' t' = Some b"
    and "acc_ID a = acc_ID b"
  shows "k = k' \<and> t = t'"
proof -
  from assms(2,3) have "a \<in> set (db_accounts d)" and "b \<in> set (db_accounts d)"
    by (auto dest: find_accountD)
  with assms(1,4) have "a = b" by (auto simp: accounts_ok_def intro: distinct_map_eq)
  with assms(2,3) show ?thesis by (auto dest: find_accountD)
qed

subsection \<open>Journal entries\<close>

text \<open>
  \<open>Save\<close> of one entry: without an id it is inserted under a new one, with an id it
  replaces the row of that id.
\<close>

definition save_entry :: "JournalEntry \<Rightarrow> db \<Rightarrow> JournalEntry \<times> db" where
  "save_entry e d =
     (if je_ID e = 0 then
        let i = Suc (db_seq d); e' = e\<lparr>je_ID := i\<rparr>
        in (e', d\<lparr>db_seq := i, db_entries := db_entries d @ [e']\<rparr>)
      else if \<exists>r \<in> set (db_entries d). je_ID r = je_ID e then
        (e, d\<lparr>db_entries := map (\<lambda>r. if je_ID r = je_ID e then e else r) (db_entries d)\<rparr>)
      else (e, d\<lparr>db_entries := db_entries d @ [e]\<rparr>))"

text \<open>\<open>Preload("Account")\<close>: the account row is attached to each entry, where it exists.\<close>

definition preload_account :: "db \<Rightarrow> JournalEntry \<Rightarrow> JournalEntry" where
  "preload_account d e = e\<lparr>je_Account := account_by_id d (je_AccountID e)\<rparr>"

definition entries_of_tx :: "db \<Rightarrow> nat \<Rightarrow> JournalEntry list" where
  "entries_of_tx d txID =
     map (preload_account d) (filter (\<lambda>e. je_TransactionID e = txID) (db_entries d))"

subsection \<open>Messages to the report service\<close>

record EntryPayload =
  ep_Id :: nat
  ep_TransactionId :: nat
  ep_Desc :: string
  ep_AccountId :: nat
  ep_TeamId :: nat
  ep_Debit :: f64
  ep_Credit :: f64
  ep_EntryTime :: Time
  ep_Rollback :: bool

record ReportLabel =
  rl_ShopId :: nat
  rl_CsId :: nat
  rl_SupplierId :: nat
  rl_TagIds :: "nat list"
  rl_TypeLabels :: "(LabelKey \<times> string) list"

record DailyUpdateBalanceRequest =
  dr_Entries :: "EntryPayload list"
  dr_LabelExtra :: ReportLabel

definition emptyReportLabel :: ReportLabel where
  "emptyReportLabel = \<lparr>rl_ShopId = 0, rl_CsId = 0, rl_SupplierId = 0, rl_TagIds = [],
     rl_TypeLabels = []\<rparr>"

type_synonym CustomHandler = "DailyUpdateBalanceRequest \<Rightarrow> err option"

subsection \<open>The environment and the session of a request\<close>

text \<open>
  The marketplace constants of \<open>db_models\<close> and the generated name tables of the schema package
  are not part of the repository: they are components of the environment.
\<close>

datatype MarketplaceType =
    MARKETPLACE_TYPE_CUSTOM
  | MARKETPLACE_TYPE_TOKOPEDIA
  | MARKETPLACE_TYPE_SHOPEE
  | MARKETPLACE_TYPE_TIKTOK
  | MARKETPLACE_TYPE_MENGANTAR
  | MARKETPLACE_TYPE_LAZADA

record env =
  now :: Time
  MpConst :: "MarketplaceType \<Rightarrow> string"
  MarketplaceType_name :: "MarketplaceType \<Rightarrow> string"
  iter :: "nat list \<Rightarrow> nat list"
  uniq_msg :: string
  customHandler :: "(string \<times> CustomHandler) list"

definition RegisterCustomHandler :: "string \<Rightarrow> CustomHandler \<Rightarrow> env \<Rightarrow> env" where
  "RegisterCustomHandler name h en = en\<lparr>customHandler := alist_upd name h (customHandler en)\<rparr>"

definition UnregisterCustomHandler :: "string \<Rightarrow> env \<Rightarrow> env" where
  "UnregisterCustomHandler name en =
     en\<lparr>customHandler := filter (\<lambda>p. fst p \<noteq> name) (customHandler en)\<rparr>"

text \<open>
  \<open>s_cells\<close> is the heap of the \<open>labelExtra\<close> fields of the transaction builders:
  \<open>bookManageImpl.labels\<close> (\<open>s_labels\<close>) is a pointer into it, so later label changes of the
  builder are seen through it. \<open>s_entries\<close> is \<open>bookManageImpl.entries\<close>, and \<open>s_outbox\<close> the
  messages handed to the registered handlers, which no database rollback takes back.
\<close>

record session =
  s_db :: db
  s_cells :: "TxLabelExtra list"
  s_labels :: "nat option"
  s_entries :: "JournalEntry list"
  s_outbox :: "(string \<times> DailyUpdateBalanceRequest) list"

type_synonym 'a action = "session \<Rightarrow> (err + 'a) \<times> session"

definition returnA :: "'a \<Rightarrow> 'a action" where
  "returnA x s = (Inr x, s)"

definition failA :: "err \<Rightarrow> 'a action" where
  "failA e s = (Inl e, s)"

definition bindA :: "'a action \<Rightarrow> ('a \<Rightarrow> 'b action) \<Rightarrow> 'b action" where
  "bindA m f s = (case m s of (Inl e, s') \<Rightarrow> (Inl e, s') | (Inr x, s') \<Rightarrow> f x s')"

definition checkA :: "err option \<Rightarrow> unit action" where
  "checkA eo = (case eo of None \<Rightarrow> returnA () | Some e \<Rightarrow> failA e)"

definition readA :: "(db \<Rightarrow> 'a) \<Rightarrow> 'a action" where
  "readA f s = (Inr (f (s_db s)), s)"

definition updateA :: "(db \<Rightarrow> db) \<Rightarrow> unit action" where
  "updateA f s = (Inr (), s\<lparr>s_db := f (s_db s)\<rparr>)"

fun forA :: "'x list \<Rightarrow> ('x \<Rightarrow> unit action) \<Rightarrow> unit action" where
  "forA [] f = returnA ()"
| "forA (x # xs) f = bindA (f x) (\<lambda>_. forA xs f)"

text \<open>
  \<open>db.Transaction(f)\<close>: an error of \<open>f\<close> restores the tables; inside another transaction this is
  a savepoint, with the same effect.
\<close>

definition transactionA :: "'a action \<Rightarrow> 'a action" where
  "transactionA f s =
     (case f s of
        (Inl e, s') \<Rightarrow> (Inl e, s'\<lparr>s_db := s_db s\<rparr>)
      | (Inr x, s') \<Rightarrow> (Inr x, s'))"

lemmas action_defs = returnA_def failA_def bindA_def checkA_def readA_def updateA_def

lemma bindA_return [simp]: "bindA (returnA x) f = f x"
  by (simp add: action_defs fun_eq_iff)

lemma bindA_fail [simp]: "bindA (failA e) f = failA e"
  by (simp add: action_defs fun_eq_iff)

lemma bindA_Inr:
  "bindA m f s = (Inr y, s'') \<longleftrightarrow> (\<exists>x s'. m s = (Inr x, s') \<and> f x s' = (Inr y, s''))"
  by (auto simp: bindA_def split: prod.splits sum.splits)

lemma checkA_Inr [simp]: "checkA eo s = (Inr u, s') \<longleftrightarrow> eo = None \<and> s' = s"
  by (auto simp: checkA_def returnA_def failA_def split: option.splits)

lemma transaction_error_db [simp]: "transactionA f s = (Inl e, s') \<Longrightarrow> s_db s' = s_db s"
  by (auto simp: transactionA_def split: prod.splits sum.splits)

lemma transactionA_Inr [simp]: "transactionA f s = (Inr x, s') \<longleftrightarrow> f s = (Inr x, s')"
  by (cases "f s"; cases "fst (f s)") (auto simp: transactionA_def)

end
