(* ===== verification/CreateEntry.thy ===== *)
theory CreateEntry
  imports Store
begin

section \<open>Building and committing journal entries\<close>

text \<open>
  \<open>accounting_core/journal_entries.go\<close>: the builder \<open>createEntryImpl\<close> collects at most one
  pending entry per account and \<open>Commit\<close> checks, completes and saves them. The builder calls
  are functions on the builder (they read the account table of the current transaction);
  \<open>Commit\<close> also changes the session.
\<close>

subsection \<open>Epsilon comparison\<close>

definition PrecisionEpsilon :: f64 where
  "PrecisionEpsilon = f64_rat (1 / 10000)"

definition CompareFloatSafe :: "f64 \<Rightarrow> f64 \<Rightarrow> f64 \<Rightarrow> bool" where
  "CompareFloatSafe a b epsilon \<longleftrightarrow> \<bar>a - b\<bar> < epsilon"

subsection \<open>Options\<close>

record EntryAccountPayload =
  eap_Key :: AccountKey
  eap_TeamID :: nat

definition eap :: "AccountKey \<Rightarrow> nat \<Rightarrow> EntryAccountPayload" where
  "eap key team = \<lparr>eap_Key = key, eap_TeamID = team\<rparr>"

type_synonym EntryOption = "JournalEntry \<Rightarrow> err + JournalEntry"

definition EntryDescOption :: "string \<Rightarrow> EntryOption" where
  "EntryDescOption desc entry = Inr (entry\<lparr>je_Desc := desc\<rparr>)"

record commitCfg =
  includeDebitCreditEqual :: bool

type_synonym CommitOption = "commitCfg \<Rightarrow> JournalEntry \<Rightarrow> err + (commitCfg \<times> JournalEntry)"

definition RollbackOption :: CommitOption where
  "RollbackOption cfg entry = Inr (cfg, entry\<lparr>je_Rollback := True\<rparr>)"

definition CustomTimeOption :: "Time \<Rightarrow> CommitOption" where
  "CustomTimeOption t cfg entry = Inr (cfg, entry\<lparr>je_EntryTime := t\<rparr>)"

definition IncludeDebitCreditEqual :: CommitOption where
  "IncludeDebitCreditEqual cfg entry = Inr (cfg\<lparr>includeDebitCreditEqual := True\<rparr>, entry)"

fun run_entry_options :: "EntryOption list \<Rightarrow> JournalEntry \<Rightarrow> err + JournalEntry" where
  "run_entry_options [] entry = Inr entry"
| "run_entry_options (opt # opts) entry =
     (case opt entry of Inl e \<Rightarrow> Inl e | Inr entry' \<Rightarrow> run_entry_options opts entry')"

fun run_commit_options ::
  "CommitOption list \<Rightarrow> commitCfg \<Rightarrow> JournalEntry \<Rightarrow> err + (commitCfg \<times> JournalEntry)" where
  "run_commit_options [] cfg entry = Inr (cfg, entry)"
| "run_commit_options (opt # opts) cfg entry =
     (case opt cfg entry of Inl e \<Rightarrow> Inl e
      | Inr (cfg', entry') \<Rightarrow> run_commit_options opts cfg' entry')"

subsection \<open>The builder\<close>

record createEntry =
  ce_teamID :: nat
  ce_createdByID :: nat
  ce_entries :: "(nat \<times> JournalEntry) list"
  ce_accountMap :: "(nat \<times> Account) list"
  ce_err :: "err option"

definition newCreateEntry :: "nat \<Rightarrow> nat \<Rightarrow> createEntry" where
  "newCreateEntry teamID createdByID =
     \<lparr>ce_teamID = teamID, ce_createdByID = createdByID, ce_entries = [], ce_accountMap = [],
      ce_err = None\<rparr>"

definition ce_setErr :: "err \<Rightarrow> createEntry \<Rightarrow> createEntry" where
  "ce_setErr e c = (if ce_err c \<noteq> None then c else c\<lparr>ce_err := Some e\<rparr>)"

definition isEntryEmpty :: "createEntry \<Rightarrow> bool" where
  "isEntryEmpty c \<longleftrightarrow> ce_entries c = []"

definition mergeEntry :: "nat \<Rightarrow> JournalEntry \<Rightarrow> createEntry \<Rightarrow> createEntry" where
  "mergeEntry accID entry c =
     (case map_of (ce_entries c) accID of
        Some e \<Rightarrow>
          c\<lparr>ce_entries := alist_upd accID
              (e\<lparr>je_Credit := je_Credit e + je_Credit entry,
                 je_Debit := je_Debit e + je_Debit entry\<rparr>) (ce_entries c)\<rparr>
      | None \<Rightarrow> c\<lparr>ce_entries := alist_upd accID entry (ce_entries c)\<rparr>)"

definition getAccount ::
  "db \<Rightarrow> EntryAccountPayload \<Rightarrow> createEntry \<Rightarrow> (err + Account) \<times> createEntry" where
  "getAccount d accp c =
     (case find_account d (eap_Key accp) (eap_TeamID accp) of
        None \<Rightarrow> (Inl (ErrMsg (''account not found '' @ eap_Key accp @ '' in team '' @
                  show_nat (eap_TeamID accp))), c)
      | Some acc \<Rightarrow>
          if acc_ID acc = 0 then
            (Inl (ErrMsg (''account not found '' @ eap_Key accp @ '' in team '' @
               show_nat (eap_TeamID accp))), c)
          else (Inr acc, c\<lparr>ce_accountMap := alist_upd (acc_ID acc) acc (ce_accountMap c)\<rparr>))"

definition ToE ::
  "db \<Rightarrow> EntryAccountPayload \<Rightarrow> f64 \<Rightarrow> EntryOption list \<Rightarrow> createEntry \<Rightarrow> createEntry" where
  "ToE d account amount opts c =
     (case getAccount d account c of
        (Inl e, c) \<Rightarrow> ce_setErr e c
      | (Inr acc, c) \<Rightarrow>
          (case SetAmountEntry acc amount (newEntry (acc_ID acc)) of
             Inl e \<Rightarrow> ce_setErr e c
           | Inr entry \<Rightarrow>
               (case run_entry_options opts entry of
                  Inl e \<Rightarrow> ce_setErr e c
                | Inr entry \<Rightarrow> mergeEntry (je_AccountID entry) entry c)))"

definition FromE ::
  "db \<Rightarrow> EntryAccountPayload \<Rightarrow> f64 \<Rightarrow> EntryOption list \<Rightarrow> createEntry \<Rightarrow> createEntry" where
  "FromE d account amount opts c = ToE d account (amount * f64_of (-1)) opts c"

definition SetE :: "db \<Rightarrow> nat \<Rightarrow> f64 \<Rightarrow> f64 \<Rightarrow> createEntry \<Rightarrow> createEntry" where
  "SetE d accID credit debit c =
     (let entry = (newEntry accID)\<lparr>je_Credit := credit, je_Debit := debit\<rparr>
      in case map_of (ce_accountMap c) accID of
           Some _ \<Rightarrow> mergeEntry accID entry c
         | None \<Rightarrow>
             (case account_by_id d accID of
                None \<Rightarrow> ce_setErr ErrRecordNotFound
                  (c\<lparr>ce_accountMap := alist_upd accID emptyAccount (ce_accountMap c)\<rparr>)
              | Some acc \<Rightarrow> mergeEntry accID entry
                  (c\<lparr>ce_accountMap := alist_upd accID acc (ce_accountMap c)\<rparr>)))"

definition on_entries :: "(JournalEntry \<Rightarrow> JournalEntry) \<Rightarrow> createEntry \<Rightarrow> createEntry" where
  "on_entries f c = c\<lparr>ce_entries := map (\<lambda>(k, e). (k, f e)) (ce_entries c)\<rparr>"

definition EntryTimeE :: "Time \<Rightarrow> createEntry \<Rightarrow> createEntry" where
  "EntryTimeE t c =
     (if isEntryEmpty c then ce_setErr ErrEmptyEntry c
      else on_entries (\<lambda>e. e\<lparr>je_EntryTime := t\<rparr>) c)"

definition TransactionE :: "Transaction \<Rightarrow> createEntry \<Rightarrow> createEntry" where
  "TransactionE tx c =
     (if isEntryEmpty c then ce_setErr ErrEmptyEntry c
      else on_entries (\<lambda>e. e\<lparr>je_Desc := (if je_Desc e = [] then tx_Desc tx else je_Desc e),
                             je_TransactionID := tx_ID tx\<rparr>) c)"

definition TransactionIDE :: "nat \<Rightarrow> createEntry \<Rightarrow> createEntry" where
  "TransactionIDE txID c =
     (if isEntryEmpty c then ce_setErr ErrEmptyEntry c
      else on_entries (\<lambda>e. e\<lparr>je_TransactionID := txID\<rparr>) c)"

definition DescE :: "string \<Rightarrow> createEntry \<Rightarrow> createEntry" where
  "DescE desc c =
     (if isEntryEmpty c then ce_setErr ErrEmptyEntry c
      else on_entries (\<lambda>e. e\<lparr>je_Desc := (if je_Desc e = [] then desc else je_Desc e)\<rparr>) c)"

text \<open>\<open>Rollback\<close> books every account's change back; it visits the map in some order.\<close>

fun rollback_loop ::
  "db \<Rightarrow> EntryOption list \<Rightarrow> (nat \<times> ChangeBalance) list \<Rightarrow> createEntry \<Rightarrow> createEntry" where
  "rollback_loop d opts [] c = c"
| "rollback_loop d opts ((accID, ch) # chs) c =
     (let amount = Change ch;
          acc = eap (acc_Key (cb_Account ch)) (acc_TeamID (cb_Account ch));
          c = (if amount > 0 then FromE d acc amount opts c else c);
          c = (if amount < 0 then ToE d acc \<bar>amount\<bar> opts c else c)
      in rollback_loop d opts chs c)"

definition RollbackE ::
  "env \<Rightarrow> db \<Rightarrow> (nat \<times> ChangeBalance) list \<Rightarrow> EntryOption list \<Rightarrow> createEntry \<Rightarrow> createEntry" where
  "RollbackE en d oldentries opts c = rollback_loop d opts (range_map (iter en) oldentries) c"

subsection \<open>Commit\<close>

text \<open>
  The list the loop of \<open>Commit\<close> builds holds pointers: either to the builder's own entry of an
  account or to the fresh copy \<open>dentry\<close> that carries the debit of a two-sided entry.
\<close>

datatype slot = Own nat | Copy JournalEntry

record commit_state =
  cs_entries :: "(nat \<times> JournalEntry) list"
  cs_slots :: "slot list"
  cs_debit :: f64
  cs_credit :: f64

definition commit_prepare ::
  "env \<Rightarrow> createEntry \<Rightarrow> CommitOption list \<Rightarrow> JournalEntry \<Rightarrow> err + (commitCfg \<times> JournalEntry)"
  where
  "commit_prepare en c opts entry =
     (let entry = (if IsZero (je_EntryTime entry) then entry\<lparr>je_EntryTime := now en\<rparr> else entry)
      in case run_commit_options opts \<lparr>includeDebitCreditEqual = False\<rparr> entry of
           Inl e \<Rightarrow> Inl e
         | Inr (cfg, entry) \<Rightarrow>
             Inr (cfg, entry\<lparr>je_TeamID := ce_teamID c, je_CreatedByID := ce_createdByID c\<rparr>))"

definition commit_body :: "commitCfg \<Rightarrow> nat \<Rightarrow> JournalEntry \<Rightarrow> commit_state \<Rightarrow> commit_state" where
  "commit_body cfg k entry st =
     (let st = st\<lparr>cs_entries := alist_upd k entry (cs_entries st),
                  cs_debit := cs_debit st + je_Debit entry,
                  cs_credit := cs_credit st + je_Credit entry\<rparr>
      in if \<not> includeDebitCreditEqual cfg \<and> je_Debit entry = je_Credit entry then st
         else if je_Debit entry > 0 \<and> je_Credit entry > 0 then
           st\<lparr>cs_slots := cs_slots st @ [Copy (entry\<lparr>je_Credit := 0\<rparr>), Own k],
              cs_entries := alist_upd k (entry\<lparr>je_Debit := 0\<rparr>) (cs_entries st)\<rparr>
         else st\<lparr>cs_slots := cs_slots st @ [Own k]\<rparr>)"

fun commit_loop ::
  "env \<Rightarrow> createEntry \<Rightarrow> CommitOption list \<Rightarrow> (nat \<times> JournalEntry) list \<Rightarrow> commit_state \<Rightarrow>
   err option \<times> commit_state" where
  "commit_loop en c opts [] st = (None, st)"
| "commit_loop en c opts ((k, entry) # kes) st =
     (case commit_prepare en c opts entry of
        Inl e \<Rightarrow> (Some e, st)
      | Inr (cfg, entry) \<Rightarrow> commit_loop en c opts kes (commit_body cfg k entry st))"

text \<open>\<open>Save(&entries)\<close>: ids are written through the pointers.\<close>

fun save_slots ::
  "slot list \<Rightarrow> (nat \<times> JournalEntry) list \<Rightarrow> db \<Rightarrow> (nat \<times> JournalEntry) list \<times> db" where
  "save_slots [] m d = (m, d)"
| "save_slots (Own k # ss) m d =
     (case map_of m k of
        None \<Rightarrow> save_slots ss m d
      | Some e \<Rightarrow> (case save_entry e d of (e', d') \<Rightarrow> save_slots ss (alist_upd k e' m) d'))"
| "save_slots (Copy e # ss) m d =
     (case save_entry e d of (e', d') \<Rightarrow> save_slots ss m d')"

definition Commit ::
  "env \<Rightarrow> CommitOption list \<Rightarrow> createEntry \<Rightarrow> session \<Rightarrow> createEntry \<times> session" where
  "Commit en opts c s =
     (if isEntryEmpty c then (ce_setErr ErrEmptyEntry c, s)
      else
        (case commit_loop en c opts (range_map (iter en) (ce_entries c))
                \<lparr>cs_entries = ce_entries c, cs_slots = [], cs_debit = 0, cs_credit = 0\<rparr> of
           (Some e, st) \<Rightarrow> (ce_setErr e (c\<lparr>ce_entries := cs_entries st\<rparr>), s)
         | (None, st) \<Rightarrow>
             let c = c\<lparr>ce_entries := cs_entries st\<rparr>
             in if \<not> CompareFloatSafe (cs_debit st) (cs_credit st) PrecisionEpsilon then
                  (ce_setErr (ErrEntryInvalid (cs_debit st) (cs_credit st)) c, s)
                else if cs_slots st = [] then
                  (ce_setErr (ErrMsg (''empty entry on book '' @ show_nat (ce_teamID c))) c, s)
                else
                  (case save_slots (cs_slots st) (ce_entries c) (s_db s) of
                     (m, d) \<Rightarrow>
                       (c\<lparr>ce_entries := m\<rparr>,
                        s\<lparr>s_db := d,
                          s_entries := s_entries s @ map snd (range_map (iter en) m)\<rparr>))))"

text \<open>The end of every chain of the services: \<open>.Commit(opts).Err()\<close>.\<close>

definition commitA :: "env \<Rightarrow> CommitOption list \<Rightarrow> createEntry \<Rightarrow> unit action" where
  "commitA en opts c s =
     (case Commit en opts c s of
        (c', s') \<Rightarrow> (case ce_err c' of None \<Rightarrow> (Inr (), s') | Some e \<Rightarrow> (Inl e, s')))"

subsection \<open>Errors of the builder are latched\<close>

interpretation ce: error_latch ce_err ce_setErr
  by unfold_locales (simp_all add: ce_setErr_def)

lemma ce_err_merge [simp]: "ce_err (mergeEntry k e c) = ce_err c"
  by (simp add: mergeEntry_def split: option.splits)

lemma ce_err_on_entries [simp]: "ce_err (on_entries f c) = ce_err c"
  by (simp add: on_entries_def)

lemma ce_err_setErr [simp]: "ce_err c = Some e' \<Longrightarrow> ce_err (ce_setErr e c) = Some e'"
  by (simp add: ce_setErr_def)

lemma getAccount_err [simp]: "ce_err (snd (getAccount d accp c)) = ce_err c"
  by (simp add: getAccount_def split: option.splits)

lemma latched_ToE: "ce.latched (ToE d acc amount opts)"
  by (rule ce.latchedI)
     (auto simp: ToE_def getAccount_def split: sum.splits option.splits prod.splits)

lemma latched_FromE: "ce.latched (FromE d acc amount opts)"
  unfolding FromE_def using latched_ToE [of d acc "amount * f64_of (- 1)" opts] by simp

lemma latched_SetE: "ce.latched (SetE d accID credit debit)"
  by (rule ce.latchedI) (simp add: SetE_def Let_def split: option.splits)

lemma latched_marks:
  "ce.latched (TransactionE tx)" "ce.latched (TransactionIDE i)" "ce.latched (DescE desc)"
  "ce.latched (EntryTimeE t)"
  by (rule ce.latchedI,
      simp add: TransactionE_def TransactionIDE_def DescE_def EntryTimeE_def)+

lemma Commit_err: "ce_err c = Some e \<Longrightarrow> ce_err (fst (Commit en opts c s)) = Some e"
  by (auto simp: Commit_def Let_def split: option.splits prod.splits)

end
