(* ===== verification/Commit.thy ===== *)
theory Commit
  imports CreateEntry
begin

section \<open>What Commit writes\<close>

text \<open>
  \<open>Commit\<close> is related to a list-level specification: the rows it adds are the pending entries
  in the order of the loop, without the entries of equal debit and credit, and with a
  two-sided entry split into its debit and its credit row. The facts about the journal
  follow from that specification.
\<close>

subsection \<open>Options of the source\<close>

text \<open>
  Every commit option of the package succeeds and leaves account, id and amounts of an
  entry alone.
\<close>

definition plain_opts ::
  "CommitOption list \<Rightarrow> bool \<Rightarrow> (JournalEntry \<Rightarrow> JournalEntry) \<Rightarrow> bool" where
  "plain_opts opts incl f \<longleftrightarrow>
     (\<forall>b e. run_commit_options opts \<lparr>includeDebitCreditEqual = b\<rparr> e
             = Inr (\<lparr>includeDebitCreditEqual = (b \<or> incl)\<rparr>, f e)) \<and>
     (\<forall>e. je_ID (f e) = je_ID e \<and> je_AccountID (f e) = je_AccountID e \<and>
          je_Debit (f e) = je_Debit e \<and> je_Credit (f e) = je_Credit e)"

lemma plain_opts_Nil: "plain_opts [] False (\<lambda>e. e)"
  by (simp add: plain_opts_def)

lemma plain_opts_Rollback:
  "plain_opts opts incl f \<Longrightarrow>
     plain_opts (RollbackOption # opts) incl (\<lambda>e. f (e\<lparr>je_Rollback := True\<rparr>))"
  by (simp add: plain_opts_def RollbackOption_def)

lemma plain_opts_Time:
  "plain_opts opts incl f \<Longrightarrow>
     plain_opts (CustomTimeOption t # opts) incl (\<lambda>e. f (e\<lparr>je_EntryTime := t\<rparr>))"
  by (simp add: plain_opts_def CustomTimeOption_def)

lemma plain_opts_Include:
  "plain_opts opts incl f \<Longrightarrow> plain_opts (IncludeDebitCreditEqual # opts) True f"
  by (simp add: plain_opts_def IncludeDebitCreditEqual_def)

definition source_option :: "CommitOption \<Rightarrow> bool" where
  "source_option opt \<longleftrightarrow>
     opt = RollbackOption \<or> opt = IncludeDebitCreditEqual \<or> (\<exists>t. opt = CustomTimeOption t)"

lemma source_plain:
  "list_all source_option opts \<Longrightarrow> \<exists>incl f. plain_opts opts incl f"
proof (induction opts)
  case Nil
  show ?case using plain_opts_Nil by blast
next
  case (Cons opt opts)
  then obtain incl f where "plain_opts opts incl f" by auto
  with Cons.prems show ?case
    by (auto simp: source_option_def
        intro: plain_opts_Rollback plain_opts_Time plain_opts_Include)
qed

subsection \<open>The specification\<close>

definition prepared ::
  "env \<Rightarrow> createEntry \<Rightarrow> (JournalEntry \<Rightarrow> JournalEntry) \<Rightarrow> JournalEntry \<Rightarrow> JournalEntry" where
  "prepared en c f e =
     (f (if IsZero (je_EntryTime e) then e\<lparr>je_EntryTime := now en\<rparr> else e))
       \<lparr>je_TeamID := ce_teamID c, je_CreatedByID := ce_createdByID c\<rparr>"

definition rows_of :: "bool \<Rightarrow> JournalEntry \<Rightarrow> JournalEntry list" where
  "rows_of incl e =
     (if \<not> incl \<and> je_Debit e = je_Credit e then []
      else if je_Debit e > 0 \<and> je_Credit e > 0
      then [e\<lparr>je_Credit := 0\<rparr>, e\<lparr>je_Debit := 0\<rparr>]
      else [e])"

text \<open>New rows take consecutive ids.\<close>

fun number_rows :: "nat \<Rightarrow> JournalEntry list \<Rightarrow> JournalEntry list" where
  "number_rows n [] = []"
| "number_rows n (e # es) = e\<lparr>je_ID := Suc n\<rparr> # number_rows (Suc n) es"

definition insert_rows :: "JournalEntry list \<Rightarrow> db \<Rightarrow> db" where
  "insert_rows es d = d\<lparr>db_seq := db_seq d + length es,
     db_entries := db_entries d @ number_rows (db_seq d) es\<rparr>"

definition commit_rows ::
  "env \<Rightarrow> bool \<Rightarrow> (JournalEntry \<Rightarrow> JournalEntry) \<Rightarrow> createEntry \<Rightarrow> JournalEntry list" where
  "commit_rows en incl f c =
     concat (map (\<lambda>(k, e). rows_of incl (prepared en c f e)) (range_map (iter en) (ce_entries c)))"

lemma prepared_fields:
  assumes "plain_opts opts incl f"
  shows "je_Debit (prepared en c f e) = je_Debit e" "je_Credit (prepared en c f e) = je_Credit e"
    "je_ID (prepared en c f e) = je_ID e" "je_AccountID (prepared en c f e) = je_AccountID e"
    "je_TeamID (prepared en c f e) = ce_teamID c"
    "je_CreatedByID (prepared en c f e) = ce_createdByID c"
  using assms by (simp_all add: prepared_def plain_opts_def)

lemma commit_prepare_plain:
  assumes "plain_opts opts incl f"
  shows "commit_prepare en c opts e =
    Inr (\<lparr>includeDebitCreditEqual = incl\<rparr>, prepared en c f e)"
proof -
  have r: "run_commit_options opts \<lparr>includeDebitCreditEqual = False\<rparr> x
      = Inr (\<lparr>includeDebitCreditEqual = incl\<rparr>, f x)" for x
    using assms by (simp add: plain_opts_def)
  show ?thesis by (simp add: commit_prepare_def prepared_def r)
qed

subsection \<open>The loop\<close>

definition slots_of :: "bool \<Rightarrow> nat \<Rightarrow> JournalEntry \<Rightarrow> slot list" where
  "slots_of incl k e =
     (if \<not> incl \<and> je_Debit e = je_Credit e then []
      else if je_Debit e > 0 \<and> je_Credit e > 0 then [Copy (e\<lparr>je_Credit := 0\<rparr>), Own k]
      else [Own k])"

definition final_of :: "bool \<Rightarrow> JournalEntry \<Rightarrow> JournalEntry" where
  "final_of incl e =
     (if \<not> incl \<and> je_Debit e = je_Credit e then e
      else if je_Debit e > 0 \<and> je_Credit e > 0 then e\<lparr>je_Debit := 0\<rparr>
      else e)"

fun resolve :: "(nat \<times> JournalEntry) list \<Rightarrow> slot \<Rightarrow> JournalEntry" where
  "resolve m (Own k) = the (map_of m k)"
| "resolve m (Copy e) = e"

fun own_keys :: "slot list \<Rightarrow> nat list" where
  "own_keys [] = []"
| "own_keys (Own k # ss) = k # own_keys ss"
| "own_keys (Copy e # ss) = own_keys ss"

lemma own_keys_append [simp]: "own_keys (xs @ ys) = own_keys xs @ own_keys ys"
  by (induction xs rule: own_keys.induct) simp_all

lemma own_keys_slots_of: "set (own_keys (slots_of incl k e)) \<subseteq> {k} \<and>
    distinct (own_keys (slots_of incl k e))"
  by (simp add: slots_of_def)

lemma commit_body_slots: "cs_slots (commit_body \<lparr>includeDebitCreditEqual = incl\<rparr> k e st)
    = cs_slots st @ slots_of incl k e"
  by (simp add: commit_body_def slots_of_def Let_def)

lemma commit_body_entries: "map_of (cs_entries (commit_body \<lparr>includeDebitCreditEqual = incl\<rparr> k e st))
    = (map_of (cs_entries st))(k \<mapsto> final_of incl e)"
  by (simp add: commit_body_def final_of_def Let_def map_of_alist_upd)

lemma commit_body_keys:
  "k \<in> fst ` set (cs_entries st) \<Longrightarrow>
   map fst (cs_entries (commit_body cfg k e st)) = map fst (cs_entries st)"
  by (simp add: commit_body_def Let_def keys_alist_upd)

lemma commit_body_sums:
  "cs_debit (commit_body cfg k e st) = cs_debit st + je_Debit e"
  "cs_credit (commit_body cfg k e st) = cs_credit st + je_Credit e"
  by (simp_all add: commit_body_def Let_def)

lemma commit_loop_spec:
  assumes p: "plain_opts opts incl f" and "distinct (map fst kes)"
  shows "\<exists>st'. commit_loop en c opts kes st = (None, st') \<and>
    cs_slots st' = cs_slots st @ concat (map (\<lambda>(k, e). slots_of incl k (prepared en c f e)) kes) \<and>
    (\<forall>k. map_of (cs_entries st') k =
       (case map_of kes k of Some e \<Rightarrow> Some (final_of incl (prepared en c f e))
        | None \<Rightarrow> map_of (cs_entries st) k)) \<and>
    cs_debit st' = foldl (+) (cs_debit st) (map (je_Debit \<circ> snd) kes) \<and>
    cs_credit st' = foldl (+) (cs_credit st) (map (je_Credit \<circ> snd) kes)"
  using assms(2)
proof (induction kes arbitrary: st)
  case Nil
  show ?case by simp
next
  case (Cons ke kes)
  obtain k e where ke: "ke = (k, e)" by (cases ke)
  let ?cfg = "\<lparr>includeDebitCreditEqual = incl\<rparr>" and ?e = "prepared en c f e"
  let ?st = "commit_body ?cfg k ?e st"
  from Cons.prems ke have k: "k \<notin> fst ` set kes" and d: "distinct (map fst kes)" by auto
  then have kn: "map_of kes k = None" by (simp add: map_of_eq_None_iff)
  from Cons.IH [OF d, of ?st] obtain st' where
    st': "commit_loop en c opts kes ?st = (None, st')"
    "cs_slots st' = cs_slots ?st @
       concat (map (\<lambda>(k, e). slots_of incl k (prepared en c f e)) kes)"
    "\<And>j. map_of (cs_entries st') j =
       (case map_of kes j of Some e \<Rightarrow> Some (final_of incl (prepared en c f e))
        | None \<Rightarrow> map_of (cs_entries ?st) j)"
    "cs_debit st' = foldl (+) (cs_debit ?st) (map (je_Debit \<circ> snd) kes)"
    "cs_credit st' = foldl (+) (cs_credit ?st) (map (je_Credit \<circ> snd) kes)"
    by blast
  show ?case
  proof (intro exI [of _ st'] conjI)
    show "commit_loop en c opts (ke # kes) st = (None, st')"
      using st'(1) by (simp add: ke commit_prepare_plain [OF p])
    show "\<forall>j. map_of (cs_entries st') j =
       (case map_of (ke # kes) j of Some e \<Rightarrow> Some (final_of incl (prepared en c f e))
        | None \<Rightarrow> map_of (cs_entries st) j)"
      using kn by (auto simp: ke st'(3) commit_body_entries split: option.splits)
  qed (simp_all add: ke st' commit_body_slots commit_body_sums prepared_fields [OF p] comp_def)
qed

subsection \<open>Saving\<close>

lemma save_entry_fresh:
  "je_ID e = 0 \<Longrightarrow> save_entry e d = (e\<lparr>je_ID := Suc (db_seq d)\<rparr>, insert_rows [e] d)"
  by (simp add: save_entry_def insert_rows_def Let_def)

lemma insert_rows_Cons: "insert_rows (e # es) d = insert_rows es (insert_rows [e] d)"
  by (simp add: insert_rows_def)

lemma insert_rows_Nil [simp]: "insert_rows [] d = d"
  by (simp add: insert_rows_def)

lemma save_slots_db:
  assumes "distinct (own_keys ss)" and "\<forall>k \<in> set (own_keys ss). map_of m k \<noteq> None"
    and "\<forall>sl \<in> set ss. je_ID (resolve m sl) = 0"
  shows "snd (save_slots ss m d) = insert_rows (map (resolve m) ss) d"
  using assms
proof (induction ss m d rule: save_slots.induct)
  case (1 m d)
  show ?case by simp
next
  case (2 k ss m d)
  from "2.prems" obtain e where e: "map_of m k = Some e" by auto
  with "2.prems" have id: "je_ID e = 0" by simp
  let ?e = "e\<lparr>je_ID := Suc (db_seq d)\<rparr>"
  have same: "resolve (alist_upd k ?e m) sl = resolve m sl" if "sl \<in> set ss" for sl
  proof (cases sl)
    case (Own j)
    with that have "j \<in> set (own_keys ss)" by (induction ss rule: own_keys.induct) auto
    with "2.prems"(1) have "j \<noteq> k" by auto
    with Own show ?thesis by (simp add: map_of_alist_upd)
  qed simp
  then have m: "map (resolve (alist_upd k ?e m)) ss = map (resolve m) ss" by simp
  have "snd (save_slots ss (alist_upd k ?e m) (insert_rows [e] d)) =
      insert_rows (map (resolve (alist_upd k ?e m)) ss) (insert_rows [e] d)"
    using "2.prems" same
    by (intro "2.IH"(2) [OF e save_entry_fresh [OF id, symmetric]])
       (auto simp: map_of_alist_upd)
  then show ?case
    using e by (simp add: save_entry_fresh [OF id] m insert_rows_Cons [of e "map (resolve m) ss"])
next
  case (3 e ss m d)
  then have id: "je_ID e = 0" by simp
  have "snd (save_slots ss m (insert_rows [e] d)) =
      insert_rows (map (resolve m) ss) (insert_rows [e] d)"
    using "3.prems" by (intro "3.IH" [OF save_entry_fresh [OF id, symmetric]]) auto
  then show ?case by (simp add: save_entry_fresh [OF id] insert_rows_Cons [of e "map (resolve m) ss"])
qed


lemma save_slots_keys:
  assumes "\<forall>k \<in> set (own_keys ss). k \<in> fst ` set m"
  shows "map fst (fst (save_slots ss m d)) = map fst m"
  using assms
  by (induction ss m d rule: save_slots.induct)
     (auto simp: keys_alist_upd split: option.splits prod.splits)

lemma save_slots_other:
  "k \<notin> set (own_keys ss) \<Longrightarrow> map_of (fst (save_slots ss m d)) k = map_of m k"
  by (induction ss m d rule: save_slots.induct)
     (auto simp: map_of_alist_upd split: option.splits prod.splits)

lemma save_slots_own:
  assumes "k \<in> set (own_keys ss)" and "distinct (own_keys ss)" and "map_of m k = Some e"
    and "je_ID e = 0"
  shows "\<exists>i. i \<noteq> 0 \<and> map_of (fst (save_slots ss m d)) k = Some (e\<lparr>je_ID := i\<rparr>)"
  using assms
proof (induction ss m d rule: save_slots.induct)
  case (2 j ss m d)
  show ?case
  proof (cases "j = k")
    case True
    with "2.prems" have "k \<notin> set (own_keys ss)" by simp
    with True "2.prems" show ?thesis
      by (auto simp: save_entry_fresh save_slots_other map_of_alist_upd
          intro!: exI [of _ "Suc (db_seq d)"])
  next
    case False
    show ?thesis
    proof (cases "map_of m j")
      case None
      with False "2.prems" "2.IH"(1) show ?thesis by simp
    next
      case (Some x)
      obtain x' d' where x: "save_entry x d = (x', d')" by (cases "save_entry x d")
      from False "2.prems" have "map_of (alist_upd j x' m) k = Some e"
        by (simp add: map_of_alist_upd)
      with False "2.prems" have "\<exists>i. i \<noteq> 0 \<and>
          map_of (fst (save_slots ss (alist_upd j x' m) d')) k = Some (e\<lparr>je_ID := i\<rparr>)"
        by (intro "2.IH"(2) [OF Some x [symmetric]]) simp_all
      with Some x show ?thesis by simp
    qed
  qed
next
  case (3 x ss m d)
  obtain x' d' where "save_entry x d = (x', d')" by (cases "save_entry x d")
  with 3 show ?case by simp
qed simp

subsection \<open>Iteration order\<close>

lemma range_map_mset:
  assumes "iter_ok it" and "distinct (map fst m)"
  shows "mset (range_map it m) = mset m"
proof -
  have e: "List.map_filter (\<lambda>k. map_option (Pair k) (map_of m k)) (map fst m') = m'"
    if "set m' \<subseteq> set m" for m'
    using that assms(2) by (induction m') (auto simp: List.map_filter_simps)
  have mf: "mset (List.map_filter g xs) = image_mset (the \<circ> g) (filter_mset (\<lambda>x. g x \<noteq> None) (mset xs))"
    for g :: "nat \<Rightarrow> (nat \<times> 'a) option" and xs
    by (simp add: List.map_filter_def mset_map mset_filter)
  have "mset (range_map it m) =
      mset (List.map_filter (\<lambda>k. map_option (Pair k) (map_of m k)) (map fst m))"
    using assms(1) unfolding range_map_def mf by (simp add: iter_ok_def)
  also have "\<dots> = mset m" by (subst e) simp_all
  finally show ?thesis .
qed

lemma range_map_set: "iter_ok it \<Longrightarrow> distinct (map fst m) \<Longrightarrow> set (range_map it m) = set m"
  using range_map_mset [of it m] by (metis set_mset_mset)

lemma range_map_distinct:
  assumes "iter_ok it" and "distinct (map fst m)"
  shows "distinct (map fst (range_map it m))"
proof -
  have "mset (map fst (range_map it m)) = mset (map fst m)"
    using range_map_mset [OF assms] by (simp add: mset_map)
  with assms(2) show ?thesis by (metis mset_eq_imp_distinct_iff)
qed

lemma range_map_lookup:
  assumes "iter_ok it" and "distinct (map fst m)"
  shows "map_of (range_map it m) = map_of m"
  using assms map_of_inject_set [of "range_map it m" m]
  by (simp add: range_map_set range_map_distinct)

subsection \<open>Commit implements its specification\<close>

definition fresh_builder :: "createEntry \<Rightarrow> bool" where
  "fresh_builder c \<longleftrightarrow>
     distinct (map fst (ce_entries c)) \<and> list_all (\<lambda>(k, e). je_ID e = 0 \<and> je_AccountID e = k) (ce_entries c)"

definition total_debit :: "env \<Rightarrow> createEntry \<Rightarrow> f64" where
  "total_debit en c = foldl (+) 0 (map (je_Debit \<circ> snd) (range_map (iter en) (ce_entries c)))"

definition total_credit :: "env \<Rightarrow> createEntry \<Rightarrow> f64" where
  "total_credit en c = foldl (+) 0 (map (je_Credit \<circ> snd) (range_map (iter en) (ce_entries c)))"

lemma own_keys_concat_slots:
  "set (own_keys (concat (map (\<lambda>(k, e). slots_of incl k (g e)) kes))) \<subseteq> fst ` set kes"
proof (induction kes)
  case (Cons ke kes)
  obtain k e where ke: "ke = (k, e)" by (cases ke)
  with Cons own_keys_slots_of [of incl k "g e"] show ?case by auto
qed simp

lemma own_keys_concat_distinct:
  "distinct (map fst kes) \<Longrightarrow>
   distinct (own_keys (concat (map (\<lambda>(k, e). slots_of incl k (g e)) kes)))"
proof (induction kes)
  case (Cons ke kes)
  obtain k e where ke: "ke = (k, e)" by (cases ke)
  from Cons.prems ke have "k \<notin> fst ` set kes" by simp
  with own_keys_concat_slots [of incl g kes] own_keys_slots_of [of incl k "g e"]
  show ?case using Cons by (auto simp: ke)
qed simp

lemma resolve_slots:
  assumes "map_of m k = Some (final_of incl e)"
  shows "map (resolve m) (slots_of incl k e) = rows_of incl e"
  using assms by (simp add: slots_of_def rows_of_def final_of_def)

lemma resolve_concat:
  assumes "\<forall>(k, e) \<in> set kes. map_of m k = Some (final_of incl (g e))"
  shows "map (resolve m) (concat (map (\<lambda>(k, e). slots_of incl k (g e)) kes)) =
    concat (map (\<lambda>(k, e). rows_of incl (g e)) kes)"
  using assms by (induction kes) (auto simp: resolve_slots)

lemma slots_Nil_iff:
  "concat (map (\<lambda>(k, e). slots_of incl k (g e)) kes) = [] \<longleftrightarrow>
   concat (map (\<lambda>(k, e). rows_of incl (g e)) kes) = []"
proof (induction kes)
  case (Cons ke kes)
  have "slots_of incl k e = [] \<longleftrightarrow> rows_of incl e = []" for k e
    by (simp add: slots_of_def rows_of_def)
  with Cons show ?case by (auto split: prod.splits)
qed simp

lemma rows_of_id: "je_ID e = 0 \<Longrightarrow> r \<in> set (rows_of incl e) \<Longrightarrow> je_ID r = 0"
  by (auto simp: rows_of_def split: if_splits)

text \<open>
  The journal after a commit: nothing when one of the checks fails, otherwise the rows of the
  specification under new ids. The error of the builder is the first one of its chain.
\<close>

theorem Commit_spec:
  assumes p: "plain_opts opts incl f" and it: "iter_ok (iter en)" and c: "fresh_builder c"
    and ne: "ce_entries c \<noteq> []"
  shows "s_db (snd (Commit en opts c s)) =
      (if \<not> CompareFloatSafe (total_debit en c) (total_credit en c) PrecisionEpsilon then s_db s
       else insert_rows (commit_rows en incl f c) (s_db s))"
    and "ce_err (fst (Commit en opts c s)) =
      (case ce_err c of Some e \<Rightarrow> Some e
       | None \<Rightarrow>
          if \<not> CompareFloatSafe (total_debit en c) (total_credit en c) PrecisionEpsilon
          then Some (ErrEntryInvalid (total_debit en c) (total_credit en c))
          else if commit_rows en incl f c = []
          then Some (ErrMsg (''empty entry on book '' @ show_nat (ce_teamID c)))
          else None)"
proof -
  let ?kes = "range_map (iter en) (ce_entries c)" and ?g = "prepared en c f"
  from c have dc: "distinct (map fst (ce_entries c))"
    and z: "\<And>k e. (k, e) \<in> set (ce_entries c) \<Longrightarrow> je_ID e = 0"
    by (auto simp: fresh_builder_def list_all_iff)
  have dk: "distinct (map fst ?kes)" using it dc by (rule range_map_distinct)
  obtain st where st: "commit_loop en c opts ?kes
        \<lparr>cs_entries = ce_entries c, cs_slots = [], cs_debit = 0, cs_credit = 0\<rparr> = (None, st)"
    "cs_slots st = concat (map (\<lambda>(k, e). slots_of incl k (?g e)) ?kes)"
    "\<And>k. map_of (cs_entries st) k =
       (case map_of ?kes k of Some e \<Rightarrow> Some (final_of incl (?g e))
        | None \<Rightarrow> map_of (ce_entries c) k)"
    "cs_debit st = total_debit en c" "cs_credit st = total_credit en c"
    using commit_loop_spec [OF p dk, of en c "\<lparr>cs_entries = ce_entries c, cs_slots = [],
        cs_debit = 0, cs_credit = 0\<rparr>"]
    unfolding total_debit_def total_credit_def commit_state.select_convs append_Nil by blast
  have look: "\<forall>(k, e) \<in> set ?kes. map_of (cs_entries st) k = Some (final_of incl (?g e))"
    using dk by (auto simp: st(3))
  then have res: "map (resolve (cs_entries st)) (cs_slots st) = commit_rows en incl f c"
    unfolding st(2) commit_rows_def by (rule resolve_concat)
  have nil: "cs_slots st = [] \<longleftrightarrow> commit_rows en incl f c = []"
    unfolding st(2) commit_rows_def by (rule slots_Nil_iff)
  have "snd (save_slots (cs_slots st) (cs_entries st) d) =
      insert_rows (map (resolve (cs_entries st)) (cs_slots st)) d" for d
  proof (rule save_slots_db)
    show "distinct (own_keys (cs_slots st))"
      unfolding st(2) using dk by (rule own_keys_concat_distinct)
    show "\<forall>k \<in> set (own_keys (cs_slots st)). map_of (cs_entries st) k \<noteq> None"
      using own_keys_concat_slots [of incl ?g ?kes] look unfolding st(2) by fastforce
    have "je_ID r = 0" if "r \<in> set (commit_rows en incl f c)" for r
    proof -
      from that obtain k e where "(k, e) \<in> set ?kes" and r: "r \<in> set (rows_of incl (?g e))"
        by (auto simp: commit_rows_def)
      with it dc have "je_ID (?g e) = 0" by (simp add: range_map_set z prepared_fields [OF p])
      then show ?thesis using r by (rule rows_of_id)
    qed
    then show "\<forall>sl \<in> set (cs_slots st). je_ID (resolve (cs_entries st) sl) = 0"
      unfolding res [symmetric] by simp
  qed
  then have sv: "snd (save_slots (cs_slots st) (cs_entries st) d) =
      insert_rows (commit_rows en incl f c) d" for d
    by (simp add: res)
  have e: "\<not> isEntryEmpty c" using ne by (simp add: isEntryEmpty_def)
  obtain m d where md: "save_slots (cs_slots st) (cs_entries st) (s_db s) = (m, d)"
    by (cases "save_slots (cs_slots st) (cs_entries st) (s_db s)")
  with sv [of "s_db s"] have d: "d = insert_rows (commit_rows en incl f c) (s_db s)" by simp
  show "s_db (snd (Commit en opts c s)) =
      (if \<not> CompareFloatSafe (total_debit en c) (total_credit en c) PrecisionEpsilon then s_db s
       else insert_rows (commit_rows en incl f c) (s_db s))"
    using md by (simp add: Commit_def e st(1,4,5) nil d Let_def)
  show "ce_err (fst (Commit en opts c s)) =
      (case ce_err c of Some e \<Rightarrow> Some e
       | None \<Rightarrow>
          if \<not> CompareFloatSafe (total_debit en c) (total_credit en c) PrecisionEpsilon
          then Some (ErrEntryInvalid (total_debit en c) (total_credit en c))
          else if commit_rows en incl f c = []
          then Some (ErrMsg (''empty entry on book '' @ show_nat (ce_teamID c)))
          else None)"
    using md by (simp add: Commit_def e st(1,4,5) nil ce_setErr_def Let_def split: option.splits)
qed

subsection \<open>What Commit reports to the book manager\<close>

text \<open>
  \<open>afterCommit\<close> hands over the builder's own entries: one per account, with the id of its row
  when it was saved, and with the debit cut off when it was two-sided.
\<close>

lemma commit_loop_keys:
  assumes "commit_loop en c opts kes st = (r, st')" and "fst ` set kes \<subseteq> fst ` set (cs_entries st)"
  shows "map fst (cs_entries st') = map fst (cs_entries st)"
  using assms
proof (induction en c opts kes st rule: commit_loop.induct)
  case (2 en c opts k e kes st)
  show ?case
  proof (cases "commit_prepare en c opts e")
    case (Inr ce)
    obtain cfg e' where ce: "ce = (cfg, e')" by (cases ce)
    have keys: "map fst (cs_entries (commit_body cfg k e' st)) = map fst (cs_entries st)"
      using "2.prems"(2) by (intro commit_body_keys) simp
    then have "fst ` set (cs_entries (commit_body cfg k e' st)) = fst ` set (cs_entries st)"
      by (metis list.set_map)
    with "2.IH" [OF Inr ce [symmetric]] "2.prems" Inr ce keys show ?thesis by simp
  qed (use 2 in simp)
qed simp

lemma own_keys_concat_iff:
  "k \<in> set (own_keys (concat (map (\<lambda>(k, e). slots_of incl k (g e)) kes))) \<longleftrightarrow>
     (\<exists>e. (k, e) \<in> set kes \<and> slots_of incl k (g e) \<noteq> [])"
proof (induction kes)
  case (Cons ke kes)
  obtain j e where ke: "ke = (j, e)" by (cases ke)
  have "set (own_keys (slots_of incl j (g e))) = (if slots_of incl j (g e) = [] then {} else {j})"
    by (simp add: slots_of_def)
  with Cons show ?case by (auto simp: ke)
qed simp

definition book_entry :: "bool \<Rightarrow> JournalEntry \<Rightarrow> JournalEntry \<Rightarrow> bool" where
  "book_entry incl e b \<longleftrightarrow>
     (je_ID b = 0 \<longleftrightarrow> rows_of incl e = []) \<and> b\<lparr>je_ID := 0\<rparr> = final_of incl e"

lemma Commit_book:
  assumes p: "plain_opts opts incl f" and it: "iter_ok (iter en)" and c: "fresh_builder c"
    and ne: "ce_entries c \<noteq> []" and err: "ce_err (fst (Commit en opts c s)) = None"
  shows "\<exists>m. s_entries (snd (Commit en opts c s)) = s_entries s @ map snd (range_map (iter en) m) \<and>
    map fst m = map fst (ce_entries c) \<and>
    (\<forall>k e. map_of (ce_entries c) k = Some e \<longrightarrow>
       (\<exists>b. map_of m k = Some b \<and> book_entry incl (prepared en c f e) b))"
proof -
  let ?kes = "range_map (iter en) (ce_entries c)" and ?g = "prepared en c f"
  let ?st0 = "\<lparr>cs_entries = ce_entries c, cs_slots = [], cs_debit = 0, cs_credit = 0\<rparr>"
  from c have dc: "distinct (map fst (ce_entries c))"
    and z: "\<And>k e. (k, e) \<in> set (ce_entries c) \<Longrightarrow> je_ID e = 0"
    by (auto simp: fresh_builder_def list_all_iff)
  have dk: "distinct (map fst ?kes)" using it dc by (rule range_map_distinct)
  obtain st where st: "commit_loop en c opts ?kes ?st0 = (None, st)"
    "cs_slots st = concat (map (\<lambda>(k, e). slots_of incl k (?g e)) ?kes)"
    "\<And>k. map_of (cs_entries st) k =
       (case map_of ?kes k of Some e \<Rightarrow> Some (final_of incl (?g e))
        | None \<Rightarrow> map_of (ce_entries c) k)"
    using commit_loop_spec [OF p dk, of en c ?st0]
    unfolding commit_state.select_convs append_Nil by blast
  have keys: "map fst (cs_entries st) = map fst (ce_entries c)"
    using commit_loop_keys [OF st(1)] by (simp add: range_map_set [OF it dc])
  let ?ss = "cs_slots st" and ?m = "cs_entries st"
  have ok: "set (own_keys ?ss) \<subseteq> fst ` set ?m"
    using own_keys_concat_slots [of incl ?g ?kes] keys
    unfolding st(2) by (metis list.set_map range_map_set [OF it dc])
  obtain m d where md: "save_slots ?ss ?m (s_db s) = (m, d)" by (cases "save_slots ?ss ?m (s_db s)")
  have mk: "map fst m = map fst (ce_entries c)"
    using save_slots_keys [of ?ss ?m "s_db s"] ok md keys by auto
  have look: "\<exists>b. map_of m k = Some b \<and> book_entry incl (?g e) b"
    if k: "map_of (ce_entries c) k = Some e" for k e
  proof -
    from k have e0: "je_ID (final_of incl (?g e)) = 0"
      using z [of k e] by (simp add: final_of_def prepared_fields [OF p] map_of_SomeD)
    have mf: "map_of ?m k = Some (final_of incl (?g e))"
      using k by (simp add: st(3) range_map_lookup [OF it dc])
    have nil: "slots_of incl k (?g e) = [] \<longleftrightarrow> rows_of incl (?g e) = []"
      by (simp add: slots_of_def rows_of_def)
    have own: "k \<in> set (own_keys ?ss) \<longleftrightarrow> rows_of incl (?g e) \<noteq> []"
      using k map_of_SomeD [OF k] dc unfolding st(2) own_keys_concat_iff range_map_set [OF it dc]
      by (auto simp flip: nil dest: eq_key_imp_eq_value)
    have ds: "distinct (own_keys ?ss)" unfolding st(2) using dk by (rule own_keys_concat_distinct)
    show ?thesis
    proof (cases "k \<in> set (own_keys ?ss)")
      case True
      from save_slots_own [OF this ds mf e0, of "s_db s"] md own True e0 show ?thesis
        by (auto simp: book_entry_def)
    next
      case False
      from save_slots_other [OF this, of ?m "s_db s"] md mf own False e0 show ?thesis
        by (auto simp: book_entry_def)
    qed
  qed
  have e: "\<not> isEntryEmpty c" using ne by (simp add: isEntryEmpty_def)
  from err have "s_entries (snd (Commit en opts c s)) = s_entries s @ map snd (range_map (iter en) m)"
    by (auto simp: Commit_def e st(1) md Let_def ce_setErr_def split: if_splits)
  with mk look show ?thesis by blast
qed

lemma Commit_outbox: "s_outbox (snd (Commit en opts c s)) = s_outbox s"
  by (simp add: Commit_def Let_def split: prod.splits option.splits)

end
