(* ===== verification/Ledger.thy ===== *)
theory Ledger
  imports Commit
begin

section \<open>Double entry: the journal stays balanced\<close>

text \<open>
  The books balance when, for every team, the debits of its journal rows sum to the credits.
  Sums are exact rational sums of the stored amounts. A builder made by the calls of
  \<open>journal_entries.go\<close> and committed keeps every book balanced, whatever the iteration
  order, as long as its amounts are whole and sum to at most \<open>2^53\<close>.
\<close>

subsection \<open>Trial balance\<close>

definition debits :: "JournalEntry list \<Rightarrow> rat" where
  "debits es = val_sum (map je_Debit es)"

definition credits :: "JournalEntry list \<Rightarrow> rat" where
  "credits es = val_sum (map je_Credit es)"

definition book_of :: "nat \<Rightarrow> JournalEntry list \<Rightarrow> JournalEntry list" where
  "book_of team es = filter (\<lambda>e. je_TeamID e = team) es"

definition trial_balanced :: "db \<Rightarrow> bool" where
  "trial_balanced d \<longleftrightarrow>
     (\<forall>team. debits (book_of team (db_entries d)) = credits (book_of team (db_entries d)))"

lemma debits_simps [simp]: "debits [] = 0" "debits (e # es) = val (je_Debit e) + debits es"
  "debits (xs @ ys) = debits xs + debits ys"
  by (simp_all add: debits_def)

lemma credits_simps [simp]: "credits [] = 0" "credits (e # es) = val (je_Credit e) + credits es"
  "credits (xs @ ys) = credits xs + credits ys"
  by (simp_all add: credits_def)

lemma number_rows_sums [simp]:
  "debits (number_rows n es) = debits es" "credits (number_rows n es) = credits es"
  by (induction n es rule: number_rows.induct) simp_all

lemma number_rows_book: "book_of t (number_rows n es) =
    (if list_all (\<lambda>e. je_TeamID e = t) es then number_rows n es else book_of t (number_rows n es))"
  unfolding book_of_def
  by (induction n es rule: number_rows.induct) auto

lemma number_rows_other:
  "list_all (\<lambda>e. je_TeamID e \<noteq> t) es \<Longrightarrow> book_of t (number_rows n es) = []"
  unfolding book_of_def
  by (induction n es rule: number_rows.induct) auto

lemma rows_of_difference:
  "debits (rows_of incl e) - credits (rows_of incl e) = val (je_Debit e) - val (je_Credit e)"
  by (simp add: rows_of_def)

lemma rows_of_team: "r \<in> set (rows_of incl e) \<Longrightarrow> je_TeamID r = je_TeamID e"
  by (auto simp: rows_of_def split: if_splits)

subsection \<open>Whole amounts in a builder\<close>

definition whole_builder :: "createEntry \<Rightarrow> bool" where
  "whole_builder c \<longleftrightarrow>
     whole_list (map (je_Debit \<circ> snd) (ce_entries c)) \<and>
     whole_list (map (je_Credit \<circ> snd) (ce_entries c))"

lemma whole_list_mset: "mset xs = mset ys \<Longrightarrow> whole_list xs \<longleftrightarrow> whole_list ys"
  unfolding whole_list_def
  by (metis abs_sum_mset list_all_iff set_mset_mset)

lemma totals_exact:
  assumes "iter_ok (iter en)" and "fresh_builder c" and "whole_builder c"
  shows "val (total_debit en c) = val_sum (map (je_Debit \<circ> snd) (ce_entries c))"
    and "val (total_credit en c) = val_sum (map (je_Credit \<circ> snd) (ce_entries c))"
    and "whole (total_debit en c)" and "whole (total_credit en c)"
proof -
  let ?kes = "range_map (iter en) (ce_entries c)"
  from assms(1,2) have m: "mset ?kes = mset (ce_entries c)"
    by (simp add: range_map_mset fresh_builder_def)
  then have md: "mset (map (je_Debit \<circ> snd) ?kes) = mset (map (je_Debit \<circ> snd) (ce_entries c))"
    and mc: "mset (map (je_Credit \<circ> snd) ?kes) = mset (map (je_Credit \<circ> snd) (ce_entries c))"
    unfolding mset_map by simp_all
  have "whole_list (map (je_Debit \<circ> snd) ?kes)" and "whole_list (map (je_Credit \<circ> snd) ?kes)"
    using assms(3) whole_list_mset [OF md] whole_list_mset [OF mc] by (simp_all add: whole_builder_def)
  then show "val (total_debit en c) = val_sum (map (je_Debit \<circ> snd) (ce_entries c))"
    and "val (total_credit en c) = val_sum (map (je_Credit \<circ> snd) (ce_entries c))"
    and "whole (total_debit en c)" and "whole (total_credit en c)"
    unfolding total_debit_def total_credit_def val_sum_mset [OF md, symmetric] val_sum_mset [OF mc, symmetric]
    by (simp_all add: whole_list_sum)
qed

lemma PrecisionEpsilon_le_1: "PrecisionEpsilon = f64_rat (1 / 10000)" "(1 / 10000 :: rat) \<le> 1"
  by (simp_all add: PrecisionEpsilon_def)

lemma CompareFloatSafe_refl [simp]: "CompareFloatSafe x x PrecisionEpsilon"
  by (simp add: CompareFloatSafe_def PrecisionEpsilon_def f64_rat_pos)

lemma CompareFloatSafe_whole:
  "whole x \<Longrightarrow> whole y \<Longrightarrow> CompareFloatSafe x y PrecisionEpsilon \<longleftrightarrow> x = y"
  unfolding CompareFloatSafe_def PrecisionEpsilon_def
  using whole_close [of x y "1 / 10000"] f64_rat_pos [of "1 / 10000"] by auto

lemma commit_rows_sums:
  assumes p: "plain_opts opts incl f" and it: "iter_ok (iter en)" and c: "fresh_builder c"
  shows "debits (commit_rows en incl f c) - credits (commit_rows en incl f c) =
    val_sum (map (je_Debit \<circ> snd) (ce_entries c)) - val_sum (map (je_Credit \<circ> snd) (ce_entries c))"
proof -
  let ?g = "prepared en c f"
  have "debits (concat (map (\<lambda>(k, e). rows_of incl (?g e)) kes)) -
      credits (concat (map (\<lambda>(k, e). rows_of incl (?g e)) kes)) =
      val_sum (map (je_Debit \<circ> snd) kes) - val_sum (map (je_Credit \<circ> snd) kes)" for kes
  proof (induction kes)
    case (Cons ke kes)
    obtain k e where ke: "ke = (k, e)" by (cases ke)
    from Cons rows_of_difference [of incl "?g e"] show ?case
      by (simp add: ke prepared_fields [OF p])
  qed simp
  note d = this [of "range_map (iter en) (ce_entries c)"]
  from it c have m: "mset (range_map (iter en) (ce_entries c)) = mset (ce_entries c)"
    by (simp add: range_map_mset fresh_builder_def)
  show ?thesis
    unfolding commit_rows_def d
    by (intro arg_cong2 [where f = "(-)"] val_sum_mset) (simp_all add: mset_map m)
qed

lemma commit_rows_team:
  assumes "plain_opts opts incl f"
  shows "list_all (\<lambda>r. je_TeamID r = ce_teamID c) (commit_rows en incl f c)"
  using prepared_fields(5) [OF assms]
  by (fastforce simp: commit_rows_def list_all_iff dest: rows_of_team)

lemma insert_rows_balanced:
  assumes "trial_balanced d" and "list_all (\<lambda>r. je_TeamID r = t) es" and "debits es = credits es"
  shows "trial_balanced (insert_rows es d)"
  unfolding trial_balanced_def
proof
  fix team
  have "debits (book_of team (number_rows n es)) = credits (book_of team (number_rows n es))" for n
  proof (cases "team = t")
    case True
    with assms show ?thesis by (simp add: number_rows_book [of t])
  next
    case False
    with assms(2) have "list_all (\<lambda>e. je_TeamID e \<noteq> team) es" by (auto simp: list_all_iff)
    then show ?thesis by (simp add: number_rows_other)
  qed
  with assms(1) show "debits (book_of team (db_entries (insert_rows es d))) =
      credits (book_of team (db_entries (insert_rows es d)))"
    by (simp add: insert_rows_def trial_balanced_def book_of_def)
qed

lemma Commit_empty: "ce_entries c = [] \<Longrightarrow> Commit en opts c s = (ce_setErr ErrEmptyEntry c, s)"
  by (simp add: Commit_def isEntryEmpty_def)

lemma Commit_balanced:
  assumes "list_all source_option opts" and "iter_ok (iter en)" and "fresh_builder c"
    and "whole_builder c" and "trial_balanced (s_db s)"
  shows "trial_balanced (s_db (snd (Commit en opts c s)))"
proof (cases "ce_entries c = []")
  case True
  with assms show ?thesis by (simp add: Commit_empty)
next
  case False
  obtain incl f where p: "plain_opts opts incl f" using source_plain [OF assms(1)] by blast
  note t = totals_exact [OF assms(2,3,4)]
  show ?thesis
  proof (cases "CompareFloatSafe (total_debit en c) (total_credit en c) PrecisionEpsilon")
    case True
    with t have "total_debit en c = total_credit en c" by (simp add: CompareFloatSafe_whole)
    with t have "debits (commit_rows en incl f c) = credits (commit_rows en incl f c)"
      using commit_rows_sums [OF p assms(2,3)] by simp
    then have "trial_balanced (insert_rows (commit_rows en incl f c) (s_db s))"
      using commit_rows_team [OF p] by (rule insert_rows_balanced [OF assms(5), rotated])
    with True show ?thesis by (simp add: Commit_spec(1) [OF p assms(2,3) False])
  next
    case False': False
    then show ?thesis using assms(5) by (simp add: Commit_spec(1) [OF p assms(2,3) False])
  qed
qed

subsection \<open>Builders made by the calls of the package\<close>

definition source_entry_option :: "EntryOption \<Rightarrow> bool" where
  "source_entry_option opt \<longleftrightarrow> (\<exists>desc. opt = EntryDescOption desc)"

lemma run_entry_options_source:
  assumes "list_all source_entry_option opts"
  shows "\<exists>desc. run_entry_options opts e = Inr (e\<lparr>je_Desc := desc\<rparr>)"
  using assms
proof (induction opts arbitrary: e)
  case Nil
  show ?case by (auto intro: exI [of _ "je_Desc e"])
next
  case (Cons opt opts)
  then obtain desc where "opt = EntryDescOption desc" by (auto simp: source_entry_option_def)
  moreover obtain desc' where
    "run_entry_options opts (e\<lparr>je_Desc := desc\<rparr>) = Inr (e\<lparr>je_Desc := desc, je_Desc := desc'\<rparr>)"
    using Cons by fastforce
  ultimately show ?case by (auto simp: EntryDescOption_def)
qed

lemma alist_upd_all:
  "list_all P m \<Longrightarrow> P (k, v) \<Longrightarrow> list_all P (alist_upd k v m)"
  by (induction m) auto

lemma fresh_merge:
  assumes "fresh_builder c" and "je_ID e = 0" and "je_AccountID e = k"
  shows "fresh_builder (mergeEntry k e c)"
proof (cases "map_of (ce_entries c) k")
  case None
  with assms show ?thesis
    by (auto simp: fresh_builder_def mergeEntry_def intro!: distinct_alist_upd alist_upd_all)
next
  case (Some x)
  with assms(1) have "je_ID x = 0 \<and> je_AccountID x = k"
    by (auto simp: fresh_builder_def list_all_iff dest: map_of_SomeD)
  with Some assms show ?thesis
    by (auto simp: fresh_builder_def mergeEntry_def intro!: distinct_alist_upd alist_upd_all)
qed

lemma fresh_setErr [simp]: "fresh_builder (ce_setErr e c) = fresh_builder c"
  by (simp add: ce_setErr_def fresh_builder_def)

lemma fresh_accountMap [simp]: "fresh_builder (c\<lparr>ce_accountMap := m\<rparr>) = fresh_builder c"
  by (simp add: fresh_builder_def)

lemma SetAmountEntry_fields:
  "SetAmountEntry a x e = Inr e' \<Longrightarrow> je_ID e' = je_ID e \<and> je_AccountID e' = je_AccountID e"
  by (auto simp: SetAmountEntry_def Let_def split: if_splits)

lemma newEntry_fields [simp]: "je_ID (newEntry i) = 0" "je_AccountID (newEntry i) = i"
  "je_Debit (newEntry i) = 0" "je_Credit (newEntry i) = 0" "je_Desc (newEntry i) = []"
  by (simp_all add: newEntry_def)

lemma fresh_ToE:
  assumes "fresh_builder c" and "list_all source_entry_option opts"
  shows "fresh_builder (ToE d acc amount opts c)"
proof (cases "getAccount d acc c")
  case (Pair r c')
  with assms(1) have c': "fresh_builder c'"
    by (auto simp: getAccount_def split: option.splits if_splits)
  show ?thesis
  proof (cases r)
    case (Inl e)
    with Pair c' show ?thesis by (simp add: ToE_def)
  next
    case (Inr a)
    show ?thesis
    proof (cases "SetAmountEntry a amount (newEntry (acc_ID a))")
      case (Inl e)
      with Pair Inr c' show ?thesis by (simp add: ToE_def)
    next
      case e: (Inr e)
      obtain desc where "run_entry_options opts e = Inr (e\<lparr>je_Desc := desc\<rparr>)"
        using run_entry_options_source [OF assms(2)] by blast
      with Pair Inr e c' SetAmountEntry_fields [OF e] show ?thesis
        by (auto simp: ToE_def intro!: fresh_merge)
    qed
  qed
qed

lemma fresh_FromE:
  "fresh_builder c \<Longrightarrow> list_all source_entry_option opts \<Longrightarrow>
     fresh_builder (FromE d acc amount opts c)"
  unfolding FromE_def by (rule fresh_ToE)

lemma fresh_SetE: "fresh_builder c \<Longrightarrow> fresh_builder (SetE d accID credit debit c)"
  by (auto simp: SetE_def Let_def split: option.splits intro!: fresh_merge)

lemma fresh_on_entries:
  assumes "fresh_builder c" and "\<And>e. je_ID (f e) = je_ID e \<and> je_AccountID (f e) = je_AccountID e"
  shows "fresh_builder (on_entries f c)"
  using assms by (auto simp: fresh_builder_def on_entries_def list_all_iff comp_def split_def)

lemma fresh_rollback_loop:
  "fresh_builder c \<Longrightarrow> list_all source_entry_option opts \<Longrightarrow>
     fresh_builder (rollback_loop d opts chs c)"
  by (induction d opts chs c rule: rollback_loop.induct)
     (auto simp: Let_def fresh_ToE fresh_FromE)

text \<open>\<open>built en d c\<close>: the calls of the interface \<open>CreateEntry\<close> can make the builder \<open>c\<close>.\<close>

inductive built :: "env \<Rightarrow> db \<Rightarrow> createEntry \<Rightarrow> bool" for en d where
  new: "built en d (newCreateEntry team user)"
| to: "built en d c \<Longrightarrow> list_all source_entry_option opts \<Longrightarrow> built en d (ToE d acc amount opts c)"
| from_: "built en d c \<Longrightarrow> list_all source_entry_option opts \<Longrightarrow> built en d (FromE d acc amount opts c)"
| set_: "built en d c \<Longrightarrow> built en d (SetE d accID credit debit c)"
| rollback: "built en d c \<Longrightarrow> list_all source_entry_option opts \<Longrightarrow> built en d (RollbackE en d chs opts c)"
| tx: "built en d c \<Longrightarrow> built en d (TransactionE tx c)"
| txid: "built en d c \<Longrightarrow> built en d (TransactionIDE i c)"
| desc: "built en d c \<Longrightarrow> built en d (DescE s c)"
| time: "built en d c \<Longrightarrow> built en d (EntryTimeE t c)"

lemma fresh_new [simp]: "fresh_builder (newCreateEntry team user)"
  by (simp add: fresh_builder_def newCreateEntry_def)

lemma built_fresh: "built en d c \<Longrightarrow> fresh_builder c"
  by (induction rule: built.induct)
     (auto simp: fresh_ToE fresh_FromE fresh_SetE RollbackE_def TransactionE_def TransactionIDE_def
        DescE_def EntryTimeE_def intro!: fresh_on_entries fresh_rollback_loop)

text \<open>
  A run of the ledger: committing builders of whole amounts, in any number and for any
  teams.
\<close>

inductive ledger_run :: "env \<Rightarrow> session \<Rightarrow> session \<Rightarrow> bool" for en where
  stop: "ledger_run en s s"
| commit: "ledger_run en s s' \<Longrightarrow> built en (s_db s') c \<Longrightarrow> whole_builder c \<Longrightarrow>
     list_all source_option opts \<Longrightarrow> Commit en opts c s' = (c', s'') \<Longrightarrow> ledger_run en s s''"

lemma ledger_run_balanced:
  assumes "ledger_run en s s'" and "iter_ok (iter en)" and "trial_balanced (s_db s)"
  shows "trial_balanced (s_db s')"
  using assms
proof (induction rule: ledger_run.induct)
  case (commit s s' c opts c' s'')
  then have "trial_balanced (s_db (snd (Commit en opts c s')))"
    by (intro Commit_balanced) (simp_all add: built_fresh)
  with commit.hyps show ?case by simp
qed

end
