(* ===== verification/CreateTx.thy ===== *)
theory CreateTx
  imports Ledger "HOL-Library.Sublist"
begin

section \<open>Creating a transaction and its labels\<close>

text \<open>
  The builder \<open>createTansactionImpl\<close> of \<open>accounting_core/transaction.go\<close>. Its calls change the
  tables, so they take and return the session; its \<open>labelExtra\<close> is a cell of the session's
  heap because \<open>bookManageImpl\<close> keeps a pointer to it.
\<close>

record createTx =
  ct_err :: "err option"
  ct_tran :: "Transaction option"
  ct_cell :: nat

definition ct_setErr :: "err \<Rightarrow> createTx \<Rightarrow> createTx" where
  "ct_setErr e c = (if ct_err c \<noteq> None then c else c\<lparr>ct_err := Some e\<rparr>)"

interpretation ct: error_latch ct_err ct_setErr
  by unfold_locales (simp_all add: ct_setErr_def)

definition isTransactionEmpty :: "createTx \<Rightarrow> bool" where
  "isTransactionEmpty c = (case ct_tran c of None \<Rightarrow> True | Some t \<Rightarrow> tx_ID t = 0)"

definition tran_ID :: "createTx \<Rightarrow> nat" where
  "tran_ID c = (case ct_tran c of None \<Rightarrow> 0 | Some t \<Rightarrow> tx_ID t)"

definition on_labels :: "(TxLabelExtra \<Rightarrow> TxLabelExtra) \<Rightarrow> createTx \<Rightarrow> session \<Rightarrow> session" where
  "on_labels f c s = s\<lparr>s_cells := (s_cells s)[ct_cell c := f (s_cells s ! ct_cell c)]\<rparr>"

definition on_db :: "(db \<Rightarrow> db) \<Rightarrow> session \<Rightarrow> session" where
  "on_db f s = s\<lparr>s_db := f (s_db s)\<rparr>"

subsection \<open>Saving the transaction row\<close>

text \<open>The unique index \<open>ref_unique\<close> on \<open>ref_id\<close>: another row with the same reference refuses the save.\<close>

definition save_tx :: "env \<Rightarrow> Transaction \<Rightarrow> db \<Rightarrow> err + (Transaction \<times> db)" where
  "save_tx en t d =
     (if \<exists>r \<in> set (db_txs d). tx_RefID r = tx_RefID t \<and> tx_ID r \<noteq> tx_ID t then Inl (ErrDB (uniq_msg en))
      else if tx_ID t = 0 then
        let i = Suc (db_seq d); t' = t\<lparr>tx_ID := i\<rparr>
        in Inr (t', d\<lparr>db_seq := i, db_txs := db_txs d @ [t']\<rparr>)
      else if \<exists>r \<in> set (db_txs d). tx_ID r = tx_ID t then
        Inr (t, d\<lparr>db_txs := map (\<lambda>r. if tx_ID r = tx_ID t then t else r) (db_txs d)\<rparr>)
      else Inr (t, d\<lparr>db_txs := db_txs d @ [t]\<rparr>))"

definition err_text :: "err \<Rightarrow> string" where
  "err_text e = (case e of ErrDB m \<Rightarrow> m | ErrMsg m \<Rightarrow> m | _ \<Rightarrow> [])"

text \<open>
  \<open>Create\<close> writes the id and the creation time through the caller's pointer: the completed
  transaction is returned too.
\<close>

definition CreateT ::
  "env \<Rightarrow> Transaction \<Rightarrow> createTx \<Rightarrow> session \<Rightarrow> Transaction \<times> createTx \<times> session" where
  "CreateT en tran c s =
     (let tran = (if IsZero (tx_Created tran) then tran\<lparr>tx_Created := now en\<rparr> else tran)
      in case save_tx en tran (s_db s) of
           Inl e \<Rightarrow>
             if sublist ''UNIQUE constraint failed'' (err_text e)
             then (tran, ct_setErr ErrTransactionAlreadyExist c, s)
             else (tran, ct_setErr e c, s)
         | Inr (tran, d) \<Rightarrow>
             (tran, c\<lparr>ct_tran := Some tran\<rparr>, s\<lparr>s_db := d, s_labels := Some (ct_cell c)\<rparr>))"

subsection \<open>Labels\<close>

fun type_label_loop :: "nat \<Rightarrow> (LabelKey \<times> string) list \<Rightarrow> db \<Rightarrow> db" where
  "type_label_loop txID [] d = d"
| "type_label_loop txID ((key, label) # ls) d =
     (case find (\<lambda>l. tl_Key l = key \<and> tl_Label l = label) (db_type_labels d) of
        Some l \<Rightarrow>
          type_label_loop txID ls
            (d\<lparr>db_tx_type_labels := save_rel (txID, tl_ID l) (db_tx_type_labels d)\<rparr>)
      | None \<Rightarrow>
          let i = Suc (db_seq d);
              d = d\<lparr>db_seq := i,
                    db_type_labels := db_type_labels d @
                      [\<lparr>tl_ID = i, tl_Key = key, tl_Label = label\<rparr>]\<rparr>
          in type_label_loop txID ls
               (d\<lparr>db_tx_type_labels := save_rel (txID, i) (db_tx_type_labels d)\<rparr>))"

definition AddTypeLabel ::
  "(LabelKey \<times> string) list \<Rightarrow> createTx \<Rightarrow> session \<Rightarrow> createTx \<times> session" where
  "AddTypeLabel labels c s =
     (if isTransactionEmpty c then (ct_setErr ErrTransactionNotCreated c, s)
      else (c, on_db (type_label_loop (tran_ID c) labels) s))"

definition AddCustomerServiceID :: "nat \<Rightarrow> createTx \<Rightarrow> session \<Rightarrow> createTx \<times> session" where
  "AddCustomerServiceID csID c s =
     (if isTransactionEmpty c then (ct_setErr ErrTransactionNotCreated c, s)
      else (c, on_labels (\<lambda>l. l\<lparr>le_CsID := csID\<rparr>) c
                 (on_db (\<lambda>d. d\<lparr>db_tx_cs := save_rel (tran_ID c, csID) (db_tx_cs d)\<rparr>) s)))"

definition AddSupplierID :: "nat \<Rightarrow> createTx \<Rightarrow> session \<Rightarrow> createTx \<times> session" where
  "AddSupplierID supID c s =
     (if isTransactionEmpty c then (ct_setErr ErrTransactionNotCreated c, s)
      else (c, on_labels (\<lambda>l. l\<lparr>le_SupplierID := supID\<rparr>) c
                 (on_db (\<lambda>d. d\<lparr>db_tx_suppliers := save_rel (tran_ID c, supID) (db_tx_suppliers d)\<rparr>) s)))"

text \<open>
  \<open>AddTags\<close>: the names are sanitized; the rows of the known ones are fetched, the others are
  created one by one under the unique index \<open>name\<close>; a failure undoes the tag rows.
\<close>

fun create_tags ::
  "env \<Rightarrow> (string \<Rightarrow> bool) \<Rightarrow> string list \<Rightarrow> AccountingTag list \<Rightarrow> db \<Rightarrow> err + (AccountingTag list \<times> db)"
  where
  "create_tags en known [] tags d = Inr (tags, d)"
| "create_tags en known (tname # tnames) tags d =
     (if known tname then create_tags en known tnames tags d
      else if \<exists>t \<in> set (db_tags d). tag_Name t = SanityTag tname then Inl (ErrDB (uniq_msg en))
      else
        let i = Suc (db_seq d); tag = \<lparr>tag_ID = i, tag_Name = SanityTag tname\<rparr>
        in create_tags en known tnames (tags @ [tag])
             (d\<lparr>db_seq := i, db_tags := db_tags d @ [tag]\<rparr>))"

definition AddTags :: "env \<Rightarrow> string list \<Rightarrow> createTx \<Rightarrow> session \<Rightarrow> createTx \<times> session" where
  "AddTags en tnames c s =
     (if isTransactionEmpty c then (ct_setErr ErrTransactionNotCreated c, s)
      else if tnames = [] then (c, s)
      else
        let tnames = map SanityTag tnames;
            found = filter (\<lambda>t. tag_Name t \<in> set tnames) (db_tags (s_db s));
            known = (\<lambda>n. n \<in> tag_Name ` set found)
        in case create_tags en known tnames found (s_db s) of
             Inl e \<Rightarrow> (ct_setErr e c, s)
           | Inr (tags, d) \<Rightarrow>
               (c, on_labels (\<lambda>l. l\<lparr>le_TagIDs := le_TagIDs l @ map tag_ID tags\<rparr>) c
                     (s\<lparr>s_db := d\<lparr>db_tx_tags :=
                        fold (\<lambda>t rs. save_rel (tran_ID c, tag_ID t) rs) tags (db_tx_tags d)\<rparr>\<rparr>)))"

definition mp_source :: "env \<Rightarrow> string \<Rightarrow> MarketplaceType" where
  "mp_source en mp =
     (if mp = MpConst en MARKETPLACE_TYPE_TOKOPEDIA then MARKETPLACE_TYPE_TOKOPEDIA
      else if mp = MpConst en MARKETPLACE_TYPE_SHOPEE then MARKETPLACE_TYPE_SHOPEE
      else if mp = MpConst en MARKETPLACE_TYPE_TIKTOK then MARKETPLACE_TYPE_TIKTOK
      else if mp = MpConst en MARKETPLACE_TYPE_MENGANTAR then MARKETPLACE_TYPE_MENGANTAR
      else if mp = MpConst en MARKETPLACE_TYPE_LAZADA then MARKETPLACE_TYPE_LAZADA
      else MARKETPLACE_TYPE_CUSTOM)"

definition AddShopID :: "env \<Rightarrow> nat \<Rightarrow> createTx \<Rightarrow> session \<Rightarrow> createTx \<times> session" where
  "AddShopID en shopID c s =
     (if isTransactionEmpty c then (ct_setErr ErrTransactionNotCreated c, s)
      else if shopID = 0 then (ct_setErr (ErrMsg ''shop id is null'') c, s)
      else
        (case map_of (db_marketplaces (s_db s)) shopID of
           None \<Rightarrow> (ct_setErr ErrRecordNotFound c, s)
         | Some mp \<Rightarrow>
             let s = on_db (\<lambda>d. d\<lparr>db_tx_shops := save_rel (tran_ID c, shopID) (db_tx_shops d)\<rparr>) s;
                 s = on_labels (\<lambda>l. l\<lparr>le_ShopID := shopID\<rparr>) c s;
                 (c, s) = AddTypeLabel
                   [(LABEL_KEY_MARKETPLACE, MarketplaceType_name en (mp_source en mp))] c s
             in AddTags en [mp] c s))"

text \<open>The end of a chain: \<open>.Err()\<close>.\<close>

definition ct_errA :: "createTx \<Rightarrow> unit action" where
  "ct_errA c = checkA (ct_err c)"

subsection \<open>Errors are latched, a failed Create disables the rest\<close>

lemma AddTypeLabel_err [simp]: "ct_err c = Some e \<Longrightarrow> ct_err (fst (AddTypeLabel ls c s)) = Some e"
  by (simp add: AddTypeLabel_def ct_setErr_def)

lemma AddCustomerServiceID_err [simp]:
  "ct_err c = Some e \<Longrightarrow> ct_err (fst (AddCustomerServiceID i c s)) = Some e"
  by (simp add: AddCustomerServiceID_def ct_setErr_def)

lemma AddSupplierID_err [simp]:
  "ct_err c = Some e \<Longrightarrow> ct_err (fst (AddSupplierID i c s)) = Some e"
  by (simp add: AddSupplierID_def ct_setErr_def)

lemma AddTags_err [simp]: "ct_err c = Some e \<Longrightarrow> ct_err (fst (AddTags en ts c s)) = Some e"
  by (simp add: AddTags_def ct_setErr_def Let_def split: sum.splits prod.splits)

lemma AddShopID_err [simp]: "ct_err c = Some e \<Longrightarrow> ct_err (fst (AddShopID en i c s)) = Some e"
  by (simp add: AddShopID_def AddTypeLabel_def AddTags_def ct_setErr_def Let_def
      split: sum.splits prod.splits option.splits)

lemma empty_frame:
  assumes "isTransactionEmpty c"
  shows "snd (AddTypeLabel ls c s) = s" "snd (AddCustomerServiceID i c s) = s"
    "snd (AddSupplierID i c s) = s" "snd (AddTags en ts c s) = s" "snd (AddShopID en j c s) = s"
  using assms
  by (simp_all add: AddTypeLabel_def AddCustomerServiceID_def AddSupplierID_def AddTags_def
      AddShopID_def)

lemma type_label_loop_frame [frame]:
  "db_entries (type_label_loop i ls d) = db_entries d"
  "db_accounts (type_label_loop i ls d) = db_accounts d"
  "db_txs (type_label_loop i ls d) = db_txs d"
  by (induction i ls d rule: type_label_loop.induct) (simp_all add: Let_def split: option.splits)

lemma create_tags_frame [frame]:
  "create_tags en known ns tags d = Inr (tags', d') \<Longrightarrow>
     db_entries d' = db_entries d \<and> db_accounts d' = db_accounts d \<and> db_txs d' = db_txs d"
  by (induction en known ns tags d rule: create_tags.induct) (auto simp: Let_def split: if_splits)

end
