(* ===== verification/Book.thy ===== *)
theory Book
  imports CreateTx
begin

section \<open>The book manager and OpenTransaction\<close>

text \<open>
  \<open>accounting_core/accounting_manage.go\<close>: a service handler runs inside a database transaction
  with a book manager that collects the entries it commits; when it succeeds the collected
  entries go to the registered handlers as one message.
\<close>

subsection \<open>The book manager\<close>

definition NewTransaction :: "session \<Rightarrow> createTx \<times> session" where
  "NewTransaction s =
     (\<lparr>ct_err = None, ct_tran = None, ct_cell = length (s_cells s)\<rparr>,
      s\<lparr>s_cells := s_cells s @ [emptyLabel]\<rparr>)"

definition LabelExtra :: "session \<Rightarrow> TxLabelExtra option" where
  "LabelExtra s = map_option (\<lambda>i. s_cells s ! i) (s_labels s)"

definition entry_payload :: "JournalEntry \<Rightarrow> EntryPayload" where
  "entry_payload e =
     \<lparr>ep_Id = je_ID e, ep_TransactionId = je_TransactionID e, ep_Desc = je_Desc e,
      ep_AccountId = je_AccountID e, ep_TeamId = je_TeamID e, ep_Debit = je_Debit e,
      ep_Credit = je_Credit e, ep_EntryTime = AsUTC (je_EntryTime e), ep_Rollback = je_Rollback e\<rparr>"

definition DailyUpdateData :: "session \<Rightarrow> DailyUpdateBalanceRequest" where
  "DailyUpdateData s =
     \<lparr>dr_Entries = map entry_payload (s_entries s),
      dr_LabelExtra =
        (case LabelExtra s of
           None \<Rightarrow> emptyReportLabel
         | Some l \<Rightarrow> \<lparr>rl_ShopId = le_ShopID l, rl_CsId = le_CsID l, rl_SupplierId = le_SupplierID l,
                       rl_TagIds = le_TagIDs l, rl_TypeLabels = []\<rparr>)\<rparr>"

subsection \<open>OpenTransaction\<close>

fun dispatch :: "(string \<times> CustomHandler) list \<Rightarrow> DailyUpdateBalanceRequest \<Rightarrow> unit action" where
  "dispatch [] updata s = (Inr (), s)"
| "dispatch ((name, handler) # hs) updata s =
     (let s = s\<lparr>s_outbox := s_outbox s @ [(name, updata)]\<rparr>
      in case handler updata of
           Some e \<Rightarrow> (Inl e, s)
         | None \<Rightarrow> dispatch hs updata s)"

text \<open>
  The body of the database transaction: run the handler with an empty book, then refuse an
  empty book and entries that were not saved.
\<close>

definition tx_body :: "'a action \<Rightarrow> ('a \<times> DailyUpdateBalanceRequest) action" where
  "tx_body handle s =
     (case handle (s\<lparr>s_labels := None, s_entries := []\<rparr>) of
        (Inl e, s) \<Rightarrow> (Inl e, s)
      | (Inr x, s) \<Rightarrow>
          if s_entries s = [] then (Inl (ErrMsg ''entries empty in ending transaction''), s)
          else case find (\<lambda>e. je_ID e = 0) (s_entries s) of
                 Some e \<Rightarrow> (Inl (ErrMsg (''theres entry not save desc '' @ je_Desc e)), s)
               | None \<Rightarrow> (Inr (x, DailyUpdateData s), s))"

text \<open>
  The result is \<open>None\<close> when the handler skipped the transaction. The book of an enclosing
  \<open>OpenTransaction\<close> is not this one's: it is put back at the end.
\<close>

definition OpenTransaction :: "env \<Rightarrow> 'a action \<Rightarrow> 'a option action" where
  "OpenTransaction en handle s =
     (let restore = (\<lambda>s'. s'\<lparr>s_labels := s_labels s, s_entries := s_entries s\<rparr>)
      in case transactionA (tx_body handle) s of
           (Inl e, s') \<Rightarrow>
             if e = ErrSkipTransaction then (Inr None, restore s') else (Inl e, restore s')
         | (Inr (x, updata), s') \<Rightarrow>
             (case dispatch (customHandler en) updata (restore s') of
                (Inl e, s'') \<Rightarrow> (Inl e, s'')
              | (Inr _, s'') \<Rightarrow> (Inr (Some x), s'')))"

lemma dispatch_db [simp]: "s_db (snd (dispatch hs updata s)) = s_db s"
  by (induction hs updata s rule: dispatch.induct) (simp_all add: Let_def split: option.splits)

lemma dispatch_book [simp]: "s_labels (snd (dispatch hs updata s)) = s_labels s"
  "s_entries (snd (dispatch hs updata s)) = s_entries s"
  "s_cells (snd (dispatch hs updata s)) = s_cells s"
  by (induction hs updata s rule: dispatch.induct) (simp_all add: Let_def split: option.splits)

lemma dispatch_outbox:
  "dispatch hs updata s = (Inr (), s') \<Longrightarrow>
     s_outbox s' = s_outbox s @ map (\<lambda>(name, h). (name, updata)) hs \<and>
     list_all (\<lambda>(name, h). h updata = None) hs"
  by (induction hs updata s rule: dispatch.induct) (auto simp: Let_def split: option.splits)

text \<open>The book the handler starts with, and the one put back at the end.\<close>

definition open_book :: "session \<Rightarrow> session" where
  "open_book s = s\<lparr>s_labels := None, s_entries := []\<rparr>"

definition restore_book :: "session \<Rightarrow> session \<Rightarrow> session" where
  "restore_book s s' = s'\<lparr>s_labels := s_labels s, s_entries := s_entries s\<rparr>"

lemma book_db [simp]: "s_db (open_book s) = s_db s" "s_db (restore_book s s') = s_db s'"
  "s_outbox (open_book s) = s_outbox s" "s_outbox (restore_book s s') = s_outbox s'"
  "s_entries (open_book s) = []" "s_cells (open_book s) = s_cells s"
  by (simp_all add: open_book_def restore_book_def)

lemma tx_body_Inr:
  "tx_body h s = (Inr r, s') \<longleftrightarrow>
     (\<exists>x. h (open_book s) = (Inr x, s') \<and> s_entries s' \<noteq> [] \<and> (\<forall>e \<in> set (s_entries s'). je_ID e \<noteq> 0) \<and>
        r = (x, DailyUpdateData s'))"
  unfolding tx_body_def open_book_def [symmetric]
  by (cases "h (open_book s)"; cases "fst (h (open_book s))")
     (auto simp: find_None_iff split: option.splits dest: find_SomeD)

lemma OpenTransaction_Some:
  "OpenTransaction en h s = (Inr (Some x), s') \<longleftrightarrow>
     (\<exists>s1. tx_body h s = (Inr (x, DailyUpdateData s1), s1) \<and>
        dispatch (customHandler en) (DailyUpdateData s1) (restore_book s s1) = (Inr (), s'))"
proof (cases "tx_body h s")
  case (Pair r s2)
  show ?thesis
  proof (cases r)
    case (Inl e)
    then have "transactionA (tx_body h) s = (Inl e, s2\<lparr>s_db := s_db s\<rparr>)"
      using Pair by (simp add: transactionA_def)
    then show ?thesis by (simp add: OpenTransaction_def Pair Inl)
  next
    case (Inr xu)
    obtain y u where xu: "xu = (y, u)" by (cases xu)
    have t: "transactionA (tx_body h) s = (Inr (y, u), s2)" using Pair Inr xu by simp
    from Pair Inr xu have u: "u = DailyUpdateData s2" by (auto simp: tx_body_Inr)
    show ?thesis
      by (cases "dispatch (customHandler en) u (restore_book s s2)")
         (auto simp: OpenTransaction_def t Pair Inr xu u restore_book_def split: sum.splits)
  qed
qed

lemma tx_body_Inl:
  assumes "tx_body h s = (Inl e, s')"
  shows "h (open_book s) = (Inl e, s') \<or> (\<exists>m. e = ErrMsg m)"
proof (cases "h (open_book s)")
  case (Pair r s1)
  with assms show ?thesis
    unfolding tx_body_def open_book_def [symmetric]
    by (cases r) (auto split: if_splits option.splits)
qed

text \<open>What a failing handler makes of the whole.\<close>

lemma OpenTransaction_Inl:
  assumes "tx_body h s = (Inl e, s1)"
  shows "OpenTransaction en h s =
    (if e = ErrSkipTransaction then Inr None else Inl e, restore_book s (s1\<lparr>s_db := s_db s\<rparr>))"
  using assms by (simp add: OpenTransaction_def transactionA_def restore_book_def)

lemma OpenTransaction_None:
  assumes "OpenTransaction en h s = (Inr None, s')"
  shows "s_db s' = s_db s" and "\<exists>s1. h (open_book s) = (Inl ErrSkipTransaction, s1)"
proof -
  obtain r s1 where b: "tx_body h s = (r, s1)" by (cases "tx_body h s")
  have "r = Inl ErrSkipTransaction"
  proof (cases r)
    case (Inl e)
    with OpenTransaction_Inl [of h s e s1 en] b assms show ?thesis by (simp split: if_splits)
  next
    case (Inr xu)
    then have "transactionA (tx_body h) s = (Inr (fst xu, snd xu), s1)" using b by simp
    with assms show ?thesis
      by (simp add: OpenTransaction_def Let_def split: prod.splits sum.splits)
  qed
  with b have e: "tx_body h s = (Inl ErrSkipTransaction, s1)" by simp
  from OpenTransaction_Inl [OF e, of en] assms show "s_db s' = s_db s" by simp
  from tx_body_Inl [OF e] show "\<exists>s1. h (open_book s) = (Inl ErrSkipTransaction, s1)" by auto
qed

lemma OpenTransaction_Some_db:
  assumes "OpenTransaction en h s = (Inr (Some x), s')"
  obtains s1 where "h (open_book s) = (Inr x, s1)" and "s_db s' = s_db s1"
    and "s_entries s1 \<noteq> []" and "\<forall>e \<in> set (s_entries s1). je_ID e \<noteq> 0"
    and "s_outbox s' = s_outbox s1 @ map (\<lambda>(name, h). (name, DailyUpdateData s1)) (customHandler en)"
proof -
  from assms obtain s1 where b: "tx_body h s = (Inr (x, DailyUpdateData s1), s1)"
    and d: "dispatch (customHandler en) (DailyUpdateData s1) (restore_book s s1) = (Inr (), s')"
    by (auto simp: OpenTransaction_Some)
  have "s_db s' = s_db s1"
    using dispatch_db [of "customHandler en" "DailyUpdateData s1" "restore_book s s1"]
    by (simp add: d)
  moreover have "s_outbox s' =
      s_outbox s1 @ map (\<lambda>(name, h). (name, DailyUpdateData s1)) (customHandler en)"
    using dispatch_outbox [OF d] by simp
  ultimately show thesis using that b by (auto simp: tx_body_Inr)
qed

lemma OpenTransaction_skip:
  assumes "h (open_book s) = (Inl ErrSkipTransaction, s1)"
  shows "\<exists>s'. OpenTransaction en h s = (Inr None, s')"
proof -
  from assms have "tx_body h s = (Inl ErrSkipTransaction, s1)"
    by (simp add: tx_body_def open_book_def)
  from OpenTransaction_Inl [OF this] show ?thesis by simp
qed

lemma DailyUpdateData_entries: "dr_Entries (DailyUpdateData s) = map entry_payload (s_entries s)"
  by (simp add: DailyUpdateData_def)

lemma dispatch_error:
  "dispatch hs updata s = (Inl e, s') \<Longrightarrow> \<exists>(name, h) \<in> set hs. h updata = Some e"
  by (induction hs updata s rule: dispatch.induct) (auto simp: Let_def split: option.splits)

lemma OpenTransaction_error_cases:
  assumes "OpenTransaction en h s = (Inl e, s')"
  shows "s_db s' = s_db s \<or>
    (\<exists>x s1. h (open_book s) = (Inr x, s1) \<and> s_db s' = s_db s1 \<and>
       (\<exists>(name, hd) \<in> set (customHandler en). hd (DailyUpdateData s1) = Some e))"
proof -
  obtain r s1 where b: "tx_body h s = (r, s1)" by (cases "tx_body h s")
  show ?thesis
  proof (cases r)
    case (Inl e')
    with OpenTransaction_Inl [of h s e' s1 en] b assms show ?thesis by auto
  next
    case (Inr xu)
    obtain x u where xu: "xu = (x, u)" by (cases xu)
    from b Inr xu have h: "h (open_book s) = (Inr x, s1)" and u: "u = DailyUpdateData s1"
      by (auto simp: tx_body_Inr)
    have t: "transactionA (tx_body h) s = (Inr (x, u), s1)" using b Inr xu by simp
    obtain dr ds where d: "dispatch (customHandler en) u (restore_book s s1) = (dr, ds)"
      by (cases "dispatch (customHandler en) u (restore_book s s1)")
    with assms t have e: "dr = Inl e" "s' = ds"
      by (auto simp: OpenTransaction_def restore_book_def split: sum.splits)
    have "s_db s' = s_db s1"
      using dispatch_db [of "customHandler en" u "restore_book s s1"] by (simp add: d e)
    with h dispatch_error [OF d [unfolded e(1)]] show ?thesis by (auto simp: u)
  qed
qed

end
