(* ===== verification/Mutation.thy ===== *)
theory Mutation
  imports Book
begin

section \<open>Loading, checking and rolling back a transaction\<close>

text \<open>
  \<open>transactionMutationImpl\<close> of \<open>accounting_core/transaction.go\<close>: a transaction is loaded by its
  reference, its entries can be checked, and \<open>RollbackEntry\<close> books the opposite of every
  account's net change in every team's book.
\<close>

record txMut =
  tm_data :: "Transaction option"
  tm_err :: "err option"

definition NewTransactionMutation :: txMut where
  "NewTransactionMutation = \<lparr>tm_data = None, tm_err = None\<rparr>"

definition tm_setErr :: "err \<Rightarrow> txMut \<Rightarrow> txMut" where
  "tm_setErr e t = (if tm_err t \<noteq> None then t else t\<lparr>tm_err := Some e\<rparr>)"

interpretation tm: error_latch tm_err tm_setErr
  by unfold_locales (simp_all add: tm_setErr_def)

definition emptyTransaction :: Transaction where
  "emptyTransaction = \<lparr>tx_ID = 0, tx_RefID = [], tx_TeamID = 0, tx_CreatedByID = 0,
     tx_OrderID = None, tx_Desc = [], tx_Created = zeroTime\<rparr>"

text \<open>The lock clause of \<open>ByRefID\<close> changes which other sessions wait, not what is read.\<close>

definition ByRefID :: "RefID \<Rightarrow> db \<Rightarrow> txMut \<Rightarrow> txMut" where
  "ByRefID refid d t =
     (case find (\<lambda>r. tx_RefID r = refid) (db_txs d) of
        Some r \<Rightarrow>
          (if tx_ID r = 0 then tm_setErr ErrTransactionNotFound (t\<lparr>tm_data := Some r\<rparr>)
           else t\<lparr>tm_data := Some r\<rparr>)
      | None \<Rightarrow> tm_setErr ErrTransactionNotFound (t\<lparr>tm_data := Some emptyTransaction\<rparr>))"

definition IsExist :: "txMut \<Rightarrow> err + bool" where
  "IsExist t = (case tm_data t of
     None \<Rightarrow> Inl (Panic ''nil pointer dereference'')
   | Some r \<Rightarrow> Inr (tx_ID r \<noteq> 0))"

definition CheckEntry :: "env \<Rightarrow> db \<Rightarrow> txMut \<Rightarrow> txMut" where
  "CheckEntry en d t =
     (case tm_data t of
        None \<Rightarrow> tm_setErr (ErrMsg ''data transaction data not loaded'') t
      | Some r \<Rightarrow>
          (case AccountBalance (entries_of_tx d (tx_ID r)) of
             Inl e \<Rightarrow> tm_setErr e t
           | Inr mapBalances \<Rightarrow>
               let bs = map snd (range_map (iter en) mapBalances);
                   debit = foldl (+) 0 (map cb_Debit bs);
                   credit = foldl (+) 0 (map cb_Credit bs)
               in if CompareFloatSafe debit credit PrecisionEpsilon then t
                  else tm_setErr (ErrEntryInvalid debit credit) t))"

subsection \<open>RollbackEntry\<close>

text \<open>\<open>teamEntries\<close>: the entries grouped by the team whose book they are in.\<close>

fun group_by_team ::
  "(nat \<times> JournalEntry list) list \<Rightarrow> JournalEntry list \<Rightarrow> (nat \<times> JournalEntry list) list" where
  "group_by_team m [] = m"
| "group_by_team m (e # es) =
     (let old = (case map_of m (je_TeamID e) of Some xs \<Rightarrow> xs | None \<Rightarrow> [])
      in group_by_team (alist_upd (je_TeamID e) (old @ [e]) m) es)"

definition reverse_account ::
  "db \<Rightarrow> nat \<times> ChangeBalance \<Rightarrow> createEntry \<Rightarrow> createEntry" where
  "reverse_account d ac c =
     (case ac of (accID, accentries) \<Rightarrow>
       let diff = Change accentries; bt = acc_BalanceType (cb_Account accentries)
       in if bt = DebitBalance then
            (let c = (if diff > 0 then SetE d accID diff 0 c else c)
             in if diff < 0 then SetE d accID 0 \<bar>diff\<bar> c else c)
          else if bt = CreditBalance then
            (let c = (if diff > 0 then SetE d accID 0 diff c else c)
             in if diff < 0 then SetE d accID \<bar>diff\<bar> 0 c else c)
          else c)"

text \<open>The second loop: one builder per team, filled from the team's account balances.\<close>

fun reverse_teams ::
  "env \<Rightarrow> db \<Rightarrow> nat \<Rightarrow> (nat \<times> JournalEntry list) list \<Rightarrow> (nat \<times> createEntry) list \<Rightarrow>
   err + (nat \<times> createEntry) list" where
  "reverse_teams en d userID [] books = Inr books"
| "reverse_teams en d userID ((teamID, tentries) # ts) books =
     (case AccountBalance tentries of
        Inl e \<Rightarrow> Inl e
      | Inr accBalance \<Rightarrow>
          let book = (case map_of books teamID of
                        Some b \<Rightarrow> b | None \<Rightarrow> newCreateEntry teamID userID)
          in reverse_teams en d userID ts
               (alist_upd teamID
                  (fold (reverse_account d) (range_map (iter en) accBalance) book) books))"

definition rollback_handle ::
  "env \<Rightarrow> nat \<Rightarrow> string \<Rightarrow> nat \<Rightarrow> JournalEntry list \<Rightarrow> unit action" where
  "rollback_handle en userID desc txID entries =
     (let teamEntries = group_by_team [] entries;
          teamBookEntry = map (\<lambda>(team, _). (team, newCreateEntry team userID)) teamEntries
      in bindA (readA (\<lambda>d. reverse_teams en d userID (range_map (iter en) teamEntries) teamBookEntry))
           (\<lambda>r. case r of
              Inl e \<Rightarrow> failA e
            | Inr books \<Rightarrow>
                forA (range_map (iter en) books)
                  (\<lambda>(team, nentries).
                     commitA en [RollbackOption] (DescE desc (TransactionIDE txID nentries)))))"

definition RollbackEntry :: "env \<Rightarrow> nat \<Rightarrow> string \<Rightarrow> txMut \<Rightarrow> session \<Rightarrow> txMut \<times> session" where
  "RollbackEntry en userID desc t s =
     (case tm_data t of
        None \<Rightarrow> (tm_setErr ErrTransactionNotLoaded t, s)
      | Some r \<Rightarrow>
          let entries = entries_of_tx (s_db s) (tx_ID r)
          in if entries = [] then
               (tm_setErr (ErrMsg ''entries on transaction is empty'') t, s)
             else
               (case OpenTransaction en (rollback_handle en userID desc (tx_ID r) entries) s of
                  (Inl e, s') \<Rightarrow> (tm_setErr e t, s')
                | (Inr _, s') \<Rightarrow> (t, s')))"

subsection \<open>Grouping\<close>

lemma group_by_team_lookup:
  "map_of (group_by_team m es) t =
     (let xs = filter (\<lambda>e. je_TeamID e = t) es
      in case map_of m t of
           Some ys \<Rightarrow> Some (ys @ xs)
         | None \<Rightarrow> if xs = [] then None else Some xs)"
  by (induction m es rule: group_by_team.induct)
     (auto simp: Let_def map_of_alist_upd split: option.splits)

lemma group_by_team_distinct:
  "distinct (map fst m) \<Longrightarrow> distinct (map fst (group_by_team m es))"
  by (induction m es rule: group_by_team.induct) (simp_all add: Let_def distinct_alist_upd)

end
