(* ===== verification/Rollback.thy ===== *)
theory Rollback
  imports Mutation
begin

section \<open>RollbackEntry cancels a transaction\<close>

text \<open>
  After a successful \<open>RollbackEntry\<close> the entries of the transaction sum to zero for every team
  and account. The proof follows the code: \<open>AccountBalance\<close> sums per account, the builder of
  a team gets the reversed difference of every account, and the commits append these rows.
\<close>

subsection \<open>AccountBalance is a per-account sum\<close>

definition on_account :: "nat \<Rightarrow> JournalEntry list \<Rightarrow> JournalEntry list" where
  "on_account a es = filter (\<lambda>e. je_AccountID e = a) es"

lemma AccountBalance_from_error:
  "(\<exists>e. AccountBalance_from m es = Inl e) \<longleftrightarrow> (\<exists>e \<in> set es. je_Account e = None)"
  by (induction m es rule: AccountBalance_from.induct) (auto simp: Let_def split: option.splits)

lemma AccountBalance_from_distinct:
  "AccountBalance_from m es = Inr m' \<Longrightarrow> distinct (map fst m) \<Longrightarrow> distinct (map fst m')"
  by (induction m es rule: AccountBalance_from.induct)
     (auto simp: Let_def distinct_alist_upd split: option.splits)

definition balance_of :: "JournalEntry list \<Rightarrow> ChangeBalance" where
  "balance_of xs = \<lparr>cb_Account = the (je_Account (hd xs)),
     cb_Debit = foldl (+) 0 (map je_Debit xs), cb_Credit = foldl (+) 0 (map je_Credit xs)\<rparr>"

lemma AccountBalance_from_lookup:
  "AccountBalance_from m es = Inr m' \<Longrightarrow>
   map_of m' a =
     (let xs = on_account a es
      in case map_of m a of
           Some c \<Rightarrow> Some (c\<lparr>cb_Debit := foldl (+) (cb_Debit c) (map je_Debit xs),
                            cb_Credit := foldl (+) (cb_Credit c) (map je_Credit xs)\<rparr>)
         | None \<Rightarrow> if xs = [] then None else Some (balance_of xs))"
proof (induction m es rule: AccountBalance_from.induct)
  case (1 m)
  then show ?case by (simp add: on_account_def split: option.splits)
next
  case (2 m en ens)
  then obtain acc where acc: "je_Account en = Some acc" by (auto split: option.splits)
  let ?c = "case map_of m (je_AccountID en) of
      Some c \<Rightarrow> c | None \<Rightarrow> \<lparr>cb_Account = acc, cb_Debit = 0, cb_Credit = 0\<rparr>"
  from "2.prems" acc have "AccountBalance_from
      (alist_upd (je_AccountID en) (?c\<lparr>cb_Debit := cb_Debit ?c + je_Debit en,
         cb_Credit := cb_Credit ?c + je_Credit en\<rparr>) m) ens = Inr m'"
    by (simp add: Let_def)
  note IH = "2.IH" [OF acc refl this]
  show ?case
    unfolding IH
    by (cases "map_of m (je_AccountID en)")
       (auto simp: on_account_def balance_of_def acc Let_def map_of_alist_upd split: option.splits)
qed

lemma AccountBalance_lookup:
  assumes "AccountBalance es = Inr m"
  shows "map_of m a = (if on_account a es = [] then None else Some (balance_of (on_account a es)))"
  using AccountBalance_from_lookup [of "[]" es m a] assms
  by (simp add: AccountBalance_def Let_def)

lemma AccountBalance_distinct: "AccountBalance es = Inr m \<Longrightarrow> distinct (map fst m)"
  using AccountBalance_from_distinct [of "[]" es m] by (simp add: AccountBalance_def)

subsection \<open>Net amounts\<close>

text \<open>Debit minus credit of the rows of one transaction, in one team's book, on one account.\<close>

definition net :: "nat \<Rightarrow> nat \<Rightarrow> nat \<Rightarrow> JournalEntry list \<Rightarrow> rat" where
  "net tx team a es = sum_list (map (\<lambda>e. val (je_Debit e) - val (je_Credit e))
     (filter (\<lambda>e. je_TransactionID e = tx \<and> je_TeamID e = team \<and> je_AccountID e = a) es))"

lemma net_simps [simp]: "net tx team a [] = 0"
  "net tx team a (e # es) =
     (if je_TransactionID e = tx \<and> je_TeamID e = team \<and> je_AccountID e = a
      then val (je_Debit e) - val (je_Credit e) else 0) + net tx team a es"
  "net tx team a (xs @ ys) = net tx team a xs + net tx team a ys"
  by (simp_all add: net_def)

lemma net_number_rows [simp]: "net tx team a (number_rows n es) = net tx team a es"
  by (induction n es rule: number_rows.induct) simp_all

lemma net_insert_rows:
  "net tx team a (db_entries (insert_rows es d)) = net tx team a (db_entries d) + net tx team a es"
  by (simp add: insert_rows_def)

lemma net_rows_of: "net tx team a (rows_of incl e) =
  (if je_TransactionID e = tx \<and> je_TeamID e = team \<and> je_AccountID e = a
   then val (je_Debit e) - val (je_Credit e) else 0)"
  by (simp add: rows_of_def)

text \<open>The pending amount of a builder on an account.\<close>

definition pending :: "nat \<Rightarrow> createEntry \<Rightarrow> rat" where
  "pending a c = (case map_of (ce_entries c) a of None \<Rightarrow> 0
     | Some e \<Rightarrow> val (je_Debit e) - val (je_Credit e))"

lemma pending_new [simp]: "pending a (newCreateEntry team u) = 0"
  by (simp add: pending_def newCreateEntry_def)

lemma net_concat_rows:
  assumes "distinct (map fst kes)"
    and "\<And>k e. (k, e) \<in> set kes \<Longrightarrow> je_TransactionID (g e) = tx \<and> je_TeamID (g e) = t \<and>
          je_AccountID (g e) = k \<and> je_Debit (g e) = je_Debit e \<and> je_Credit (g e) = je_Credit e"
  shows "net tx team a (concat (map (\<lambda>(k, e). rows_of incl (g e)) kes)) =
    (if team = t then
       (case map_of kes a of None \<Rightarrow> 0 | Some e \<Rightarrow> val (je_Debit e) - val (je_Credit e)) else 0)"
  using assms
proof (induction kes)
  case (Cons ke kes)
  obtain k e where ke: "ke = (k, e)" by (cases ke)
  with Cons.prems(1) have "map_of kes k = None" by (simp add: map_of_eq_None_iff)
  moreover have "net tx team a (concat (map (\<lambda>(k, e). rows_of incl (g e)) kes)) =
    (if team = t then
       (case map_of kes a of None \<Rightarrow> 0 | Some e \<Rightarrow> val (je_Debit e) - val (je_Credit e)) else 0)"
    using Cons.prems by (intro Cons.IH) auto
  ultimately show ?case using Cons.prems(2) [of k e] by (auto simp: ke net_rows_of)
qed simp

subsection \<open>One commit of a rollback\<close>

definition rollback_book :: "nat \<Rightarrow> string \<Rightarrow> createEntry \<Rightarrow> createEntry" where
  "rollback_book txID desc c = DescE desc (TransactionIDE txID c)"

lemma rollback_book_entries:
  "ce_entries (rollback_book txID desc c) =
     map (\<lambda>(k, e). (k, e\<lparr>je_TransactionID := txID,
                        je_Desc := (if je_Desc e = [] then desc else je_Desc e)\<rparr>)) (ce_entries c)"
  by (simp add: rollback_book_def DescE_def TransactionIDE_def isEntryEmpty_def on_entries_def
      ce_setErr_def split_def)

lemma rollback_book_team [simp]: "ce_teamID (rollback_book txID desc c) = ce_teamID c"
  by (simp add: rollback_book_def DescE_def TransactionIDE_def on_entries_def ce_setErr_def)

lemma fresh_rollback_book: "fresh_builder c \<Longrightarrow> fresh_builder (rollback_book txID desc c)"
  by (simp add: rollback_book_def DescE_def TransactionIDE_def fresh_on_entries)

lemma plain_rollback: "plain_opts [RollbackOption] False (\<lambda>e. e\<lparr>je_Rollback := True\<rparr>)"
  using plain_opts_Rollback [OF plain_opts_Nil] by simp

lemma pending_rollback_book: "pending a (rollback_book txID desc c) = pending a c"
  by (simp add: pending_def rollback_book_entries map_of_map split: option.splits)

lemma net_commit_rollback:
  assumes it: "iter_ok (iter en)" and c: "fresh_builder c"
  shows "net tx team a (commit_rows en False (\<lambda>e. e\<lparr>je_Rollback := True\<rparr>) (rollback_book tx desc c)) =
    (if team = ce_teamID c then pending a c else 0)"
proof -
  let ?c = "rollback_book tx desc c" and ?f = "\<lambda>e. e\<lparr>je_Rollback := True\<rparr>"
  have fb: "fresh_builder ?c" using c by (rule fresh_rollback_book)
  then have dc: "distinct (map fst (ce_entries ?c))" by (simp add: fresh_builder_def)
  have ke: "je_TransactionID e = tx \<and> je_AccountID e = k" if "(k, e) \<in> set (ce_entries ?c)" for k e
    using that c by (auto simp: rollback_book_entries fresh_builder_def list_all_iff)
  have "net tx team a (commit_rows en False ?f ?c) =
    (if team = ce_teamID ?c then
       (case map_of (range_map (iter en) (ce_entries ?c)) a of None \<Rightarrow> 0
        | Some e \<Rightarrow> val (je_Debit e) - val (je_Credit e)) else 0)"
    unfolding commit_rows_def
  proof (rule net_concat_rows)
    show "distinct (map fst (range_map (iter en) (ce_entries ?c)))"
      using it dc by (rule range_map_distinct)
    fix k e assume "(k, e) \<in> set (range_map (iter en) (ce_entries ?c))"
    then have "(k, e) \<in> set (ce_entries ?c)" using it dc by (simp add: range_map_set)
    from ke [OF this]
    show "je_TransactionID (prepared en ?c ?f e) = tx \<and> je_TeamID (prepared en ?c ?f e) = ce_teamID ?c \<and>
      je_AccountID (prepared en ?c ?f e) = k \<and> je_Debit (prepared en ?c ?f e) = je_Debit e \<and>
      je_Credit (prepared en ?c ?f e) = je_Credit e"
      by (simp add: prepared_def)
  qed
  then show ?thesis
    using pending_rollback_book [of a tx desc c]
    by (simp add: range_map_lookup [OF it dc] pending_def)
qed

lemma commitA_Inr:
  "commitA en opts c s = (Inr (), s') \<Longrightarrow>
     ce_entries c \<noteq> [] \<and> ce_err (fst (Commit en opts c s)) = None \<and> s' = snd (Commit en opts c s)"
  using Commit_empty [of c en opts s]
  by (auto simp: commitA_def ce_setErr_def split: prod.splits option.splits if_splits)

lemma Commit_success_db:
  assumes "plain_opts opts incl f" and "iter_ok (iter en)" and "fresh_builder c"
    and "commitA en opts c s = (Inr (), s')"
  shows "s_db s' = insert_rows (commit_rows en incl f c) (s_db s)" and "ce_err c = None"
proof -
  from commitA_Inr [OF assms(4)] have ne: "ce_entries c \<noteq> []"
    and err: "ce_err (fst (Commit en opts c s)) = None" and s': "s' = snd (Commit en opts c s)"
    by auto
  from err have "CompareFloatSafe (total_debit en c) (total_credit en c) PrecisionEpsilon"
    and "ce_err c = None"
    unfolding Commit_spec(2) [OF assms(1,2,3) ne] by (auto split: option.splits if_splits)
  then show "s_db s' = insert_rows (commit_rows en incl f c) (s_db s)" and "ce_err c = None"
    by (simp_all add: s' Commit_spec(1) [OF assms(1,2,3) ne])
qed

lemma forA_rollback_net:
  assumes "iter_ok (iter en)" and "\<And>team c. (team, c) \<in> set bs \<Longrightarrow> fresh_builder c \<and> ce_teamID c = team"
    and "forA bs (\<lambda>(team, c). commitA en [RollbackOption] (rollback_book tx desc c)) s = (Inr (), s')"
    and "distinct (map fst bs)"
  shows "net tx team a (db_entries (s_db s')) = net tx team a (db_entries (s_db s)) +
    (case map_of bs team of None \<Rightarrow> 0 | Some c \<Rightarrow> pending a c)"
  using assms(2,3,4)
proof (induction bs arbitrary: s)
  case Nil
  then show ?case by (simp add: returnA_def)
next
  case (Cons b bs)
  obtain t c where b: "b = (t, c)" by (cases b)
  from Cons.prems(1) b have c: "fresh_builder c" "ce_teamID c = t" by auto
  from Cons.prems(2) b obtain s1 where
    s1: "commitA en [RollbackOption] (rollback_book tx desc c) s = (Inr (), s1)"
    and rest: "forA bs (\<lambda>(team, c). commitA en [RollbackOption] (rollback_book tx desc c)) s1 = (Inr (), s')"
    by (auto simp: bindA_Inr)
  from Commit_success_db(1) [OF plain_rollback assms(1) fresh_rollback_book [OF c(1)] s1]
  have n1: "net tx team a (db_entries (s_db s1)) =
      net tx team a (db_entries (s_db s)) + (if team = t then pending a c else 0)"
    using net_commit_rollback [OF assms(1) c(1), of tx team a desc] c(2)
    by (simp add: net_insert_rows)
  have "net tx team a (db_entries (s_db s')) = net tx team a (db_entries (s_db s1)) +
    (case map_of bs team of None \<Rightarrow> 0 | Some c \<Rightarrow> pending a c)"
    using Cons.prems rest by (intro Cons.IH) auto
  moreover from Cons.prems(3) b have "map_of bs t = None" by (simp add: map_of_eq_None_iff)
  ultimately show ?case using n1 by (auto simp: b)
qed

subsection \<open>The builder of a team\<close>

definition balance_typed :: "Account \<Rightarrow> bool" where
  "balance_typed a \<longleftrightarrow> acc_BalanceType a = DebitBalance \<or> acc_BalanceType a = CreditBalance"

lemma reverse_account_eq:
  assumes "balance_typed (cb_Account b)"
  shows "reverse_account d (a, b) c =
    (if cb_Credit b < cb_Debit b then SetE d a (cb_Debit b - cb_Credit b) 0 c
     else if cb_Debit b < cb_Credit b then SetE d a 0 (cb_Credit b - cb_Debit b) c
     else c)"
  using assms
  by (auto simp: reverse_account_def Change_def balance_typed_def Let_def DebitBalance_def
      CreditBalance_def f64_minus_diff)

lemma SetE_team [simp]: "ce_teamID (SetE d a x y c) = ce_teamID c"
  by (simp add: SetE_def mergeEntry_def ce_setErr_def Let_def split: option.splits)

lemma reverse_account_team [simp]: "ce_teamID (reverse_account d ac c) = ce_teamID c"
  by (simp add: reverse_account_def Let_def split: prod.splits)

lemma fresh_reverse_account: "fresh_builder c \<Longrightarrow> fresh_builder (reverse_account d ac c)"
  by (simp add: reverse_account_def fresh_SetE Let_def split: prod.splits)

lemma fold_reverse_builder:
  "fresh_builder c \<Longrightarrow> fresh_builder (fold (reverse_account d) bs c)"
  "ce_teamID (fold (reverse_account d) bs c) = ce_teamID c"
  by (induction bs arbitrary: c) (simp_all add: fresh_reverse_account)

lemma SetE_lookup:
  assumes "account_by_id d a \<noteq> None" and "map_of (ce_entries c) a = None"
  shows "map_of (ce_entries (SetE d a x y c)) =
    (map_of (ce_entries c))(a \<mapsto> (newEntry a)\<lparr>je_Credit := x, je_Debit := y\<rparr>)"
  using assms
  by (auto simp: SetE_def mergeEntry_def Let_def map_of_alist_upd fun_eq_iff split: option.splits)

lemma reverse_account_lookup:
  assumes "account_by_id d a \<noteq> None" and "map_of (ce_entries c) a = None"
    and "balance_typed (cb_Account b)"
  shows "k \<noteq> a \<Longrightarrow> map_of (ce_entries (reverse_account d (a, b) c)) k = map_of (ce_entries c) k"
    and "pending a (reverse_account d (a, b) c) = - val (cb_Debit b - cb_Credit b)"
  unfolding reverse_account_eq [OF assms(3)]
  using assms(2) SetE_lookup [OF assms(1,2)]
  by (auto simp: pending_def f64_minus_diff simp flip: val_uminus)

lemma fold_reverse_pending:
  assumes "distinct (map fst bs)"
    and "\<And>a b. (a, b) \<in> set bs \<Longrightarrow> account_by_id d a \<noteq> None \<and> balance_typed (cb_Account b) \<and>
           map_of (ce_entries c) a = None"
  shows "pending k (fold (reverse_account d) bs c) =
    (case map_of bs k of None \<Rightarrow> pending k c | Some b \<Rightarrow> - val (cb_Debit b - cb_Credit b))"
  using assms
proof (induction bs arbitrary: c)
  case (Cons ab bs)
  obtain a b where ab: "ab = (a, b)" by (cases ab)
  from Cons.prems(1) ab have a: "map_of bs a = None" by (simp add: map_of_eq_None_iff)
  from Cons.prems(2) [of a b] ab have ok: "account_by_id d a \<noteq> None"
    "map_of (ce_entries c) a = None" "balance_typed (cb_Account b)" by auto
  note l = reverse_account_lookup [OF ok]
  have "pending k (fold (reverse_account d) bs (reverse_account d (a, b) c)) =
    (case map_of bs k of None \<Rightarrow> pending k (reverse_account d (a, b) c)
     | Some b \<Rightarrow> - val (cb_Debit b - cb_Credit b))"
  proof (rule Cons.IH)
    show "distinct (map fst bs)" using Cons.prems(1) by simp
    fix a' b' assume m: "(a', b') \<in> set bs"
    with a have "a' \<noteq> a" by (force simp: map_of_eq_None_iff)
    with Cons.prems(2) [of a' b'] m l(1) show "account_by_id d a' \<noteq> None \<and>
      balance_typed (cb_Account b') \<and> map_of (ce_entries (reverse_account d (a, b) c)) a' = None"
      by simp
  qed
  then show ?case using l a by (auto simp: ab pending_def split: option.splits)
qed simp

subsection \<open>All teams\<close>

lemma reverse_teams_lookup:
  assumes "reverse_teams en d u ts books = Inr books'" and "distinct (map fst ts)"
    and "\<And>t es. (t, es) \<in> set ts \<Longrightarrow> map_of books t = Some (newCreateEntry t u)"
  shows "case map_of ts t of
      None \<Rightarrow> map_of books' t = map_of books t
    | Some es \<Rightarrow> (\<exists>m. AccountBalance es = Inr m \<and>
        map_of books' t = Some (fold (reverse_account d) (range_map (iter en) m) (newCreateEntry t u)))"
  using assms
proof (induction en d u ts books rule: reverse_teams.induct)
  case (2 en d u team es ts books)
  then obtain m where m: "AccountBalance es = Inr m" by (auto split: sum.splits)
  let ?b = "fold (reverse_account d) (range_map (iter en) m) (newCreateEntry team u)"
  from "2.prems"(3) [of team es] have new: "map_of books team = Some (newCreateEntry team u)" by simp
  from "2.prems"(1) m new have r: "reverse_teams en d u ts (alist_upd team ?b books) = Inr books'"
    by simp
  from "2.prems"(2) have tn: "map_of ts team = None" and dts: "distinct (map fst ts)"
    by (simp_all add: map_of_eq_None_iff)
  have pre: "map_of (alist_upd team ?b books) t' = Some (newCreateEntry t' u)"
    if "(t', es') \<in> set ts" for t' es'
  proof -
    from that tn have "t' \<noteq> team" by (force simp: map_of_eq_None_iff)
    then show ?thesis using "2.prems"(3) [of t' es'] that by (simp add: map_of_alist_upd)
  qed
  have "case map_of ts t of
      None \<Rightarrow> map_of books' t = map_of (alist_upd team ?b books) t
    | Some es \<Rightarrow> (\<exists>m. AccountBalance es = Inr m \<and>
        map_of books' t = Some (fold (reverse_account d) (range_map (iter en) m) (newCreateEntry t u)))"
    by (rule "2.IH" [OF m refl, unfolded new option.case, OF r dts]) (rule pre)
  then show ?case
    using m tn by (auto simp: map_of_alist_upd split: option.splits)
qed simp

lemma reverse_teams_distinct:
  "reverse_teams en d u ts books = Inr books' \<Longrightarrow> distinct (map fst books) \<Longrightarrow>
     distinct (map fst books')"
  by (induction en d u ts books rule: reverse_teams.induct)
     (auto simp: Let_def distinct_alist_upd split: sum.splits)

lemma reverse_teams_fresh:
  assumes "reverse_teams en d u ts books = Inr books'"
    and "list_all (\<lambda>(t, c). fresh_builder c \<and> ce_teamID c = t) books"
  shows "list_all (\<lambda>(t, c). fresh_builder c \<and> ce_teamID c = t) books'"
  using assms
proof (induction en d u ts books rule: reverse_teams.induct)
  case (2 en d u team es ts books)
  then obtain m where m: "AccountBalance es = Inr m" by (auto split: sum.splits)
  let ?book = "case map_of books team of Some b \<Rightarrow> b | None \<Rightarrow> newCreateEntry team u"
  have "fresh_builder ?book \<and> ce_teamID ?book = team"
    using "2.prems"(2)
    by (auto simp: list_all_iff newCreateEntry_def fresh_new [unfolded newCreateEntry_def]
        dest: map_of_SomeD split: option.splits)
  then have "list_all (\<lambda>(t, c). fresh_builder c \<and> ce_teamID c = t)
      (alist_upd team (fold (reverse_account d) (range_map (iter en) m) ?book) books)"
    using "2.prems"(2) by (intro alist_upd_all) (simp_all add: fold_reverse_builder)
  with "2.IH" [OF m refl] "2.prems"(1) m show ?case by simp
qed simp

subsection \<open>The cancellation\<close>

lemma val_balance_difference:
  assumes "whole_list (map je_Debit xs @ map je_Credit xs)"
  shows "val (cb_Debit (balance_of xs) - cb_Credit (balance_of xs)) =
    sum_list (map (\<lambda>e. val (je_Debit e) - val (je_Credit e)) xs)"
proof -
  let ?D = "foldl (+) 0 (map je_Debit xs)" and ?C = "foldl (+) 0 (map je_Credit xs)"
  from assms have le: "abs_sum (map je_Debit xs) + abs_sum (map je_Credit xs) \<le> 2 ^ 53"
    and w: "list_all whole (map je_Debit xs)" "list_all whole (map je_Credit xs)"
    by (simp_all add: whole_list_def)
  with abs_sum_nonneg [of "map je_Debit xs"] abs_sum_nonneg [of "map je_Credit xs"]
  have D: "whole_list (map je_Debit xs)" and C: "whole_list (map je_Credit xs)"
    unfolding whole_list_def by linarith+
  note fd = whole_list_sum [OF D] and fc = whole_list_sum [OF C]
  have "\<bar>val_sum (map je_Debit xs) - val_sum (map je_Credit xs)\<bar> \<le> 2 ^ 53"
    using le val_sum_le_abs [of "map je_Debit xs"] val_sum_le_abs [of "map je_Credit xs"]
    by linarith
  then have "val (?D - ?C) = val_sum (map je_Debit xs) - val_sum (map je_Credit xs)"
    using fd fc by (simp add: val_minus_whole)
  also have "\<dots> = sum_list (map (\<lambda>e. val (je_Debit e) - val (je_Credit e)) xs)"
    by (induction xs) simp_all
  finally show ?thesis by (simp add: balance_of_def)
qed

lemma entries_of_tx_account:
  "e \<in> set (entries_of_tx d i) \<Longrightarrow> je_Account e = account_by_id d (je_AccountID e)"
  by (auto simp: entries_of_tx_def preload_account_def)

lemma net_entries_of_tx:
  "net i team a (db_entries d) = sum_list (map (\<lambda>e. val (je_Debit e) - val (je_Credit e))
     (on_account a (filter (\<lambda>e. je_TeamID e = team) (entries_of_tx d i))))"
proof -
  have "sum_list (map (\<lambda>e. val (je_Debit e) - val (je_Credit e))
      (filter (\<lambda>e. je_TransactionID e = i \<and> je_TeamID e = team \<and> je_AccountID e = a) es)) =
    sum_list (map (\<lambda>e. val (je_Debit e) - val (je_Credit e))
      (on_account a (filter (\<lambda>e. je_TeamID e = team)
         (map (preload_account d) (filter (\<lambda>e. je_TransactionID e = i) es)))))" for es
    by (induction es) (simp_all add: on_account_def preload_account_def)
  then show ?thesis by (simp add: net_def entries_of_tx_def)
qed

text \<open>
  The entries of the transaction: whole amounts summing to at most \<open>2^53\<close>, on accounts of a
  known balance type.
\<close>

definition reversible :: "db \<Rightarrow> nat \<Rightarrow> bool" where
  "reversible d i \<longleftrightarrow>
     whole_list (map je_Debit (entries_of_tx d i) @ map je_Credit (entries_of_tx d i)) \<and>
     list_all (\<lambda>e. case je_Account e of None \<Rightarrow> True | Some a \<Rightarrow> balance_typed a) (entries_of_tx d i)"

lemma reversible_typed:
  "reversible d i \<Longrightarrow> e \<in> set (entries_of_tx d i) \<Longrightarrow> je_Account e = Some a \<Longrightarrow> balance_typed a"
  by (force simp: reversible_def list_all_iff)

lemma map_of_same_keys:
  "map_of (map (\<lambda>(k, _). (k, g k)) m) t = map_option (\<lambda>_. g t) (map_of m t)"
  by (induction m) auto

lemma abs_sum_filter: "abs_sum (map f (filter P xs)) \<le> abs_sum (map f xs)"
  by (induction xs) (auto intro: add_increasing)

lemma whole_list_filter:
  "whole_list (map f xs @ map g xs) \<Longrightarrow> whole_list (map f (filter P xs) @ map g (filter P xs))"
  using abs_sum_filter [of f P xs] abs_sum_filter [of g P xs]
  by (auto simp: whole_list_def list_all_iff)

lemma balance_account:
  assumes "AccountBalance xs = Inr m" and "(a, b) \<in> set m"
  shows "\<exists>e \<in> set xs. je_AccountID e = a \<and> je_Account e = Some (cb_Account b)"
    and "b = balance_of (on_account a xs)"
proof -
  have "map_of m a = Some b" using assms(2) AccountBalance_distinct [OF assms(1)] by simp
  with AccountBalance_lookup [OF assms(1), of a]
  have ne: "on_account a xs \<noteq> []" and b: "b = balance_of (on_account a xs)"
    by (auto split: if_splits)
  show "b = balance_of (on_account a xs)" by (rule b)
  from ne have h: "hd (on_account a xs) \<in> set xs" "je_AccountID (hd (on_account a xs)) = a"
    using list.set_sel(1) [OF ne] by (auto simp: on_account_def)
  have "je_Account (hd (on_account a xs)) \<noteq> None"
    using AccountBalance_from_error [of "[]" xs] assms(1) h(1) by (auto simp: AccountBalance_def)
  with h show "\<exists>e \<in> set xs. je_AccountID e = a \<and> je_Account e = Some (cb_Account b)"
    by (auto simp: b balance_of_def)
qed

lemma team_pending:
  fixes d en i team u
  defines "xs \<equiv> filter (\<lambda>e. je_TeamID e = team) (entries_of_tx d i)"
  assumes it: "iter_ok (iter en)" and rev: "reversible d i" and m: "AccountBalance xs = Inr m"
  shows "pending a (fold (reverse_account d) (range_map (iter en) m) (newCreateEntry team u)) =
    - net i team a (db_entries d)"
proof -
  note dm = AccountBalance_distinct [OF m]
  have ok: "account_by_id d k \<noteq> None \<and> balance_typed (cb_Account b) \<and>
      map_of (ce_entries (newCreateEntry team u)) k = None"
    if "(k, b) \<in> set (range_map (iter en) m)" for k b
  proof -
    from that have "(k, b) \<in> set m" by (simp add: range_map_set [OF it dm])
    from balance_account(1) [OF m this] obtain e where e: "e \<in> set (entries_of_tx d i)"
      "je_AccountID e = k" "je_Account e = Some (cb_Account b)" by (auto simp: xs_def)
    from entries_of_tx_account [OF e(1)] e(2,3) have "account_by_id d k = Some (cb_Account b)"
      by metis
    with reversible_typed [OF rev e(1,3)] show ?thesis by (simp add: newCreateEntry_def)
  qed
  have p: "pending a (fold (reverse_account d) (range_map (iter en) m) (newCreateEntry team u)) =
    (case map_of m a of None \<Rightarrow> 0 | Some b \<Rightarrow> - val (cb_Debit b - cb_Credit b))"
    using fold_reverse_pending [OF range_map_distinct [OF it dm] ok, of a]
    by (simp add: range_map_lookup [OF it dm] split: option.splits)
  have n: "net i team a (db_entries d) =
      sum_list (map (\<lambda>e. val (je_Debit e) - val (je_Credit e)) (on_account a xs))"
    unfolding xs_def by (rule net_entries_of_tx)
  show ?thesis
  proof (cases "on_account a xs = []")
    case True
    with p n AccountBalance_lookup [OF m, of a] show ?thesis by simp
  next
    case False
    have "whole_list (map je_Debit (on_account a xs) @ map je_Credit (on_account a xs))"
      using rev unfolding reversible_def xs_def on_account_def by (auto intro: whole_list_filter)
    from val_balance_difference [OF this] show ?thesis
      using p n False AccountBalance_lookup [OF m, of a] by simp
  qed
qed

lemma rollback_handle_net:
  assumes it: "iter_ok (iter en)" and rev: "reversible (s_db s) i"
    and ok: "rollback_handle en u desc i (entries_of_tx (s_db s) i) s = (Inr (), s')"
  shows "net i team a (db_entries (s_db s')) = 0"
proof -
  let ?d = "s_db s" and ?es = "entries_of_tx (s_db s) i"
  let ?te = "group_by_team [] ?es"
  let ?ts = "range_map (iter en) ?te"
  let ?b0 = "map (\<lambda>(team, _). (team, newCreateEntry team u)) ?te"
  have dte: "distinct (map fst ?te)" by (simp add: group_by_team_distinct)
  note dts = range_map_distinct [OF it dte]
  have te: "map_of ?ts t = (let xs = filter (\<lambda>e. je_TeamID e = t) ?es in if xs = [] then None else Some xs)" for t
    by (simp add: range_map_lookup [OF it dte] group_by_team_lookup)
  have db0: "distinct (map fst ?b0)" using dte by (simp add: comp_def split_def)
  have b0: "map_of ?b0 t = map_option (\<lambda>_. newCreateEntry t u) (map_of ?te t)" for t
    by (rule map_of_same_keys)
  from ok obtain books where
    books: "reverse_teams en ?d u ?ts ?b0 = Inr books"
    and loop: "forA (range_map (iter en) books)
        (\<lambda>(team, c). commitA en [RollbackOption] (rollback_book i desc c)) s = (Inr (), s')"
    by (auto simp: rollback_handle_def Let_def bindA_Inr readA_def failA_def rollback_book_def
        split: sum.splits)
  note dbk = reverse_teams_distinct [OF books db0]
  have "list_all (\<lambda>(t, c). fresh_builder c \<and> ce_teamID c = t) books"
    by (rule reverse_teams_fresh [OF books]) (auto simp: list_all_iff newCreateEntry_def
        fresh_new [unfolded newCreateEntry_def])
  then have fb: "fresh_builder c \<and> ce_teamID c = t" if "(t, c) \<in> set (range_map (iter en) books)" for t c
    using that by (auto simp: range_map_set [OF it dbk] list_all_iff)
  have new: "map_of ?b0 t = Some (newCreateEntry t u)" if "(t, xs) \<in> set ?ts" for t xs
  proof -
    from that have "(t, xs) \<in> set ?te" by (simp add: range_map_set [OF it dte])
    with dte have "map_of ?te t = Some xs" by simp
    then show ?thesis by (simp add: b0)
  qed
  have look: "case map_of ?ts team of
      None \<Rightarrow> map_of books team = map_of ?b0 team
    | Some es \<Rightarrow> (\<exists>m. AccountBalance es = Inr m \<and>
        map_of books team = Some (fold (reverse_account ?d) (range_map (iter en) m) (newCreateEntry team u)))"
    by (rule reverse_teams_lookup [OF books dts]) (rule new)
  have "net i team a (db_entries (s_db s')) = net i team a (db_entries ?d) +
      (case map_of books team of None \<Rightarrow> 0 | Some c \<Rightarrow> pending a c)"
    using forA_rollback_net [OF it fb loop range_map_distinct [OF it dbk], of team a]
    by (simp add: range_map_lookup [OF it dbk])
  also have "\<dots> = 0"
  proof (cases "filter (\<lambda>e. je_TeamID e = team) ?es = []")
    case True
    then have "map_of ?te team = None" by (simp add: group_by_team_lookup Let_def)
    then have "map_of books team = None" using look True by (simp add: te b0)
    moreover have "net i team a (db_entries ?d) = 0"
      using True by (simp add: net_entries_of_tx on_account_def)
    ultimately show ?thesis by simp
  next
    case False
    then obtain m where "AccountBalance (filter (\<lambda>e. je_TeamID e = team) ?es) = Inr m"
      and "map_of books team =
        Some (fold (reverse_account ?d) (range_map (iter en) m) (newCreateEntry team u))"
      using look by (auto simp: te Let_def)
    with team_pending [OF it rev] show ?thesis by simp
  qed
  finally show ?thesis .
qed

subsection \<open>A rollback is never skipped\<close>

definition no_skip :: "createEntry \<Rightarrow> bool" where
  "no_skip c \<longleftrightarrow> ce_err c \<noteq> Some ErrSkipTransaction"

lemma no_skip_new [simp]: "no_skip (newCreateEntry team u)"
  by (simp add: no_skip_def newCreateEntry_def)

lemma no_skip_SetE: "no_skip c \<Longrightarrow> no_skip (SetE d a x y c)"
  by (simp add: no_skip_def SetE_def ce_setErr_def Let_def split: option.splits)

lemma no_skip_fold: "no_skip c \<Longrightarrow> no_skip (fold (reverse_account d) bs c)"
  by (induction bs arbitrary: c)
     (auto simp: reverse_account_def Let_def no_skip_SetE)

lemma no_skip_rollback_book: "no_skip c \<Longrightarrow> no_skip (rollback_book i desc c)"
  by (simp add: no_skip_def rollback_book_def DescE_def TransactionIDE_def ce_setErr_def)

lemma reverse_teams_no_skip:
  assumes "reverse_teams en d u ts books = Inr books'" and "\<forall>(t, c) \<in> set books. no_skip c"
  shows "\<forall>(t, c) \<in> set books'. no_skip c"
  using assms
proof (induction en d u ts books rule: reverse_teams.induct)
  case (2 en d u team es ts books)
  then obtain m where m: "AccountBalance es = Inr m" by (auto split: sum.splits)
  let ?book = "case map_of books team of Some b \<Rightarrow> b | None \<Rightarrow> newCreateEntry team u"
  have "no_skip ?book" using "2.prems"(2) by (auto dest: map_of_SomeD split: option.splits)
  then have "list_all (\<lambda>(t, c). no_skip c)
      (alist_upd team (fold (reverse_account d) (range_map (iter en) m) ?book) books)"
    using "2.prems"(2) by (intro alist_upd_all) (auto simp: no_skip_fold list_all_iff)
  with "2.IH" [OF m refl] "2.prems"(1) m show ?case by (simp add: list_all_iff)
qed simp

lemma reverse_teams_error: "reverse_teams en d u ts books = Inl e \<Longrightarrow> e \<noteq> ErrSkipTransaction"
proof -
  have ab: "AccountBalance_from m es = Inl e \<Longrightarrow> e \<noteq> ErrSkipTransaction" for m es e
    by (induction m es rule: AccountBalance_from.induct) (auto simp: Let_def split: option.splits)
  show "reverse_teams en d u ts books = Inl e \<Longrightarrow> e \<noteq> ErrSkipTransaction"
    by (induction en d u ts books rule: reverse_teams.induct)
       (auto simp: Let_def AccountBalance_def dest: ab split: sum.splits)
qed

lemma commitA_no_skip:
  assumes "plain_opts opts incl f" and "iter_ok (iter en)" and "fresh_builder c" and "no_skip c"
    and "commitA en opts c s = (Inl e, s')"
  shows "e \<noteq> ErrSkipTransaction"
proof (cases "ce_entries c = []")
  case True
  with assms(4,5) show ?thesis
    by (auto simp: commitA_def Commit_empty ce_setErr_def no_skip_def split: option.splits if_splits)
next
  case False
  obtain c' s1 where C: "Commit en opts c s = (c', s1)" by (cases "Commit en opts c s")
  with assms(5) have "ce_err c' = Some e" by (simp add: commitA_def split: option.splits)
  with Commit_spec(2) [OF assms(1,2,3) False, of s] C assms(4) show ?thesis
    by (auto simp: no_skip_def split: option.splits if_splits)
qed

lemma forA_rollback_no_skip:
  assumes "iter_ok (iter en)"
    and "\<forall>(team, c) \<in> set bs. fresh_builder c \<and> no_skip c"
    and "forA bs (\<lambda>(team, c). commitA en [RollbackOption] (rollback_book tx desc c)) s = (Inl e, s')"
  shows "e \<noteq> ErrSkipTransaction"
  using assms(2,3)
proof (induction bs arbitrary: s)
  case (Cons b bs)
  obtain t c where b: "b = (t, c)" by (cases b)
  obtain r s1 where r: "commitA en [RollbackOption] (rollback_book tx desc c) s = (r, s1)"
    by (cases "commitA en [RollbackOption] (rollback_book tx desc c) s")
  show ?case
  proof (cases r)
    case (Inl e')
    with Cons.prems r b have "e' = e" by (simp add: bindA_def)
    with commitA_no_skip [OF plain_rollback assms(1) fresh_rollback_book no_skip_rollback_book r [unfolded Inl]]
    show ?thesis using Cons.prems(1) b by simp
  next
    case (Inr x)
    with Cons.prems r b have "forA bs (\<lambda>(team, c). commitA en [RollbackOption] (rollback_book tx desc c)) s1 = (Inl e, s')"
      by (simp add: bindA_def)
    with Cons show ?thesis by simp
  qed
qed (simp add: returnA_def)

lemma fresh_newCreateEntry_books:
  "\<forall>(t, c) \<in> set (map (\<lambda>(team, _). (team, newCreateEntry team u)) te). fresh_builder c \<and> no_skip c \<and> ce_teamID c = t"
  by (auto simp: newCreateEntry_def fresh_new [unfolded newCreateEntry_def] no_skip_def)

lemma rollback_handle_error:
  assumes it: "iter_ok (iter en)" and e: "rollback_handle en u desc i es s = (Inl e, s')"
  shows "e \<noteq> ErrSkipTransaction"
proof -
  let ?te = "group_by_team [] es" and ?d = "s_db s"
  let ?b0 = "map (\<lambda>(team, _). (team, newCreateEntry team u)) ?te"
  show ?thesis
  proof (cases "reverse_teams en ?d u (range_map (iter en) ?te) ?b0")
    case (Inl e')
    with e have "e = e'"
      by (simp add: rollback_handle_def Let_def bindA_def readA_def failA_def)
    with reverse_teams_error [OF Inl] show ?thesis by simp
  next
    case (Inr books)
    have loop: "forA (range_map (iter en) books)
        (\<lambda>(team, c). commitA en [RollbackOption] (rollback_book i desc c)) s = (Inl e, s')"
      using e Inr by (simp add: rollback_handle_def Let_def bindA_def readA_def rollback_book_def)
    have db0: "distinct (map fst ?b0)"
      using group_by_team_distinct [of "[]" es] by (simp add: comp_def split_def)
    note db = reverse_teams_distinct [OF Inr db0]
    have "list_all (\<lambda>(t, c). fresh_builder c \<and> ce_teamID c = t) books"
      by (rule reverse_teams_fresh [OF Inr]) (use fresh_newCreateEntry_books in \<open>fastforce simp: list_all_iff\<close>)
    moreover have "\<forall>(t, c) \<in> set books. no_skip c"
      by (rule reverse_teams_no_skip [OF Inr]) (use fresh_newCreateEntry_books in fastforce)
    ultimately have "\<forall>(t, c) \<in> set (range_map (iter en) books). fresh_builder c \<and> no_skip c"
      by (auto simp: range_map_set [OF it db] list_all_iff)
    from forA_rollback_no_skip [OF it this loop] show ?thesis .
  qed
qed

lemma RollbackEntry_net:
  assumes it: "iter_ok (iter en)" and rev: "reversible (s_db s) (tx_ID r)"
    and t: "tm_data t = Some r"
    and run: "RollbackEntry en u desc t s = (t', s')" and ok: "tm_err t' = None"
  shows "net (tx_ID r) team a (db_entries (s_db s')) = 0"
proof -
  let ?h = "rollback_handle en u desc (tx_ID r) (entries_of_tx (s_db s) (tx_ID r))"
  have set [simp]: "(tm_err (tm_setErr e t) = None) = False" for e by (simp add: tm_setErr_def)
  from run ok t have "entries_of_tx (s_db s) (tx_ID r) \<noteq> []"
    by (auto simp: RollbackEntry_def)
  with run ok t obtain q where q: "OpenTransaction en ?h s = (Inr q, s')"
    by (auto simp: RollbackEntry_def Let_def split: prod.splits sum.splits)
  show ?thesis
  proof (cases q)
    case (Some x)
    from OpenTransaction_Some_db [OF q [unfolded Some]] obtain s1 where
      "?h (open_book s) = (Inr x, s1)" and db: "s_db s' = s_db s1" by blast
    then have "rollback_handle en u desc (tx_ID r) (entries_of_tx (s_db (open_book s)) (tx_ID r))
        (open_book s) = (Inr (), s1)" by simp
    from rollback_handle_net [OF it _ this] rev show ?thesis by (simp add: db)
  next
    case None
    with q obtain s3 where "?h (open_book s) = (Inl ErrSkipTransaction, s3)"
      using OpenTransaction_None(2) by blast
    from rollback_handle_error [OF it this] show ?thesis by simp
  qed
qed

subsection \<open>A transaction made of one commit\<close>

lemma commitA_commit:
  assumes "ce_err (fst (Commit en opts c s)) = None"
  shows "commitA en opts c s = (Inr (), snd (Commit en opts c s))"
  using assms by (simp add: commitA_def case_prod_unfold)

lemma Commit_book_set:
  assumes p: "plain_opts opts incl f" and it: "iter_ok (iter en)" and c: "fresh_builder c"
    and k: "map_of (ce_entries c) k = Some e" and err: "ce_err (fst (Commit en opts c s)) = None"
  shows "\<exists>b \<in> set (s_entries (snd (Commit en opts c s))). book_entry incl (prepared en c f e) b"
proof -
  from k have ne: "ce_entries c \<noteq> []" by auto
  from Commit_book [OF p it c ne err] obtain m where
    m: "s_entries (snd (Commit en opts c s)) = s_entries s @ map snd (range_map (iter en) m)"
      "map fst m = map fst (ce_entries c)"
    and "\<exists>b. map_of m k = Some b \<and> book_entry incl (prepared en c f e) b"
    using k by blast
  then obtain b where b: "map_of m k = Some b" "book_entry incl (prepared en c f e) b" by blast
  have "distinct (map fst m)" using m(2) c by (simp add: fresh_builder_def)
  from range_map_set [OF it this] map_of_SomeD [OF b(1)]
  have "b \<in> snd ` set (range_map (iter en) m)" by force
  with b(2) m(1) show ?thesis by auto
qed

lemma unsaved_entry_refused:
  assumes p: "plain_opts opts False f" and it: "iter_ok (iter en)" and c: "built en d c"
    and k: "map_of (ce_entries c) k = Some e" and eq: "je_Debit e = je_Credit e"
    and err: "ce_err (fst (Commit en opts c (open_book s))) = None"
  shows "\<exists>m s'. OpenTransaction en (commitA en opts c) s = (Inl (ErrMsg m), s') \<and> s_db s' = s_db s"
proof -
  let ?s1 = "snd (Commit en opts c (open_book s))"
  from Commit_book_set [OF p it built_fresh [OF c] k err] obtain b where
    b: "b \<in> set (s_entries ?s1)" "book_entry False (prepared en c f e) b" by blast
  with eq have "je_ID b = 0" by (simp add: book_entry_def rows_of_def prepared_fields [OF p])
  with b(1) obtain b' where "find (\<lambda>e. je_ID e = 0) (s_entries ?s1) = Some b'"
    by (metis (mono_tags, lifting) find_None_iff option.exhaust)
  moreover from b(1) have "s_entries ?s1 \<noteq> []" by auto
  ultimately have "tx_body (commitA en opts c) s =
      (Inl (ErrMsg (''theres entry not save desc '' @ je_Desc b')), ?s1)"
    using commitA_commit [OF err] by (simp add: tx_body_def flip: open_book_def)
  from OpenTransaction_Inl [OF this, of en] show ?thesis by simp
qed

lemma Commit_rows_db:
  assumes "plain_opts opts incl f" and "iter_ok (iter en)" and "fresh_builder c"
    and "ce_err (fst (Commit en opts c s)) = None"
  shows "s_db (snd (Commit en opts c s)) = insert_rows (commit_rows en incl f c) (s_db s)"
proof -
  from commitA_commit [OF assms(4)] have "commitA en opts c s = (Inr (), snd (Commit en opts c s))" .
  from Commit_success_db(1) [OF assms(1,2,3) this] show ?thesis .
qed

lemma number_rows_member:
  "r \<in> set es \<Longrightarrow> \<exists>i. r\<lparr>je_ID := i\<rparr> \<in> set (number_rows n es)"
  by (induction n es rule: number_rows.induct) auto

lemma two_sided_rows:
  assumes p: "plain_opts opts incl f" and it: "iter_ok (iter en)" and c: "fresh_builder c"
    and k: "map_of (ce_entries c) k = Some e" and pos: "je_Debit e > 0" "je_Credit e > 0"
    and split: "incl \<or> je_Debit e \<noteq> je_Credit e"
    and err: "ce_err (fst (Commit en opts c s)) = None"
  shows "\<exists>r \<in> set (db_entries (s_db (snd (Commit en opts c s)))).
    je_AccountID r = k \<and> je_Debit r = je_Debit e \<and> je_Credit r = 0"
proof -
  let ?r = "(prepared en c f e)\<lparr>je_Credit := 0\<rparr>"
  from c have d: "distinct (map fst (ce_entries c))" by (simp add: fresh_builder_def)
  from map_of_SomeD [OF k] have m: "(k, e) \<in> set (range_map (iter en) (ce_entries c))"
    by (simp add: range_map_set [OF it d])
  from c map_of_SomeD [OF k] have ka: "je_AccountID e = k" by (auto simp: fresh_builder_def list_all_iff)
  have "?r \<in> set (rows_of incl (prepared en c f e))"
    using pos split by (auto simp: rows_of_def prepared_fields [OF p])
  with m have "?r \<in> set (commit_rows en incl f c)" by (force simp: commit_rows_def)
  from number_rows_member [OF this] obtain i where
    "?r\<lparr>je_ID := i\<rparr> \<in> set (number_rows (db_seq (s_db s)) (commit_rows en incl f c))" by blast
  then show ?thesis
    unfolding Commit_rows_db [OF p it c err]
    by (intro bexI [of _ "?r\<lparr>je_ID := i\<rparr>"]) (simp_all add: insert_rows_def prepared_fields [OF p] ka)
qed

lemma two_sided_book:
  assumes p: "plain_opts opts incl f" and it: "iter_ok (iter en)" and c: "fresh_builder c"
    and k: "map_of (ce_entries c) k = Some e" and pos: "je_Debit e > 0" "je_Credit e > 0"
    and split: "incl \<or> je_Debit e \<noteq> je_Credit e"
    and err: "ce_err (fst (Commit en opts c s)) = None" and s: "s_entries s = []"
    and b: "b \<in> set (s_entries (snd (Commit en opts c s)))" "je_AccountID b = k"
  shows "je_Debit b = 0"
proof -
  from k have ne: "ce_entries c \<noteq> []" by auto
  from Commit_book [OF p it c ne err] obtain m where
    m: "s_entries (snd (Commit en opts c s)) = map snd (range_map (iter en) m)"
      "map fst m = map fst (ce_entries c)"
    and look: "\<And>k e. map_of (ce_entries c) k = Some e \<Longrightarrow>
      \<exists>b. map_of m k = Some b \<and> book_entry incl (prepared en c f e) b"
    unfolding s append_Nil by blast
  from m(2) c have d: "distinct (map fst m)" by (simp add: fresh_builder_def)
  from b(1) m(1) obtain j where jb: "(j, b) \<in> set m" by (auto simp: range_map_set [OF it d])
  with d have mj: "map_of m j = Some b" by simp
  then have "j \<in> fst ` set (ce_entries c)" using m(2) by (metis list.set_map map_of_eq_None_iff option.distinct(1))
  then obtain e' where e': "map_of (ce_entries c) j = Some e'"
    by (metis map_of_eq_None_iff not_Some_eq)
  from look [OF e'] mj have be: "book_entry incl (prepared en c f e') b" by simp
  from c map_of_SomeD [OF e'] have "je_AccountID e' = j" by (auto simp: fresh_builder_def list_all_iff)
  have fin: "b\<lparr>je_ID := 0\<rparr> = final_of incl (prepared en c f e')" using be by (simp add: book_entry_def)
  from arg_cong [OF fin, of je_AccountID] have "je_AccountID b = je_AccountID e'"
    by (simp add: final_of_def prepared_fields [OF p] split: if_splits)
  with b(2) \<open>je_AccountID e' = j\<close> e' k have "e' = e" by simp
  with arg_cong [OF fin, of je_Debit] pos split show ?thesis
    by (auto simp: final_of_def prepared_fields [OF p])
qed

subsection \<open>A cancelled transaction cannot be rolled back again\<close>

lemma alist_upd_same: "map_of m k = Some v \<Longrightarrow> alist_upd k v m = m"
  by (induction m) (auto split: if_splits)

lemma fold_reverse_settled:
  assumes "\<forall>(a, b) \<in> set bs. balance_typed (cb_Account b) \<and> cb_Debit b = cb_Credit b"
  shows "fold (reverse_account d) bs c = c"
  using assms by (induction bs arbitrary: c) (auto simp: reverse_account_eq)

lemma reverse_teams_settled:
  assumes "iter_ok (iter en)"
    and "\<And>t es. (t, es) \<in> set ts \<Longrightarrow> map_of books t = Some (newCreateEntry t u) \<and>
      (\<exists>m. AccountBalance es = Inr m \<and>
        (\<forall>(a, b) \<in> set m. balance_typed (cb_Account b) \<and> cb_Debit b = cb_Credit b))"
  shows "reverse_teams en d u ts books = Inr books"
  using assms(2)
proof (induction ts)
  case (Cons te ts)
  obtain t es where te: "te = (t, es)" by (cases te)
  with Cons.prems [of t es] obtain m where new: "map_of books t = Some (newCreateEntry t u)"
    and m: "AccountBalance es = Inr m"
    and b: "\<forall>(a, b) \<in> set m. balance_typed (cb_Account b) \<and> cb_Debit b = cb_Credit b" by auto
  have "fold (reverse_account d) (range_map (iter en) m) (newCreateEntry t u) = newCreateEntry t u"
    using b by (intro fold_reverse_settled) (simp add: range_map_set [OF assms(1) AccountBalance_distinct [OF m]])
  moreover have "reverse_teams en d u ts books = Inr books"
    by (rule Cons.IH) (rule Cons.prems, simp)
  ultimately show ?case by (simp add: te m new alist_upd_same)
qed simp

lemma balance_settled:
  assumes rev: "reversible d i" and a: "a \<in> je_AccountID ` set (filter (\<lambda>e. je_TeamID e = team) (entries_of_tx d i))"
    and net: "net i team a (db_entries d) = 0"
  defines "b \<equiv> balance_of (on_account a (filter (\<lambda>e. je_TeamID e = team) (entries_of_tx d i)))"
  shows "cb_Debit b = cb_Credit b"
proof -
  let ?xs = "on_account a (filter (\<lambda>e. je_TeamID e = team) (entries_of_tx d i))"
  have "whole_list (map je_Debit ?xs @ map je_Credit ?xs)"
    using rev unfolding reversible_def on_account_def by (auto intro: whole_list_filter)
  from val_balance_difference [OF this] have "val (cb_Debit b - cb_Credit b) = 0"
    using net by (simp add: b_def net_entries_of_tx)
  then have "cb_Debit b - cb_Credit b = 0" by (simp add: val_eq)
  then show ?thesis by simp
qed

lemma commit_nothing: "commitA en opts (rollback_book i desc (newCreateEntry t u)) s = (Inl ErrEmptyEntry, s)"
  by (simp add: commitA_def rollback_book_def DescE_def TransactionIDE_def isEntryEmpty_def
      newCreateEntry_def ce_setErr_def Commit_def)

lemma forA_nothing:
  assumes "\<forall>(t, c) \<in> set bs. c = newCreateEntry t u" and "bs \<noteq> []"
  shows "forA bs (\<lambda>(team, c). commitA en opts (rollback_book i desc c)) s = (Inl ErrEmptyEntry, s)"
proof -
  from assms obtain t bs' where "bs = (t, newCreateEntry t u) # bs'" by (cases bs) auto
  then show ?thesis by (simp add: bindA_def commit_nothing)
qed

lemma rollback_settled:
  assumes it: "iter_ok (iter en)" and rev: "reversible (s_db s) i"
    and acc: "list_all (\<lambda>e. je_Account e \<noteq> None) (entries_of_tx (s_db s) i)"
    and ne: "entries_of_tx (s_db s) i \<noteq> []"
    and net: "\<And>team a. net i team a (db_entries (s_db s)) = 0"
  shows "rollback_handle en u desc i (entries_of_tx (s_db s) i) s = (Inl ErrEmptyEntry, s)"
proof -
  let ?d = "s_db s" and ?es = "entries_of_tx (s_db s) i"
  let ?te = "group_by_team [] ?es"
  let ?b0 = "map (\<lambda>(team, _). (team, newCreateEntry team u)) ?te"
  have dte: "distinct (map fst ?te)" by (simp add: group_by_team_distinct)
  have db0: "distinct (map fst ?b0)" using dte by (simp add: comp_def split_def)
  have te: "map_of ?te t = (let xs = filter (\<lambda>e. je_TeamID e = t) ?es in if xs = [] then None else Some xs)" for t
    by (simp add: group_by_team_lookup)
  have "reverse_teams en ?d u (range_map (iter en) ?te) ?b0 = Inr ?b0"
  proof (rule reverse_teams_settled [OF it])
    fix t es assume "(t, es) \<in> set (range_map (iter en) ?te)"
    then have "(t, es) \<in> set ?te" by (simp add: range_map_set [OF it dte])
    with dte have t: "map_of ?te t = Some es" by simp
    then have es: "es = filter (\<lambda>e. je_TeamID e = t) ?es" by (auto simp: te Let_def split: if_splits)
    have "\<forall>e \<in> set es. je_Account e \<noteq> None" using acc by (subst es) (auto simp: list_all_iff)
    with AccountBalance_from_error [of "[]" es] obtain m where m: "AccountBalance es = Inr m"
      by (cases "AccountBalance es") (auto simp: AccountBalance_def)
    have "balance_typed (cb_Account b) \<and> cb_Debit b = cb_Credit b" if "(a, b) \<in> set m" for a b
    proof -
      from balance_account [OF m that] obtain e where e: "e \<in> set es" "je_AccountID e = a"
        "je_Account e = Some (cb_Account b)" and b: "b = balance_of (on_account a es)" by blast
      from e(1) es have "e \<in> set ?es" by (metis (mono_tags, lifting) filter_is_subset subsetD)
      from reversible_typed [OF rev this e(3)] have "balance_typed (cb_Account b)" .
      moreover have "a \<in> je_AccountID ` set (filter (\<lambda>e. je_TeamID e = t) ?es)"
        using e(1,2) unfolding es [symmetric] by blast
      from balance_settled [OF rev this net] have "cb_Debit b = cb_Credit b"
        unfolding es [symmetric] b [symmetric] .
      ultimately show ?thesis by simp
    qed
    then have "\<forall>(a, b) \<in> set m. balance_typed (cb_Account b) \<and> cb_Debit b = cb_Credit b" by blast
    moreover have "map_of ?b0 t = Some (newCreateEntry t u)" unfolding map_of_same_keys t by simp
    ultimately show "map_of ?b0 t = Some (newCreateEntry t u) \<and> (\<exists>m. AccountBalance es = Inr m \<and>
        (\<forall>(a, b) \<in> set m. balance_typed (cb_Account b) \<and> cb_Debit b = cb_Credit b))"
      using m by blast
  qed
  moreover have "range_map (iter en) ?b0 \<noteq> []"
  proof -
    from ne have "hd ?es \<in> set ?es" by (rule hd_in_set)
    then have "filter (\<lambda>e. je_TeamID e = je_TeamID (hd ?es)) ?es \<noteq> []"
      unfolding filter_empty_conv by blast
    then have "map_of ?te (je_TeamID (hd ?es)) \<noteq> None" unfolding te Let_def by simp
    then have "?b0 \<noteq> []" by (metis list.map_disc_iff map_of.simps(1))
    then show ?thesis using range_map_set [OF it db0] by (metis set_empty)
  qed
  moreover have "\<forall>(t, c) \<in> set (range_map (iter en) ?b0). c = newCreateEntry t u"
    unfolding range_map_set [OF it db0] by auto
  ultimately have "reverse_teams en ?d u (range_map (iter en) ?te) ?b0 = Inr ?b0"
    and "forA (range_map (iter en) ?b0)
      (\<lambda>(team, c). commitA en [RollbackOption] (rollback_book i desc c)) s = (Inl ErrEmptyEntry, s)"
    by (blast, intro forA_nothing)
  then show ?thesis
    by (simp add: rollback_handle_def Let_def bindA_def readA_def rollback_book_def)
qed

lemma RollbackEntry_settled:
  assumes "iter_ok (iter en)" and "reversible (s_db s) (tx_ID r)" and "tm_data t = Some r"
    and "tm_err t = None"
    and "list_all (\<lambda>e. je_Account e \<noteq> None) (entries_of_tx (s_db s) (tx_ID r))"
    and "entries_of_tx (s_db s) (tx_ID r) \<noteq> []"
    and "\<And>team a. net (tx_ID r) team a (db_entries (s_db s)) = 0"
  shows "\<exists>t' s'. RollbackEntry en u desc t s = (t', s') \<and> tm_err t' = Some ErrEmptyEntry \<and> s_db s' = s_db s"
proof -
  let ?h = "rollback_handle en u desc (tx_ID r) (entries_of_tx (s_db s) (tx_ID r))"
  have "?h (open_book s) = (Inl ErrEmptyEntry, open_book s)"
    using rollback_settled [of en "open_book s" "tx_ID r" u desc] assms by simp
  then have "tx_body ?h s = (Inl ErrEmptyEntry, open_book s)"
    by (simp add: tx_body_def flip: open_book_def)
  from OpenTransaction_Inl [OF this, of en] show ?thesis
    using assms(3,4,6) by (auto simp: RollbackEntry_def Let_def tm_setErr_def)
qed
lemma commit_unknown_account:
  assumes "ce_err c = None" and "find_account d key team = None"
    and "list_all ce.latched fs"
  shows "\<exists>s'. commitA en opts (fold (\<lambda>f. f) fs (ToE d (eap key team) x os c)) s =
    (Inl (ErrMsg (''account not found '' @ key @ '' in team '' @ show_nat team)), s')"
proof -
  let ?e = "ErrMsg (''account not found '' @ key @ '' in team '' @ show_nat team)"
  have "ce_err (ToE d (eap key team) x os c) = Some ?e"
    using assms(1,2) by (simp add: ToE_def getAccount_def eap_def ce_setErr_def)
  then have "ce_err (fold (\<lambda>f. f) fs (ToE d (eap key team) x os c)) = Some ?e"
    using ce.latched_fold [of fs "\<lambda>f. f"] assms(3) by (simp add: list_all_iff ce.latchedD)
  from Commit_err [OF this, of en opts s] show ?thesis
    by (simp add: commitA_def case_prod_unfold)
qed

end
