(* ===== verification/Handler.thy ===== *)
theory Handler
  imports Rollback
begin

section \<open>Service handlers\<close>

text \<open>
  What the handlers of the service packages share. The authorization library is not part of
  the repository: the identity of a request is a record with its answers. The chains
  \<open>bookmng.NewTransaction().Create(&tran)...Err()\<close> and
  \<open>bookmng.NewCreateEntry(team, user)...Commit(opts).Err()\<close> are the actions \<open>newTxA\<close> and
  \<open>entryA\<close>, with the calls of the chain as a list in source order. Building an entry only reads the
  account table, so a chain that the source builds up piecewise is run where it is committed.

  A handler keeps a property of the tables (\<open>keeps\<close>) when it holds after every run, failed
  runs included. A handler books \<open>\<delta>\<close> (\<open>books\<close>) when every successful run changes the balance of
  account \<open>a\<close> in the book of team \<open>t\<close> by \<open>\<delta> t a\<close>. Both properties have a rule for each way
  a handler is composed.
\<close>

subsection \<open>The identity of a request\<close>

datatype Action = ActCreate | ActRead | ActUpdate | ActDelete

text \<open>
  An entity is named by its \<open>GetEntityID\<close>, or by its type where the repository does not define it.
  \<open>HasPermission ent dom act\<close> is the error of \<open>identity.HasPermission(...).Err()\<close>,
  \<open>ErrAfterCheck ent dom act\<close> that of \<open>identity.Err()\<close> after such a call whose result was dropped.
\<close>

record identity =
  IdentityID :: nat
  GetUserID :: nat
  IdentityErr :: "err option"
  HasPermission :: "string \<Rightarrow> nat \<Rightarrow> Action \<Rightarrow> err option"
  ErrAfterCheck :: "string \<Rightarrow> nat \<Rightarrow> Action \<Rightarrow> err option"
  RootDomain :: nat

datatype RequestFrom =
    REQUEST_FROM_ADMIN
  | REQUEST_FROM_SELLING
  | REQUEST_FROM_WAREHOUSE
  | REQUEST_FROM_OTHER nat

subsection \<open>Chains\<close>

datatype tx_call =
    LTypeLabel "(LabelKey \<times> string) list"
  | LCustomerService nat
  | LSupplier nat
  | LTags "string list"
  | LShop nat

fun run_tx_call :: "env \<Rightarrow> tx_call \<Rightarrow> createTx \<Rightarrow> session \<Rightarrow> createTx \<times> session" where
  "run_tx_call en (LTypeLabel ls) = AddTypeLabel ls"
| "run_tx_call en (LCustomerService i) = AddCustomerServiceID i"
| "run_tx_call en (LSupplier i) = AddSupplierID i"
| "run_tx_call en (LTags ts) = AddTags en ts"
| "run_tx_call en (LShop i) = AddShopID en i"

fun run_tx_calls :: "env \<Rightarrow> tx_call list \<Rightarrow> createTx \<Rightarrow> session \<Rightarrow> createTx \<times> session" where
  "run_tx_calls en [] c s = (c, s)"
| "run_tx_calls en (f # fs) c s = (case run_tx_call en f c s of (c, s) \<Rightarrow> run_tx_calls en fs c s)"

definition newTxA :: "env \<Rightarrow> Transaction \<Rightarrow> tx_call list \<Rightarrow> Transaction action" where
  "newTxA en tran calls s =
     (case NewTransaction s of (c, s) \<Rightarrow>
      case CreateT en tran c s of (tran, c, s) \<Rightarrow>
      case run_tx_calls en calls c s of (c, s) \<Rightarrow>
        (case ct_err c of None \<Rightarrow> (Inr tran, s) | Some e \<Rightarrow> (Inl e, s)))"

datatype entry_call =
    CTo AccountKey nat f64 "EntryOption list"
  | CFrom AccountKey nat f64 "EntryOption list"
  | CSet nat f64 f64
  | CRollback "(nat \<times> ChangeBalance) list"
  | CTransaction Transaction
  | CTransactionID nat
  | CDesc string

fun run_call :: "env \<Rightarrow> db \<Rightarrow> entry_call \<Rightarrow> createEntry \<Rightarrow> createEntry" where
  "run_call en d (CTo key team amount opts) = ToE d (eap key team) amount opts"
| "run_call en d (CFrom key team amount opts) = FromE d (eap key team) amount opts"
| "run_call en d (CSet accID credit debit) = SetE d accID credit debit"
| "run_call en d (CRollback balances) = (\<lambda>c. RollbackE en d balances [] c)"
| "run_call en d (CTransaction tran) = TransactionE tran"
| "run_call en d (CTransactionID txID) = TransactionIDE txID"
| "run_call en d (CDesc desc) = DescE desc"

text \<open>Most calls carry no entry option.\<close>

abbreviation ToC :: "AccountKey \<Rightarrow> nat \<Rightarrow> f64 \<Rightarrow> entry_call" where
  "ToC key team amount \<equiv> CTo key team amount []"

abbreviation FromC :: "AccountKey \<Rightarrow> nat \<Rightarrow> f64 \<Rightarrow> entry_call" where
  "FromC key team amount \<equiv> CFrom key team amount []"

definition run_calls :: "env \<Rightarrow> db \<Rightarrow> entry_call list \<Rightarrow> createEntry \<Rightarrow> createEntry" where
  "run_calls en d calls c = fold (run_call en d) calls c"

definition entryA ::
  "env \<Rightarrow> nat \<Rightarrow> nat \<Rightarrow> entry_call list \<Rightarrow> CommitOption list \<Rightarrow> unit action" where
  "entryA en team user calls opts s =
     commitA en opts (run_calls en (s_db s) calls (newCreateEntry team user)) s"

text \<open>A chain that ends in \<open>Err()\<close> without a \<open>Commit\<close>.\<close>

definition uncommittedA :: "env \<Rightarrow> nat \<Rightarrow> nat \<Rightarrow> entry_call list \<Rightarrow> unit action" where
  "uncommittedA en team user calls s =
     checkA (ce_err (run_calls en (s_db s) calls (newCreateEntry team user))) s"

definition thenA :: "'a action \<Rightarrow> 'b action \<Rightarrow> 'b action" where
  "thenA m n = bindA m (\<lambda>_. n)"

definition whenA :: "bool \<Rightarrow> unit action \<Rightarrow> unit action" where
  "whenA b m = (if b then m else returnA ())"

text \<open>\<open>return err\<close> of a transaction opened inside another action: its value is dropped.\<close>

definition unitA :: "'a action \<Rightarrow> unit action" where
  "unitA m = bindA m (\<lambda>_. returnA ())"

text \<open>\<open>NewTransactionMutation(ctx, tx).ByRefID(ref, true).RollbackEntry(user, desc).Err()\<close>.\<close>

definition rollbackA :: "env \<Rightarrow> RefID \<Rightarrow> nat \<Rightarrow> string \<Rightarrow> unit action" where
  "rollbackA en ref user desc s =
     (case RollbackEntry en user desc (ByRefID ref (s_db s) NewTransactionMutation) s of
        (t, s) \<Rightarrow> checkA (tm_err t) s)"

text \<open>Seconds since 1970 of an instant counted from year 1.\<close>

definition Unix :: "Time \<Rightarrow> int" where
  "Unix t = nanos t div 1000000000 - 62135596800"

text \<open>A field of a message that may be missing: reading through the nil pointer panics.\<close>

definition derefA :: "'a option \<Rightarrow> 'a action" where
  "derefA x = (case x of Some y \<Rightarrow> returnA y | None \<Rightarrow> failA (Panic ''nil pointer dereference''))"

subsection \<open>Invariants of the journal\<close>

definition keeps :: "(db \<Rightarrow> bool) \<Rightarrow> 'a action \<Rightarrow> bool" where
  "keeps I h \<longleftrightarrow> (\<forall>s r s'. h s = (r, s') \<longrightarrow> I (s_db s) \<longrightarrow> I (s_db s'))"

lemma keepsI: "(\<And>s r s'. h s = (r, s') \<Longrightarrow> I (s_db s) \<Longrightarrow> I (s_db s')) \<Longrightarrow> keeps I h"
  by (auto simp: keeps_def)

lemma keepsD: "keeps I h \<Longrightarrow> h s = (r, s') \<Longrightarrow> I (s_db s) \<Longrightarrow> I (s_db s')"
  by (auto simp: keeps_def)

named_theorems keep \<open>rules for \<open>keeps\<close>\<close>

lemma keeps_return [keep]: "keeps I (returnA x)"
  by (auto intro!: keepsI simp: returnA_def)

lemma keeps_fail [keep]: "keeps I (failA e)"
  by (auto intro!: keepsI simp: failA_def)

lemma keeps_check [keep]: "keeps I (checkA eo)"
  by (auto intro!: keepsI simp: checkA_def returnA_def failA_def split: option.splits)

lemma keeps_read [keep]: "keeps I (readA f)"
  by (auto intro!: keepsI simp: readA_def)

lemma keeps_bind [keep]:
  assumes "keeps I m" and "\<And>x. keeps I (f x)"
  shows "keeps I (bindA m f)"
proof (rule keepsI)
  fix s r s' assume b: "bindA m f s = (r, s')" and i: "I (s_db s)"
  obtain q s1 where q: "m s = (q, s1)" by (cases "m s")
  with keepsD [OF assms(1) q i] b show "I (s_db s')"
    by (cases q) (auto simp: bindA_def intro: keepsD [OF assms(2)])
qed

lemma keeps_thenA [keep]: "keeps I m \<Longrightarrow> keeps I n \<Longrightarrow> keeps I (thenA m n)"
  unfolding thenA_def by (rule keeps_bind)

lemma keeps_whenA [keep]: "(b \<Longrightarrow> keeps I m) \<Longrightarrow> keeps I (whenA b m)"
  by (simp add: whenA_def keeps_return)

lemma keeps_derefA [keep]: "keeps I (derefA x)"
  by (simp add: derefA_def keeps_return keeps_fail split: option.splits)

lemma keeps_forA [keep]: "(\<And>x. x \<in> set xs \<Longrightarrow> keeps I (f x)) \<Longrightarrow> keeps I (forA xs f)"
  by (induction xs) (auto intro: keep)

lemma keeps_if [keep]: "keeps I a \<Longrightarrow> keeps I b \<Longrightarrow> keeps I (if c then a else b)"
  by simp

lemma keeps_transaction [keep]:
  assumes "keeps I h"
  shows "keeps I (transactionA h)"
proof (rule keepsI)
  fix s r s' assume t: "transactionA h s = (r, s')" and i: "I (s_db s)"
  obtain q s1 where q: "h s = (q, s1)" by (cases "h s")
  with t i keepsD [OF assms q i] show "I (s_db s')"
    by (cases q) (auto simp: transactionA_def)
qed

lemma keeps_OpenTransaction [keep]:
  assumes "keeps I h"
  shows "keeps I (OpenTransaction en h)"
proof (rule keepsI)
  fix s r s' assume t: "OpenTransaction en h s = (r, s')" and i: "I (s_db s)"
  show "I (s_db s')"
  proof (cases r)
    case (Inl e)
    with OpenTransaction_error_cases [of en h s e s'] t i show ?thesis
      using keepsD [OF assms, of "open_book s"] by auto
  next
    case (Inr q)
    show ?thesis
    proof (cases q)
      case None
      with Inr t i OpenTransaction_None(1) [of en h s s'] show ?thesis by simp
    next
      case (Some x)
      with Inr t obtain s1 where "h (open_book s) = (Inr x, s1)" "s_db s' = s_db s1"
        by (metis OpenTransaction_Some_db)
      with i keepsD [OF assms, of "open_book s"] show ?thesis by simp
    qed
  qed
qed

end
