(* ===== verification/Samples.thy ===== *)
theory Samples
  imports Handler
begin

section \<open>A small company\<close>

text \<open>
  Concrete tables for the evaluations: two teams (7 and 8) with a cash, a payable and a
  receivable account each, the identity as iteration order, and no registered handler.
\<close>

definition sample_time :: Time where
  "sample_time = \<lparr>nanos = 1700000000 * 1000000000, offset = 7 * 3600 * 1000000000\<rparr>"

definition sample_account :: "nat \<Rightarrow> AccountKey \<Rightarrow> nat \<Rightarrow> BalanceType \<Rightarrow> Account" where
  "sample_account i key team bt = \<lparr>acc_ID = i, acc_Key = key, acc_TeamID = team, acc_Coa = 0,
     acc_BalanceType = bt, acc_CanAdjust = True, acc_Name = key, acc_Created = sample_time\<rparr>"

definition sample_accounts :: "Account list" where
  "sample_accounts =
     [sample_account 1 ''cash'' 7 ''d'', sample_account 2 ''payable'' 7 ''c'',
      sample_account 3 ''receivable'' 7 ''d'', sample_account 4 ''cash'' 8 ''d'',
      sample_account 5 ''payable'' 8 ''c'', sample_account 6 ''receivable'' 8 ''d'']"

definition empty_db :: db where
  "empty_db = \<lparr>db_seq = 100, db_accounts = [], db_entries = [], db_txs = [], db_type_labels = [],
     db_tags = [], db_tx_type_labels = [], db_tx_tags = [], db_tx_shops = [], db_tx_cs = [],
     db_tx_suppliers = [], db_marketplaces = [], db_payments = [], db_expenses = [],
     db_bank_accounts = [], db_transfers = [],
     db_bank_labels = [], db_bank_label_rels = []\<rparr>"

definition sample_db :: db where
  "sample_db = empty_db\<lparr>db_accounts := sample_accounts\<rparr>"

definition sample_env :: env where
  "sample_env = \<lparr>now = sample_time, MpConst = (\<lambda>_. []), MarketplaceType_name = (\<lambda>_. []),
     iter = (\<lambda>ks. ks), uniq_msg = ''duplicate key value violates unique constraint'',
     customHandler = []\<rparr>"

definition session_of :: "db \<Rightarrow> session" where
  "session_of d = \<lparr>s_db = d, s_cells = [], s_labels = None, s_entries = [], s_outbox = []\<rparr>"

lemma iter_ok_sample [simp]: "iter_ok (iter sample_env)"
  by (simp add: iter_ok_def sample_env_def)

lemma session_of_db [simp]: "s_db (session_of d) = d"
  by (simp add: session_of_def)

lemma trial_balanced_empty [simp]: "db_entries d = [] \<Longrightarrow> trial_balanced d"
  by (simp add: trial_balanced_def book_of_def)

text \<open>A user who may do everything.\<close>

definition anyone :: identity where
  "anyone = \<lparr>IdentityID = 1, GetUserID = 1, IdentityErr = None, HasPermission = (\<lambda>_ _ _. None),
     ErrAfterCheck = (\<lambda>_ _ _. None), RootDomain = 99\<rparr>"

lemma anyone_simps [simp]: "HasPermission anyone ent dm act = None" "ErrAfterCheck anyone ent dm act = None"
  "IdentityErr anyone = None"
  by (simp_all add: anyone_def)

text \<open>The definitions an evaluation unfolds.\<close>

lemmas sample_defs = sample_db_def empty_db_def sample_accounts_def sample_account_def
  sample_env_def sample_time_def session_of_def

text \<open>Team 7 pays 250 of its debts in cash.\<close>

definition pay_debt :: createEntry where
  "pay_debt = FromE sample_db (eap ''payable'' 7) (f64_of 250) []
     (FromE sample_db (eap ''cash'' 7) (f64_of 250) [] (newCreateEntry 7 1))"

lemmas builder_defs = FromE_def ToE_def getAccount_def find_account_def eap_def newCreateEntry_def
  f64_times_minus_1 SetAmountEntry_def mergeEntry_def DebitBalance_def CreditBalance_def newEntry_def

lemma pay_debt_built: "built en sample_db pay_debt"
  unfolding pay_debt_def by (intro built.intros) simp_all

lemma pay_debt_entries: "ce_entries pay_debt =
    [(1, (newEntry 1)\<lparr>je_Credit := f64_of 250\<rparr>), (2, (newEntry 2)\<lparr>je_Debit := f64_of 250\<rparr>)]"
  by (simp add: pay_debt_def builder_defs sample_defs)

lemma pay_debt_whole: "whole_builder pay_debt"
  by (simp add: whole_builder_def pay_debt_entries newEntry_def whole_list_def whole_f64_of val_f64_of)

text \<open>The definitions that evaluate a commit and a transaction.\<close>

lemmas commit_eval = Commit_def isEntryEmpty_def commit_prepare_def commit_body_def IsZero_def
  range_map_def List.map_filter_simps save_entry_def CompareFloatSafe_refl ce_setErr_def Let_def

lemmas transaction_eval = OpenTransaction_def transactionA_def tx_body_def DailyUpdateData_def
  LabelExtra_def commitA_def bindA_def returnA_def failA_def checkA_def readA_def updateA_def

lemma pay_debt_eq: "pay_debt = \<lparr>ce_teamID = 7, ce_createdByID = 1,
    ce_entries = [(1, (newEntry 1)\<lparr>je_Credit := f64_of 250\<rparr>), (2, (newEntry 2)\<lparr>je_Debit := f64_of 250\<rparr>)],
    ce_accountMap = [(1, sample_account 1 ''cash'' 7 ''d''), (2, sample_account 2 ''payable'' 7 ''c'')],
    ce_err = None\<rparr>"
  by (simp add: pay_debt_def builder_defs sample_defs)

text \<open>The tables after it, alone and as transaction 50.\<close>

definition paid_row :: "nat \<Rightarrow> nat \<Rightarrow> int \<Rightarrow> int \<Rightarrow> JournalEntry" where
  "paid_row i acc debit credit = (newEntry acc)\<lparr>je_ID := i, je_TeamID := 7, je_CreatedByID := 1,
     je_EntryTime := sample_time, je_Debit := f64_of debit, je_Credit := f64_of credit\<rparr>"

definition paid_db :: db where
  "paid_db = sample_db\<lparr>db_seq := 102, db_entries := [paid_row 101 1 0 250, paid_row 102 2 250 0]\<rparr>"

lemma pay_debt_ok:
  "commitA sample_env [] pay_debt (session_of sample_db) =
     (Inr (), (session_of paid_db)\<lparr>s_entries := db_entries paid_db\<rparr>)"
  unfolding commitA_def
  by (simp add: commit_eval pay_debt_eq newEntry_def sample_env_def zeroTime_def sample_time_def,
      simp add: sample_defs paid_db_def paid_row_def newEntry_def zeroTime_def)

lemma pay_debt_transaction:
  "OpenTransaction sample_env (commitA sample_env [] pay_debt) (session_of sample_db) =
     (Inr (Some ()), session_of paid_db)"
proof -
  have o: "open_book (session_of sample_db) = session_of sample_db" by (simp add: open_book_def session_of_def)
  show ?thesis unfolding OpenTransaction_Some tx_body_Inr o pay_debt_ok
    by (simp add: sample_env_def paid_db_def paid_row_def restore_book_def session_of_def)
qed

definition paid_tx :: Transaction where
  "paid_tx = emptyTransaction\<lparr>tx_ID := 50, tx_RefID := ''payment#1'', tx_TeamID := 7\<rparr>"

definition booked_db :: db where
  "booked_db = sample_db\<lparr>db_seq := 102, db_txs := [paid_tx],
     db_entries := map (\<lambda>e. e\<lparr>je_TransactionID := 50\<rparr>) (db_entries paid_db)\<rparr>"

definition booked_tx :: txMut where
  "booked_tx = \<lparr>tm_data = Some paid_tx, tm_err = None\<rparr>"

lemma booked_entries: "entries_of_tx booked_db 50 = 
   [(paid_row 101 1 0 250)\<lparr>je_TransactionID := 50, je_Account := Some (sample_account 1 ''cash'' 7 ''d'')\<rparr>,
    (paid_row 102 2 250 0)\<lparr>je_TransactionID := 50, je_Account := Some (sample_account 2 ''payable'' 7 ''c'')\<rparr>]"
  by (simp add: entries_of_tx_def booked_db_def paid_db_def paid_row_def preload_account_def account_by_id_def newEntry_def sample_db_def empty_db_def sample_accounts_def sample_account_def)

lemma reversible_booked: "reversible booked_db 50"
  by (simp add: reversible_def booked_entries whole_list_def paid_row_def whole_f64_of val_f64_of
    balance_typed_def sample_account_def DebitBalance_def CreditBalance_def)

lemma range_map_sample [simp]:
  "distinct (map fst m) \<Longrightarrow> range_map (iter sample_env) m = m"
proof -
  have *: "List.map_filter (\<lambda>k. map_option (Pair k) (map_of m k)) (map fst m') = m'"
    if "set m' \<subseteq> set m" and "distinct (map fst m)" for m'
    using that by (induction m') (auto simp: List.map_filter_simps)
  assume "distinct (map fst m)"
  with * [of m] show ?thesis by (simp add: range_map_def sample_env_def)
qed

lemma booked_balance: "AccountBalance (entries_of_tx booked_db 50) =
   Inr [(1, \<lparr>cb_Account = sample_account 1 ''cash'' 7 ''d'', cb_Debit = 0, cb_Credit = f64_of 250\<rparr>),
     (2, \<lparr>cb_Account = sample_account 2 ''payable'' 7 ''c'', cb_Debit = f64_of 250, cb_Credit = 0\<rparr>)]"
  by (simp add: booked_entries paid_row_def AccountBalance_def newEntry_def Let_def)

definition undo_builder :: createEntry where
  "undo_builder = \<lparr>ce_teamID = 7, ce_createdByID = 1,
    ce_entries = [(1, (newEntry 1)\<lparr>je_Debit := f64_of 250\<rparr>), (2, (newEntry 2)\<lparr>je_Credit := f64_of 250\<rparr>)],
    ce_accountMap = [(1, sample_account 1 ''cash'' 7 ''d''), (2, sample_account 2 ''payable'' 7 ''c'')],
    ce_err = None\<rparr>"

lemma booked_accounts: "account_by_id booked_db 1 = Some (sample_account 1 ''cash'' 7 ''d'')"
  "account_by_id booked_db 2 = Some (sample_account 2 ''payable'' 7 ''c'')"
  by (simp_all add: account_by_id_def booked_db_def sample_db_def empty_db_def sample_accounts_def sample_account_def)

lemma booked_reverse: "reverse_teams sample_env booked_db 1 [(7, entries_of_tx booked_db 50)] [(7, newCreateEntry 7 1)] =
  Inr [(7, undo_builder)]"
  by (simp add: booked_balance booked_accounts Let_def reverse_account_def Change_def DebitBalance_def CreditBalance_def
     SetE_def newCreateEntry_def mergeEntry_def newEntry_def undo_builder_def sample_account_def del: One_nat_def)

lemma booked_undo:
  "\<exists>es. rollback_handle sample_env 1 ''undo'' 50 (entries_of_tx booked_db 50) (session_of booked_db) =
     (Inr (), (session_of (booked_db\<lparr>db_seq := 104, db_entries := db_entries booked_db @ es\<rparr>))\<lparr>s_entries := es\<rparr>) \<and>
     map je_ID es = [103, 104]"
proof -
  let ?es = "entries_of_tx booked_db 50"
  have te: "group_by_team [] ?es = [(7, ?es)]" by (simp add: booked_entries paid_row_def)
  have u: "DescE ''undo'' (TransactionIDE 50 undo_builder) = undo_builder\<lparr>ce_entries :=
      [(1, (newEntry 1)\<lparr>je_Debit := f64_of 250, je_TransactionID := 50, je_Desc := ''undo''\<rparr>),
       (2, (newEntry 2)\<lparr>je_Credit := f64_of 250, je_TransactionID := 50, je_Desc := ''undo''\<rparr>)]\<rparr>"
    (is "_ = ?u")
    by (simp add: DescE_def TransactionIDE_def undo_builder_def on_entries_def isEntryEmpty_def newEntry_def)
  have "rollback_handle sample_env 1 ''undo'' 50 ?es (session_of booked_db) =
      commitA sample_env [RollbackOption] ?u (session_of booked_db)"
    by (simp add: rollback_handle_def te booked_reverse readA_def bindA_def u returnA_def
        del: One_nat_def reverse_teams.simps split: prod.splits sum.splits)
  moreover have "\<exists>es. commitA sample_env [RollbackOption] ?u (session_of booked_db) =
      (Inr (), (session_of (booked_db\<lparr>db_seq := 104, db_entries := db_entries booked_db @ es\<rparr>))\<lparr>s_entries := es\<rparr>) \<and>
      map je_ID es = [103, 104]"
    by (simp add: commitA_def commit_eval undo_builder_def newEntry_def RollbackOption_def zeroTime_def
          sample_env_def sample_time_def,
        simp add: session_of_def booked_db_def)
  ultimately show ?thesis by simp
qed

lemma open_book_session [simp]: "open_book (session_of d) = session_of d"
  by (simp add: open_book_def session_of_def)

lemma booked_rollback:
  "\<exists>es. RollbackEntry sample_env 1 ''undo'' booked_tx (session_of booked_db) =
     (booked_tx, session_of (booked_db\<lparr>db_seq := 104, db_entries := db_entries booked_db @ es\<rparr>)) \<and>
     map je_ID es = [103, 104]"
proof -
  let ?h = "rollback_handle sample_env 1 ''undo'' 50 (entries_of_tx booked_db 50)"
  obtain es :: "JournalEntry list" where es: "map je_ID es = [103, 104]"
    and h: "?h (session_of booked_db) =
      (Inr (), (session_of (booked_db\<lparr>db_seq := 104, db_entries := db_entries booked_db @ es\<rparr>))\<lparr>s_entries := es\<rparr>)"
    using booked_undo by (elim exE conjE) (rule that)
  let ?s = "session_of (booked_db\<lparr>db_seq := 104, db_entries := db_entries booked_db @ es\<rparr>)"
  have "OpenTransaction sample_env ?h (session_of booked_db) = (Inr (Some ()), ?s)"
    unfolding OpenTransaction_Some tx_body_Inr open_book_session h
    using es by (auto simp: sample_env_def restore_book_def session_of_def)
  moreover have "entries_of_tx booked_db 50 \<noteq> []" by (simp add: booked_entries)
  ultimately show ?thesis
    using es by (intro exI [of _ es]) (simp add: RollbackEntry_def booked_tx_def paid_tx_def emptyTransaction_def)
qed

text \<open>The payment with 5 moved into and out of the receivables: account 3 nets to zero.\<close>

definition zero_net :: createEntry where
  "zero_net = FromE sample_db (eap ''receivable'' 7) (f64_of 5) []
     (ToE sample_db (eap ''receivable'' 7) (f64_of 5) [] pay_debt)"

lemma zero_net_eq: "zero_net = pay_debt\<lparr>
    ce_entries := ce_entries pay_debt @
      [(3, (newEntry 3)\<lparr>je_Debit := f64_of 5, je_Credit := f64_of 5\<rparr>)],
    ce_accountMap := ce_accountMap pay_debt @ [(3, sample_account 3 ''receivable'' 7 ''d'')]\<rparr>"
  by (simp add: zero_net_def pay_debt_eq builder_defs sample_defs)

lemma zero_net_built: "built en sample_db zero_net"
  unfolding zero_net_def by (intro built.intros pay_debt_built) simp_all

lemma zero_net_ok: "ce_err (fst (Commit sample_env [] zero_net (session_of sample_db))) = None"
  by (simp add: commit_eval zero_net_eq pay_debt_eq newEntry_def sample_env_def zeroTime_def
        sample_time_def f64_of_arith)

text \<open>Cash moved to cash of the same team, with one handler registered.\<close>

definition to_self :: createEntry where
  "to_self = ToE sample_db (eap ''cash'' 7) (f64_of 40) []
     (FromE sample_db (eap ''cash'' 7) (f64_of 40) [] (newCreateEntry 7 1))"

definition daily_env :: env where
  "daily_env = RegisterCustomHandler ''daily'' (\<lambda>_. None) sample_env"

lemma daily_env_handlers [simp]: "customHandler daily_env = [(''daily'', \<lambda>_. None)]"
  by (simp add: daily_env_def RegisterCustomHandler_def sample_env_def)

lemma iter_ok_daily [simp]: "iter_ok (iter daily_env)"
  by (simp add: daily_env_def RegisterCustomHandler_def)

lemma to_self_eq: "to_self = \<lparr>ce_teamID = 7, ce_createdByID = 1,
    ce_entries = [(1, (newEntry 1)\<lparr>je_Debit := f64_of 40, je_Credit := f64_of 40\<rparr>)],
    ce_accountMap = [(1, sample_account 1 ''cash'' 7 ''d'')], ce_err = None\<rparr>"
  by (simp add: to_self_def builder_defs sample_defs)

lemma to_self_built: "built en sample_db to_self"
  unfolding to_self_def by (intro built.intros) simp_all

lemma to_self_ok: "commitA daily_env [IncludeDebitCreditEqual] to_self (session_of sample_db) =
    (Inr (), (session_of (sample_db\<lparr>db_seq := 102,
       db_entries := [paid_row 101 1 40 0, paid_row 102 1 0 40]\<rparr>))\<lparr>s_entries := [paid_row 102 1 0 40]\<rparr>)"
  unfolding commitA_def
  by (simp add: commit_eval to_self_eq newEntry_def sample_env_def daily_env_def RegisterCustomHandler_def
        IncludeDebitCreditEqual_def zeroTime_def sample_time_def,
      simp add: sample_defs paid_row_def newEntry_def zeroTime_def)

lemma to_self_transaction:
  "\<exists>s' msg. OpenTransaction daily_env (commitA daily_env [IncludeDebitCreditEqual] to_self)
     (session_of sample_db) = (Inr (Some ()), s') \<and> s_outbox s' = [(''daily'', msg)] \<and>
     s_db s' = sample_db\<lparr>db_seq := 102, db_entries := [paid_row 101 1 40 0, paid_row 102 1 0 40]\<rparr>"
  unfolding OpenTransaction_Some tx_body_Inr open_book_session to_self_ok
  by (auto simp: paid_row_def restore_book_def session_of_def)

definition settled_db :: db where
  "settled_db = booked_db\<lparr>db_seq := 104, db_entries := db_entries booked_db @
     [(paid_row 103 1 250 0)\<lparr>je_TransactionID := 50\<rparr>, (paid_row 104 2 0 250)\<lparr>je_TransactionID := 50\<rparr>]\<rparr>"

lemma settled_entries: "entries_of_tx settled_db 50 \<noteq> []"
  "list_all (\<lambda>e. je_Account e \<noteq> None) (entries_of_tx settled_db 50)"
  by (simp_all add: entries_of_tx_def settled_db_def booked_db_def paid_db_def paid_row_def
      preload_account_def account_by_id_def newEntry_def sample_db_def empty_db_def
      sample_accounts_def sample_account_def)

lemma settled_reversible: "reversible settled_db 50"
  by (simp add: reversible_def entries_of_tx_def settled_db_def booked_db_def paid_db_def paid_row_def
      preload_account_def account_by_id_def newEntry_def sample_db_def empty_db_def
      sample_accounts_def sample_account_def whole_list_def whole_f64_of val_f64_of
      balance_typed_def DebitBalance_def CreditBalance_def)

lemma settled_net: "net 50 team a (db_entries settled_db) = 0"
  by (simp add: settled_db_def booked_db_def paid_db_def paid_row_def newEntry_def)

end
