(* ===== verification/CoreSpec.thy ===== *)
theory CoreSpec
  imports Samples
begin

section \<open>Properties of the accounting core\<close>

text \<open>
  The properties of \<open>accounting_core\<close>: the journal stays balanced, \<open>Commit\<close> writes the rows of
  its specification, rollbacks cancel, transactions are atomic. Each rests on the lemmas of
  the component's theory and is followed by an evaluation on the sample company.
\<close>

text \<open>
  C1: whatever builders the calls of the \<open>CreateEntry\<close> interface make, for any teams and in any
  number, committing them keeps debits equal to credits in the book of every team, as long as
  amounts are whole and a builder's amounts sum to at most \<open>2^53\<close>; a refused commit included.
\<close>

theorem journal_stays_balanced:
  assumes "ledger_run en s s'" and "iter_ok (iter en)" and "trial_balanced (s_db s)"
  shows "trial_balanced (s_db s')"
  using assms by (rule ledger_run_balanced)

lemma journal_stays_balanced_witness:
  "trial_balanced (s_db (snd (Commit sample_env [] pay_debt (session_of sample_db))))"
proof (rule journal_stays_balanced)
  show "ledger_run sample_env (session_of sample_db)
      (snd (Commit sample_env [] pay_debt (session_of sample_db)))"
    by (rule ledger_run.commit [OF ledger_run.stop, of _ _ pay_debt "[]"
          "fst (Commit sample_env [] pay_debt (session_of sample_db))"])
       (simp_all add: pay_debt_built pay_debt_whole)
qed (simp_all add: sample_db_def empty_db_def)

text \<open>
  C2: \<open>Commit\<close> implements its list-level specification. When the totals differ by
  \<open>PrecisionEpsilon\<close> or more nothing is saved and the totals are reported; otherwise exactly
  the rows \<open>commit_rows\<close> are appended, under consecutive fresh ids, and the only errors left
  are a latched one and that of an empty list.
\<close>

theorem commit_writes_rows:
  assumes "plain_opts opts incl f" and "iter_ok (iter en)" and "built en d c" and "ce_entries c \<noteq> []"
  shows "s_db (snd (Commit en opts c s)) =
      (if CompareFloatSafe (total_debit en c) (total_credit en c) PrecisionEpsilon
       then insert_rows (commit_rows en incl f c) (s_db s) else s_db s) \<and>
    ce_err (fst (Commit en opts c s)) =
      (if ce_err c \<noteq> None then ce_err c
       else if \<not> CompareFloatSafe (total_debit en c) (total_credit en c) PrecisionEpsilon
       then Some (ErrEntryInvalid (total_debit en c) (total_credit en c))
       else if commit_rows en incl f c = []
       then Some (ErrMsg (''empty entry on book '' @ show_nat (ce_teamID c)))
       else None)"
  using Commit_spec [OF assms(1,2) built_fresh [OF assms(3)] assms(4), of s]
  by (auto split: option.splits)

lemma commit_writes_rows_witness:
  "map (\<lambda>e. (je_ID e, je_AccountID e, je_TeamID e))
     (db_entries (s_db (snd (Commit sample_env [] pay_debt (session_of sample_db))))) =
   [(101, 1, 7), (102, 2, 7)]"
  using commit_writes_rows [OF plain_opts_Nil iter_ok_sample pay_debt_built, of "session_of sample_db"]
  by (simp add: pay_debt_entries commit_rows_def rows_of_def total_debit_def total_credit_def
      insert_rows_def prepared_def newEntry_def sample_defs range_map_def List.map_filter_simps
      pay_debt_def builder_defs)

text \<open>
  C33: \<open>SetAmountEntry\<close> accepts exactly the non-zero amounts on an account of type debit or
  credit; it fills one non-negative side of a new entry, and the balance change it books
  (\<open>ChangeBalance.Change\<close>) is the signed amount itself.
\<close>

theorem set_amount_books_amount:
  "(case SetAmountEntry a x (newEntry i) of
      Inl _ \<Rightarrow> \<not> (x \<noteq> 0 \<and> balance_typed a)
    | Inr e \<Rightarrow> x \<noteq> 0 \<and> balance_typed a \<and> je_AccountID e = i \<and> je_ID e = 0 \<and>
        0 \<le> je_Debit e \<and> 0 \<le> je_Credit e \<and> (je_Debit e = 0) \<noteq> (je_Credit e = 0) \<and>
        Change \<lparr>cb_Account = a, cb_Debit = je_Debit e, cb_Credit = je_Credit e\<rparr> = x)"
proof (cases "x = 0 \<or> \<not> balance_typed a")
  case True
  then show ?thesis by (auto simp: SetAmountEntry_def balance_typed_def Let_def)
next
  case False
  then show ?thesis
    by (cases x "0::f64" rule: linorder_cases)
       (auto simp: SetAmountEntry_def balance_typed_def Change_def newEntry_def Let_def
         order.strict_implies_order)
qed

lemma set_amount_books_amount_witness:
  "SetAmountEntry (sample_account 2 ''payable'' 7 ''c'') (f64_of (- 40)) (newEntry 2) =
     Inr ((newEntry 2)\<lparr>je_Debit := f64_of 40\<rparr>) \<and>
   Change \<lparr>cb_Account = sample_account 2 ''payable'' 7 ''c'', cb_Debit = f64_of 40, cb_Credit = 0\<rparr> =
     f64_of (- 40)"
  using set_amount_books_amount [where a = "sample_account 2 ''payable'' 7 ''c''"
      and x = "f64_of (- 40)" and i = 2]
  by (simp add: SetAmountEntry_def sample_account_def CreditBalance_def DebitBalance_def newEntry_def f64_of_uminus)

text \<open>
  \<open>AccountBalance\<close> fails exactly when an entry's account is not loaded; otherwise it holds one
  balance per account that occurs, made of the sums of its debits and credits in list order.
\<close>

theorem account_balance_sums:
  "case AccountBalance es of
     Inl _ \<Rightarrow> list_ex (\<lambda>e. je_Account e = None) es
   | Inr m \<Rightarrow> list_all (\<lambda>e. je_Account e \<noteq> None) es \<and> distinct (map fst m) \<and>
       (\<forall>a. map_of m a = (if on_account a es = [] then None else Some (balance_of (on_account a es))))"
proof (cases "AccountBalance es")
  case (Inl e)
  then show ?thesis using AccountBalance_from_error [of "[]" es] by (auto simp: AccountBalance_def list_ex_iff)
next
  case (Inr m)
  then have "list_all (\<lambda>e. je_Account e \<noteq> None) es"
    using AccountBalance_from_error [of "[]" es] by (auto simp: AccountBalance_def list_all_iff)
  with Inr show ?thesis by (simp add: AccountBalance_lookup AccountBalance_distinct)
qed

text \<open>
  C8: when \<open>RollbackEntry\<close> reports no error, the rows of the transaction net to zero on every
  account of every team's book, whatever the iteration orders of its maps, provided the
  entries are whole amounts of magnitude at most \<open>2^53\<close> in total on debit or credit accounts.
\<close>

theorem rollback_cancels:
  assumes "iter_ok (iter en)" and "reversible (s_db s) (tx_ID r)" and "tm_data t = Some r"
    and "RollbackEntry en u desc t s = (t', s')" and "tm_err t' = None"
  shows "net (tx_ID r) team a (db_entries (s_db s')) = 0"
  using assms by (rule RollbackEntry_net)

lemma rollback_cancels_witness:
  "net 50 7 1 (db_entries (s_db (snd (RollbackEntry sample_env 1 ''undo'' booked_tx (session_of booked_db))))) = 0"
proof -
  obtain t' s' where run: "RollbackEntry sample_env 1 ''undo'' booked_tx (session_of booked_db) = (t', s')"
    by (cases "RollbackEntry sample_env 1 ''undo'' booked_tx (session_of booked_db)")
  with booked_rollback have "tm_err t' = None" by (auto simp: booked_tx_def)
  with rollback_cancels [OF iter_ok_sample _ _ run, of paid_tx 7 1] show ?thesis
    unfolding run by (simp add: booked_tx_def paid_tx_def emptyTransaction_def reversible_booked)
qed

text \<open>
  C9: a transaction that ends in an error leaves the tables as they were, except in one
  case: the database transaction was committed and then a registered handler refused the
  message, so that the caller sees that handler's error although the books are written.
\<close>

theorem open_transaction_error:
  assumes "OpenTransaction en h s = (Inl e, s')"
  shows "s_db s' = s_db s \<or>
    (\<exists>x s1. h (open_book s) = (Inr x, s1) \<and> s_db s' = s_db s1 \<and>
       (\<exists>(name, hd) \<in> set (customHandler en). hd (DailyUpdateData s1) = Some e))"
  using assms by (rule OpenTransaction_error_cases)

lemma open_transaction_error_witness:
  "s_db (snd (OpenTransaction sample_env
     (bindA (updateA (\<lambda>d. d\<lparr>db_seq := 0\<rparr>)) (\<lambda>_. failA ErrEmptyEntry :: unit action))
     (session_of sample_db))) = sample_db"
proof -
  let ?h = "bindA (updateA (\<lambda>d. d\<lparr>db_seq := 0\<rparr>)) (\<lambda>_. failA ErrEmptyEntry :: unit action)"
  have h: "?h (open_book (session_of sample_db)) =
      (Inl ErrEmptyEntry, session_of (sample_db\<lparr>db_seq := 0\<rparr>))"
    by (simp add: action_defs session_of_def open_book_def)
  have "OpenTransaction sample_env ?h (session_of sample_db) = (Inl ErrEmptyEntry,
      snd (OpenTransaction sample_env ?h (session_of sample_db)))"
    using OpenTransaction_Inl [of ?h "session_of sample_db"] h by (simp add: tx_body_def flip: open_book_def)
  from open_transaction_error [OF this] h show ?thesis by auto
qed

text \<open>
  C10: a transaction that succeeds has written the handler's tables, its book is not empty,
  every entry of the book is saved, and every registered handler got one message, with one
  payload per entry of the book in order.
\<close>

theorem open_transaction_success:
  assumes "OpenTransaction en h s = (Inr (Some x), s')"
  shows "\<exists>s1. h (open_book s) = (Inr x, s1) \<and> s_db s' = s_db s1 \<and> s_entries s1 \<noteq> [] \<and>
    (\<forall>e \<in> set (s_entries s1). je_ID e \<noteq> 0) \<and>
    (\<exists>msg. dr_Entries msg = map entry_payload (s_entries s1) \<and>
       s_outbox s' = s_outbox s1 @ map (\<lambda>(name, _). (name, msg)) (customHandler en))"
  using OpenTransaction_Some_db [OF assms]
  by (metis DailyUpdateData_entries)

lemma open_transaction_success_witness:
  "\<exists>s1. commitA sample_env [] pay_debt (open_book (session_of sample_db)) = (Inr (), s1) \<and>
     s_db s1 = paid_db \<and> map je_ID (s_entries s1) = [101, 102]"
  using open_transaction_success [OF pay_debt_transaction]
  by (auto simp: pay_debt_ok paid_db_def paid_row_def)

text \<open>
  \<open>OpenTransaction\<close> returns without error and without effect on the tables exactly when the
  handler answers \<open>ErrSkipTransaction\<close>.
\<close>

theorem skip_is_silent:
  "((\<exists>s'. OpenTransaction en h s = (Inr None, s')) \<longleftrightarrow>
      (\<exists>s1. h (open_book s) = (Inl ErrSkipTransaction, s1))) \<and>
   (\<forall>s'. OpenTransaction en h s = (Inr None, s') \<longrightarrow> s_db s' = s_db s)"
  using OpenTransaction_None [of en h s] OpenTransaction_skip [of h s _ en] by blast+

lemma skip_is_silent_witness:
  "\<exists>s'. OpenTransaction sample_env (failA ErrSkipTransaction :: unit action) (session_of sample_db) =
     (Inr None, s') \<and> s_db s' = sample_db"
  using skip_is_silent [of sample_env "failA ErrSkipTransaction :: unit action" "session_of sample_db"]
  by (auto simp: failA_def)

text \<open>
  C31: an account whose debit and credit in the builder are equal is never saved, yet it stays
  in the book. A transaction made of one such commit is refused ("theres entry not save")
  and undone, although \<open>Commit\<close> itself reports success.
\<close>

theorem zero_net_account_refused:
  assumes "plain_opts opts False f" and "iter_ok (iter en)" and "built en d c"
    and "map_of (ce_entries c) k = Some e" and "je_Debit e = je_Credit e"
    and "ce_err (fst (Commit en opts c (open_book s))) = None"
  shows "\<exists>m s'. OpenTransaction en (commitA en opts c) s = (Inl (ErrMsg m), s') \<and> s_db s' = s_db s"
  using assms by (rule unsaved_entry_refused)

lemma zero_net_account_refused_witness:
  "\<exists>m s'. OpenTransaction sample_env (commitA sample_env [] zero_net) (session_of sample_db) =
     (Inl (ErrMsg m), s') \<and> s_db s' = sample_db"
  using zero_net_account_refused [OF plain_opts_Nil iter_ok_sample zero_net_built, where k = 3
      and e = "(newEntry 3)\<lparr>je_Debit := f64_of 5, je_Credit := f64_of 5\<rparr>" and s = "session_of sample_db"] zero_net_ok
  by (simp add: zero_net_eq pay_debt_eq)

text \<open>
  C30: an account moved in both directions under \<open>IncludeDebitCreditEqual\<close> (or with different
  amounts) gets two journal rows, but the message of the transaction carries only its credit:
  no payload on that account has a debit, so the daily balances built from the messages
  miss what the journal has.
\<close>

theorem two_sided_debit_not_reported:
  assumes "plain_opts opts incl f" and "iter_ok (iter en)" and "built en d c"
    and "map_of (ce_entries c) k = Some e" and "je_Debit e > 0" and "je_Credit e > 0"
    and "incl \<or> je_Debit e \<noteq> je_Credit e"
    and "OpenTransaction en (commitA en opts c) s = (Inr (Some ()), s')"
    and "s_outbox s' = s_outbox s @ [(name, msg)]"
  shows "(\<exists>r \<in> set (db_entries (s_db s')). je_AccountID r = k \<and> je_Debit r = je_Debit e) \<and>
    (\<forall>p \<in> set (dr_Entries msg). ep_AccountId p = k \<longrightarrow> ep_Debit p = 0)"
proof -
  from OpenTransaction_Some_db [OF assms(8)] obtain s1 where
    h: "commitA en opts c (open_book s) = (Inr (), s1)" and db: "s_db s' = s_db s1"
    and out: "s_outbox s' = s_outbox s1 @ map (\<lambda>(name, h). (name, DailyUpdateData s1)) (customHandler en)"
    by metis
  from commitA_Inr [OF h] have err: "ce_err (fst (Commit en opts c (open_book s))) = None"
    and s1: "s1 = snd (Commit en opts c (open_book s))" by auto
  have "s_outbox s1 = s_outbox s" unfolding s1 by (simp add: Commit_outbox)
  with out assms(9) have msg: "msg = DailyUpdateData s1" by (auto simp: map_eq_Cons_conv)
  note a = assms(1,2) built_fresh [OF assms(3)] assms(4-7) err
  from two_sided_rows [OF a] have "\<exists>r \<in> set (db_entries (s_db s')). je_AccountID r = k \<and> je_Debit r = je_Debit e"
    by (auto simp: db s1)
  moreover have "\<forall>p \<in> set (dr_Entries msg). ep_AccountId p = k \<longrightarrow> ep_Debit p = 0"
    using two_sided_book [OF a, folded s1]
    by (auto simp: msg DailyUpdateData_entries entry_payload_def)
  ultimately show ?thesis by simp
qed

lemma two_sided_debit_not_reported_witness:
  "\<exists>s' msg. OpenTransaction daily_env (commitA daily_env [IncludeDebitCreditEqual] to_self)
     (session_of sample_db) = (Inr (Some ()), s') \<and> s_outbox s' = [(''daily'', msg)] \<and>
     (\<exists>r \<in> set (db_entries (s_db s')). je_AccountID r = 1 \<and> je_Debit r = f64_of 40) \<and>
     (\<forall>p \<in> set (dr_Entries msg). ep_AccountId p = 1 \<longrightarrow> ep_Debit p = 0)"
proof -
  from to_self_transaction obtain s' msg where t: "OpenTransaction daily_env
      (commitA daily_env [IncludeDebitCreditEqual] to_self) (session_of sample_db) = (Inr (Some ()), s')"
    and o: "s_outbox s' = [(''daily'', msg)]" by blast
  from two_sided_debit_not_reported [OF plain_opts_Include [OF plain_opts_Nil] iter_ok_daily
      to_self_built _ _ _ _ t, of 1 "(newEntry 1)\<lparr>je_Debit := f64_of 40, je_Credit := f64_of 40\<rparr>"
      "''daily''" msg] t o
  show ?thesis by (auto simp: to_self_eq session_of_def)
qed

text \<open>
  A transaction whose rows net to zero everywhere, such as one already rolled back, cannot
  be rolled back again: every builder stays empty, the error is \<open>ErrEmptyEntry\<close>, and the
  tables are left alone.
\<close>

theorem second_rollback_fails:
  assumes "iter_ok (iter en)" and "reversible (s_db s) (tx_ID r)" and "tm_data t = Some r"
    and "tm_err t = None"
    and "list_all (\<lambda>e. je_Account e \<noteq> None) (entries_of_tx (s_db s) (tx_ID r))"
    and "entries_of_tx (s_db s) (tx_ID r) \<noteq> []"
    and "\<And>team a. net (tx_ID r) team a (db_entries (s_db s)) = 0"
  shows "\<exists>t' s'. RollbackEntry en u desc t s = (t', s') \<and> tm_err t' = Some ErrEmptyEntry \<and> s_db s' = s_db s"
  using assms by (rule RollbackEntry_settled)

lemma second_rollback_fails_witness:
  "\<exists>t' s'. RollbackEntry sample_env 1 ''undo'' booked_tx (session_of settled_db) = (t', s') \<and>
     tm_err t' = Some ErrEmptyEntry \<and> s_db s' = settled_db"
  using second_rollback_fails [of sample_env "session_of settled_db" paid_tx booked_tx 1 "''undo''"]
    settled_reversible settled_entries settled_net
  by (simp add: booked_tx_def paid_tx_def emptyTransaction_def)

text \<open>
  C28: a transaction with the reference of another one is refused and nothing is written; the
  error is \<open>ErrTransactionAlreadyExist\<close> only when the driver's text has the words of SQLite,
  any other driver's text is passed on. An accepted one keeps references unique.
\<close>

theorem reference_unique:
  assumes "distinct (map tx_RefID (db_txs (s_db s)))" and "tx_ID t = 0" and "ct_err c = None"
    and "list_all (\<lambda>r. tx_ID r \<noteq> 0) (db_txs (s_db s))"
    and "CreateT en t c s = (t', c', s')"
  shows "if tx_RefID t \<in> tx_RefID ` set (db_txs (s_db s)) then
      s' = s \<and> ct_tran c' = ct_tran c \<and>
      ct_err c' = Some (if sublist ''UNIQUE constraint failed'' (uniq_msg en)
                        then ErrTransactionAlreadyExist else ErrDB (uniq_msg en))
    else ct_err c' = None \<and> ct_tran c' = Some t' \<and> tx_ID t' = Suc (db_seq (s_db s)) \<and>
      db_txs (s_db s') = db_txs (s_db s) @ [t'] \<and> distinct (map tx_RefID (db_txs (s_db s')))"
proof -
  let ?t = "if IsZero (tx_Created t) then t\<lparr>tx_Created := now en\<rparr> else t"
  have id: "tx_ID ?t = 0" and ref: "tx_RefID ?t = tx_RefID t" using assms(2) by simp_all
  show ?thesis
  proof (cases "tx_RefID t \<in> tx_RefID ` set (db_txs (s_db s))")
    case True
    then have "\<exists>r \<in> set (db_txs (s_db s)). tx_RefID r = tx_RefID ?t \<and> tx_ID r \<noteq> tx_ID ?t"
      using assms(4) by (force simp: id ref list_all_iff)
    then have "save_tx en ?t (s_db s) = Inl (ErrDB (uniq_msg en))" by (simp only: save_tx_def if_True)
    with assms(5) True assms(3) show ?thesis
      by (auto simp: CreateT_def Let_def err_text_def ct_setErr_def split: if_splits)
  next
    case False
    then have "\<not> (\<exists>r \<in> set (db_txs (s_db s)). tx_RefID r = tx_RefID ?t \<and> tx_ID r \<noteq> tx_ID ?t)"
      unfolding ref by (metis imageI)
    then have "save_tx en ?t (s_db s) = (let i = Suc (db_seq (s_db s)); t' = ?t\<lparr>tx_ID := i\<rparr>
        in Inr (t', (s_db s)\<lparr>db_seq := i, db_txs := db_txs (s_db s) @ [t']\<rparr>))"
      using id by (simp only: save_tx_def if_False if_True refl)
    with assms(5) have "t' = ?t\<lparr>tx_ID := Suc (db_seq (s_db s))\<rparr>" "c' = c\<lparr>ct_tran := Some t'\<rparr>"
      "s' = s\<lparr>s_db := (s_db s)\<lparr>db_seq := Suc (db_seq (s_db s)), db_txs := db_txs (s_db s) @ [t']\<rparr>,
          s_labels := Some (ct_cell c)\<rparr>"
      by (auto simp: CreateT_def Let_def simp del: if_split)
    with False assms(1,3) ref show ?thesis by (auto split: if_splits)
  qed
qed

lemma reference_unique_witness:
  "snd (snd (CreateT sample_env (paid_tx\<lparr>tx_ID := 0\<rparr>)
     \<lparr>ct_err = None, ct_tran = None, ct_cell = 0\<rparr> (session_of booked_db))) = session_of booked_db"
proof -
  obtain t' c' s' where r: "CreateT sample_env (paid_tx\<lparr>tx_ID := 0\<rparr>)
      \<lparr>ct_err = None, ct_tran = None, ct_cell = 0\<rparr> (session_of booked_db) = (t', c', s')"
    by (metis prod.exhaust)
  from reference_unique [OF _ _ _ _ r] show ?thesis
    unfolding r by (simp add: booked_db_def paid_tx_def emptyTransaction_def)
qed

text \<open>
  C36: references of the reserved types never collide: equal reference strings come from
  equal type and number.
\<close>

theorem reference_injective:
  assumes "list_all (\<lambda>d. rd_RefType d \<in> set reserved_ref_types) ds"
  shows "distinct (map NewRefID ds) \<longleftrightarrow> distinct ds"
  using NewRefID_reserved_inj assms by (auto simp: distinct_map inj_on_def list_all_iff)

lemma reference_injective_witness:
  "distinct (map NewRefID [\<lparr>rd_RefType = PaymentRef, rd_ID = 1\<rparr>, \<lparr>rd_RefType = PaymentRef, rd_ID = 11\<rparr>,
     \<lparr>rd_RefType = OrderRef, rd_ID = 1\<rparr>])"
  by (subst reference_injective) (simp_all add: reserved_ref_types_def ref_type_defs)

text \<open>
  \<open>RefID.Extract\<close> parses the part before the separator as the number, so it rejects every
  reference \<open>NewRefID\<close> makes of a reserved type: the round trip never succeeds.
\<close>

theorem extract_rejects_references:
  assumes "rd_RefType d \<in> set reserved_ref_types"
  shows "RefID_Extract (NewRefID d) =
    Inl (ErrMsg (''strconv.ParseUint: invalid syntax '' @ rd_RefType d))"
  using assms by (rule RefID_Extract_reserved)

lemma extract_rejects_references_witness:
  "RefID_Extract (NewRefID \<lparr>rd_RefType = PaymentRef, rd_ID = 7\<rparr>) =
     Inl (ErrMsg ''strconv.ParseUint: invalid syntax payment'')"
  using extract_rejects_references [of "\<lparr>rd_RefType = PaymentRef, rd_ID = 7\<rparr>"]
  by (simp add: reserved_ref_types_def PaymentRef_def)

text \<open>
  Tag names are normal forms: sanitizing twice is sanitizing once, and a sanitized name
  has no space and no capital letter.
\<close>

theorem sanity_tag_normal:
  "SanityTag (SanityTag n) = SanityTag n \<and> CHR '' '' \<notin> set (SanityTag n) \<and>
   list_all (\<lambda>c. lower_char c = c) (SanityTag n)"
  by (intro conjI SanityTag_idem SanityTag_chars)

text \<open>
  Whatever builder calls follow, a call on an account the team does not have makes the
  commit of the chain fail with that first error.
\<close>

theorem unknown_account_fails:
  assumes "ce_err c = None" and "find_account d key team = None"
    and "list_all ce.latched fs"
  shows "\<exists>s'. commitA en opts (fold (\<lambda>f. f) fs (ToE d (eap key team) x os c)) s =
    (Inl (ErrMsg (''account not found '' @ key @ '' in team '' @ show_nat team)), s')"
  using assms by (rule commit_unknown_account)

lemma unknown_account_fails_witness:
  "\<exists>s'. commitA sample_env [] (FromE sample_db (eap ''payable'' 7) (f64_of 9) []
     (ToE sample_db (eap ''nothing'' 7) (f64_of 9) [] (newCreateEntry 7 1))) (session_of sample_db) =
     (Inl (ErrMsg (''account not found nothing in team '' @ show_nat 7)), s')"
proof -
  have "find_account sample_db ''nothing'' 7 = None"
    by (simp add: find_account_def sample_db_def empty_db_def sample_accounts_def sample_account_def)
  then show ?thesis
    using unknown_account_fails [of "newCreateEntry 7 1" sample_db "''nothing''" 7
        "[FromE sample_db (eap ''payable'' 7) (f64_of 9) []]" sample_env "[]" "f64_of 9" "[]"
        "session_of sample_db"]
    by (simp add: newCreateEntry_def latched_FromE)
qed

end
