(* ===== verification/DailyTables.thy ===== *)
theory DailyTables
  imports Book
begin

section \<open>The daily balance tables\<close>

text \<open>
  \<open>accounting_core/model_daily.go\<close>: seven tables hold, per day and key, the day's debits and
  credits, the running balance and the balance the day started with. They share the Go
  interface \<open>DailyBalance\<close>, a record of operations here. A clause \<open>Where\<close> on the table is the
  predicate of the rows it selects; \<open>Before\<close> and \<open>After\<close> take the row they are called on first.
  The query for the row of the same day is built by the callers, with the columns of the
  table's unique index.
\<close>

subsection \<open>The interface\<close>

record 'r DailyBalance =
  AddBalance :: "f64 \<Rightarrow> 'r \<Rightarrow> 'r"
  AddStartBalance :: "f64 \<Rightarrow> 'r \<Rightarrow> 'r"
  GetDebitCredit :: "'r \<Rightarrow> f64 \<times> f64 \<times> f64"
  Before :: "'r \<Rightarrow> 'r \<Rightarrow> bool"
  After :: "'r \<Rightarrow> 'r \<Rightarrow> bool"
  Query :: "'r \<Rightarrow> 'r \<Rightarrow> bool"
  IncDebitCredit :: "f64 \<Rightarrow> f64 \<Rightarrow> 'r \<Rightarrow> 'r"
  RowDay :: "'r \<Rightarrow> Time"
  SetID :: "nat \<Rightarrow> 'r \<Rightarrow> 'r"

definition day_before :: "Time \<Rightarrow> Time \<Rightarrow> bool" where
  "day_before t u \<longleftrightarrow> nanos t < nanos u"

definition day_equal :: "Time \<Rightarrow> Time \<Rightarrow> bool" where
  "day_equal t u \<longleftrightarrow> nanos t = nanos u"

lemmas day_defs = day_before_def day_equal_def

subsection \<open>AccountKeyDailyBalance\<close>

record AccountKeyDailyBalance =
  akd_ID :: nat
  akd_Day :: Time
  akd_AccountKey :: AccountKey
  akd_JournalTeamID :: nat
  akd_Debit :: f64
  akd_Credit :: f64
  akd_Balance :: f64
  akd_StartBalance :: f64

definition akd_Before :: "AccountKeyDailyBalance \<Rightarrow> AccountKeyDailyBalance \<Rightarrow> bool" where
  "akd_Before d r \<longleftrightarrow>
     day_before (akd_Day r) (akd_Day d) \<and> akd_AccountKey r = akd_AccountKey d \<and>
     akd_JournalTeamID r = akd_JournalTeamID d"

definition akd_After :: "AccountKeyDailyBalance \<Rightarrow> AccountKeyDailyBalance \<Rightarrow> bool" where
  "akd_After d r \<longleftrightarrow>
     day_before (akd_Day d) (akd_Day r) \<and> akd_AccountKey r = akd_AccountKey d \<and>
     akd_JournalTeamID r = akd_JournalTeamID d"

definition akd_query :: "AccountKeyDailyBalance \<Rightarrow> AccountKeyDailyBalance \<Rightarrow> bool" where
  "akd_query d r \<longleftrightarrow>
     day_equal (akd_Day r) (akd_Day d) \<and> akd_AccountKey r = akd_AccountKey d \<and>
     akd_JournalTeamID r = akd_JournalTeamID d"

definition akd_AddBalance :: "f64 \<Rightarrow> AccountKeyDailyBalance \<Rightarrow> AccountKeyDailyBalance" where
  "akd_AddBalance x r = r\<lparr>akd_Balance := akd_Balance r + x\<rparr>"

definition akd_AddStartBalance :: "f64 \<Rightarrow> AccountKeyDailyBalance \<Rightarrow> AccountKeyDailyBalance" where
  "akd_AddStartBalance x r = r\<lparr>akd_StartBalance := x\<rparr>"

definition akd_GetDebitCredit :: "AccountKeyDailyBalance \<Rightarrow> f64 \<times> f64 \<times> f64" where
  "akd_GetDebitCredit r = (akd_Debit r, akd_Credit r, akd_Balance r)"

definition akd :: "AccountKeyDailyBalance DailyBalance" where
  "akd = \<lparr>AddBalance = akd_AddBalance, AddStartBalance = akd_AddStartBalance,
     GetDebitCredit = akd_GetDebitCredit, Before = akd_Before, After = akd_After,
     Query = akd_query,
     IncDebitCredit = (\<lambda>x y r. r\<lparr>akd_Debit := akd_Debit r + x, akd_Credit := akd_Credit r + y\<rparr>),
     RowDay = akd_Day, SetID = (\<lambda>i r. r\<lparr>akd_ID := i\<rparr>)\<rparr>"

lemmas akd_defs = akd_def akd_Before_def akd_After_def akd_query_def akd_AddBalance_def
  akd_AddStartBalance_def akd_GetDebitCredit_def

subsection \<open>AccountDailyBalance\<close>

record AccountDailyBalance =
  acd_ID :: nat
  acd_Day :: Time
  acd_AccountID :: nat
  acd_JournalTeamID :: nat
  acd_Debit :: f64
  acd_Credit :: f64
  acd_Balance :: f64
  acd_StartBalance :: f64

definition acd_Before :: "AccountDailyBalance \<Rightarrow> AccountDailyBalance \<Rightarrow> bool" where
  "acd_Before d r \<longleftrightarrow>
     day_before (acd_Day r) (acd_Day d) \<and> acd_AccountID r = acd_AccountID d \<and>
     acd_JournalTeamID r = acd_JournalTeamID d"

definition acd_After :: "AccountDailyBalance \<Rightarrow> AccountDailyBalance \<Rightarrow> bool" where
  "acd_After d r \<longleftrightarrow>
     day_before (acd_Day d) (acd_Day r) \<and> acd_AccountID r = acd_AccountID d \<and>
     acd_JournalTeamID r = acd_JournalTeamID d"

definition acd_query :: "AccountDailyBalance \<Rightarrow> AccountDailyBalance \<Rightarrow> bool" where
  "acd_query d r \<longleftrightarrow>
     day_equal (acd_Day r) (acd_Day d) \<and> acd_AccountID r = acd_AccountID d \<and>
     acd_JournalTeamID r = acd_JournalTeamID d"

definition acd_AddBalance :: "f64 \<Rightarrow> AccountDailyBalance \<Rightarrow> AccountDailyBalance" where
  "acd_AddBalance x r = r\<lparr>acd_Balance := acd_Balance r + x\<rparr>"

definition acd_AddStartBalance :: "f64 \<Rightarrow> AccountDailyBalance \<Rightarrow> AccountDailyBalance" where
  "acd_AddStartBalance x r = r\<lparr>acd_StartBalance := x\<rparr>"

definition acd_GetDebitCredit :: "AccountDailyBalance \<Rightarrow> f64 \<times> f64 \<times> f64" where
  "acd_GetDebitCredit r = (acd_Debit r, acd_Credit r, acd_Balance r)"

definition acd :: "AccountDailyBalance DailyBalance" where
  "acd = \<lparr>AddBalance = acd_AddBalance, AddStartBalance = acd_AddStartBalance,
     GetDebitCredit = acd_GetDebitCredit, Before = acd_Before, After = acd_After,
     Query = acd_query,
     IncDebitCredit = (\<lambda>x y r. r\<lparr>acd_Debit := acd_Debit r + x, acd_Credit := acd_Credit r + y\<rparr>),
     RowDay = acd_Day, SetID = (\<lambda>i r. r\<lparr>acd_ID := i\<rparr>)\<rparr>"

lemmas acd_defs = acd_def acd_Before_def acd_After_def acd_query_def acd_AddBalance_def
  acd_AddStartBalance_def acd_GetDebitCredit_def

subsection \<open>ShopDailyBalance\<close>

record ShopDailyBalance =
  shd_ID :: nat
  shd_Day :: Time
  shd_ShopID :: nat
  shd_AccountID :: nat
  shd_JournalTeamID :: nat
  shd_Debit :: f64
  shd_Credit :: f64
  shd_Balance :: f64
  shd_StartBalance :: f64

definition shd_Before :: "ShopDailyBalance \<Rightarrow> ShopDailyBalance \<Rightarrow> bool" where
  "shd_Before d r \<longleftrightarrow>
     day_before (shd_Day r) (shd_Day d) \<and> shd_ShopID r = shd_ShopID d \<and>
     shd_AccountID r = shd_AccountID d \<and>
     shd_JournalTeamID r = shd_JournalTeamID d"

definition shd_After :: "ShopDailyBalance \<Rightarrow> ShopDailyBalance \<Rightarrow> bool" where
  "shd_After d r \<longleftrightarrow>
     day_before (shd_Day d) (shd_Day r) \<and> shd_ShopID r = shd_ShopID d \<and>
     shd_AccountID r = shd_AccountID d \<and>
     shd_JournalTeamID r = shd_JournalTeamID d"

definition shd_query :: "ShopDailyBalance \<Rightarrow> ShopDailyBalance \<Rightarrow> bool" where
  "shd_query d r \<longleftrightarrow>
     day_equal (shd_Day r) (shd_Day d) \<and> shd_ShopID r = shd_ShopID d \<and>
     shd_AccountID r = shd_AccountID d \<and>
     shd_JournalTeamID r = shd_JournalTeamID d"

definition shd_AddBalance :: "f64 \<Rightarrow> ShopDailyBalance \<Rightarrow> ShopDailyBalance" where
  "shd_AddBalance x r = r\<lparr>shd_Balance := shd_Balance r + x\<rparr>"

definition shd_AddStartBalance :: "f64 \<Rightarrow> ShopDailyBalance \<Rightarrow> ShopDailyBalance" where
  "shd_AddStartBalance x r = r\<lparr>shd_StartBalance := x\<rparr>"

definition shd_GetDebitCredit :: "ShopDailyBalance \<Rightarrow> f64 \<times> f64 \<times> f64" where
  "shd_GetDebitCredit r = (shd_Debit r, shd_Credit r, shd_Balance r)"

definition shd :: "ShopDailyBalance DailyBalance" where
  "shd = \<lparr>AddBalance = shd_AddBalance, AddStartBalance = shd_AddStartBalance,
     GetDebitCredit = shd_GetDebitCredit, Before = shd_Before, After = shd_After,
     Query = shd_query,
     IncDebitCredit = (\<lambda>x y r. r\<lparr>shd_Debit := shd_Debit r + x, shd_Credit := shd_Credit r + y\<rparr>),
     RowDay = shd_Day, SetID = (\<lambda>i r. r\<lparr>shd_ID := i\<rparr>)\<rparr>"

lemmas shd_defs = shd_def shd_Before_def shd_After_def shd_query_def shd_AddBalance_def
  shd_AddStartBalance_def shd_GetDebitCredit_def

subsection \<open>CsDailyBalance\<close>

record CsDailyBalance =
  csd_ID :: nat
  csd_Day :: Time
  csd_CsID :: nat
  csd_AccountID :: nat
  csd_JournalTeamID :: nat
  csd_Debit :: f64
  csd_Credit :: f64
  csd_Balance :: f64
  csd_StartBalance :: f64

definition csd_Before :: "CsDailyBalance \<Rightarrow> CsDailyBalance \<Rightarrow> bool" where
  "csd_Before d r \<longleftrightarrow>
     day_before (csd_Day r) (csd_Day d) \<and> csd_CsID r = csd_CsID d \<and>
     csd_AccountID r = csd_AccountID d \<and>
     csd_JournalTeamID r = csd_JournalTeamID d"

definition csd_After :: "CsDailyBalance \<Rightarrow> CsDailyBalance \<Rightarrow> bool" where
  "csd_After d r \<longleftrightarrow>
     day_before (csd_Day d) (csd_Day r) \<and> csd_CsID r = csd_CsID d \<and>
     csd_AccountID r = csd_AccountID d \<and>
     csd_JournalTeamID r = csd_JournalTeamID d"

definition csd_query :: "CsDailyBalance \<Rightarrow> CsDailyBalance \<Rightarrow> bool" where
  "csd_query d r \<longleftrightarrow>
     day_equal (csd_Day r) (csd_Day d) \<and> csd_CsID r = csd_CsID d \<and>
     csd_AccountID r = csd_AccountID d \<and>
     csd_JournalTeamID r = csd_JournalTeamID d"

definition csd_AddBalance :: "f64 \<Rightarrow> CsDailyBalance \<Rightarrow> CsDailyBalance" where
  "csd_AddBalance x r = r\<lparr>csd_Balance := csd_Balance r + x\<rparr>"

definition csd_AddStartBalance :: "f64 \<Rightarrow> CsDailyBalance \<Rightarrow> CsDailyBalance" where
  "csd_AddStartBalance x r = r\<lparr>csd_StartBalance := x\<rparr>"

definition csd_GetDebitCredit :: "CsDailyBalance \<Rightarrow> f64 \<times> f64 \<times> f64" where
  "csd_GetDebitCredit r = (csd_Debit r, csd_Credit r, csd_Balance r)"

definition csd :: "CsDailyBalance DailyBalance" where
  "csd = \<lparr>AddBalance = csd_AddBalance, AddStartBalance = csd_AddStartBalance,
     GetDebitCredit = csd_GetDebitCredit, Before = csd_Before, After = csd_After,
     Query = csd_query,
     IncDebitCredit = (\<lambda>x y r. r\<lparr>csd_Debit := csd_Debit r + x, csd_Credit := csd_Credit r + y\<rparr>),
     RowDay = csd_Day, SetID = (\<lambda>i r. r\<lparr>csd_ID := i\<rparr>)\<rparr>"

lemmas csd_defs = csd_def csd_Before_def csd_After_def csd_query_def csd_AddBalance_def
  csd_AddStartBalance_def csd_GetDebitCredit_def

subsection \<open>SupplierDailyBalance\<close>

record SupplierDailyBalance =
  spd_ID :: nat
  spd_Day :: Time
  spd_SupplierID :: nat
  spd_AccountID :: nat
  spd_JournalTeamID :: nat
  spd_Debit :: f64
  spd_Credit :: f64
  spd_Balance :: f64
  spd_StartBalance :: f64

definition spd_Before :: "SupplierDailyBalance \<Rightarrow> SupplierDailyBalance \<Rightarrow> bool" where
  "spd_Before d r \<longleftrightarrow>
     day_before (spd_Day r) (spd_Day d) \<and> spd_SupplierID r = spd_SupplierID d \<and>
     spd_AccountID r = spd_AccountID d \<and>
     spd_JournalTeamID r = spd_JournalTeamID d"

definition spd_After :: "SupplierDailyBalance \<Rightarrow> SupplierDailyBalance \<Rightarrow> bool" where
  "spd_After d r \<longleftrightarrow>
     day_before (spd_Day d) (spd_Day r) \<and> spd_SupplierID r = spd_SupplierID d \<and>
     spd_AccountID r = spd_AccountID d \<and>
     spd_JournalTeamID r = spd_JournalTeamID d"

definition spd_query :: "SupplierDailyBalance \<Rightarrow> SupplierDailyBalance \<Rightarrow> bool" where
  "spd_query d r \<longleftrightarrow>
     day_equal (spd_Day r) (spd_Day d) \<and> spd_SupplierID r = spd_SupplierID d \<and>
     spd_AccountID r = spd_AccountID d \<and>
     spd_JournalTeamID r = spd_JournalTeamID d"

definition spd_AddBalance :: "f64 \<Rightarrow> SupplierDailyBalance \<Rightarrow> SupplierDailyBalance" where
  "spd_AddBalance x r = r\<lparr>spd_Balance := spd_Balance r + x\<rparr>"

definition spd_AddStartBalance :: "f64 \<Rightarrow> SupplierDailyBalance \<Rightarrow> SupplierDailyBalance" where
  "spd_AddStartBalance x r = r\<lparr>spd_StartBalance := x\<rparr>"

definition spd_GetDebitCredit :: "SupplierDailyBalance \<Rightarrow> f64 \<times> f64 \<times> f64" where
  "spd_GetDebitCredit r = (spd_Debit r, spd_Credit r, spd_Balance r)"

definition spd :: "SupplierDailyBalance DailyBalance" where
  "spd = \<lparr>AddBalance = spd_AddBalance, AddStartBalance = spd_AddStartBalance,
     GetDebitCredit = spd_GetDebitCredit, Before = spd_Before, After = spd_After,
     Query = spd_query,
     IncDebitCredit = (\<lambda>x y r. r\<lparr>spd_Debit := spd_Debit r + x, spd_Credit := spd_Credit r + y\<rparr>),
     RowDay = spd_Day, SetID = (\<lambda>i r. r\<lparr>spd_ID := i\<rparr>)\<rparr>"

lemmas spd_defs = spd_def spd_Before_def spd_After_def spd_query_def spd_AddBalance_def
  spd_AddStartBalance_def spd_GetDebitCredit_def

subsection \<open>CustomLabelDailyBalance\<close>

record CustomLabelDailyBalance =
  cld_ID :: nat
  cld_Day :: Time
  cld_CustomID :: nat
  cld_AccountID :: nat
  cld_JournalTeamID :: nat
  cld_Debit :: f64
  cld_Credit :: f64
  cld_Balance :: f64
  cld_StartBalance :: f64

definition cld_Before :: "CustomLabelDailyBalance \<Rightarrow> CustomLabelDailyBalance \<Rightarrow> bool" where
  "cld_Before d r \<longleftrightarrow>
     day_before (cld_Day r) (cld_Day d) \<and> cld_CustomID r = cld_CustomID d \<and>
     cld_AccountID r = cld_AccountID d \<and>
     cld_JournalTeamID r = cld_JournalTeamID d"

definition cld_After :: "CustomLabelDailyBalance \<Rightarrow> CustomLabelDailyBalance \<Rightarrow> bool" where
  "cld_After d r \<longleftrightarrow>
     day_before (cld_Day d) (cld_Day r) \<and> cld_CustomID r = cld_CustomID d \<and>
     cld_AccountID r = cld_AccountID d \<and>
     cld_JournalTeamID r = cld_JournalTeamID d"

definition cld_query :: "CustomLabelDailyBalance \<Rightarrow> CustomLabelDailyBalance \<Rightarrow> bool" where
  "cld_query d r \<longleftrightarrow>
     day_equal (cld_Day r) (cld_Day d) \<and> cld_CustomID r = cld_CustomID d \<and>
     cld_AccountID r = cld_AccountID d \<and>
     cld_JournalTeamID r = cld_JournalTeamID d"

definition cld_AddBalance :: "f64 \<Rightarrow> CustomLabelDailyBalance \<Rightarrow> CustomLabelDailyBalance" where
  "cld_AddBalance x r = r\<lparr>cld_Balance := cld_Balance r + x\<rparr>"

definition cld_AddStartBalance :: "f64 \<Rightarrow> CustomLabelDailyBalance \<Rightarrow> CustomLabelDailyBalance" where
  "cld_AddStartBalance x r = r\<lparr>cld_StartBalance := x\<rparr>"

definition cld_GetDebitCredit :: "CustomLabelDailyBalance \<Rightarrow> f64 \<times> f64 \<times> f64" where
  "cld_GetDebitCredit r = (cld_Debit r, cld_Credit r, cld_Balance r)"

definition cld :: "CustomLabelDailyBalance DailyBalance" where
  "cld = \<lparr>AddBalance = cld_AddBalance, AddStartBalance = cld_AddStartBalance,
     GetDebitCredit = cld_GetDebitCredit, Before = cld_Before, After = cld_After,
     Query = cld_query,
     IncDebitCredit = (\<lambda>x y r. r\<lparr>cld_Debit := cld_Debit r + x, cld_Credit := cld_Credit r + y\<rparr>),
     RowDay = cld_Day, SetID = (\<lambda>i r. r\<lparr>cld_ID := i\<rparr>)\<rparr>"

lemmas cld_defs = cld_def cld_Before_def cld_After_def cld_query_def cld_AddBalance_def
  cld_AddStartBalance_def cld_GetDebitCredit_def

subsection \<open>TypeLabelDailyBalance\<close>

record TypeLabelDailyBalance =
  tld_ID :: nat
  tld_Day :: Time
  tld_LabelID :: nat
  tld_AccountID :: nat
  tld_JournalTeamID :: nat
  tld_Debit :: f64
  tld_Credit :: f64
  tld_Balance :: f64
  tld_StartBalance :: f64

definition tld_Before :: "TypeLabelDailyBalance \<Rightarrow> TypeLabelDailyBalance \<Rightarrow> bool" where
  "tld_Before d r \<longleftrightarrow>
     day_before (tld_Day r) (tld_Day d) \<and> tld_LabelID r = tld_LabelID d \<and>
     tld_AccountID r = tld_AccountID d \<and>
     tld_JournalTeamID r = tld_JournalTeamID d"

definition tld_After :: "TypeLabelDailyBalance \<Rightarrow> TypeLabelDailyBalance \<Rightarrow> bool" where
  "tld_After d r \<longleftrightarrow>
     day_before (tld_Day d) (tld_Day r) \<and> tld_LabelID r = tld_LabelID d \<and>
     tld_AccountID r = tld_AccountID d \<and>
     tld_JournalTeamID r = tld_JournalTeamID d"

definition tld_query :: "TypeLabelDailyBalance \<Rightarrow> TypeLabelDailyBalance \<Rightarrow> bool" where
  "tld_query d r \<longleftrightarrow>
     day_equal (tld_Day r) (tld_Day d) \<and> tld_LabelID r = tld_LabelID d \<and>
     tld_AccountID r = tld_AccountID d \<and>
     tld_JournalTeamID r = tld_JournalTeamID d"

definition tld_AddBalance :: "f64 \<Rightarrow> TypeLabelDailyBalance \<Rightarrow> TypeLabelDailyBalance" where
  "tld_AddBalance x r = r\<lparr>tld_Balance := tld_Balance r + x\<rparr>"

definition tld_AddStartBalance :: "f64 \<Rightarrow> TypeLabelDailyBalance \<Rightarrow> TypeLabelDailyBalance" where
  "tld_AddStartBalance x r = r\<lparr>tld_StartBalance := x\<rparr>"

definition tld_GetDebitCredit :: "TypeLabelDailyBalance \<Rightarrow> f64 \<times> f64 \<times> f64" where
  "tld_GetDebitCredit r = (tld_Debit r, tld_Credit r, tld_Balance r)"

definition tld :: "TypeLabelDailyBalance DailyBalance" where
  "tld = \<lparr>AddBalance = tld_AddBalance, AddStartBalance = tld_AddStartBalance,
     GetDebitCredit = tld_GetDebitCredit, Before = tld_Before, After = tld_After,
     Query = tld_query,
     IncDebitCredit = (\<lambda>x y r. r\<lparr>tld_Debit := tld_Debit r + x, tld_Credit := tld_Credit r + y\<rparr>),
     RowDay = tld_Day, SetID = (\<lambda>i r. r\<lparr>tld_ID := i\<rparr>)\<rparr>"

lemmas tld_defs = tld_def tld_Before_def tld_After_def tld_query_def tld_AddBalance_def
  tld_AddStartBalance_def tld_GetDebitCredit_def

end
