(* ===== verification/DailyUpdate.thy ===== *)
theory DailyUpdate
  imports DailyTables
begin

section \<open>Updating the daily balances\<close>

text \<open>
  \<open>report/daily_balance_update.go\<close>: the service that receives the messages of
  \<open>OpenTransaction\<close> adds every entry to the seven tables. \<open>updateDailyBalance\<close> is written once
  against the interface \<open>DailyBalance\<close>. There is no transaction around a message: an error leaves
  what was done so far, so the state is returned with it.
\<close>

subsection \<open>One table\<close>

text \<open>\<open>Order("day desc").Limit(1)\<close>: a row of the latest day.\<close>

fun latest :: "'r DailyBalance \<Rightarrow> 'r list \<Rightarrow> 'r option" where
  "latest I [] = None"
| "latest I (r # rs) =
     (case latest I rs of
        None \<Rightarrow> Some r
      | Some q \<Rightarrow> Some (if nanos (RowDay I r) < nanos (RowDay I q) then q else r))"

definition row_balance :: "'r DailyBalance \<Rightarrow> 'r \<Rightarrow> f64" where
  "row_balance I r = (case GetDebitCredit I r of (_, _, balance) \<Rightarrow> balance)"

definition beforeBalance :: "'r DailyBalance \<Rightarrow> 'r \<Rightarrow> 'r list \<Rightarrow> f64" where
  "beforeBalance I daily rows =
     (case latest I (filter (Before I daily) rows) of None \<Rightarrow> 0 | Some r \<Rightarrow> row_balance I r)"

definition updateAfterIncrement :: "'r DailyBalance \<Rightarrow> 'r \<Rightarrow> f64 \<Rightarrow> 'r list \<Rightarrow> 'r list" where
  "updateAfterIncrement I daily incAmount rows =
     map (\<lambda>r. if After I daily r then AddBalance I incAmount r else r) rows"

definition updateDailyBalance :: "'r DailyBalance \<Rightarrow> 'r \<Rightarrow> 'r list \<times> nat \<Rightarrow> 'r list \<times> nat" where
  "updateDailyBalance I daily st =
     (case st of (rows, sq) \<Rightarrow>
       case GetDebitCredit I daily of (debit, credit, balance) \<Rightarrow>
         if \<exists>r \<in> set rows. Query I daily r then
           (updateAfterIncrement I daily (0 + balance)
              (map (\<lambda>r. if Query I daily r then AddBalance I balance (IncDebitCredit I debit credit r)
                        else r) rows), sq)
         else
           let before = beforeBalance I daily rows;
               daily' = SetID I (Suc sq) (AddStartBalance I before (AddBalance I before daily))
           in (updateAfterIncrement I daily' (0 + balance + before) (rows @ [daily']), Suc sq))"

subsection \<open>The service\<close>

record report_db =
  rdb_seq :: nat
  rdb_account_key :: "AccountKeyDailyBalance list"
  rdb_account :: "AccountDailyBalance list"
  rdb_cs :: "CsDailyBalance list"
  rdb_shop :: "ShopDailyBalance list"
  rdb_supplier :: "SupplierDailyBalance list"
  rdb_custom :: "CustomLabelDailyBalance list"
  rdb_type_label :: "TypeLabelDailyBalance list"
  rdb_account_cache :: "(nat \<times> Account) list"
  rdb_label_cache :: "((LabelKey \<times> string) \<times> TypeLabel) list"

text \<open>
  The cache keeps what was read first; an entry that expires is one that is not in the list
  any more.
\<close>

definition getAccountR :: "db \<Rightarrow> nat \<Rightarrow> report_db \<Rightarrow> (err + Account) \<times> report_db" where
  "getAccountR d accID st =
     (let checked = (\<lambda>acc st. if acc_ID acc = 0
            then (Inl (ErrMsg (''something problem to get account '' @ show_nat accID)), st)
            else (Inr acc, st))
      in case map_of (rdb_account_cache st) accID of
           Some acc \<Rightarrow> checked acc st
         | None \<Rightarrow>
             (case account_by_id d accID of
                None \<Rightarrow> (Inl ErrRecordNotFound, st)
              | Some acc \<Rightarrow>
                  checked acc (st\<lparr>rdb_account_cache := alist_upd accID acc (rdb_account_cache st)\<rparr>)))"

definition getTypeLabel ::
  "db \<Rightarrow> LabelKey \<times> string \<Rightarrow> report_db \<Rightarrow> (err + TypeLabel) \<times> report_db" where
  "getTypeLabel d label st =
     (case map_of (rdb_label_cache st) label of
        Some l \<Rightarrow>
          if tl_ID l = 0 then (Inl (ErrMsg ''something problem to get TypeLabel''), st) else (Inr l, st)
      | None \<Rightarrow>
          (case find (\<lambda>l. tl_Key l = fst label \<and> tl_Label l = snd label) (db_type_labels d) of
             None \<Rightarrow> (Inl (ErrMsg ''TypeLabel not found''), st)
           | Some l \<Rightarrow>
               if tl_ID l = 0 then (Inl (ErrMsg ''TypeLabel not found''), st)
               else (Inr l, st\<lparr>rdb_label_cache := alist_upd label l (rdb_label_cache st)\<rparr>)))"

record daily_amounts =
  da_Day :: Time
  da_AccountID :: nat
  da_TeamID :: nat
  da_Debit :: f64
  da_Credit :: f64
  da_Balance :: f64

text \<open>The rows the handler builds for one entry.\<close>

definition new_akd :: "daily_amounts \<Rightarrow> AccountKey \<Rightarrow> AccountKeyDailyBalance" where
  "new_akd a key = \<lparr>akd_ID = 0, akd_Day = da_Day a, akd_AccountKey = key,
     akd_JournalTeamID = da_TeamID a, akd_Debit = da_Debit a, akd_Credit = da_Credit a,
     akd_Balance = da_Balance a, akd_StartBalance = 0\<rparr>"

definition new_acd :: "daily_amounts \<Rightarrow> AccountDailyBalance" where
  "new_acd a = \<lparr>acd_ID = 0, acd_Day = da_Day a, acd_AccountID = da_AccountID a,
     acd_JournalTeamID = da_TeamID a, acd_Debit = da_Debit a, acd_Credit = da_Credit a,
     acd_Balance = da_Balance a, acd_StartBalance = 0\<rparr>"

definition new_csd :: "daily_amounts \<Rightarrow> nat \<Rightarrow> CsDailyBalance" where
  "new_csd a i = \<lparr>csd_ID = 0, csd_Day = da_Day a, csd_CsID = i, csd_AccountID = da_AccountID a,
     csd_JournalTeamID = da_TeamID a, csd_Debit = da_Debit a, csd_Credit = da_Credit a,
     csd_Balance = da_Balance a, csd_StartBalance = 0\<rparr>"

definition new_shd :: "daily_amounts \<Rightarrow> nat \<Rightarrow> ShopDailyBalance" where
  "new_shd a i = \<lparr>shd_ID = 0, shd_Day = da_Day a, shd_ShopID = i, shd_AccountID = da_AccountID a,
     shd_JournalTeamID = da_TeamID a, shd_Debit = da_Debit a, shd_Credit = da_Credit a,
     shd_Balance = da_Balance a, shd_StartBalance = 0\<rparr>"

definition new_spd :: "daily_amounts \<Rightarrow> nat \<Rightarrow> SupplierDailyBalance" where
  "new_spd a i = \<lparr>spd_ID = 0, spd_Day = da_Day a, spd_SupplierID = i, spd_AccountID = da_AccountID a,
     spd_JournalTeamID = da_TeamID a, spd_Debit = da_Debit a, spd_Credit = da_Credit a,
     spd_Balance = da_Balance a, spd_StartBalance = 0\<rparr>"

definition new_cld :: "daily_amounts \<Rightarrow> nat \<Rightarrow> CustomLabelDailyBalance" where
  "new_cld a i = \<lparr>cld_ID = 0, cld_Day = da_Day a, cld_CustomID = i, cld_AccountID = da_AccountID a,
     cld_JournalTeamID = da_TeamID a, cld_Debit = da_Debit a, cld_Credit = da_Credit a,
     cld_Balance = da_Balance a, cld_StartBalance = 0\<rparr>"

definition new_tld :: "daily_amounts \<Rightarrow> nat \<Rightarrow> TypeLabelDailyBalance" where
  "new_tld a i = \<lparr>tld_ID = 0, tld_Day = da_Day a, tld_LabelID = i, tld_AccountID = da_AccountID a,
     tld_JournalTeamID = da_TeamID a, tld_Debit = da_Debit a, tld_Credit = da_Credit a,
     tld_Balance = da_Balance a, tld_StartBalance = 0\<rparr>"

text \<open>\<open>updateDailyBalance\<close> on each table of the state.\<close>

definition upd_akd :: "AccountKeyDailyBalance \<Rightarrow> report_db \<Rightarrow> report_db" where
  "upd_akd r st = (case updateDailyBalance akd r (rdb_account_key st, rdb_seq st) of
     (rows, sq) \<Rightarrow> st\<lparr>rdb_account_key := rows, rdb_seq := sq\<rparr>)"

definition upd_acd :: "AccountDailyBalance \<Rightarrow> report_db \<Rightarrow> report_db" where
  "upd_acd r st = (case updateDailyBalance acd r (rdb_account st, rdb_seq st) of
     (rows, sq) \<Rightarrow> st\<lparr>rdb_account := rows, rdb_seq := sq\<rparr>)"

definition upd_csd :: "CsDailyBalance \<Rightarrow> report_db \<Rightarrow> report_db" where
  "upd_csd r st = (case updateDailyBalance csd r (rdb_cs st, rdb_seq st) of
     (rows, sq) \<Rightarrow> st\<lparr>rdb_cs := rows, rdb_seq := sq\<rparr>)"

definition upd_shd :: "ShopDailyBalance \<Rightarrow> report_db \<Rightarrow> report_db" where
  "upd_shd r st = (case updateDailyBalance shd r (rdb_shop st, rdb_seq st) of
     (rows, sq) \<Rightarrow> st\<lparr>rdb_shop := rows, rdb_seq := sq\<rparr>)"

definition upd_spd :: "SupplierDailyBalance \<Rightarrow> report_db \<Rightarrow> report_db" where
  "upd_spd r st = (case updateDailyBalance spd r (rdb_supplier st, rdb_seq st) of
     (rows, sq) \<Rightarrow> st\<lparr>rdb_supplier := rows, rdb_seq := sq\<rparr>)"

definition upd_cld :: "CustomLabelDailyBalance \<Rightarrow> report_db \<Rightarrow> report_db" where
  "upd_cld r st = (case updateDailyBalance cld r (rdb_custom st, rdb_seq st) of
     (rows, sq) \<Rightarrow> st\<lparr>rdb_custom := rows, rdb_seq := sq\<rparr>)"

definition upd_tld :: "TypeLabelDailyBalance \<Rightarrow> report_db \<Rightarrow> report_db" where
  "upd_tld r st = (case updateDailyBalance tld r (rdb_type_label st, rdb_seq st) of
     (rows, sq) \<Rightarrow> st\<lparr>rdb_type_label := rows, rdb_seq := sq\<rparr>)"

fun type_labels_loop ::
  "db \<Rightarrow> daily_amounts \<Rightarrow> (LabelKey \<times> string) list \<Rightarrow> report_db \<Rightarrow> err option \<times> report_db" where
  "type_labels_loop d a [] st = (None, st)"
| "type_labels_loop d a (label # labels) st =
     (case getTypeLabel d label st of
        (Inl e, st) \<Rightarrow> (Some e, st)
      | (Inr l, st) \<Rightarrow> type_labels_loop d a labels (upd_tld (new_tld a (tl_ID l)) st))"

text \<open>
  The amounts of an entry: a rollback entry takes back what it cancels, its credit as a
  negative debit and its debit as a negative credit; the balance has the account's sign.
\<close>

definition entry_amounts :: "Account \<Rightarrow> EntryPayload \<Rightarrow> daily_amounts option" where
  "entry_amounts account entry =
     (let debit = (if \<not> ep_Rollback entry then ep_Debit entry else ep_Credit entry * f64_of (-1));
          credit = (if \<not> ep_Rollback entry then ep_Credit entry else ep_Debit entry * f64_of (-1));
          mk = (\<lambda>balance. Some \<lparr>da_Day = ParseDate (AsUTC (ep_EntryTime entry)),
                  da_AccountID = ep_AccountId entry, da_TeamID = ep_TeamId entry,
                  da_Debit = debit, da_Credit = credit, da_Balance = balance\<rparr>)
      in if acc_BalanceType account = DebitBalance then mk (ep_Debit entry - ep_Credit entry)
         else if acc_BalanceType account = CreditBalance then mk (ep_Credit entry - ep_Debit entry)
         else None)"

definition update_entry ::
  "db \<Rightarrow> ReportLabel \<Rightarrow> EntryPayload \<Rightarrow> report_db \<Rightarrow> err option \<times> report_db" where
  "update_entry d labels entry st =
     (case getAccountR d (ep_AccountId entry) st of
        (Inl e, st) \<Rightarrow> (Some e, st)
      | (Inr account, st) \<Rightarrow>
          (case entry_amounts account entry of
             None \<Rightarrow> (Some (ErrMsg ''account not credit or debit''), st)
           | Some a \<Rightarrow>
               let st = upd_akd (new_akd a (acc_Key account)) st;
                   st = upd_acd (new_acd a) st;
                   st = (if rl_CsId labels \<noteq> 0 then upd_csd (new_csd a (rl_CsId labels)) st else st);
                   st = (if rl_ShopId labels \<noteq> 0 then upd_shd (new_shd a (rl_ShopId labels)) st else st);
                   st = (if rl_SupplierId labels \<noteq> 0
                         then upd_spd (new_spd a (rl_SupplierId labels)) st else st);
                   st = fold (\<lambda>t st. upd_cld (new_cld a t) st) (rl_TagIds labels) st
               in type_labels_loop d a (rl_TypeLabels labels) st))"

fun update_entries ::
  "db \<Rightarrow> ReportLabel \<Rightarrow> EntryPayload list \<Rightarrow> report_db \<Rightarrow> err option \<times> report_db" where
  "update_entries d labels [] st = (None, st)"
| "update_entries d labels (e # es) st =
     (case update_entry d labels e st of
        (Some err, st) \<Rightarrow> (Some err, st)
      | (None, st) \<Rightarrow> update_entries d labels es st)"

definition DailyUpdateBalance ::
  "db \<Rightarrow> DailyUpdateBalanceRequest \<Rightarrow> report_db \<Rightarrow> err option \<times> report_db" where
  "DailyUpdateBalance d pay st = update_entries d (dr_LabelExtra pay) (dr_Entries pay) st"

end
