(* ===== verification/DailyContract.thy ===== *)
theory DailyContract
  imports DailyUpdate
begin

section \<open>What the daily tables promise\<close>

text \<open>
  The contract of the tables is stated over their history: the list of the rows
  \<open>updateDailyBalance\<close> was called with. \<open>booked\<close> sums an amount over a part of the history of a
  row's key, exactly.
\<close>

definition booked :: "('r \<Rightarrow> 'k) \<Rightarrow> ('r \<Rightarrow> bool) \<Rightarrow> ('r \<Rightarrow> f64) \<Rightarrow> 'r list \<Rightarrow> 'k \<Rightarrow> rat" where
  "booked key P amt h k = sum_list (map (\<lambda>d. val (amt d)) (filter (\<lambda>d. key d = k \<and> P d) h))"

lemma booked_simps [simp]: "booked key P amt [] k = 0"
  "booked key P amt (d # h) k = (if key d = k \<and> P d then val (amt d) else 0) + booked key P amt h k"
  "booked key P amt (h @ h') k = booked key P amt h k + booked key P amt h' k"
  by (simp_all add: booked_def)

lemma booked_cong:
  "(\<And>d. d \<in> set h \<Longrightarrow> key d = k \<Longrightarrow> P d = Q d) \<Longrightarrow> booked key P amt h k = booked key Q amt h k"
  by (induction h) auto

lemma booked_none: "(\<And>d. d \<in> set h \<Longrightarrow> key d = k \<Longrightarrow> \<not> P d) \<Longrightarrow> booked key P amt h k = 0"
  by (induction h) auto

lemma booked_bound: "\<bar>booked key P amt h k\<bar> \<le> abs_sum (map amt h)"
proof (induction h)
  case (Cons d h)
  then show ?case by (auto simp: abs_le_iff)
qed simp

lemma booked_whole: "list_all whole (map amt h) \<Longrightarrow> booked key P amt h k \<in> \<int>"
  by (induction h) (auto simp: whole_def)

lemma exact_plus:
  assumes "whole x" and "whole y" and "val x = a" and "\<bar>a + val y\<bar> \<le> 2 ^ 53"
  shows "val (x + y) = a + val y" and "whole (x + y)"
proof -
  show v: "val (x + y) = a + val y" using assms by (simp add: val_plus_whole)
  show "whole (x + y)" using assms v by (simp add: whole_def)
qed

lemma whole_list_snoc:
  assumes "whole_list (xs @ [x])"
  shows "whole_list xs" and "whole x" and "abs_sum xs + \<bar>val x\<bar> \<le> 2 ^ 53"
proof -
  show b: "abs_sum xs + \<bar>val x\<bar> \<le> 2 ^ 53" using assms by (simp add: whole_list_def)
  then have "abs_sum xs \<le> 2 ^ 53" by linarith
  then show "whole_list xs" and "whole x" using assms by (simp_all add: whole_list_def)
qed

lemma booked_step:
  "whole_list (map amt h @ [x]) \<Longrightarrow> \<bar>booked key P amt h k + val x\<bar> \<le> 2 ^ 53"
  using whole_list_snoc(3) [of "map amt h" x] booked_bound [of key P amt h k]
    abs_triangle_ineq [of "booked key P amt h k" "val x"] by linarith

text \<open>The runs of a table: calls of \<open>updateDailyBalance\<close> in any order, from the empty table.\<close>

inductive daily_run :: "'r DailyBalance \<Rightarrow> 'r list \<Rightarrow> 'r list \<Rightarrow> bool" for I where
  start: "daily_run I [] []"
| step: "daily_run I h rows \<Longrightarrow> updateDailyBalance I d (rows, sq) = (rows', sq') \<Longrightarrow>
    daily_run I (h @ [d]) rows'"

locale daily_table =
  fixes I :: "'r DailyBalance" and day :: "'r \<Rightarrow> int" and key :: "'r \<Rightarrow> 'k"
    and debit credit bal strt :: "'r \<Rightarrow> f64"
  assumes query: "Query I d r \<longleftrightarrow> day r = day d \<and> key r = key d"
    and before: "Before I d r \<longleftrightarrow> day r < day d \<and> key r = key d"
    and after: "After I d r \<longleftrightarrow> day d < day r \<and> key r = key d"
    and get: "GetDebitCredit I r = (debit r, credit r, bal r)"
    and row_day: "nanos (RowDay I r) = day r"
    and add_balance: "day (AddBalance I x r) = day r" "key (AddBalance I x r) = key r"
      "debit (AddBalance I x r) = debit r" "credit (AddBalance I x r) = credit r"
      "bal (AddBalance I x r) = bal r + x" "strt (AddBalance I x r) = strt r"
    and add_start: "day (AddStartBalance I x r) = day r" "key (AddStartBalance I x r) = key r"
      "debit (AddStartBalance I x r) = debit r" "credit (AddStartBalance I x r) = credit r"
      "bal (AddStartBalance I x r) = bal r" "strt (AddStartBalance I x r) = x"
    and inc: "day (IncDebitCredit I x y r) = day r" "key (IncDebitCredit I x y r) = key r"
      "debit (IncDebitCredit I x y r) = debit r + x" "credit (IncDebitCredit I x y r) = credit r + y"
      "bal (IncDebitCredit I x y r) = bal r" "strt (IncDebitCredit I x y r) = strt r"
    and set_id: "day (SetID I i r) = day r" "key (SetID I i r) = key r"
      "debit (SetID I i r) = debit r" "credit (SetID I i r) = credit r"
      "bal (SetID I i r) = bal r" "strt (SetID I i r) = strt r"
begin

lemmas laws [simp] = query before after get row_day add_balance add_start inc set_id

lemma row_balance [simp]: "row_balance I r = bal r"
  by (simp add: row_balance_def)

lemma latest_spec:
  "(case latest I rs of
      None \<Rightarrow> rs = []
    | Some q \<Rightarrow> q \<in> set rs \<and> (\<forall>r \<in> set rs. day r \<le> day q))"
  by (induction rs) (auto split: option.splits)

text \<open>One call: the row of the day, and every later row of the key.\<close>

definition new_row :: "'r \<Rightarrow> 'r list \<Rightarrow> nat \<Rightarrow> 'r" where
  "new_row d rows sq = SetID I (Suc sq) (AddStartBalance I (beforeBalance I d rows)
     (AddBalance I (beforeBalance I d rows) d))"

definition bumped :: "'r \<Rightarrow> 'r \<Rightarrow> 'r" where
  "bumped d r =
     (if day r = day d \<and> key r = key d
      then AddBalance I (bal d) (IncDebitCredit I (debit d) (credit d) r)
      else if day d < day r \<and> key r = key d then AddBalance I (bal d) r else r)"

lemma update_existing:
  "\<exists>r \<in> set rows. day r = day d \<and> key r = key d \<Longrightarrow>
     updateDailyBalance I d (rows, sq) = (map (bumped d) rows, sq)"
  by (auto simp: updateDailyBalance_def updateAfterIncrement_def bumped_def)

lemma update_new:
  assumes "\<not> (\<exists>r \<in> set rows. day r = day d \<and> key r = key d)"
  shows "updateDailyBalance I d (rows, sq) =
    (map (\<lambda>r. if day d < day r \<and> key r = key d
              then AddBalance I (bal d + beforeBalance I d rows) r else r) rows
       @ [new_row d rows sq], Suc sq)"
  using assms by (auto simp: updateDailyBalance_def updateAfterIncrement_def new_row_def Let_def)

lemma new_row_simps [simp]: "day (new_row d rows sq) = day d" "key (new_row d rows sq) = key d"
  "debit (new_row d rows sq) = debit d" "credit (new_row d rows sq) = credit d"
  "bal (new_row d rows sq) = bal d + beforeBalance I d rows"
  "strt (new_row d rows sq) = beforeBalance I d rows"
  by (simp_all add: new_row_def)

lemma bumped_simps [simp]: "day (bumped d r) = day r" "key (bumped d r) = key r"
  "strt (bumped d r) = strt r"
  by (simp_all add: bumped_def)

abbreviation slot :: "'r \<Rightarrow> int \<times> 'k" where
  "slot r \<equiv> (day r, key r)"

lemma update_cases:
  assumes "updateDailyBalance I d (rows, sq) = (rows', sq')"
  obtains (existing) "slot d \<in> slot ` set rows" "rows' = map (bumped d) rows"
  | (fresh) "slot d \<notin> slot ` set rows"
      "rows' = map (\<lambda>r. if day d < day r \<and> key r = key d
              then AddBalance I (bal d + beforeBalance I d rows) r else r) rows
       @ [new_row d rows sq]"
proof (cases "\<exists>r \<in> set rows. day r = day d \<and> key r = key d")
  case True
  then have "slot d \<in> slot ` set rows" by (auto simp: image_iff) metis
  with update_existing [OF True, of sq] assms show thesis by (intro existing) auto
next
  case False
  then have "slot d \<notin> slot ` set rows" by (auto simp: image_iff)
  with update_new [OF False, of sq] assms show thesis by (intro fresh) auto
qed

lemma update_slots:
  assumes "updateDailyBalance I d (rows, sq) = (rows', sq')"
  shows "map slot rows' = (if slot d \<in> slot ` set rows then map slot rows else map slot rows @ [slot d])"
  using assms by (cases rule: update_cases) (auto simp: comp_def)

text \<open>One row per day and key: the unique index holds, and the rows are the days of the history.\<close>

lemma run_slots:
  "daily_run I h rows \<Longrightarrow> distinct (map slot rows) \<and> slot ` set rows = slot ` set h"
proof (induction rule: daily_run.induct)
  case (step h rows d sq rows' sq')
  have "slot ` set rows' = set (map slot rows')" by simp
  also have "\<dots> = insert (slot d) (slot ` set rows)"
    unfolding update_slots [OF step.hyps(2)] by auto
  finally show ?case using step.IH update_slots [OF step.hyps(2)] by auto
qed simp

lemma same_slots:
  assumes "slot ` A = slot ` B" and "d \<in> B"
  shows "\<exists>r \<in> A. day r = day d \<and> key r = key d"
proof -
  from assms(2) have "slot d \<in> slot ` A" unfolding assms(1) by (rule imageI)
  then obtain r where "r \<in> A" "slot d = slot r" by (rule imageE)
  then show ?thesis by auto
qed

lemma run_rows:
  assumes "daily_run I h rows"
  shows "d \<in> set h \<Longrightarrow> \<exists>r \<in> set rows. day r = day d \<and> key r = key d"
    and "r \<in> set rows \<Longrightarrow> \<exists>d \<in> set h. day d = day r \<and> key d = key r"
  using run_slots [OF assms] same_slots [of "set rows" "set h" d] same_slots [of "set h" "set rows" r]
  by simp_all

text \<open>The day's debits and credits, whatever the order of the calls.\<close>

lemma run_day_sums:
  assumes "daily_run I h rows" and "whole_list (map debit h)" and "whole_list (map credit h)"
    and "r \<in> set rows"
  shows "val (debit r) = booked key (\<lambda>d. day d = day r) debit h (key r) \<and> whole (debit r) \<and>
    val (credit r) = booked key (\<lambda>d. day d = day r) credit h (key r) \<and> whole (credit r)"
  using assms
proof (induction arbitrary: r rule: daily_run.induct)
  case (step h rows d sq rows' sq')
  from step.prems(1,2) have sn: "whole_list (map debit h @ [debit d])" "whole_list (map credit h @ [credit d])"
    by simp_all
  note wh = whole_list_snoc(1) [OF sn(1)] whole_list_snoc(1) [OF sn(2)]
    and wd = whole_list_snoc(2) [OF sn(1)] whole_list_snoc(2) [OF sn(2)]
    and bd = booked_step [OF sn(1)] booked_step [OF sn(2)]
  from step.hyps(2) show ?case
  proof (cases rule: update_cases)
    case existing
    with step.prems(3) obtain q where q: "q \<in> set rows" "r = bumped d q" by auto
    note IH = step.IH [OF wh q(1)]
    show ?thesis
    proof (cases "slot q = slot d")
      case True
      note x = exact_plus [OF _ wd(1) _ bd(1), of "debit q"] exact_plus [OF _ wd(2) _ bd(2), of "credit q"]
      from True show ?thesis using IH by (simp add: q(2) bumped_def x)
    next
      case False
      then show ?thesis using IH by (auto simp: q(2) bumped_def)
    qed
  next
    case fresh
    with step.prems(3) have "r = new_row d rows sq \<or> (\<exists>q \<in> set rows. r =
        (if day d < day q \<and> key q = key d then AddBalance I (bal d + beforeBalance I d rows) q else q))"
      by auto
    then show ?thesis
    proof (elim disjE bexE)
      assume r: "r = new_row d rows sq"
      from fresh(1) run_slots [OF step.hyps(1)] have "slot d \<notin> slot ` set h" by simp
      then have "booked key (\<lambda>d'. day d' = day d) amt h (key d) = 0" for amt
        by (intro booked_none) (auto simp: image_iff)
      with r wd show ?thesis by simp
    next
      fix q assume q: "q \<in> set rows" and r: "r =
        (if day d < day q \<and> key q = key d then AddBalance I (bal d + beforeBalance I d rows) q else q)"
      have rq: "debit r = debit q" "credit r = credit q" "day r = day q" "key r = key q"
        unfolding r by simp_all
      from fresh(1) q have "\<not> (key d = key q \<and> day d = day q)" by (auto simp: image_iff)
      then show ?thesis using step.IH [OF wh q] unfolding rq by auto
    qed
  qed
qed simp

text \<open>
  Calls in chronological order per key: the running balance and the start balance of every
  row are the sums of the history up to its day and before it.
\<close>

definition chronological :: "'r list \<Rightarrow> bool" where
  "chronological h \<longleftrightarrow> sorted_wrt (\<lambda>d d'. key d = key d' \<longrightarrow> day d \<le> day d') h"

lemma before_balance:
  assumes run: "daily_run I h rows" and none: "slot d \<notin> slot ` set rows"
    and bal: "\<And>r. r \<in> set rows \<Longrightarrow>
      val (bal r) = booked key (\<lambda>d. day d \<le> day r) bal h (key r) \<and> whole (bal r)"
  shows "val (beforeBalance I d rows) = booked key (\<lambda>d'. day d' < day d) bal h (key d) \<and>
    whole (beforeBalance I d rows)"
proof (cases "latest I (filter (Before I d) rows)")
  case None
  with latest_spec [of "filter (Before I d) rows"]
  have n: "\<And>r. r \<in> set rows \<Longrightarrow> key r = key d \<Longrightarrow> \<not> day r < day d" by (auto simp: filter_empty_conv)
  have "\<not> day d' < day d" if d': "d' \<in> set h" "key d' = key d" for d'
  proof -
    from run_rows(1) [OF run d'(1)] obtain r where "r \<in> set rows" "slot r = slot d'" by auto
    with n [of r] d'(2) show ?thesis by simp
  qed
  then have "booked key (\<lambda>d'. day d' < day d) bal h (key d) = 0" by (intro booked_none) auto
  with None show ?thesis by (simp add: beforeBalance_def)
next
  case (Some q)
  with latest_spec [of "filter (Before I d) rows"]
  have l: "q \<in> set (filter (Before I d) rows)" "\<forall>r \<in> set (filter (Before I d) rows). day r \<le> day q"
    by simp_all
  from l(1) have q: "q \<in> set rows" "day q < day d" "key q = key d" by simp_all
  from l(2) have m: "\<And>r. r \<in> set rows \<Longrightarrow> day r < day d \<Longrightarrow> key r = key d \<Longrightarrow> day r \<le> day q"
    by simp
  have "(day d' \<le> day q) = (day d' < day d)" if d': "d' \<in> set h" "key d' = key q" for d'
  proof -
    from run_rows(1) [OF run d'(1)] obtain r where "r \<in> set rows" "slot r = slot d'" by auto
    with m [of r] d'(2) q show ?thesis by auto
  qed
  then have "booked key (\<lambda>d'. day d' \<le> day q) bal h (key q) =
      booked key (\<lambda>d'. day d' < day d) bal h (key q)" by (rule booked_cong)
  with bal [OF q(1)] q(3) Some show ?thesis by (simp add: beforeBalance_def)
qed

lemma run_balance:
  assumes "daily_run I h rows" and "whole_list (map bal h)" and "chronological h" and "r \<in> set rows"
  shows "val (bal r) = booked key (\<lambda>d. day d \<le> day r) bal h (key r) \<and> whole (bal r) \<and>
    val (strt r) = booked key (\<lambda>d. day d < day r) bal h (key r)"
  using assms
proof (induction arbitrary: r rule: daily_run.induct)
  case (step h rows d sq rows' sq')
  from step.prems(1) have sn: "whole_list (map bal h @ [bal d])" by simp
  note wh = whole_list_snoc(1) [OF sn] and wd = whole_list_snoc(2) [OF sn] and bd = booked_step [OF sn]
  from step.prems(2) have ch: "chronological h" and last: "\<And>d'. d' \<in> set h \<Longrightarrow> key d' = key d \<Longrightarrow> day d' \<le> day d"
    by (auto simp: chronological_def sorted_wrt_append)
  have max: "day q \<le> day d" if q: "q \<in> set rows" "key q = key d" for q
  proof -
    from run_rows(2) [OF step.hyps(1) q(1)] obtain d' where "d' \<in> set h" "slot d' = slot q" by auto
    with last [of d'] q(2) show ?thesis by simp
  qed
  from step.hyps(2) show ?case
  proof (cases rule: update_cases)
    case existing
    with step.prems(3) obtain q where q: "q \<in> set rows" "r = bumped d q" by auto
    note IH = step.IH [OF wh ch q(1)]
    show ?thesis
    proof (cases "slot q = slot d")
      case True
      note x = exact_plus [OF _ wd _ bd, of "bal q"]
      from True show ?thesis using IH by (simp add: q(2) bumped_def x)
    next
      case False
      with max [OF q(1)] IH show ?thesis by (auto simp: q(2) bumped_def)
    qed
  next
    case fresh
    have "(\<lambda>q. if day d < day q \<and> key q = key d
        then AddBalance I (bal d + beforeBalance I d rows) q else q) q = q" if "q \<in> set rows" for q
      using max [OF that] by auto
    with fresh(2) have "rows' = rows @ [new_row d rows sq]" by (simp cong: map_cong)
    with step.prems(3) have "r = new_row d rows sq \<or> r \<in> set rows" by auto
    then show ?thesis
    proof
      assume r: "r = new_row d rows sq"
      have b: "val (beforeBalance I d rows) = booked key (\<lambda>d'. day d' < day d) bal h (key d) \<and>
          whole (beforeBalance I d rows)"
        using step.IH [OF wh ch] by (intro before_balance [OF step.hyps(1) fresh(1)]) blast
      from fresh(1) run_slots [OF step.hyps(1)] have "slot d \<notin> slot ` set h" by simp
      then have e: "booked key (\<lambda>d'. day d' \<le> day d) bal h (key d) =
          booked key (\<lambda>d'. day d' < day d) bal h (key d)"
        by (intro booked_cong) (auto simp: image_iff order.order_iff_strict)
      note x = exact_plus [OF _ wd _ bd, of "beforeBalance I d rows"]
      show ?thesis using b by (simp add: r e x f64_add_commute [of "bal d"])
    next
      assume q: "r \<in> set rows"
      have "slot r \<noteq> slot d"
      proof
        assume "slot r = slot d"
        with imageI [OF q, of slot] fresh(1) show False by simp
      qed
      with max [OF q] step.IH [OF wh ch q] show ?thesis by auto
    qed
  qed
qed simp

text \<open>
  A day inserted late: the code adds the balance before that day to every later row, where it
  is already contained.
\<close>

lemma late_day:
  assumes run: "daily_run I h rows" and "updateDailyBalance I d (rows, sq) = (rows', sq')"
    and "slot d \<notin> slot ` set rows" and r: "r \<in> set rows" and "key r = key d" and "day d < day r"
  shows "AddBalance I (bal d + beforeBalance I d rows) r \<in> set rows'"
  using assms(2)
proof (cases rule: update_cases)
  case existing
  with assms(3) show ?thesis by blast
next
  case fresh
  have "AddBalance I (bal d + beforeBalance I d rows) r \<in>
      (\<lambda>r. if day d < day r \<and> key r = key d
           then AddBalance I (bal d + beforeBalance I d rows) r else r) ` set rows"
    using assms by (intro image_eqI [of _ _ r]) simp_all
  then show ?thesis unfolding fresh(2) by simp
qed

lemma late_bump:
  assumes run: "daily_run I h rows" and upd: "updateDailyBalance I d (rows, sq) = (rows', sq')"
    and none: "slot d \<notin> slot ` set rows" and w: "whole_list (map bal (h @ d # h))"
    and ch: "chronological h" and later: "key r = key d \<and> day d < day r" and r: "r \<in> set rows"
  shows "\<exists>r' \<in> set rows'. slot r' = slot r \<and> val (bal r') =
    booked key (\<lambda>y. day y \<le> day r) bal (h @ [d]) (key r) + booked key (\<lambda>y. day y < day d) bal h (key r)"
proof -
  let ?b = "beforeBalance I d rows"
  from w have wl: "list_all whole (map bal h)" "whole (bal d)" "abs_sum (map bal h) \<le> 2 ^ 53"
    and tot: "abs_sum (map bal h) + \<bar>val (bal d)\<bar> + abs_sum (map bal h) \<le> 2 ^ 53"
    by (auto simp: whole_list_def intro: order_trans [rotated])
  then have wh: "whole_list (map bal h)" by (simp add: whole_list_def)
  note rb = run_balance [OF run wh ch]
  have b: "val ?b = booked key (\<lambda>y. day y < day d) bal h (key d) \<and> whole ?b"
    using rb by (intro before_balance [OF run none]) blast
  let ?l = "booked key (\<lambda>y. day y \<le> day r) bal h (key r)"
  have bounds: "\<bar>?l\<bar> \<le> abs_sum (map bal h)" "\<bar>val ?b\<bar> \<le> abs_sum (map bal h)"
    using booked_bound [of key _ bal h] b by auto
  have x: "val (bal d + ?b) = val (bal d) + val ?b" "whole (bal d + ?b)"
  proof -
    have "\<bar>val (bal d) + val ?b\<bar> \<le> 2 ^ 53"
      using bounds tot abs_triangle_ineq [of "val (bal d)" "val ?b"] abs_sum_nonneg [of "map bal h"] by linarith
    with exact_plus [OF wl(2) _ refl] b show "val (bal d + ?b) = val (bal d) + val ?b" "whole (bal d + ?b)"
      by auto
  qed
  have y: "val (bal r + (bal d + ?b)) = ?l + (val (bal d) + val ?b)"
  proof -
    have "\<bar>?l + val (bal d + ?b)\<bar> \<le> 2 ^ 53"
      using bounds tot abs_triangle_ineq [of ?l "val (bal d) + val ?b"]
        abs_triangle_ineq [of "val (bal d)" "val ?b"] unfolding x(1) by linarith
    with exact_plus(1) [OF _ x(2), of "bal r" ?l] rb [OF r] x(1) show ?thesis by simp
  qed
  from late_day [OF run upd none r] later
  have "AddBalance I (bal d + ?b) r \<in> set rows'" by simp
  moreover have "val (bal (AddBalance I (bal d + ?b) r)) =
      booked key (\<lambda>y. day y \<le> day r) bal (h @ [d]) (key r) + booked key (\<lambda>y. day y < day d) bal h (key r)"
    using y b later by simp
  ultimately show ?thesis by (intro bexI [of _ "AddBalance I (bal d + ?b) r"]) simp_all
qed

end

subsection \<open>The seven tables\<close>

interpretation akd_table: daily_table akd "\<lambda>r. nanos (akd_Day r)" "\<lambda>r. (akd_AccountKey r, akd_JournalTeamID r)"
    akd_Debit akd_Credit akd_Balance akd_StartBalance
  by unfold_locales (auto simp: akd_defs day_defs)

interpretation acd_table: daily_table acd "\<lambda>r. nanos (acd_Day r)" "\<lambda>r. (acd_AccountID r, acd_JournalTeamID r)"
    acd_Debit acd_Credit acd_Balance acd_StartBalance
  by unfold_locales (auto simp: acd_defs day_defs)

interpretation shd_table: daily_table shd "\<lambda>r. nanos (shd_Day r)" "\<lambda>r. (shd_ShopID r, shd_AccountID r, shd_JournalTeamID r)"
    shd_Debit shd_Credit shd_Balance shd_StartBalance
  by unfold_locales (auto simp: shd_defs day_defs)

interpretation csd_table: daily_table csd "\<lambda>r. nanos (csd_Day r)" "\<lambda>r. (csd_CsID r, csd_AccountID r, csd_JournalTeamID r)"
    csd_Debit csd_Credit csd_Balance csd_StartBalance
  by unfold_locales (auto simp: csd_defs day_defs)

interpretation spd_table: daily_table spd "\<lambda>r. nanos (spd_Day r)" "\<lambda>r. (spd_SupplierID r, spd_AccountID r, spd_JournalTeamID r)"
    spd_Debit spd_Credit spd_Balance spd_StartBalance
  by unfold_locales (auto simp: spd_defs day_defs)

interpretation cld_table: daily_table cld "\<lambda>r. nanos (cld_Day r)" "\<lambda>r. (cld_CustomID r, cld_AccountID r, cld_JournalTeamID r)"
    cld_Debit cld_Credit cld_Balance cld_StartBalance
  by unfold_locales (auto simp: cld_defs day_defs)

interpretation tld_table: daily_table tld "\<lambda>r. nanos (tld_Day r)" "\<lambda>r. (tld_LabelID r, tld_AccountID r, tld_JournalTeamID r)"
    tld_Debit tld_Credit tld_Balance tld_StartBalance
  by unfold_locales (auto simp: tld_defs day_defs)

subsection \<open>The service\<close>

text \<open>The cache holds rows of the account table.\<close>

definition cache_ok :: "db \<Rightarrow> report_db \<Rightarrow> bool" where
  "cache_ok d st \<longleftrightarrow> (\<forall>i acc. map_of (rdb_account_cache st) i = Some acc \<longrightarrow> account_by_id d i = Some acc)"

definition amounts_of :: "db \<Rightarrow> EntryPayload \<Rightarrow> daily_amounts option" where
  "amounts_of d e = (case account_by_id d (ep_AccountId e) of
     None \<Rightarrow> None | Some acc \<Rightarrow> entry_amounts acc e)"

lemma upd_frame [frame]:
  "rdb_account_cache (upd_akd r st) = rdb_account_cache st"
  "rdb_account_cache (upd_acd r1 st) = rdb_account_cache st"
  "rdb_account_cache (upd_csd r2 st) = rdb_account_cache st"
  "rdb_account_cache (upd_shd r3 st) = rdb_account_cache st"
  "rdb_account_cache (upd_spd r4 st) = rdb_account_cache st"
  "rdb_account_cache (upd_cld r5 st) = rdb_account_cache st"
  "rdb_account_cache (upd_tld r6 st) = rdb_account_cache st"
  "rdb_account (upd_akd r st) = rdb_account st"
  "rdb_account (upd_csd r2 st) = rdb_account st"
  "rdb_account (upd_shd r3 st) = rdb_account st"
  "rdb_account (upd_spd r4 st) = rdb_account st"
  "rdb_account (upd_cld r5 st) = rdb_account st"
  "rdb_account (upd_tld r6 st) = rdb_account st"
  by (simp_all add: upd_akd_def upd_acd_def upd_csd_def upd_shd_def upd_spd_def upd_cld_def upd_tld_def
      split: prod.splits)

lemma getTypeLabel_frame [frame]:
  "getTypeLabel d l st = (r, st') \<Longrightarrow> rdb_account_cache st' = rdb_account_cache st \<and> rdb_account st' = rdb_account st"
  by (auto simp: getTypeLabel_def split: option.splits if_splits)

lemma type_labels_frame [frame]:
  "type_labels_loop d a ls st = (r, st') \<Longrightarrow>
     rdb_account_cache st' = rdb_account_cache st \<and> rdb_account st' = rdb_account st"
  by (induction d a ls st rule: type_labels_loop.induct)
     (auto simp: frame dest: getTypeLabel_frame split: prod.splits sum.splits)

lemma tags_frame [frame]:
  "rdb_account_cache (fold (\<lambda>t st. upd_cld (new_cld a t) st) ts st) = rdb_account_cache st"
  "rdb_account (fold (\<lambda>t st. upd_cld (new_cld a t) st) ts st) = rdb_account st"
  by (induction ts arbitrary: st) (simp_all add: frame)

lemma getAccountR_ok:
  assumes "cache_ok d st" and "getAccountR d i st = (r, st')"
  shows "cache_ok d st' \<and> rdb_account st' = rdb_account st \<and>
    (\<forall>acc. r = Inr acc \<longrightarrow> account_by_id d i = Some acc)"
  using assms
  by (auto simp: getAccountR_def cache_ok_def Let_def map_of_alist_upd split: option.splits if_splits)

lemma upd_acd_run:
  "daily_run acd h (rdb_account st) \<Longrightarrow> daily_run acd (h @ [r]) (rdb_account (upd_acd r st))"
  by (auto simp: upd_acd_def intro: daily_run.step split: prod.splits)

lemma update_entry_run:
  assumes "update_entry d labels e st = (None, st')" and "cache_ok d st"
    and "daily_run acd h (rdb_account st)"
  shows "\<exists>a. amounts_of d e = Some a \<and> cache_ok d st' \<and> daily_run acd (h @ [new_acd a]) (rdb_account st')"
proof -
  obtain r st1 where g: "getAccountR d (ep_AccountId e) st = (r, st1)"
    by (cases "getAccountR d (ep_AccountId e) st")
  with assms(1) obtain acc where r: "r = Inr acc" by (auto simp: update_entry_def split: sum.splits)
  from getAccountR_ok [OF assms(2) g] r have c: "cache_ok d st1" "rdb_account st1 = rdb_account st"
    "account_by_id d (ep_AccountId e) = Some acc" by auto
  from assms(1) g r obtain a where a: "entry_amounts acc e = Some a"
    by (auto simp: update_entry_def split: option.splits)
  from assms(1) g r a obtain st2 where loop: "type_labels_loop d a (rl_TypeLabels labels) st2 = (None, st')"
    and st2: "rdb_account_cache st2 = rdb_account_cache st1"
      "rdb_account st2 = rdb_account (upd_acd (new_acd a) (upd_akd (new_akd a (acc_Key acc)) st1))"
    by (fastforce simp: update_entry_def Let_def frame)
  from type_labels_frame [OF loop] st2 c have "cache_ok d st'" by (simp add: cache_ok_def)
  moreover have "daily_run acd (h @ [new_acd a]) (rdb_account st')"
    using type_labels_frame [OF loop] st2(2) assms(3) c(2)
    by (simp add: upd_acd_run frame)
  moreover have "amounts_of d e = Some a" using c(3) a by (simp add: amounts_of_def)
  ultimately show ?thesis by blast
qed

lemma update_entries_run:
  assumes "update_entries d labels es st = (None, st')" and "cache_ok d st"
    and "daily_run acd h (rdb_account st)"
  shows "list_all (\<lambda>e. amounts_of d e \<noteq> None) es \<and> cache_ok d st' \<and>
    daily_run acd (h @ map (new_acd \<circ> the \<circ> amounts_of d) es) (rdb_account st')"
  using assms
proof (induction es arbitrary: st h)
  case (Cons e es)
  from Cons.prems(1) obtain st1 where e: "update_entry d labels e st = (None, st1)"
    and es: "update_entries d labels es st1 = (None, st')"
    by (auto split: prod.splits option.splits)
  from update_entry_run [OF e Cons.prems(2,3)] obtain a where a: "amounts_of d e = Some a"
    "cache_ok d st1" "daily_run acd (h @ [new_acd a]) (rdb_account st1)" by blast
  from Cons.IH [OF es a(2,3)] a(1) show ?case by simp
qed simp

text \<open>A service that has handled a list of messages, each without an error.\<close>

definition empty_report :: report_db where
  "empty_report = \<lparr>rdb_seq = 0, rdb_account_key = [], rdb_account = [], rdb_cs = [], rdb_shop = [],
     rdb_supplier = [], rdb_custom = [], rdb_type_label = [], rdb_account_cache = [], rdb_label_cache = []\<rparr>"

inductive handled :: "db \<Rightarrow> DailyUpdateBalanceRequest list \<Rightarrow> report_db \<Rightarrow> bool" for d where
  none: "handled d [] empty_report"
| message: "handled d ms st \<Longrightarrow> DailyUpdateBalance d m st = (None, st') \<Longrightarrow> handled d (ms @ [m]) st'"

definition day_rows :: "db \<Rightarrow> DailyUpdateBalanceRequest list \<Rightarrow> AccountDailyBalance list" where
  "day_rows d ms = map (new_acd \<circ> the \<circ> amounts_of d) (concat (map dr_Entries ms))"

lemma handled_run:
  "handled d ms st \<Longrightarrow> cache_ok d st \<and> daily_run acd (day_rows d ms) (rdb_account st)"
proof (induction rule: handled.induct)
  case none
  show ?case by (simp add: cache_ok_def empty_report_def day_rows_def daily_run.start)
next
  case (message ms st m st')
  from update_entries_run [of d "dr_LabelExtra m" "dr_Entries m" st st'] message
  show ?case by (auto simp: DailyUpdateBalance_def day_rows_def)
qed

end
