(* ===== verification/DailySpec.thy ===== *)
theory DailySpec
  imports DailyContract Samples
begin

section \<open>Properties of the daily balances\<close>

text \<open>
  What the report service makes of the messages of the accounting core, for the table per
  account; the other six tables satisfy the same locale \<open>daily_table\<close>. \<open>acd_slot\<close> is the key of
  a row, \<open>booked\<close> an exact sum over the entries handled so far.
\<close>

definition acd_slot :: "AccountDailyBalance \<Rightarrow> nat \<times> nat" where
  "acd_slot r = (acd_AccountID r, acd_JournalTeamID r)"

definition acd_day :: "AccountDailyBalance \<Rightarrow> int" where
  "acd_day r = nanos (acd_Day r)"

lemma shifted_div:
  fixes n :: int
  assumes "0 \<le> k" and "k \<le> D" and "0 < D"
  shows "n div D = (n + k) div D - (if (n + k) mod D < k then 1 else 0)"
proof -
  let ?q = "(n + k) div D" and ?r = "(n + k) mod D"
  have e: "n + k = D * ?q + ?r" by simp
  have r: "0 \<le> ?r" "?r < D" using assms(3) by simp_all
  show ?thesis
  proof (cases "?r < k")
    case True
    have "n = D * (?q - 1) + (?r - k + D)" unfolding right_diff_distrib using e by linarith
    from int_div_pos_eq [OF this] True r assms show ?thesis by simp
  next
    case False
    have "n = D * ?q + (?r - k)" using e by linarith
    from int_div_pos_eq [OF this] False r assms show ?thesis by simp
  qed
qed

text \<open>Entries on account 3 of team 7: their messages, and the rows they book.\<close>

definition sample_payload :: "int \<Rightarrow> int \<Rightarrow> EntryPayload" where
  "sample_payload day amount = \<lparr>ep_Id = 1, ep_TransactionId = 1, ep_Desc = [], ep_AccountId = 3,
     ep_TeamId = 7, ep_Debit = f64_of amount, ep_Credit = 0,
     ep_EntryTime = \<lparr>nanos = day * day_ns, offset = 0\<rparr>, ep_Rollback = False\<rparr>"

definition sample_message :: "int \<Rightarrow> int \<Rightarrow> DailyUpdateBalanceRequest" where
  "sample_message day amount =
     \<lparr>dr_Entries = [sample_payload day amount], dr_LabelExtra = emptyReportLabel\<rparr>"

definition day_row :: "int \<Rightarrow> int \<Rightarrow> AccountDailyBalance" where
  "day_row day amount = \<lparr>acd_ID = 0, acd_Day = \<lparr>nanos = day * day_ns, offset = 0\<rparr>,
     acd_AccountID = 3, acd_JournalTeamID = 7, acd_Debit = f64_of amount, acd_Credit = 0,
     acd_Balance = f64_of amount, acd_StartBalance = 0\<rparr>"

lemma sample_amounts: "entry_amounts (sample_account 3 ''receivable'' 7 ''d'') (sample_payload day amount) =
    Some \<lparr>da_Day = \<lparr>nanos = day * day_ns, offset = 0\<rparr>, da_AccountID = 3, da_TeamID = 7,
      da_Debit = f64_of amount, da_Credit = 0, da_Balance = f64_of amount\<rparr>"
  by (simp add: entry_amounts_def sample_payload_def sample_account_def DebitBalance_def ParseDate_def
      AsUTC_def day_ns_def)

lemma sample_account_row: "account_by_id sample_db 3 = Some (sample_account 3 ''receivable'' 7 ''d'')"
  by (simp add: account_by_id_def sample_db_def empty_db_def sample_accounts_def sample_account_def)

lemma sample_payload_account [simp]: "ep_AccountId (sample_payload day amount) = 3"
  by (simp add: sample_payload_def)

lemma sample_day_rows: "day_rows sample_db [sample_message d1 x1, sample_message d2 x2] =
    [day_row d1 x1, day_row d2 x2]"
  by (simp add: day_rows_def sample_message_def amounts_of_def sample_account_row sample_amounts
      new_acd_def day_row_def)

lemma sample_account_fields: "acc_ID (sample_account i key team bt) = i"
  by (simp add: sample_account_def)

lemma sample_update: "rdb_account_cache st = [] \<or> rdb_account_cache st = [(3, sample_account 3 ''receivable'' 7 ''d'')] \<Longrightarrow>
   \<exists>st'. DailyUpdateBalance sample_db (sample_message day amount) st = (None, st') \<and>
     rdb_account_cache st' = [(3, sample_account 3 ''receivable'' 7 ''d'')]"
  by (auto simp: DailyUpdateBalance_def sample_message_def update_entry_def getAccountR_def
      sample_account_row sample_amounts emptyReportLabel_def frame Let_def sample_account_fields)

lemma sample_handled:
  "\<exists>st. handled sample_db [sample_message d1 x1, sample_message d2 x2] st"
proof -
  obtain st1 where 1: "DailyUpdateBalance sample_db (sample_message d1 x1) empty_report = (None, st1)"
    "rdb_account_cache st1 = [(3, sample_account 3 ''receivable'' 7 ''d'')]"
    using sample_update [of empty_report d1 x1] by (auto simp: empty_report_def)
  obtain st2 where 2: "DailyUpdateBalance sample_db (sample_message d2 x2) st1 = (None, st2)"
    using sample_update [of st1 d2 x2] 1(2) by auto
  from handled.message [OF handled.message [OF handled.none 1(1)] 2] show ?thesis by auto
qed

lemmas update_eval = updateDailyBalance_def updateAfterIncrement_def beforeBalance_def row_balance_def
  acd_defs day_defs day_row_def day_ns_def Let_def

lemma two_day_run: "daily_run acd [day_row 1 100, day_row 3 5]
    [(day_row 1 100)\<lparr>acd_ID := 1\<rparr>,
     (day_row 3 5)\<lparr>acd_ID := 2, acd_Balance := f64_of 105, acd_StartBalance := f64_of 100\<rparr>]"
proof -
  have "daily_run acd ([] @ [day_row 1 100]) [(day_row 1 100)\<lparr>acd_ID := 1\<rparr>]"
    by (rule daily_run.step [OF daily_run.start, of _ _ 0 _ 1]) (simp add: update_eval)
  from daily_run.step [OF this, of "day_row 3 5" 1
      "[(day_row 1 100)\<lparr>acd_ID := 1\<rparr>,
        (day_row 3 5)\<lparr>acd_ID := 2, acd_Balance := f64_of 105, acd_StartBalance := f64_of 100\<rparr>]" 2]
  show ?thesis by (simp add: update_eval f64_of_arith)
qed

text \<open>
  C4: the running balances. After any number of messages, each handled without an error, whose
  entries come in day order per account and team, every row of the account table holds, exactly:
  as balance the sum of all its entries up to its day, as start balance the sum of those before.
\<close>

theorem running_balance_correct:
  assumes "handled d ms st" and "whole_list (map acd_Balance (day_rows d ms))"
    and "sorted_wrt (\<lambda>x y. acd_slot x = acd_slot y \<longrightarrow> acd_day x \<le> acd_day y) (day_rows d ms)"
    and "r \<in> set (rdb_account st)"
  shows "val (acd_Balance r) =
      booked acd_slot (\<lambda>x. acd_day x \<le> acd_day r) acd_Balance (day_rows d ms) (acd_slot r) \<and>
    val (acd_StartBalance r) =
      booked acd_slot (\<lambda>x. acd_day x < acd_day r) acd_Balance (day_rows d ms) (acd_slot r)"
  using acd_table.run_balance [OF conjunct2 [OF handled_run [OF assms(1)]] assms(2) _ assms(4)] assms(3)
  unfolding acd_table.chronological_def booked_def acd_slot_def acd_day_def by blast

lemma running_balance_correct_witness:
  "\<exists>st. handled sample_db [sample_message 1 100, sample_message 2 50] st \<and>
     (\<exists>r \<in> set (rdb_account st). val (acd_Balance r) = 150 \<and> val (acd_StartBalance r) = 100)"
proof -
  obtain st where st: "handled sample_db [sample_message 1 100, sample_message 2 50] st"
    using sample_handled by blast
  let ?h = "day_rows sample_db [sample_message 1 100, sample_message 2 50]"
  have "(\<lambda>r. (acd_day r, acd_slot r)) ` set (rdb_account st) = (\<lambda>r. (acd_day r, acd_slot r)) ` set ?h"
    using acd_table.run_slots [OF conjunct2 [OF handled_run [OF st]]]
    unfolding acd_slot_def acd_day_def by blast
  then have "(acd_day (day_row 2 50), acd_slot (day_row 2 50)) \<in> (\<lambda>r. (acd_day r, acd_slot r)) ` set (rdb_account st)"
    by (simp add: sample_day_rows)
  then obtain r where r: "r \<in> set (rdb_account st)" "acd_day r = 2 * day_ns" "acd_slot r = (3, 7)"
    by (auto simp: acd_day_def acd_slot_def day_row_def)
  from running_balance_correct [OF st _ _ r(1)] r(2,3)
  have "val (acd_Balance r) = 150 \<and> val (acd_StartBalance r) = 100"
    by (simp add: sample_day_rows whole_list_def day_row_def acd_day_def acd_slot_def whole_f64_of
        val_f64_of day_ns_def)
  with st r(1) show ?thesis by blast
qed

text \<open>
  C26: the debits and credits of a day do not depend on the order of the messages: a row holds
  the exact sums of its day's entries, rollbacks counted negatively.
\<close>

theorem day_amounts_any_order:
  assumes "handled d ms st" and "whole_list (map acd_Debit (day_rows d ms))"
    and "whole_list (map acd_Credit (day_rows d ms))" and "r \<in> set (rdb_account st)"
  shows "val (acd_Debit r) =
      booked acd_slot (\<lambda>x. acd_day x = acd_day r) acd_Debit (day_rows d ms) (acd_slot r) \<and>
    val (acd_Credit r) =
      booked acd_slot (\<lambda>x. acd_day x = acd_day r) acd_Credit (day_rows d ms) (acd_slot r)"
  using acd_table.run_day_sums [OF conjunct2 [OF handled_run [OF assms(1)]] assms(2,3,4)]
  unfolding booked_def acd_slot_def acd_day_def by blast

lemma day_amounts_any_order_witness:
  "\<exists>st. handled sample_db [sample_message 2 50, sample_message 1 100] st \<and>
     (\<forall>r \<in> set (rdb_account st). acd_day r = day_ns \<and> acd_slot r = (3, 7) \<longrightarrow> val (acd_Debit r) = 100)"
proof -
  obtain st where st: "handled sample_db [sample_message 2 50, sample_message 1 100] st"
    using sample_handled by blast
  have "val (acd_Debit r) = 100" if "r \<in> set (rdb_account st)" "acd_day r = day_ns" "acd_slot r = (3, 7)" for r
    using day_amounts_any_order [OF st _ _ that(1)] that(2,3)
    by (simp add: sample_day_rows whole_list_def day_row_def acd_day_def acd_slot_def whole_f64_of
        val_f64_of day_ns_def)
  with st show ?thesis by blast
qed

text \<open>
  C27: the unique index of the table holds by construction: one row per day, account and team,
  and exactly the days that have entries have a row.
\<close>

theorem one_row_per_day:
  assumes "handled d ms st"
  shows "distinct (map (\<lambda>r. (acd_day r, acd_slot r)) (rdb_account st)) \<and>
    (\<lambda>r. (acd_day r, acd_slot r)) ` set (rdb_account st) =
      (\<lambda>r. (acd_day r, acd_slot r)) ` set (day_rows d ms)"
  using acd_table.run_slots [OF conjunct2 [OF handled_run [OF assms]]]
  unfolding acd_slot_def acd_day_def by blast

lemma one_row_per_day_witness:
  "\<exists>st. handled sample_db [sample_message 2 50, sample_message 2 100] st \<and>
     (\<lambda>r. (acd_day r, acd_slot r)) ` set (rdb_account st) = {(2 * day_ns, 3, 7)}"
proof -
  obtain st where st: "handled sample_db [sample_message 2 50, sample_message 2 100] st"
    using sample_handled by blast
  with one_row_per_day [OF st] show ?thesis
    by (auto simp: sample_day_rows day_row_def acd_day_def acd_slot_def)
qed

text \<open>
  C32: a day that gets its first entry after a later day already has one: the balance before
  that day is added to the later row once more, so the later balance exceeds the right
  one by exactly that balance.
\<close>

theorem late_day_double_counts:
  assumes "daily_run acd h rows" and "whole_list (map acd_Balance (h @ x # h))"
    and "sorted_wrt (\<lambda>x y. acd_slot x = acd_slot y \<longrightarrow> acd_day x \<le> acd_day y) h"
    and "\<not> (\<exists>r \<in> set rows. acd_slot r = acd_slot x \<and> acd_day r = acd_day x)"
    and "r \<in> set rows" and "acd_slot r = acd_slot x" and "acd_day x < acd_day r"
    and "updateDailyBalance acd x (rows, sq) = (rows', sq')"
  shows "\<exists>r' \<in> set rows'. acd_slot r' = acd_slot r \<and> acd_day r' = acd_day r \<and>
    val (acd_Balance r') =
      booked acd_slot (\<lambda>y. acd_day y \<le> acd_day r) acd_Balance (h @ [x]) (acd_slot r) +
      booked acd_slot (\<lambda>y. acd_day y < acd_day x) acd_Balance h (acd_slot r)"
proof -
  have ch: "acd_table.chronological h" using assms(3)
    unfolding acd_table.chronological_def acd_slot_def acd_day_def .
  from acd_table.late_bump [OF assms(1,8) _ assms(2) ch _ assms(5)] assms(4,6,7)
  show ?thesis unfolding booked_def acd_slot_def acd_day_def by fastforce
qed

lemma late_day_double_counts_witness:
  "\<exists>r' \<in> set (fst (updateDailyBalance acd (day_row 2 7) ([(day_row 1 100)\<lparr>acd_ID := 1\<rparr>,
     (day_row 3 5)\<lparr>acd_ID := 2, acd_Balance := f64_of 105, acd_StartBalance := f64_of 100\<rparr>], 2))).
     acd_day r' = 3 * day_ns \<and> val (acd_Balance r') = 212"
proof -
  let ?r = "(day_row 3 5)\<lparr>acd_ID := 2, acd_Balance := f64_of 105, acd_StartBalance := f64_of 100\<rparr>"
  let ?u = "updateDailyBalance acd (day_row 2 7) ([(day_row 1 100)\<lparr>acd_ID := 1\<rparr>, ?r], 2)"
  have "\<exists>r' \<in> set (fst ?u). acd_slot r' = acd_slot ?r \<and> acd_day r' = acd_day ?r \<and>
    val (acd_Balance r') =
      booked acd_slot (\<lambda>y. acd_day y \<le> acd_day ?r) acd_Balance ([day_row 1 100, day_row 3 5] @ [day_row 2 7]) (acd_slot ?r) +
      booked acd_slot (\<lambda>y. acd_day y < acd_day (day_row 2 7)) acd_Balance [day_row 1 100, day_row 3 5] (acd_slot ?r)"
    by (rule late_day_double_counts [OF two_day_run _ _ _ _ _ _ prod.collapse [symmetric]])
       (simp_all add: whole_list_def day_row_def acd_day_def acd_slot_def whole_f64_of val_f64_of day_ns_def)
  then show ?thesis
    by (auto simp: day_row_def acd_day_def acd_slot_def val_f64_of day_ns_def)
qed

text \<open>
  An entry on an earlier day that already has a row corrects the later balances, but not
  their start balances: these stay what they were and miss the entry.
\<close>

theorem start_balance_stale:
  assumes "\<exists>q \<in> set rows. acd_slot q = acd_slot x \<and> acd_day q = acd_day x"
    and "r \<in> set rows" and "acd_slot r = acd_slot x" and "acd_day x < acd_day r"
    and "updateDailyBalance acd x (rows, sq) = (rows', sq')"
  shows "r\<lparr>acd_Balance := acd_Balance r + acd_Balance x\<rparr> \<in> set rows'"
proof -
  from assms(1) have "\<exists>q \<in> set rows. nanos (acd_Day q) = nanos (acd_Day x) \<and>
      (acd_AccountID q, acd_JournalTeamID q) = (acd_AccountID x, acd_JournalTeamID x)"
    by (auto simp: acd_slot_def acd_day_def)
  from acd_table.update_existing [OF this, of sq] assms(5)
  have "rows' = map (acd_table.bumped x) rows" by simp
  moreover have "acd_table.bumped x r = r\<lparr>acd_Balance := acd_Balance r + acd_Balance x\<rparr>"
    unfolding acd_table.bumped_def
    using assms(3,4) by (auto simp: acd_slot_def acd_day_def acd_def acd_AddBalance_def)
  ultimately show ?thesis using assms(2) by force
qed

lemma start_balance_stale_witness:
  "(day_row 3 5)\<lparr>acd_Balance := f64_of 107, acd_StartBalance := f64_of 100\<rparr> \<in>
     set (fst (updateDailyBalance acd (day_row 1 2) ([day_row 1 100,
       (day_row 3 5)\<lparr>acd_Balance := f64_of 105, acd_StartBalance := f64_of 100\<rparr>], 2)))"
  using start_balance_stale [of "[day_row 1 100, (day_row 3 5)\<lparr>acd_Balance := f64_of 105,
      acd_StartBalance := f64_of 100\<rparr>]" "day_row 1 2"
      "(day_row 3 5)\<lparr>acd_Balance := f64_of 105, acd_StartBalance := f64_of 100\<rparr>" 2, OF _ _ _ _ prod.collapse [symmetric]]
  by (simp add: day_row_def acd_day_def acd_slot_def day_ns_def f64_of_arith)

text \<open>
  A rollback entry takes back, day for day, what the entry it mirrors had added: its
  amounts are the exact negatives.
\<close>

theorem rollback_entry_negates:
  assumes "entry_amounts acc e = Some a" and "\<not> ep_Rollback e"
    and "e' = e\<lparr>ep_Debit := ep_Credit e, ep_Credit := ep_Debit e, ep_Rollback := True\<rparr>"
  shows "entry_amounts acc e' = Some (a\<lparr>da_Debit := - da_Debit a, da_Credit := - da_Credit a,
    da_Balance := - da_Balance a\<rparr>)"
  using assms
  by (auto simp: entry_amounts_def Let_def f64_times_minus_1 f64_minus_diff split: if_splits)

lemma rollback_entry_negates_witness:
  "map_option da_Balance (entry_amounts (sample_account 3 ''receivable'' 7 ''d'')
     ((sample_payload 1 100)\<lparr>ep_Debit := 0, ep_Credit := f64_of 100, ep_Rollback := True\<rparr>)) =
   Some (f64_of (- 100))"
  using rollback_entry_negates [OF sample_amounts, of 1 100
      "(sample_payload 1 100)\<lparr>ep_Debit := 0, ep_Credit := f64_of 100, ep_Rollback := True\<rparr>"]
  by (simp add: sample_payload_def f64_of_uminus)

text \<open>
  The service files an entry under its UTC date. For an entry made between midnight and
  07:00 in Jakarta that is the day before the local one, which the resync statements of
  \<open>report_balance\<close> use.
\<close>

theorem utc_day_behind_jakarta:
  assumes "offset t = 7 * 3600 * 1000000000" and "entry_amounts acc e = Some a" and "ep_EntryTime e = t"
  shows "nanos (da_Day a) = nanos (ParseDate t) -
    (if (nanos t + offset t) mod day_ns < 7 * 3600 * 1000000000 then day_ns else 0)"
proof -
  have d: "da_Day a = ParseDate (AsUTC t)"
    using assms(2,3) by (auto simp: entry_amounts_def Let_def split: if_splits)
  let ?n = "nanos t" and ?o = "7 * 3600 * 1000000000 :: int"
  have "?n div day_ns = (?n + ?o) div day_ns - (if (?n + ?o) mod day_ns < ?o then 1 else 0)"
    by (rule shifted_div) (simp_all add: day_ns_def)
  then show ?thesis
    by (simp add: d ParseDate_def AsUTC_def assms(1) day_ns_def left_diff_distrib)
qed

lemma utc_day_behind_jakarta_witness:
  "\<exists>a. entry_amounts (sample_account 3 ''receivable'' 7 ''d'')
     ((sample_payload 1 100)\<lparr>ep_EntryTime := \<lparr>nanos = 10 * day_ns - 3600 * 1000000000,
        offset = 7 * 3600 * 1000000000\<rparr>\<rparr>) = Some a \<and> nanos (da_Day a) = 9 * day_ns"
proof -
  let ?t = "\<lparr>nanos = 10 * day_ns - 3600 * 1000000000, offset = 7 * 3600 * 1000000000\<rparr>"
  obtain a where a: "entry_amounts (sample_account 3 ''receivable'' 7 ''d'') ((sample_payload 1 100)\<lparr>ep_EntryTime := ?t\<rparr>) = Some a"
    by (simp add: entry_amounts_def sample_payload_def sample_account_def DebitBalance_def Let_def)
  from utc_day_behind_jakarta [where t = ?t, OF _ a] have "nanos (da_Day a) = 9 * day_ns"
    by (simp add: ParseDate_def day_ns_def)
  with a show ?thesis by blast
qed

end
