(* ===== verification/DailyCalc.thy ===== *)
theory DailyCalc
  imports DailySpec
begin

section \<open>The older daily balances and their recalculation\<close>

text \<open>
  \<open>accounting_core/daily_balance.go\<close> adds an entry to the rows of its day only: neither is a new
  row given the balance before, nor are later rows moved. \<open>setup/recalculate_daily.go\<close> runs the
  first of its calculators over the whole journal. An entry goes to the date of its time in the
  location of that time.
\<close>

subsection \<open>Accounts\<close>

text \<open>The two implementations of \<open>AccountCache\<close>.\<close>

type_synonym AccountCache = "nat \<Rightarrow> err + Account"

definition DBAccount_Get :: "db \<Rightarrow> AccountCache" where
  "DBAccount_Get d accID =
     (case account_by_id d accID of Some acc \<Rightarrow> Inr acc | None \<Rightarrow> Inl ErrRecordNotFound)"

definition MapAccount_Get :: "(nat \<times> Account) list \<Rightarrow> AccountCache" where
  "MapAccount_Get m accID =
     (case map_of m accID of
        Some acc \<Rightarrow> Inr acc
      | None \<Rightarrow> Inl (ErrMsg (''update balance error acount not found '' @ show_nat accID)))"

subsection \<open>BalanceCalculate\<close>

definition day_balance :: "Account \<Rightarrow> JournalEntry \<Rightarrow> f64" where
  "day_balance account entry =
     (if acc_BalanceType account = DebitBalance then je_Debit entry - je_Credit entry
      else if acc_BalanceType account = CreditBalance then je_Credit entry - je_Debit entry
      else 0)"

definition entry_day :: "Account \<Rightarrow> JournalEntry \<Rightarrow> daily_amounts" where
  "entry_day account entry =
     \<lparr>da_Day = ParseDate (je_EntryTime entry), da_AccountID = je_AccountID entry, da_TeamID = je_TeamID entry,
      da_Debit = je_Debit entry, da_Credit = je_Credit entry, da_Balance = day_balance account entry\<rparr>"

text \<open>Add the row's amounts to the row of its day, or save it as that row.\<close>

definition addDaily :: "'r DailyBalance \<Rightarrow> 'r \<Rightarrow> 'r list \<times> nat \<Rightarrow> 'r list \<times> nat" where
  "addDaily I daily st =
     (case st of (rows, sq) \<Rightarrow>
       case GetDebitCredit I daily of (debit, credit, balance) \<Rightarrow>
         if \<exists>r \<in> set rows. Query I daily r then
           (map (\<lambda>r. if Query I daily r then AddBalance I balance (IncDebitCredit I debit credit r) else r) rows,
            sq)
         else (rows @ [SetID I (Suc sq) daily], Suc sq))"

text \<open>\<open>cl_days\<close> is the set \<open>dayMap\<close> of the recalculation: the days whose rows were reset.\<close>

record calc =
  cl_rows :: "AccountDailyBalance list"
  cl_seq :: nat
  cl_days :: "(int \<times> nat) list"

type_synonym BeforeUpdateDaily = "AccountDailyBalance \<Rightarrow> calc \<Rightarrow> err option \<times> calc"

definition AddEntry ::
  "AccountCache \<Rightarrow> BeforeUpdateDaily option \<Rightarrow> JournalEntry \<Rightarrow> calc \<Rightarrow> err option \<times> calc" where
  "AddEntry accounts hook entry st =
     (case accounts (je_AccountID entry) of
        Inl e \<Rightarrow> (Some e, st)
      | Inr account \<Rightarrow>
          (let dayBalance = new_acd (entry_day account entry) in
           case (case hook of None \<Rightarrow> (None, st) | Some h \<Rightarrow> h dayBalance st) of
             (Some e, st) \<Rightarrow> (Some e, st)
           | (None, st) \<Rightarrow>
               (case addDaily acd dayBalance (cl_rows st, cl_seq st) of
                  (rows, sq) \<Rightarrow> (None, st\<lparr>cl_rows := rows, cl_seq := sq\<rparr>))))"

subsection \<open>Recalculating the daily balances\<close>

definition reset_row :: "AccountDailyBalance \<Rightarrow> AccountDailyBalance" where
  "reset_row r = r\<lparr>acd_Debit := 0, acd_Credit := 0, acd_Balance := 0\<rparr>"

definition recalc_hook :: BeforeUpdateDaily where
  "recalc_hook daybalance st =
     (let key = (nanos (acd_Day daybalance), acd_AccountID daybalance) in
      if key \<in> set (cl_days st) then (None, st)
      else (None, st\<lparr>cl_rows := map (\<lambda>r.
              if day_equal (acd_Day r) (acd_Day daybalance) \<and> acd_AccountID r = acd_AccountID daybalance
              then reset_row r else r) (cl_rows st),
            cl_days := key # cl_days st\<rparr>))"

fun recalc_loop :: "AccountCache \<Rightarrow> JournalEntry list \<Rightarrow> calc \<Rightarrow> err option \<times> calc" where
  "recalc_loop accounts [] st = (None, st)"
| "recalc_loop accounts (entry # entries) st =
     (case AddEntry accounts (Some recalc_hook) entry st of
        (Some e, st) \<Rightarrow> (Some e, st)
      | (None, st) \<Rightarrow> recalc_loop accounts entries st)"

text \<open>The rows the table has, with the last id used; an error leaves what was done so far.\<close>

definition RecalculateDaily ::
  "db \<Rightarrow> AccountDailyBalance list \<times> nat \<Rightarrow> err option \<times> AccountDailyBalance list \<times> nat" where
  "RecalculateDaily d st =
     (case recalc_loop (DBAccount_Get d) (db_entries d) \<lparr>cl_rows = fst st, cl_seq = snd st, cl_days = []\<rparr> of
        (e, c) \<Rightarrow> (e, cl_rows c, cl_seq c))"

subsection \<open>DailyBalanceCalculate\<close>

definition calc_acd :: "AccountDailyBalance \<Rightarrow> report_db \<Rightarrow> report_db" where
  "calc_acd r st = (case addDaily acd r (rdb_account st, rdb_seq st) of
     (rows, sq) \<Rightarrow> st\<lparr>rdb_account := rows, rdb_seq := sq\<rparr>)"

definition calc_csd :: "CsDailyBalance \<Rightarrow> report_db \<Rightarrow> report_db" where
  "calc_csd r st = (case addDaily csd r (rdb_cs st, rdb_seq st) of
     (rows, sq) \<Rightarrow> st\<lparr>rdb_cs := rows, rdb_seq := sq\<rparr>)"

definition calc_shd :: "ShopDailyBalance \<Rightarrow> report_db \<Rightarrow> report_db" where
  "calc_shd r st = (case addDaily shd r (rdb_shop st, rdb_seq st) of
     (rows, sq) \<Rightarrow> st\<lparr>rdb_shop := rows, rdb_seq := sq\<rparr>)"

definition calc_spd :: "SupplierDailyBalance \<Rightarrow> report_db \<Rightarrow> report_db" where
  "calc_spd r st = (case addDaily spd r (rdb_supplier st, rdb_seq st) of
     (rows, sq) \<Rightarrow> st\<lparr>rdb_supplier := rows, rdb_seq := sq\<rparr>)"

definition calc_cld :: "CustomLabelDailyBalance \<Rightarrow> report_db \<Rightarrow> report_db" where
  "calc_cld r st = (case addDaily cld r (rdb_custom st, rdb_seq st) of
     (rows, sq) \<Rightarrow> st\<lparr>rdb_custom := rows, rdb_seq := sq\<rparr>)"

definition calc_entry :: "AccountCache \<Rightarrow> TxLabelExtra \<Rightarrow> JournalEntry \<Rightarrow> report_db \<Rightarrow> err option \<times> report_db" where
  "calc_entry accMap labels entry st =
     (case accMap (je_AccountID entry) of
        Inl e \<Rightarrow> (Some e, st)
      | Inr account \<Rightarrow>
          (let a = entry_day account entry;
               st = calc_acd (new_acd a) st;
               st = (if le_CsID labels \<noteq> 0 then calc_csd (new_csd a (le_CsID labels)) st else st);
               st = (if le_ShopID labels \<noteq> 0 then calc_shd (new_shd a (le_ShopID labels)) st else st);
               st = (if le_SupplierID labels \<noteq> 0 then calc_spd (new_spd a (le_SupplierID labels)) st else st)
           in (None, fold (\<lambda>tagID. calc_cld (new_cld a tagID)) (le_TagIDs labels) st)))"

fun calc_entries ::
  "AccountCache \<Rightarrow> TxLabelExtra \<Rightarrow> JournalEntry list \<Rightarrow> report_db \<Rightarrow> err option \<times> report_db" where
  "calc_entries accMap labels [] st = (None, st)"
| "calc_entries accMap labels (entry # entries) st =
     (case calc_entry accMap labels entry st of
        (Some e, st) \<Rightarrow> (Some e, st)
      | (None, st) \<Rightarrow> calc_entries accMap labels entries st)"

definition UpdateDaily ::
  "TxLabelExtra \<Rightarrow> err + (JournalEntry list \<times> AccountCache) \<Rightarrow> report_db \<Rightarrow> err option \<times> report_db" where
  "UpdateDaily labels entryfunc st =
     (case entryfunc of
        Inl e \<Rightarrow> (Some e, st)
      | Inr (entries, accMap) \<Rightarrow> calc_entries accMap labels entries st)"

end
