(* ===== verification/Posting.thy ===== *)
theory Posting
  imports Handler
begin

section \<open>What a chain of calls posts\<close>

text \<open>
  An abstract account of the builder chains: every \<open>To\<close> and \<open>From\<close> call posts an amount,
  debit minus credit, on one account, and a chain posts their sum. For whole amounts a commit changes the
  balance of each account by exactly what was posted on it, and it succeeds when everything posted sums to zero.
\<close>

subsection \<open>Postings\<close>

definition key_account :: "Account list \<Rightarrow> AccountKey \<Rightarrow> nat \<Rightarrow> Account option" where
  "key_account acs key team = find (\<lambda>a. acc_Key a = key \<and> acc_TeamID a = team) acs"

lemma find_account_key: "find_account d key team = key_account (db_accounts d) key team"
  by (simp add: find_account_def key_account_def)

definition signed :: "Account \<Rightarrow> rat \<Rightarrow> rat" where
  "signed a v = (if acc_BalanceType a = CreditBalance then - v else v)"

fun posting :: "Account list \<Rightarrow> entry_call \<Rightarrow> (nat \<times> rat) option" where
  "posting acs (CTo key team x opts) =
     map_option (\<lambda>a. (acc_ID a, signed a (val x))) (key_account acs key team)"
| "posting acs (CFrom key team x opts) =
     map_option (\<lambda>a. (acc_ID a, - signed a (val x))) (key_account acs key team)"
| "posting acs call = None"

definition on_acc :: "nat \<Rightarrow> (nat \<times> rat) option \<Rightarrow> rat" where
  "on_acc a p = (case p of Some (b, v) \<Rightarrow> if b = a then v else 0 | None \<Rightarrow> 0)"

definition amount_of :: "(nat \<times> rat) option \<Rightarrow> rat" where
  "amount_of p = (case p of Some (b, v) \<Rightarrow> v | None \<Rightarrow> 0)"

fun posted :: "Account list \<Rightarrow> entry_call list \<Rightarrow> nat \<Rightarrow> rat" where
  "posted acs [] a = 0"
| "posted acs (c # cs) a = on_acc a (posting acs c) + posted acs cs a"

fun posted_total :: "Account list \<Rightarrow> entry_call list \<Rightarrow> rat" where
  "posted_total acs [] = 0"
| "posted_total acs (c # cs) = amount_of (posting acs c) + posted_total acs cs"

fun call_amounts :: "entry_call \<Rightarrow> f64 list" where
  "call_amounts (CTo key team x opts) = [x]"
| "call_amounts (CFrom key team x opts) = [x]"
| "call_amounts call = []"

text \<open>The calls without \<open>Set\<close> and \<open>Rollback\<close>, with the entry option the source has.\<close>

fun plain_call :: "entry_call \<Rightarrow> bool" where
  "plain_call (CTo key team x opts) = list_all source_entry_option opts"
| "plain_call (CFrom key team x opts) = list_all source_entry_option opts"
| "plain_call (CSet accID credit debit) = False"
| "plain_call (CRollback balances) = False"
| "plain_call call = True"

definition whole_calls :: "entry_call list \<Rightarrow> bool" where
  "whole_calls calls \<longleftrightarrow> list_all plain_call calls \<and> whole_list (concat (map call_amounts calls))"

text \<open>A call that posts: its account exists and its amount is not zero.\<close>

definition account_ok :: "Account \<Rightarrow> bool" where
  "account_ok a \<longleftrightarrow> acc_ID a \<noteq> 0 \<and> balance_typed a"

fun valid_call :: "Account list \<Rightarrow> entry_call \<Rightarrow> bool" where
  "valid_call acs (CTo key team x opts) =
     (x \<noteq> 0 \<and> (case key_account acs key team of Some a \<Rightarrow> account_ok a | None \<Rightarrow> False))"
| "valid_call acs (CFrom key team x opts) =
     (x \<noteq> 0 \<and> (case key_account acs key team of Some a \<Rightarrow> account_ok a | None \<Rightarrow> False))"
| "valid_call acs call = True"

subsection \<open>Amounts of a builder\<close>

text \<open>\<open>spends n c\<close>: the pending amounts are whole, not negative, and sum to at most \<open>n\<close> per side.\<close>

definition entry_amount_ok :: "JournalEntry \<Rightarrow> bool" where
  "entry_amount_ok e \<longleftrightarrow> whole (je_Debit e) \<and> 0 \<le> val (je_Debit e) \<and>
     whole (je_Credit e) \<and> 0 \<le> val (je_Credit e)"

definition spends :: "rat \<Rightarrow> createEntry \<Rightarrow> bool" where
  "spends n c \<longleftrightarrow>
     list_all (entry_amount_ok \<circ> snd) (ce_entries c) \<and>
     abs_sum (map (je_Debit \<circ> snd) (ce_entries c)) \<le> n \<and>
     abs_sum (map (je_Credit \<circ> snd) (ce_entries c)) \<le> n"

definition imbalance :: "createEntry \<Rightarrow> rat" where
  "imbalance c = val_sum (map (je_Debit \<circ> snd) (ce_entries c)) - val_sum (map (je_Credit \<circ> snd) (ce_entries c))"

lemma spends_whole: "spends n c \<Longrightarrow> n \<le> 2 ^ 53 \<Longrightarrow> whole_builder c"
  by (auto simp: spends_def whole_builder_def whole_list_def list_all_iff entry_amount_ok_def)

lemma builder_new: "spends 0 (newCreateEntry team user)" "imbalance (newCreateEntry team user) = 0"
  "ce_entries (newCreateEntry team user) = []" "ce_err (newCreateEntry team user) = None"
  "ce_teamID (newCreateEntry team user) = team"
  by (simp_all add: spends_def newCreateEntry_def imbalance_def)

lemma spends_mono: "spends n c \<Longrightarrow> n \<le> m \<Longrightarrow> spends m c"
  by (auto simp: spends_def)

lemma builder_fields [simp]: "spends n (c\<lparr>ce_accountMap := m\<rparr>) = spends n c"
  "spends n (ce_setErr e c) = spends n c" "imbalance (c\<lparr>ce_accountMap := m\<rparr>) = imbalance c"
  "imbalance (ce_setErr e c) = imbalance c" "pending a (c\<lparr>ce_accountMap := m\<rparr>) = pending a c"
  "pending a (ce_setErr e c) = pending a c" "ce_entries (ce_setErr e c) = ce_entries c"
  "ce_teamID (ce_setErr e c) = ce_teamID c"
  by (simp_all add: spends_def ce_setErr_def imbalance_def pending_def)

lemma on_entries_amounts:
  assumes "\<And>e. je_Debit (f e) = je_Debit e" and "\<And>e. je_Credit (f e) = je_Credit e"
  shows "map (je_Debit \<circ> snd) (ce_entries (on_entries f c)) = map (je_Debit \<circ> snd) (ce_entries c)"
    and "map (je_Credit \<circ> snd) (ce_entries (on_entries f c)) = map (je_Credit \<circ> snd) (ce_entries c)"
    and "list_all (entry_amount_ok \<circ> snd) (ce_entries (on_entries f c)) =
      list_all (entry_amount_ok \<circ> snd) (ce_entries c)"
    and "pending a (on_entries f c) = pending a c"
proof -
  show "map (je_Debit \<circ> snd) (ce_entries (on_entries f c)) = map (je_Debit \<circ> snd) (ce_entries c)"
    "map (je_Credit \<circ> snd) (ce_entries (on_entries f c)) = map (je_Credit \<circ> snd) (ce_entries c)"
    "list_all (entry_amount_ok \<circ> snd) (ce_entries (on_entries f c)) =
      list_all (entry_amount_ok \<circ> snd) (ce_entries c)"
    by (simp_all add: on_entries_def split_def comp_def assms list_all_length entry_amount_ok_def)
  have "map_of (ce_entries (on_entries f c)) a = map_option f (map_of (ce_entries c) a)"
    by (simp add: on_entries_def map_of_map)
  then show "pending a (on_entries f c) = pending a c"
    by (simp add: pending_def assms split: option.splits)
qed

lemma on_entries_builder:
  assumes "\<And>e. je_Debit (f e) = je_Debit e" and "\<And>e. je_Credit (f e) = je_Credit e"
  shows "spends n (on_entries f c) = spends n c" and "imbalance (on_entries f c) = imbalance c"
    and "pending a (on_entries f c) = pending a c" and "(ce_entries (on_entries f c) = []) = (ce_entries c = [])"
    and "ce_teamID (on_entries f c) = ce_teamID c"
  unfolding spends_def imbalance_def on_entries_amounts [of f, OF assms]
  by (simp_all add: on_entries_def)

lemma abs_sum_upd:
  assumes "map_of m k = Some e" and "val (f e') \<ge> 0" and "val (f e) \<ge> 0"
  shows "abs_sum (map (f \<circ> snd) (alist_upd k e' m)) + val (f e) =
    abs_sum (map (f \<circ> snd) m) + val (f e')"
  using assms(1)
proof (induction m)
  case (Cons p m)
  then show ?case using assms(2,3) by (cases p) (auto split: if_splits)
qed simp

lemma abs_sum_upd_new:
  "map_of m k = None \<Longrightarrow>
     abs_sum (map (f \<circ> snd) (alist_upd k e m)) = abs_sum (map (f \<circ> snd) m) + \<bar>val (f e)\<bar>"
proof (induction m)
  case (Cons p m)
  then show ?case by (cases p) (auto split: if_splits)
qed simp

lemma val_sum_upd:
  "val_sum (map (f \<circ> snd) (alist_upd k e' m)) = val_sum (map (f \<circ> snd) m) + val (f e') -
     (case map_of m k of Some e \<Rightarrow> val (f e) | None \<Rightarrow> 0)" if "distinct (map fst m)"
  using that
proof (induction m)
  case (Cons p m)
  obtain j e where p: "p = (j, e)" by (cases p)
  with Cons.prems have "j = k \<Longrightarrow> map_of m k = None" by (simp add: map_of_eq_None_iff)
  with Cons show ?case by (auto simp: p split: option.splits)
qed simp

lemma abs_sum_member: "map_of m k = Some e \<Longrightarrow> \<bar>val (f e)\<bar> \<le> abs_sum (map (f \<circ> snd) m)"
proof (induction m)
  case (Cons p m)
  then show ?case
    using abs_sum_nonneg [of "map (f \<circ> snd) m"] by (cases p) (auto split: if_splits intro: add_increasing)
qed simp

lemma val_plus_amounts:
  assumes "spends n c" and "map_of (ce_entries c) k = Some e" and "entry_amount_ok x"
    and "val (je_Debit x) \<le> m" and "val (je_Credit x) \<le> m" and "n + m \<le> 2 ^ 53"
  shows "val (je_Debit e + je_Debit x) = val (je_Debit e) + val (je_Debit x)"
    and "val (je_Credit e + je_Credit x) = val (je_Credit e) + val (je_Credit x)"
    and "entry_amount_ok e"
proof -
  from assms(1,2) show ok: "entry_amount_ok e"
    using map_of_SomeD [OF assms(2)] by (force simp: spends_def list_all_iff)
  from abs_sum_member [OF assms(2), of je_Debit] abs_sum_member [OF assms(2), of je_Credit] assms(1)
  have "val (je_Debit e) \<le> n" "val (je_Credit e) \<le> n" by (auto simp: spends_def)
  with ok assms(3-6) show "val (je_Debit e + je_Debit x) = val (je_Debit e) + val (je_Debit x)"
    "val (je_Credit e + je_Credit x) = val (je_Credit e) + val (je_Credit x)"
    by (auto simp: entry_amount_ok_def intro!: val_plus_whole)
qed

lemma whole_add: "whole x \<Longrightarrow> whole y \<Longrightarrow> val (x + y) = val x + val y \<Longrightarrow> whole (x + y)"
  by (simp add: whole_def)

lemma merge_builder:
  assumes sp: "spends n c" and ok: "entry_amount_ok x"
    and m: "val (je_Debit x) \<le> m" "val (je_Credit x) \<le> m" and nm: "n + m \<le> 2 ^ 53"
    and fr: "fresh_builder c"
  shows "spends (n + m) (mergeEntry k x c)"
    and "imbalance (mergeEntry k x c) = imbalance c + val (je_Debit x) - val (je_Credit x)"
    and "pending a (mergeEntry k x c) = pending a c + (if a = k then val (je_Debit x) - val (je_Credit x) else 0)"
    and "ce_entries (mergeEntry k x c) \<noteq> []" and "ce_teamID (mergeEntry k x c) = ce_teamID c"
proof -
  have d: "distinct (map fst (ce_entries c))" using fr by (simp add: fresh_builder_def)
  note vs = val_sum_upd [OF d]
  have "spends (n + m) (mergeEntry k x c) \<and>
    imbalance (mergeEntry k x c) = imbalance c + val (je_Debit x) - val (je_Credit x) \<and>
    pending a (mergeEntry k x c) = pending a c + (if a = k then val (je_Debit x) - val (je_Credit x) else 0)"
  proof (cases "map_of (ce_entries c) k")
    case None
    with sp ok m show ?thesis
      by (auto simp: mergeEntry_def spends_def abs_sum_upd_new imbalance_def vs pending_def map_of_alist_upd
          entry_amount_ok_def intro!: alist_upd_all)
  next
    case (Some e)
    note v = val_plus_amounts [OF sp Some ok m nm]
    let ?e = "e\<lparr>je_Credit := je_Credit e + je_Credit x, je_Debit := je_Debit e + je_Debit x\<rparr>"
    have e: "entry_amount_ok ?e"
      using v ok by (auto simp: entry_amount_ok_def intro!: whole_add)
    have "abs_sum (map (je_Debit \<circ> snd) (alist_upd k ?e (ce_entries c))) =
        abs_sum (map (je_Debit \<circ> snd) (ce_entries c)) + val (je_Debit x)"
      "abs_sum (map (je_Credit \<circ> snd) (alist_upd k ?e (ce_entries c))) =
        abs_sum (map (je_Credit \<circ> snd) (ce_entries c)) + val (je_Credit x)"
      using abs_sum_upd [OF Some, of je_Debit ?e] abs_sum_upd [OF Some, of je_Credit ?e] v e
      by (auto simp: entry_amount_ok_def)
    with Some sp e m v show ?thesis
      by (auto simp: mergeEntry_def spends_def imbalance_def vs pending_def map_of_alist_upd intro!: alist_upd_all)
  qed
  then show "spends (n + m) (mergeEntry k x c)"
    and "imbalance (mergeEntry k x c) = imbalance c + val (je_Debit x) - val (je_Credit x)"
    and "pending a (mergeEntry k x c) = pending a c + (if a = k then val (je_Debit x) - val (je_Credit x) else 0)"
    by auto
  show "ce_entries (mergeEntry k x c) \<noteq> []" "ce_teamID (mergeEntry k x c) = ce_teamID c"
    by (simp_all add: mergeEntry_def split: option.splits)
qed

subsection \<open>One call\<close>

lemma SetAmountEntry_amounts:
  assumes "SetAmountEntry a x (newEntry i) = Inr e" and "whole x"
  shows "entry_amount_ok e" and "val (je_Debit e) \<le> \<bar>val x\<bar>" and "val (je_Credit e) \<le> \<bar>val x\<bar>"
    and "val (je_Debit e) - val (je_Credit e) = signed a (val x)" and "balance_typed a" and "x \<noteq> 0"
  using assms
  by (auto simp: SetAmountEntry_def Let_def entry_amount_ok_def signed_def balance_typed_def DebitBalance_def
      CreditBalance_def val_less val_eq whole_def split: if_splits)

lemma SetAmountEntry_valid:
  "balance_typed a \<Longrightarrow> x \<noteq> 0 \<Longrightarrow> \<exists>e. SetAmountEntry a x e0 = Inr e"
  by (auto simp: SetAmountEntry_def Let_def balance_typed_def DebitBalance_def CreditBalance_def)

lemma run_entry_options_amounts:
  assumes "list_all source_entry_option opts"
  shows "\<exists>e'. run_entry_options opts e = Inr e' \<and> je_Debit e' = je_Debit e \<and> je_Credit e' = je_Credit e \<and>
    je_AccountID e' = je_AccountID e \<and> je_ID e' = je_ID e"
  using run_entry_options_source [OF assms, of e] by (elim exE) simp

text \<open>A call either leaves the pending entries alone with an error, or merges the entry it posts.\<close>

lemma ToE_cases:
  assumes "list_all source_entry_option opts" and "whole x"
  obtains (error) e m where "ToE d (eap key team) x opts c = ce_setErr e (c\<lparr>ce_accountMap := m\<rparr>)"
      and "\<not> valid_call (db_accounts d) (CTo key team x opts)"
    | (merge) a e m where "key_account (db_accounts d) key team = Some a"
      and "ToE d (eap key team) x opts c = mergeEntry (acc_ID a) e (c\<lparr>ce_accountMap := m\<rparr>)"
      and "entry_amount_ok e" and "val (je_Debit e) \<le> \<bar>val x\<bar>" and "val (je_Credit e) \<le> \<bar>val x\<bar>"
      and "val (je_Debit e) - val (je_Credit e) = signed a (val x)"
      and "valid_call (db_accounts d) (CTo key team x opts)"
proof (cases "key_account (db_accounts d) key team")
  case None
  then show thesis
    by (intro error [of _ "ce_accountMap c"])
       (auto simp: ToE_def getAccount_def eap_def find_account_key)
next
  case (Some a)
  let ?c = "c\<lparr>ce_accountMap := alist_upd (acc_ID a) a (ce_accountMap c)\<rparr>"
  show thesis
  proof (cases "acc_ID a = 0")
    case True
    with Some show thesis
      by (intro error [of _ "ce_accountMap c"])
         (auto simp: ToE_def getAccount_def eap_def find_account_key account_ok_def)
  next
    case False
    with Some have g: "getAccount d (eap key team) c = (Inr a, ?c)"
      by (simp add: getAccount_def eap_def find_account_key)
    show thesis
    proof (cases "SetAmountEntry a x (newEntry (acc_ID a))")
      case (Inl e)
      with g SetAmountEntry_valid [of a x "newEntry (acc_ID a)"] Some show thesis
        by (intro error [of e "alist_upd (acc_ID a) a (ce_accountMap c)"])
           (auto simp: ToE_def account_ok_def)
    next
      case (Inr e)
      obtain e' where e': "run_entry_options opts e = Inr e'" "je_Debit e' = je_Debit e"
        "je_Credit e' = je_Credit e" "je_AccountID e' = je_AccountID e"
        using run_entry_options_amounts [OF assms(1), of e] by auto
      note am = SetAmountEntry_amounts [OF Inr assms(2)]
      from SetAmountEntry_fields [OF Inr] e' have id: "je_AccountID e' = acc_ID a" by simp
      show thesis
      proof (rule merge [of a e' "alist_upd (acc_ID a) a (ce_accountMap c)"])
        show "ToE d (eap key team) x opts c =
            mergeEntry (acc_ID a) e' (c\<lparr>ce_accountMap := alist_upd (acc_ID a) a (ce_accountMap c)\<rparr>)"
          using g Inr e' id by (simp add: ToE_def)
        show "valid_call (db_accounts d) (CTo key team x opts)"
          using Some False am by (simp add: account_ok_def)
      qed (use Some am e' in \<open>auto simp: entry_amount_ok_def\<close>)
    qed
  qed
qed

definition builder_of :: "db \<Rightarrow> rat \<Rightarrow> createEntry \<Rightarrow> bool" where
  "builder_of d n c \<longleftrightarrow> fresh_builder c \<and> spends n c"

lemma fresh_run_call: "plain_call call \<Longrightarrow> fresh_builder c \<Longrightarrow> fresh_builder (run_call en d call c)"
  by (cases call) (auto simp: fresh_ToE fresh_FromE TransactionE_def TransactionIDE_def DescE_def
      intro!: fresh_on_entries)

text \<open>\<open>From\<close> is \<open>To\<close> of the opposite amount.\<close>

lemma signed_uminus: "signed a (- v) = - signed a v"
  by (simp add: signed_def)

lemma run_call_From:
  "run_call en d (CFrom key team x opts) = run_call en d (CTo key team (- x) opts)"
  "posting acs (CFrom key team x opts) = posting acs (CTo key team (- x) opts)"
  "valid_call acs (CFrom key team x opts) = valid_call acs (CTo key team (- x) opts)"
  by (simp_all add: FromE_def f64_times_minus_1 signed_uminus fun_eq_iff)

lemma call_step_To:
  fixes key :: AccountKey and team :: nat and d :: db and en :: env
  assumes "list_all source_entry_option opts" and "whole x" and "fresh_builder c" and "spends n c"
    and "n + \<bar>val x\<bar> \<le> 2 ^ 53"
  defines "call \<equiv> CTo key team x opts" and "c' \<equiv> run_call en d (CTo key team x opts) c"
  shows "spends (n + \<bar>val x\<bar>) c'" and "ce_teamID c' = ce_teamID c"
    and "ce_err c' = None \<longleftrightarrow> ce_err c = None \<and> valid_call (db_accounts d) call"
    and "valid_call (db_accounts d) call \<Longrightarrow>
      pending a c' = pending a c + on_acc a (posting (db_accounts d) call) \<and>
      imbalance c' = imbalance c + amount_of (posting (db_accounts d) call) \<and> ce_entries c' \<noteq> [] \<and> ce_err c' = ce_err c"
proof -
  have "spends (n + \<bar>val x\<bar>) c' \<and> ce_teamID c' = ce_teamID c \<and>
    (ce_err c' = None \<longleftrightarrow> ce_err c = None \<and> valid_call (db_accounts d) call) \<and>
    (valid_call (db_accounts d) call \<longrightarrow>
      pending a c' = pending a c + on_acc a (posting (db_accounts d) call) \<and>
      imbalance c' = imbalance c + amount_of (posting (db_accounts d) call) \<and> ce_entries c' \<noteq> [] \<and> ce_err c' = ce_err c)"
  proof (cases rule: ToE_cases [OF assms(1,2), of d key team c, case_names error merge])
    case (error e m)
    have c: "c' = ce_setErr e (c\<lparr>ce_accountMap := m\<rparr>)" using error(1) by (simp add: c'_def)
    have "ce_err c' \<noteq> None" by (simp add: c ce_setErr_def)
    moreover have "spends (n + \<bar>val x\<bar>) c'" "ce_teamID c' = ce_teamID c"
      using spends_mono [OF assms(4), of "n + \<bar>val x\<bar>"] by (simp_all add: c)
    ultimately show ?thesis using error(2) unfolding call_def by blast
  next
    case (merge b e m)
    let ?c = "c\<lparr>ce_accountMap := m\<rparr>"
    have c: "c' = mergeEntry (acc_ID b) e ?c" using merge(2) by (simp add: c'_def)
    have "spends n ?c" "fresh_builder ?c" using assms(3,4) by simp_all
    note mb = merge_builder [OF this(1) merge(3-5) assms(5) this(2), where k = "acc_ID b"]
    have err: "ce_err c' = ce_err c" by (simp add: c)
    have "on_acc a (posting (db_accounts d) call) = (if a = acc_ID b then signed b (val x) else 0)"
      "amount_of (posting (db_accounts d) call) = signed b (val x)"
      using merge(1) by (simp_all add: call_def on_acc_def amount_of_def)
    with mb(1,2,4,5) mb(3) [where a = a] merge(6,7) err show ?thesis
      unfolding c by (simp add: call_def)
  qed
  then show "spends (n + \<bar>val x\<bar>) c'" and "ce_teamID c' = ce_teamID c"
    and "ce_err c' = None \<longleftrightarrow> ce_err c = None \<and> valid_call (db_accounts d) call"
    and "valid_call (db_accounts d) call \<Longrightarrow>
      pending a c' = pending a c + on_acc a (posting (db_accounts d) call) \<and>
      imbalance c' = imbalance c + amount_of (posting (db_accounts d) call) \<and> ce_entries c' \<noteq> [] \<and> ce_err c' = ce_err c"
    by auto
qed

definition is_post :: "entry_call \<Rightarrow> bool" where
  "is_post call \<longleftrightarrow> call_amounts call \<noteq> []"

lemma mark_form:
  assumes "plain_call call" and "\<not> is_post call"
  obtains f where "\<And>e. je_Debit (f e) = je_Debit e" and "\<And>e. je_Credit (f e) = je_Credit e"
    and "run_call en d call c =
      (if ce_entries c = [] then ce_setErr ErrEmptyEntry c else on_entries f c)"
proof (cases call)
  case (CTransaction t)
  then show thesis
    by (intro that [of "\<lambda>e. e\<lparr>je_Desc := (if je_Desc e = [] then tx_Desc t else je_Desc e),
        je_TransactionID := tx_ID t\<rparr>"]) (simp_all add: TransactionE_def isEntryEmpty_def)
next
  case (CTransactionID t)
  then show thesis
    by (intro that [of "\<lambda>e. e\<lparr>je_TransactionID := t\<rparr>"]) (simp_all add: TransactionIDE_def isEntryEmpty_def)
next
  case (CDesc t)
  then show thesis
    by (intro that [of "\<lambda>e. e\<lparr>je_Desc := (if je_Desc e = [] then t else je_Desc e)\<rparr>"])
      (simp_all add: DescE_def isEntryEmpty_def)
qed (use assms in \<open>simp_all add: is_post_def\<close>)

lemma mark_step:
  fixes d :: db and en :: env and c :: createEntry
  assumes "plain_call call" and "\<not> is_post call"
  defines "c' \<equiv> run_call en d call c"
  shows "spends n c' = spends n c" and "ce_teamID c' = ce_teamID c" and "imbalance c' = imbalance c"
    and "pending a c' = pending a c" and "(ce_entries c' = []) = (ce_entries c = [])"
    and "ce_entries c \<noteq> [] \<Longrightarrow> ce_err c' = ce_err c" and "ce_err c' = None \<Longrightarrow> ce_err c = None"
proof -
  obtain f where f: "\<And>e. je_Debit (f e) = je_Debit e" "\<And>e. je_Credit (f e) = je_Credit e"
    and c': "c' = (if ce_entries c = [] then ce_setErr ErrEmptyEntry c else on_entries f c)"
    unfolding c'_def using mark_form [OF assms(1,2), of en d c] by metis
  show "spends n c' = spends n c" and "ce_teamID c' = ce_teamID c" and "imbalance c' = imbalance c"
    and "pending a c' = pending a c" and "(ce_entries c' = []) = (ce_entries c = [])"
    and "ce_entries c \<noteq> [] \<Longrightarrow> ce_err c' = ce_err c"
    using on_entries_builder [of f, OF f] by (simp_all add: c')
  show "ce_err c' = None \<Longrightarrow> ce_err c = None" by (simp add: c' ce_setErr_def split: if_splits)
qed

lemma mark_posting: "plain_call call \<Longrightarrow> \<not> is_post call \<Longrightarrow> posting acs call = None \<and> valid_call acs call"
  by (cases call) (simp_all add: is_post_def)

text \<open>What one call does to a builder, in all cases.\<close>

lemma call_step:
  fixes d :: db and en :: env
  assumes "plain_call call" and "list_all whole (call_amounts call)" and "fresh_builder c" and "spends n c"
    and "n + abs_sum (call_amounts call) \<le> 2 ^ 53"
  defines "c' \<equiv> run_call en d call c"
  shows "fresh_builder c'" and "spends (n + abs_sum (call_amounts call)) c'" and "ce_teamID c' = ce_teamID c"
    and "ce_err c' = None \<Longrightarrow> ce_err c = None \<and> valid_call (db_accounts d) call"
    and "valid_call (db_accounts d) call \<Longrightarrow> is_post call \<or> ce_entries c \<noteq> [] \<Longrightarrow> ce_err c' = ce_err c"
    and "valid_call (db_accounts d) call \<Longrightarrow> pending a c' = pending a c + on_acc a (posting (db_accounts d) call)"
    and "valid_call (db_accounts d) call \<Longrightarrow> imbalance c' = imbalance c + amount_of (posting (db_accounts d) call)"
    and "valid_call (db_accounts d) call \<Longrightarrow> is_post call \<or> ce_entries c \<noteq> [] \<Longrightarrow> ce_entries c' \<noteq> []"
proof -
  let ?n = "n + abs_sum (call_amounts call)" and ?acs = "db_accounts d"
  let ?P = "spends ?n c' \<and> ce_teamID c' = ce_teamID c \<and>
    (ce_err c' = None \<longrightarrow> ce_err c = None \<and> valid_call ?acs call) \<and>
    (valid_call ?acs call \<longrightarrow> pending a c' = pending a c + on_acc a (posting ?acs call) \<and>
       imbalance c' = imbalance c + amount_of (posting ?acs call)) \<and>
    (valid_call ?acs call \<and> (is_post call \<or> ce_entries c \<noteq> []) \<longrightarrow>
       ce_err c' = ce_err c \<and> ce_entries c' \<noteq> [])"
  have to: ?P if eq: "run_call en d call = run_call en d (CTo key team x opts)"
      "posting ?acs call = posting ?acs (CTo key team x opts)"
      "valid_call ?acs call = valid_call ?acs (CTo key team x opts)"
      "abs_sum (call_amounts call) = \<bar>val x\<bar>" "whole x" "list_all source_entry_option opts"
    for key team x opts
  proof -
    from assms(5) eq(4) have le: "n + \<bar>val x\<bar> \<le> 2 ^ 53" by simp
    note st = call_step_To [OF eq(6,5) assms(3,4) le, where ?d = d and ?key = key and ?team = team and ?en = en]
    from st(1,2,3) st(4) [where ?a = a] show ?thesis
      unfolding c'_def eq by blast
  qed
  have ?P
  proof (cases call)
    case (CTo key team x opts)
    with assms(1,2) show ?thesis by (intro to [of key team x opts]) simp_all
  next
    case (CFrom key team x opts)
    with assms(1,2) show ?thesis
      by (intro to [of key team "- x" opts]) (simp_all add: fun_eq_iff FromE_def f64_times_minus_1 signed_uminus)
  next
    case (CTransaction t)
    then have m: "plain_call call" "\<not> is_post call" by (simp_all add: is_post_def)
    from mark_step [OF m, where ?en = en and ?d = d and ?c = c] spends_mono [OF assms(4)] abs_sum_nonneg [of "call_amounts call"] CTransaction show ?thesis
      by (auto simp: c'_def on_acc_def amount_of_def is_post_def simp del: run_call.simps)
  next
    case (CTransactionID t)
    then have m: "plain_call call" "\<not> is_post call" by (simp_all add: is_post_def)
    from mark_step [OF m, where ?en = en and ?d = d and ?c = c] spends_mono [OF assms(4)] abs_sum_nonneg [of "call_amounts call"] CTransactionID show ?thesis
      by (auto simp: c'_def on_acc_def amount_of_def is_post_def simp del: run_call.simps)
  next
    case (CDesc t)
    then have m: "plain_call call" "\<not> is_post call" by (simp_all add: is_post_def)
    from mark_step [OF m, where ?en = en and ?d = d and ?c = c] spends_mono [OF assms(4)] abs_sum_nonneg [of "call_amounts call"] CDesc show ?thesis
      by (auto simp: c'_def on_acc_def amount_of_def is_post_def simp del: run_call.simps)
  qed (use assms(1) in simp_all)
  then show "spends ?n c'" and "ce_teamID c' = ce_teamID c"
    and "ce_err c' = None \<Longrightarrow> ce_err c = None \<and> valid_call ?acs call"
    and "valid_call ?acs call \<Longrightarrow> is_post call \<or> ce_entries c \<noteq> [] \<Longrightarrow> ce_err c' = ce_err c"
    and "valid_call ?acs call \<Longrightarrow> pending a c' = pending a c + on_acc a (posting ?acs call)"
    and "valid_call ?acs call \<Longrightarrow> imbalance c' = imbalance c + amount_of (posting ?acs call)"
    and "valid_call ?acs call \<Longrightarrow> is_post call \<or> ce_entries c \<noteq> [] \<Longrightarrow> ce_entries c' \<noteq> []"
    by blast+
  show "fresh_builder c'" unfolding c'_def using assms(1,3) by (rule fresh_run_call)
qed

subsection \<open>A chain\<close>

lemma run_calls_simps [simp]: "run_calls en d [] c = c"
  "run_calls en d (call # calls) c = run_calls en d calls (run_call en d call c)"
  by (simp_all add: run_calls_def)

lemma chain_steps:
  assumes "list_all plain_call calls" and "list_all whole (concat (map call_amounts calls))"
    and "fresh_builder c" and "spends n c" and "n + abs_sum (concat (map call_amounts calls)) \<le> 2 ^ 53"
  shows "fresh_builder (run_calls en d calls c) \<and>
    spends (n + abs_sum (concat (map call_amounts calls))) (run_calls en d calls c) \<and>
    ce_teamID (run_calls en d calls c) = ce_teamID c \<and>
    (ce_err (run_calls en d calls c) = None \<longrightarrow> ce_err c = None \<and> list_all (valid_call (db_accounts d)) calls) \<and>
    (list_all (valid_call (db_accounts d)) calls \<longrightarrow>
       pending a (run_calls en d calls c) = pending a c + posted (db_accounts d) calls a \<and>
       imbalance (run_calls en d calls c) = imbalance c + posted_total (db_accounts d) calls \<and>
       (ce_entries c \<noteq> [] \<or> (calls \<noteq> [] \<and> is_post (hd calls)) \<longrightarrow>
          ce_err (run_calls en d calls c) = ce_err c \<and> ce_entries (run_calls en d calls c) \<noteq> []))"
  using assms
proof (induction calls arbitrary: c n)
  case (Cons call calls)
  let ?c = "run_call en d call c" and ?n = "n + abs_sum (call_amounts call)"
  have le: "?n \<le> 2 ^ 53"
  proof -
    have "n + (abs_sum (call_amounts call) + abs_sum (concat (map call_amounts calls))) \<le> 2 ^ 53"
      using Cons.prems(5) by simp
    with abs_sum_nonneg [of "concat (map call_amounts calls)"] show ?thesis by linarith
  qed
  have prem: "plain_call call" "list_all whole (call_amounts call)" using Cons.prems by simp_all
  note st = call_step [OF prem Cons.prems(3,4) le, where ?d = d and ?en = en]
  have ih: "list_all plain_call calls" "list_all whole (concat (map call_amounts calls))"
    "?n + abs_sum (concat (map call_amounts calls)) \<le> 2 ^ 53" using Cons.prems by (simp_all add: add.assoc)
  from Cons.IH [OF ih(1,2) st(1,2) ih(3)] st(3-8) show ?case by (auto simp: add.assoc)
qed simp

lemma chain_keys:
  assumes "list_all plain_call calls" and "list_all whole (concat (map call_amounts calls))"
    and "k \<in> fst ` set (ce_entries (run_calls en d calls c))"
  shows "k \<in> fst ` set (ce_entries c) \<or> (\<exists>call \<in> set calls. \<exists>v. posting (db_accounts d) call = Some (k, v))"
  using assms
proof (induction calls arbitrary: c)
  case (Cons call calls)
  have to: "fst ` set (ce_entries (ToE d (eap key team) x opts c)) \<subseteq>
      fst ` set (ce_entries c) \<union> {k. \<exists>v. posting (db_accounts d) (CTo key team x opts) = Some (k, v)}"
    if "list_all source_entry_option opts" "whole x" for key team x opts
    by (cases rule: ToE_cases [OF that, of d key team c])
       (auto simp: mergeEntry_def split: option.splits)
  have "fst ` set (ce_entries (run_call en d call c)) \<subseteq>
      fst ` set (ce_entries c) \<union> {k. \<exists>v. posting (db_accounts d) call = Some (k, v)}"
  proof (cases call)
    case (CTo key team x opts)
    with to [of opts x key team] Cons.prems(1,2) show ?thesis by simp
  next
    case (CFrom key team x opts)
    with to [of opts "- x" key team] Cons.prems(1,2) show ?thesis
      by (simp add: FromE_def f64_times_minus_1 signed_uminus)
  qed (use Cons.prems(1) in \<open>auto simp: TransactionE_def TransactionIDE_def DescE_def on_entries_def
      intro: rev_image_eqI\<close>)
  with Cons.IH [of "run_call en d call c"] Cons.prems show ?case by auto
qed simp

subsection \<open>Committing a chain\<close>

text \<open>The balance, debit minus credit, of account \<open>a\<close> in the book of team \<open>t\<close>.\<close>

definition book_balance :: "nat \<Rightarrow> nat \<Rightarrow> JournalEntry list \<Rightarrow> rat" where
  "book_balance t a es = sum_list (map (\<lambda>e. val (je_Debit e) - val (je_Credit e))
     (filter (\<lambda>e. je_TeamID e = t \<and> je_AccountID e = a) es))"

lemma book_balance_simps [simp]: "book_balance t a [] = 0"
  "book_balance t a (e # es) =
    (if je_TeamID e = t \<and> je_AccountID e = a then val (je_Debit e) - val (je_Credit e) else 0) + book_balance t a es"
  "book_balance t a (xs @ ys) = book_balance t a xs + book_balance t a ys"
  by (simp_all add: book_balance_def)

lemma book_balance_number_rows [simp]: "book_balance t a (number_rows n es) = book_balance t a es"
  by (induction n es rule: number_rows.induct) simp_all

lemma book_balance_insert:
  "book_balance t a (db_entries (insert_rows es d)) = book_balance t a (db_entries d) + book_balance t a es"
  by (simp add: insert_rows_def)

lemma book_balance_rows_of: "book_balance t a (rows_of incl e) =
  (if je_TeamID e = t \<and> je_AccountID e = a then val (je_Debit e) - val (je_Credit e) else 0)"
  by (simp add: rows_of_def)

lemma book_balance_concat_rows:
  assumes "distinct (map fst kes)"
    and "\<And>k e. (k, e) \<in> set kes \<Longrightarrow> je_TeamID (g e) = u \<and>
          je_AccountID (g e) = k \<and> je_Debit (g e) = je_Debit e \<and> je_Credit (g e) = je_Credit e"
  shows "book_balance t a (concat (map (\<lambda>(k, e). rows_of incl (g e)) kes)) =
    (if t = u then
       (case map_of kes a of None \<Rightarrow> 0 | Some e \<Rightarrow> val (je_Debit e) - val (je_Credit e)) else 0)"
  using assms
proof (induction kes)
  case (Cons ke kes)
  obtain k e where ke: "ke = (k, e)" by (cases ke)
  with Cons.prems(1) have "map_of kes k = None" by (simp add: map_of_eq_None_iff)
  moreover have "book_balance t a (concat (map (\<lambda>(k, e). rows_of incl (g e)) kes)) =
    (if t = u then
       (case map_of kes a of None \<Rightarrow> 0 | Some e \<Rightarrow> val (je_Debit e) - val (je_Credit e)) else 0)"
    using Cons.prems by (intro Cons.IH) auto
  ultimately show ?case using Cons.prems(2) [of k e] by (auto simp: ke book_balance_rows_of)
qed simp

lemma book_balance_commit_rows:
  assumes p: "plain_opts opts incl f" and it: "iter_ok (iter en)" and c: "fresh_builder c"
  shows "book_balance t a (commit_rows en incl f c) = (if t = ce_teamID c then pending a c else 0)"
proof -
  have dc: "distinct (map fst (ce_entries c))" using c by (simp add: fresh_builder_def)
  have "book_balance t a (commit_rows en incl f c) =
    (if t = ce_teamID c then
       (case map_of (range_map (iter en) (ce_entries c)) a of None \<Rightarrow> 0
        | Some e \<Rightarrow> val (je_Debit e) - val (je_Credit e)) else 0)"
    unfolding commit_rows_def
  proof (rule book_balance_concat_rows)
    show "distinct (map fst (range_map (iter en) (ce_entries c)))"
      using it dc by (rule range_map_distinct)
    fix k e assume "(k, e) \<in> set (range_map (iter en) (ce_entries c))"
    then have "(k, e) \<in> set (ce_entries c)" using it dc by (simp add: range_map_set)
    with c show "je_TeamID (prepared en c f e) = ce_teamID c \<and> je_AccountID (prepared en c f e) = k \<and>
      je_Debit (prepared en c f e) = je_Debit e \<and> je_Credit (prepared en c f e) = je_Credit e"
      by (auto simp: prepared_fields [OF p] fresh_builder_def list_all_iff)
  qed
  then show ?thesis by (simp add: range_map_lookup [OF it dc] pending_def)
qed

lemma balanced_iff:
  assumes "iter_ok (iter en)" and "fresh_builder c" and "whole_builder c"
  shows "CompareFloatSafe (total_debit en c) (total_credit en c) PrecisionEpsilon \<longleftrightarrow> imbalance c = 0"
  using totals_exact [OF assms] by (simp add: CompareFloatSafe_whole val_eq imbalance_def)

text \<open>The builder a chain of whole amounts makes.\<close>

definition chain_of :: "env \<Rightarrow> db \<Rightarrow> nat \<Rightarrow> nat \<Rightarrow> entry_call list \<Rightarrow> createEntry" where
  "chain_of en d team user calls = run_calls en d calls (newCreateEntry team user)"

lemma chain_builder:
  assumes "whole_calls calls"
  shows "fresh_builder (chain_of en d team user calls)" and "whole_builder (chain_of en d team user calls)"
    and "ce_teamID (chain_of en d team user calls) = team"
    and "ce_err (chain_of en d team user calls) = None \<Longrightarrow> list_all (valid_call (db_accounts d)) calls"
proof -
  let ?n = "abs_sum (concat (map call_amounts calls))"
  from assms have a: "list_all plain_call calls" "list_all whole (concat (map call_amounts calls))"
    and n: "0 + ?n \<le> 2 ^ 53" by (auto simp: whole_calls_def whole_list_def)
  note st = chain_steps [OF a fresh_new builder_new(1) n, where en = en and d = d and team1 = team and user1 = user]
  from st show "fresh_builder (chain_of en d team user calls)"
    and "ce_teamID (chain_of en d team user calls) = team"
    and "ce_err (chain_of en d team user calls) = None \<Longrightarrow> list_all (valid_call (db_accounts d)) calls"
    unfolding chain_of_def by (auto simp: builder_new)
  from st have "spends (0 + ?n) (chain_of en d team user calls)" by (simp add: chain_of_def)
  then show "whole_builder (chain_of en d team user calls)" using n by (rule spends_whole)
qed

lemma chain_posted:
  assumes "whole_calls calls" and "list_all (valid_call (db_accounts d)) calls"
  shows "pending a (chain_of en d team user calls) = posted (db_accounts d) calls a"
    and "imbalance (chain_of en d team user calls) = posted_total (db_accounts d) calls"
    and "calls \<noteq> [] \<Longrightarrow> is_post (hd calls) \<Longrightarrow>
      ce_err (chain_of en d team user calls) = None \<and> ce_entries (chain_of en d team user calls) \<noteq> []"
proof -
  let ?n = "abs_sum (concat (map call_amounts calls))"
  from assms have a: "list_all plain_call calls" "list_all whole (concat (map call_amounts calls))"
    and n: "0 + ?n \<le> 2 ^ 53" by (auto simp: whole_calls_def whole_list_def)
  from chain_steps [OF a fresh_new builder_new(1) n, where en = en and d = d and team1 = team and user1 = user] assms(2)
  show "pending a (chain_of en d team user calls) = posted (db_accounts d) calls a"
    and "imbalance (chain_of en d team user calls) = posted_total (db_accounts d) calls"
    and "calls \<noteq> [] \<Longrightarrow> is_post (hd calls) \<Longrightarrow>
      ce_err (chain_of en d team user calls) = None \<and> ce_entries (chain_of en d team user calls) \<noteq> []"
    unfolding chain_of_def by (auto simp: builder_new)
qed

lemma entryA_chain: "entryA en team user calls opts s = commitA en opts (chain_of en (s_db s) team user calls) s"
  by (simp add: entryA_def chain_of_def)

text \<open>A chain that commits posted on existing accounts, in balance, and its rows are appended.\<close>

lemma entryA_Inr:
  assumes w: "whole_calls calls" and it: "iter_ok (iter en)" and o: "list_all source_option opts"
    and run: "entryA en team user calls opts s = (Inr (), s')"
  shows "list_all (valid_call (db_accounts (s_db s))) calls"
    and "posted_total (db_accounts (s_db s)) calls = 0"
    and "\<exists>rows. s_db s' = insert_rows rows (s_db s) \<and> (\<forall>t a. book_balance t a rows =
          (if t = team then posted (db_accounts (s_db s)) calls a else 0))"
proof -
  let ?c = "chain_of en (s_db s) team user calls"
  obtain incl f where p: "plain_opts opts incl f" using source_plain [OF o] by blast
  note b = chain_builder [OF w, of en "s_db s" team user]
  from run have C: "commitA en opts ?c s = (Inr (), s')" by (simp add: entryA_chain)
  note ok = Commit_success_db [OF p it b(1) C]
  from b(4) ok(2) show v: "list_all (valid_call (db_accounts (s_db s))) calls" by simp
  from commitA_Inr [OF C] have ne: "ce_entries ?c \<noteq> []" and "ce_err (fst (Commit en opts ?c s)) = None"
    by simp_all
  then have "CompareFloatSafe (total_debit en ?c) (total_credit en ?c) PrecisionEpsilon"
    unfolding Commit_spec(2) [OF p it b(1) ne] by (auto split: option.splits if_splits)
  with chain_posted(2) [OF w v, where en = en and team = team and user = user] show "posted_total (db_accounts (s_db s)) calls = 0"
    by (simp add: balanced_iff [OF it b(1,2)])
  show "\<exists>rows. s_db s' = insert_rows rows (s_db s) \<and> (\<forall>t a. book_balance t a rows =
          (if t = team then posted (db_accounts (s_db s)) calls a else 0))"
    using ok(1) book_balance_commit_rows [OF p it b(1)] chain_posted(1) [OF w v, where en = en and team = team and user = user] b(3)
    by (intro exI [of _ "commit_rows en incl f ?c"]) auto
qed

text \<open>A chain whose postings do not sum to zero is refused.\<close>

lemma entryA_unbalanced:
  assumes w: "whole_calls calls" and it: "iter_ok (iter en)" and o: "list_all source_option opts"
    and v: "list_all (valid_call (db_accounts (s_db s))) calls" and h: "calls \<noteq> []" "is_post (hd calls)"
    and u: "posted_total (db_accounts (s_db s)) calls \<noteq> 0"
  shows "\<exists>debit credit s'. entryA en team user calls opts s = (Inl (ErrEntryInvalid debit credit), s') \<and> s_db s' = s_db s"
proof -
  let ?c = "chain_of en (s_db s) team user calls"
  obtain incl f where p: "plain_opts opts incl f" using source_plain [OF o] by blast
  note b = chain_builder [OF w, of en "s_db s" team user]
  note q = chain_posted [OF w v, where en = en and team = team and user = user]
  from q(2,3) h u have ne: "ce_entries ?c \<noteq> []" and err: "ce_err ?c = None" and im: "imbalance ?c \<noteq> 0"
    by simp_all
  obtain c' s' where C: "Commit en opts ?c s = (c', s')" by (cases "Commit en opts ?c s")
  from Commit_spec [OF p it b(1) ne, of s] balanced_iff [OF it b(1,2)] im err C
  show ?thesis by (auto simp: entryA_chain commitA_def)
qed

lemma entryA_invalid:
  assumes w: "whole_calls calls" and it: "iter_ok (iter en)" and o: "list_all source_option opts"
    and v: "\<not> list_all (valid_call (db_accounts (s_db s))) calls"
  shows "\<exists>e s'. entryA en team user calls opts s = (Inl e, s')"
proof -
  obtain r s' where r: "entryA en team user calls opts s = (r, s')" by (cases "entryA en team user calls opts s")
  have "r \<noteq> Inr u" for u
    using entryA_Inr(1) [OF w it o, of team user s s'] r v by (cases u) auto
  with r show ?thesis by (cases r) auto
qed

lemma Commit_frame: "s_cells (snd (Commit en opts c s)) = s_cells s" "s_labels (snd (Commit en opts c s)) = s_labels s"
  by (simp_all add: Commit_def Let_def split: prod.splits option.splits)

text \<open>A balanced chain in which no account it posts on nets to zero is committed, every entry with an id.\<close>

lemma entryA_commits:
  assumes w: "whole_calls calls" and it: "iter_ok (iter en)" and o: "list_all source_option opts"
    and v: "list_all (valid_call (db_accounts (s_db s))) calls" and h: "calls \<noteq> []" "is_post (hd calls)"
    and u: "posted_total (db_accounts (s_db s)) calls = 0"
    and nz: "\<forall>call \<in> set calls. \<forall>k v. posting (db_accounts (s_db s)) call = Some (k, v) \<longrightarrow>
      posted (db_accounts (s_db s)) calls k \<noteq> 0"
  shows "\<exists>s' es rows. entryA en team user calls opts s = (Inr (), s') \<and>
    s' = s\<lparr>s_db := insert_rows rows (s_db s), s_entries := s_entries s @ es\<rparr> \<and> es \<noteq> [] \<and>
    (\<forall>e \<in> set es. je_ID e \<noteq> 0)"
proof -
  let ?c = "chain_of en (s_db s) team user calls"
  obtain incl f where p: "plain_opts opts incl f" using source_plain [OF o] by blast
  note b = chain_builder [OF w, of en "s_db s" team user]
  note q = chain_posted [OF w v, where en = en and team = team and user = user]
  from q(2,3) h u have ne: "ce_entries ?c \<noteq> []" and err: "ce_err ?c = None" and im: "imbalance ?c = 0"
    by simp_all
  have pr: "list_all plain_call calls" "list_all whole (concat (map call_amounts calls))"
    using w by (auto simp: whole_calls_def whole_list_def)
  have rows: "rows_of incl (prepared en ?c f e) \<noteq> []" if k: "map_of (ce_entries ?c) k = Some e" for k e
  proof -
    from k have "k \<in> fst ` set (ce_entries ?c)" by (force dest: map_of_SomeD)
    with chain_keys [OF pr, of k en "s_db s" "newCreateEntry team user"] nz
    have "posted (db_accounts (s_db s)) calls k \<noteq> 0" by (fastforce simp: chain_of_def builder_new)
    with q(1) [of k] k have "je_Debit e \<noteq> je_Credit e" by (auto simp: pending_def)
    then show ?thesis by (simp add: rows_of_def prepared_fields [OF p])
  qed
  have dc: "distinct (map fst (ce_entries ?c))" using b(1) by (simp add: fresh_builder_def)
  obtain k e kes where ke: "ce_entries ?c = (k, e) # kes"
    using ne by (metis list.exhaust surj_pair)
  have "(k, e) \<in> set (range_map (iter en) (ce_entries ?c))" unfolding range_map_set [OF it dc] by (simp add: ke)
  moreover have "rows_of incl (prepared en ?c f e) \<noteq> []" by (rule rows [of k]) (simp add: ke)
  ultimately have "commit_rows en incl f ?c \<noteq> []" unfolding commit_rows_def by force
  with Commit_spec(2) [OF p it b(1) ne, of s] balanced_iff [OF it b(1,2)] im err
  have ok: "ce_err (fst (Commit en opts ?c s)) = None" by simp
  obtain m where m: "s_entries (snd (Commit en opts ?c s)) = s_entries s @ map snd (range_map (iter en) m)"
    "map fst m = map fst (ce_entries ?c)"
    "\<And>k e. map_of (ce_entries ?c) k = Some e \<Longrightarrow>
       \<exists>b. map_of m k = Some b \<and> book_entry incl (prepared en ?c f e) b"
    using Commit_book [OF p it b(1) ne ok] by blast
  have dm: "distinct (map fst m)" using m(2) dc by simp
  let ?es = "map snd (range_map (iter en) m)"
  have ids: "je_ID x \<noteq> 0" if x: "x \<in> set ?es" for x
  proof -
    from x obtain j where "(j, x) \<in> set (range_map (iter en) m)" by auto
    then have jm: "map_of m j = Some x" using range_map_set [OF it dm] dm by simp
    then have "j \<in> set (map fst (ce_entries ?c))" using m(2) by (metis map_of_eq_None_iff list.set_map option.distinct(1))
    then obtain e where e: "map_of (ce_entries ?c) j = Some e" by (metis map_of_eq_None_iff list.set_map not_Some_eq)
    from m(3) [OF e] rows [OF e] jm show ?thesis by (auto simp: book_entry_def)
  qed
  have "?es \<noteq> []"
  proof -
    have "m \<noteq> []" using m(2) ne by auto
    then show ?thesis using range_map_set [OF it dm] by (metis Nil_is_map_conv set_empty)
  qed
  define s' where "s' = snd (Commit en opts ?c s)"
  have "s' = s\<lparr>s_db := insert_rows (commit_rows en incl f ?c) (s_db s), s_entries := s_entries s @ ?es\<rparr>"
    by (rule session.equality)
       (simp_all add: s'_def Commit_frame Commit_outbox Commit_rows_db [OF p it b(1) ok] m(1))
  with commitA_commit [OF ok] have "entryA en team user calls opts s =
      (Inr (), s\<lparr>s_db := insert_rows (commit_rows en incl f ?c) (s_db s), s_entries := s_entries s @ ?es\<rparr>)"
    by (simp add: entryA_chain s'_def)
  with \<open>?es \<noteq> []\<close> ids show ?thesis by blast
qed

end
