(* ===== verification/Effects.thy ===== *)
theory Effects
  imports Posting
begin

section \<open>What handlers leave alone, book and keep\<close>

text \<open>
  The frame of the two kinds of chains, the calculus of what a handler books, and the
  interface under which a property of the journal is kept by every handler made of chains.
\<close>

subsection \<open>What the chains leave alone\<close>

text \<open>The tables a transaction chain does not write.\<close>

definition core :: "db \<Rightarrow> Account list \<times> JournalEntry list \<times> Payment list \<times> Expense list \<times>
    BankAccountV2 list \<times> BankTransferHistory list" where
  "core d = (db_accounts d, db_entries d, db_payments d, db_expenses d, db_bank_accounts d, db_transfers d)"

lemma type_label_loop_core: "core (type_label_loop i ls d) = core d"
  by (induction i ls d rule: type_label_loop.induct) (simp_all add: core_def Let_def split: option.splits)

lemma create_tags_core: "create_tags en known ns tags d = Inr (tags', d') \<Longrightarrow> core d' = core d"
  by (induction en known ns tags d rule: create_tags.induct) (auto simp: core_def Let_def split: if_splits)

lemma AddTypeLabel_core: "core (s_db (snd (AddTypeLabel ls c s))) = core (s_db s)"
  by (simp add: AddTypeLabel_def on_db_def type_label_loop_core)

lemma AddTags_core: "core (s_db (snd (AddTags en ts c s))) = core (s_db s)"
proof -
  have "core (d\<lparr>db_tx_tags := x\<rparr>) = core d" for d x by (simp add: core_def)
  then show ?thesis
    by (auto simp: AddTags_def Let_def on_labels_def split: sum.splits dest: create_tags_core)
qed

lemma AddShopID_core: "core (s_db (snd (AddShopID en i c s))) = core (s_db s)"
proof -
  have t: "AddTypeLabel ls c s0 = (c1, s1) \<Longrightarrow> core (s_db s1) = core (s_db s0)" for ls s0 c1 s1
    using AddTypeLabel_core [of ls c s0] by simp
  have d: "core (d\<lparr>db_tx_shops := x\<rparr>) = core d" for d x by (simp add: core_def)
  show ?thesis
    by (auto simp: AddShopID_def Let_def AddTags_core on_labels_def on_db_def d split: option.splits prod.splits
        dest!: t)
qed

lemma run_tx_call_core: "core (s_db (snd (run_tx_call en call c s))) = core (s_db s)"
proof (cases call)
  case (LShop i)
  then show ?thesis by (simp add: AddShopID_core)
qed (simp_all add: AddTypeLabel_core AddTags_core AddCustomerServiceID_def AddSupplierID_def on_labels_def on_db_def,
     simp_all add: core_def)

lemma run_tx_calls_core: "core (s_db (snd (run_tx_calls en calls c s))) = core (s_db s)"
proof (induction en calls c s rule: run_tx_calls.induct)
  case (2 en f fs c s)
  then show ?case using run_tx_call_core [of en f c s] by (cases "run_tx_call en f c s") simp
qed simp

lemma CreateT_core: "core (s_db (snd (snd (CreateT en tran c s)))) = core (s_db s)"
proof -
  have "save_tx en t d = Inr (t', d') \<Longrightarrow> core d' = core d" for t d t' d'
    by (auto simp: save_tx_def Let_def core_def split: if_splits)
  then show ?thesis by (auto simp: CreateT_def Let_def split: sum.splits prod.splits)
qed

lemma newTxA_core: "newTxA en tran calls s = (r, s') \<Longrightarrow> core (s_db s') = core (s_db s)"
proof -
  obtain c1 s1 where n: "NewTransaction s = (c1, s1)" "s_db s1 = s_db s" by (simp add: NewTransaction_def)
  obtain tran2 c2 s2 where c: "CreateT en tran c1 s1 = (tran2, c2, s2)" by (cases "CreateT en tran c1 s1")
  obtain c3 s3 where l: "run_tx_calls en calls c2 s2 = (c3, s3)" by (cases "run_tx_calls en calls c2 s2")
  have "core (s_db s3) = core (s_db s)"
    using CreateT_core [of en tran c1 s1] run_tx_calls_core [of en calls c2 s2] by (simp add: n c l)
  moreover assume "newTxA en tran calls s = (r, s')"
  ultimately show ?thesis by (simp add: newTxA_def n(1) c l split: option.splits)
qed

text \<open>A committed chain writes journal rows only.\<close>

definition rest :: "db \<Rightarrow> db" where
  "rest d = d\<lparr>db_seq := 0, db_entries := []\<rparr>"

lemma save_entry_rest: "save_entry e d = (e', d') \<Longrightarrow> rest d' = rest d"
  by (auto simp: save_entry_def rest_def Let_def split: if_splits)

lemma save_slots_rest: "rest (snd (save_slots ss m d)) = rest d"
  by (induction ss m d rule: save_slots.induct)
     (auto split: option.splits prod.splits dest: save_entry_rest)

lemma Commit_rest: "rest (s_db (snd (Commit en opts c s))) = rest (s_db s)"
  using save_slots_rest by (simp add: Commit_def Let_def split: prod.splits option.splits) (metis snd_conv)

lemma entryA_rest: "entryA en team user calls opts s = (r, s') \<Longrightarrow> rest (s_db s') = rest (s_db s)"
  using Commit_rest [of en opts "chain_of en (s_db s) team user calls" s]
  by (auto simp: entryA_chain commitA_def split: prod.splits option.splits)

lemma rest_fields: "rest d' = rest d \<Longrightarrow> db_accounts d' = db_accounts d \<and> db_payments d' = db_payments d \<and>
    db_txs d' = db_txs d \<and> db_expenses d' = db_expenses d \<and> db_bank_accounts d' = db_bank_accounts d \<and>
    db_transfers d' = db_transfers d \<and> db_marketplaces d' = db_marketplaces d"
  by (drule arg_cong [where f = "\<lambda>d. (db_accounts d, db_payments d, db_txs d, db_expenses d,
        db_bank_accounts d, db_transfers d, db_marketplaces d)"]) (simp add: rest_def)

subsection \<open>What a handler books\<close>

definition books :: "Account list \<Rightarrow> (nat \<Rightarrow> nat \<Rightarrow> rat) \<Rightarrow> 'a action \<Rightarrow> bool" where
  "books acs \<delta> h \<longleftrightarrow> (\<forall>s r s'. h s = (Inr r, s') \<longrightarrow> db_accounts (s_db s) = acs \<longrightarrow>
     db_accounts (s_db s') = acs \<and>
     (\<forall>t a. book_balance t a (db_entries (s_db s')) = book_balance t a (db_entries (s_db s)) + \<delta> t a))"

definition nothing :: "nat \<Rightarrow> nat \<Rightarrow> rat" where
  "nothing t a = 0"

definition also_books :: "(nat \<Rightarrow> nat \<Rightarrow> rat) \<Rightarrow> (nat \<Rightarrow> nat \<Rightarrow> rat) \<Rightarrow> nat \<Rightarrow> nat \<Rightarrow> rat" where
  "also_books f g t a = f t a + g t a"

definition in_book :: "nat \<Rightarrow> (nat \<Rightarrow> rat) \<Rightarrow> nat \<Rightarrow> nat \<Rightarrow> rat" where
  "in_book team f t a = (if t = team then f a else 0)"

lemmas booked_simps = nothing_def also_books_def in_book_def

named_theorems book \<open>rules for \<open>books\<close>\<close>

lemma booksI:
  "(\<And>s r s'. h s = (Inr r, s') \<Longrightarrow> db_accounts (s_db s) = acs \<Longrightarrow> db_accounts (s_db s') = acs \<and>
     (\<forall>t a. book_balance t a (db_entries (s_db s')) = book_balance t a (db_entries (s_db s)) + \<delta> t a)) \<Longrightarrow>
   books acs \<delta> h"
  by (simp add: books_def)

lemma booksD:
  assumes "books acs \<delta> h" and "h s = (Inr r, s')" and "db_accounts (s_db s) = acs"
  shows "db_accounts (s_db s') = acs"
    and "book_balance t a (db_entries (s_db s')) = book_balance t a (db_entries (s_db s)) + \<delta> t a"
  using assms by (simp_all add: books_def)

lemma books_core: "(\<And>s r s'. h s = (Inr r, s') \<Longrightarrow> core (s_db s') = core (s_db s)) \<Longrightarrow> books acs nothing h"
  by (auto intro!: booksI simp: core_def nothing_def)

lemma books_nothing [book]:
  "books acs nothing (returnA x)" "books acs nothing (checkA eo)"
  "books acs nothing (readA f)" "books acs nothing (derefA p)" "books acs nothing (newTxA en tran calls)"
  "books acs nothing (uncommittedA en team user ecalls)"
  by (rule books_core;
      force simp: returnA_def failA_def readA_def derefA_def uncommittedA_def dest: newTxA_core
        split: option.splits)+

lemma books_fail [book]: "books acs \<delta> (failA e)"
  by (simp add: books_def failA_def)

lemma books_update [book]: "(\<And>d. core (f d) = core d) \<Longrightarrow> books acs nothing (updateA f)"
  by (rule books_core) (auto simp: updateA_def)

lemma books_bind [book]:
  assumes "books acs f m" and "\<And>x. books acs g (n x)"
  shows "books acs (also_books f g) (bindA m n)"
proof (rule booksI)
  fix s r s' assume "bindA m n s = (Inr r, s')" and a: "db_accounts (s_db s) = acs"
  then obtain x s1 where m: "m s = (Inr x, s1)" and n: "n x s1 = (Inr r, s')" by (auto simp: bindA_Inr)
  note m' = booksD [OF assms(1) m a]
  note n' = booksD [OF assms(2) n m'(1)]
  from n' m'(2) show "db_accounts (s_db s') = acs \<and>
     (\<forall>t a. book_balance t a (db_entries (s_db s')) = book_balance t a (db_entries (s_db s)) + also_books f g t a)"
    by (simp add: also_books_def)
qed

lemma books_then [book]: "books acs f m \<Longrightarrow> books acs g n \<Longrightarrow> books acs (also_books f g) (thenA m n)"
  unfolding thenA_def by (rule books_bind)

lemma books_when [book]: "(b \<Longrightarrow> books acs f m) \<Longrightarrow> books acs (if b then f else nothing) (whenA b m)"
  by (simp add: whenA_def books_nothing)

lemma books_if [book]: "books acs f m \<Longrightarrow> books acs g n \<Longrightarrow> books acs (if b then f else g) (if b then m else n)"
  by simp

fun books_all :: "(nat \<Rightarrow> nat \<Rightarrow> rat) list \<Rightarrow> nat \<Rightarrow> nat \<Rightarrow> rat" where
  "books_all [] = nothing"
| "books_all (f # fs) = also_books f (books_all fs)"

lemma books_all_sum: "books_all fs t a = (\<Sum>f\<leftarrow>fs. f t a)"
  by (induction fs) (simp_all add: booked_simps)

lemma books_for [book]:
  "(\<And>x. x \<in> set xs \<Longrightarrow> books acs (f x) (m x)) \<Longrightarrow> books acs (books_all (map f xs)) (forA xs m)"
proof (induction xs)
  case (Cons x xs)
  then show ?case by (auto intro!: books_bind)
qed (simp add: books_nothing)

lemma books_entry [book]:
  assumes "whole_calls calls" and "iter_ok (iter en)" and "list_all source_option opts"
  shows "books acs (in_book team (posted acs calls)) (entryA en team user calls opts)"
proof (rule booksI)
  fix s r s' assume "entryA en team user calls opts s = (Inr r, s')" and a: "db_accounts (s_db s) = acs"
  then have run: "entryA en team user calls opts s = (Inr (), s')" by simp
  from entryA_Inr(3) [OF assms run] obtain rows where "s_db s' = insert_rows rows (s_db s)"
    "\<And>t a. book_balance t a rows = (if t = team then posted (db_accounts (s_db s)) calls a else 0)" by blast
  with rest_fields [OF entryA_rest [OF run]] a show "db_accounts (s_db s') = acs \<and>
     (\<forall>t a. book_balance t a (db_entries (s_db s')) =
        book_balance t a (db_entries (s_db s)) + in_book team (posted acs calls) t a)"
    by (simp add: book_balance_insert in_book_def)
qed

lemma books_transaction [book]: "books acs f h \<Longrightarrow> books acs f (transactionA h)"
  by (rule booksI) (auto dest: booksD)

lemma books_OpenTransaction:
  assumes "books acs \<delta> h" and "OpenTransaction en h s = (Inr (Some x), s')" and "db_accounts (s_db s) = acs"
  shows "db_accounts (s_db s') = acs"
    and "book_balance t a (db_entries (s_db s')) = book_balance t a (db_entries (s_db s)) + \<delta> t a"
proof -
  obtain s1 where h: "h (open_book s) = (Inr x, s1)" and d: "s_db s' = s_db s1"
    using OpenTransaction_Some_db [OF assms(2)] by metis
  from booksD [OF assms(1) h] assms(3) show "db_accounts (s_db s') = acs"
    and "book_balance t a (db_entries (s_db s')) = book_balance t a (db_entries (s_db s)) + \<delta> t a"
    by (simp_all add: d)
qed

subsection \<open>Invariants of the journal\<close>

text \<open>
  What the services rely on: a property of the accounts and the journal that every commit of whole amounts
  keeps is kept by every handler made of chains.
\<close>

locale ledger_invariant =
  fixes Inv :: "db \<Rightarrow> bool"
  assumes frame: "db_entries d' = db_entries d \<Longrightarrow> db_accounts d' = db_accounts d \<Longrightarrow> Inv d \<Longrightarrow> Inv d'"
    and commit: "list_all source_option opts \<Longrightarrow> iter_ok (iter en) \<Longrightarrow> fresh_builder c \<Longrightarrow> whole_builder c \<Longrightarrow>
      Inv (s_db s) \<Longrightarrow> Inv (s_db (snd (Commit en opts c s)))"
begin

lemma core_frame: "core d' = core d \<Longrightarrow> Inv d \<Longrightarrow> Inv d'"
  by (rule frame [of d' d]) (auto simp: core_def)

lemma keeps_update: "(\<And>d. db_entries (f d) = db_entries d \<and> db_accounts (f d) = db_accounts d) \<Longrightarrow> keeps Inv (updateA f)"
  by (auto intro!: keepsI simp: updateA_def intro: frame)

lemma keeps_newTx: "keeps Inv (newTxA en tran calls)"
  by (rule keepsI) (rule core_frame, rule newTxA_core)

lemma keeps_uncommitted: "keeps Inv (uncommittedA en team user calls)"
  by (auto intro!: keepsI simp: uncommittedA_def checkA_def returnA_def failA_def split: option.splits)

lemma keeps_entry:
  assumes "whole_calls calls" and "iter_ok (iter en)" and "list_all source_option opts"
  shows "keeps Inv (entryA en team user calls opts)"
proof (rule keepsI)
  fix s r s' assume "entryA en team user calls opts s = (r, s')" and i: "Inv (s_db s)"
  then have "s' = snd (Commit en opts (chain_of en (s_db s) team user calls) s)"
    by (auto simp: entryA_chain commitA_def split: prod.splits option.splits)
  with commit [OF assms(3,2) chain_builder(1,2) [OF assms(1)] i] show "Inv (s_db s')" by simp
qed

lemmas keeps_chains = keeps_newTx keeps_uncommitted keeps_entry keeps_update keep

end

interpretation balanced: ledger_invariant trial_balanced
proof
  show "trial_balanced d'" if "db_entries d' = db_entries d" "trial_balanced d" for d d'
    using that by (simp add: trial_balanced_def)
qed (rule Commit_balanced)

interpretation accounts: ledger_invariant accounts_ok
proof
  show "accounts_ok d'" if "db_accounts d' = db_accounts d" "accounts_ok d" for d d'
    using that by (simp add: accounts_ok_def)
  fix opts c and en :: env and s :: session assume "accounts_ok (s_db s)"
  with rest_fields [OF Commit_rest [of en opts c s]] show "accounts_ok (s_db (snd (Commit en opts c s)))"
    by (simp add: accounts_ok_def)
qed

subsection \<open>Reading off what a chain posts\<close>

definition amounts_on :: "(nat \<times> rat) list \<Rightarrow> nat \<Rightarrow> rat" where
  "amounts_on ps a = (\<Sum>(b, v)\<leftarrow>ps. if b = a then v else 0)"

lemma amounts_on_simps [simp]: "amounts_on [] a = 0"
  "amounts_on ((b, v) # ps) a = (if b = a then v else 0) + amounts_on ps a"
  "amounts_on (ps @ qs) a = amounts_on ps a + amounts_on qs a"
  by (simp_all add: amounts_on_def)

definition debit_account :: "Account list \<Rightarrow> AccountKey \<Rightarrow> nat \<Rightarrow> nat \<Rightarrow> bool" where
  "debit_account acs key team i \<longleftrightarrow>
     (\<exists>a. key_account acs key team = Some a \<and> acc_ID a = i \<and> i \<noteq> 0 \<and> acc_BalanceType a = DebitBalance)"

definition credit_account :: "Account list \<Rightarrow> AccountKey \<Rightarrow> nat \<Rightarrow> nat \<Rightarrow> bool" where
  "credit_account acs key team i \<longleftrightarrow>
     (\<exists>a. key_account acs key team = Some a \<and> acc_ID a = i \<and> i \<noteq> 0 \<and> acc_BalanceType a = CreditBalance)"

lemma debit_posting:
  assumes "debit_account acs key team i"
  shows "posting acs (CTo key team x opts) = Some (i, val x)"
    and "posting acs (CFrom key team x opts) = Some (i, - val x)"
    and "valid_call acs (CTo key team x opts) = (x \<noteq> 0)" and "valid_call acs (CFrom key team x opts) = (x \<noteq> 0)"
  using assms by (auto simp: debit_account_def signed_def DebitBalance_def CreditBalance_def account_ok_def
      balance_typed_def)

lemma credit_posting:
  assumes "credit_account acs key team i"
  shows "posting acs (CTo key team x opts) = Some (i, - val x)"
    and "posting acs (CFrom key team x opts) = Some (i, val x)"
    and "valid_call acs (CTo key team x opts) = (x \<noteq> 0)" and "valid_call acs (CFrom key team x opts) = (x \<noteq> 0)"
  using assms by (auto simp: credit_account_def signed_def DebitBalance_def CreditBalance_def account_ok_def
      balance_typed_def)

lemmas account_posting = debit_posting credit_posting

lemma on_acc_Some [simp]: "on_acc a (Some (b, v)) = (if b = a then v else 0)" "on_acc a None = 0"
  "amount_of (Some (b, v)) = v" "amount_of None = 0"
  by (simp_all add: on_acc_def amount_of_def)

lemma posted_append [simp]: "posted acs (xs @ ys) a = posted acs xs a + posted acs ys a"
  "posted_total acs (xs @ ys) = posted_total acs xs + posted_total acs ys"
  by (induction xs) simp_all

lemma source_desc [simp]: "source_entry_option (EntryDescOption desc)"
  by (auto simp: source_entry_option_def)

lemma books_posts:
  assumes "whole_calls calls" and "iter_ok (iter en)" and "list_all source_option opts"
    and "\<And>a. posted acs calls a = f a"
  shows "books acs (in_book team f) (entryA en team user calls opts)"
proof -
  from assms(4) have "posted acs calls = f" by (rule ext)
  with books_entry [OF assms(1-3)] show ?thesis by auto
qed

lemma whole_calls_simps [simp]: "whole_calls [] = True"
  "list_all plain_call cs \<Longrightarrow> whole_calls cs = whole_list (concat (map call_amounts cs))"
  by (simp_all add: whole_calls_def whole_list_def)

lemma whole_list_Cons: "whole_list (x # xs) \<longleftrightarrow> whole x \<and> list_all whole xs \<and> \<bar>val x\<bar> + abs_sum xs \<le> 2 ^ 53"
  by (auto simp: whole_list_def)

subsection \<open>Running a handler\<close>

lemma thenA_Inr: "thenA m n s = (Inr y, s'') \<longleftrightarrow> (\<exists>x s'. m s = (Inr x, s') \<and> n s' = (Inr y, s''))"
  by (simp add: thenA_def bindA_Inr)

lemma readA_Inr [simp]: "readA f s = (Inr x, s') \<longleftrightarrow> x = f (s_db s) \<and> s' = s"
  by (auto simp: readA_def)

lemma returnA_Inr [simp]: "returnA y s = (Inr x, s') \<longleftrightarrow> x = y \<and> s' = s"
  by (auto simp: returnA_def)

lemma failA_Inr [simp]: "failA e s \<noteq> (Inr x, s')"
  by (simp add: failA_def)

lemma failA_eq [simp]: "failA e s = (r, s') \<longleftrightarrow> r = Inl e \<and> s' = s"
  by (auto simp: failA_def)

lemma derefA_Inr [simp]: "derefA p s = (Inr x, s') \<longleftrightarrow> p = Some x \<and> s' = s"
  by (auto simp: derefA_def split: option.splits)

lemma updateA_Inr [simp]: "updateA f s = (r, s') \<longleftrightarrow> r = Inr () \<and> s' = s\<lparr>s_db := f (s_db s)\<rparr>"
  by (auto simp: updateA_def)

lemma thenA_Inl: "thenA m n s = (Inl e, s'') \<longleftrightarrow>
    m s = (Inl e, s'') \<or> (\<exists>x s'. m s = (Inr x, s') \<and> n s' = (Inl e, s''))"
  by (auto simp: thenA_def bindA_def split: sum.splits prod.splits)

lemma bindA_Inl: "bindA m n s = (Inl e, s'') \<longleftrightarrow>
    m s = (Inl e, s'') \<or> (\<exists>x s'. m s = (Inr x, s') \<and> n x s' = (Inl e, s''))"
  by (auto simp: bindA_def split: sum.splits prod.splits)

text \<open>A new transaction without labels is saved when its reference is unused.\<close>

lemma newTxA_fresh:
  assumes "tx_ID tran = 0" and "\<not> IsZero (tx_Created tran)"
    and "\<forall>r \<in> set (db_txs (s_db s)). tx_RefID r \<noteq> tx_RefID tran"
  shows "newTxA en tran [] s =
    (let tran = tran\<lparr>tx_ID := Suc (db_seq (s_db s))\<rparr> in
     (Inr tran, s\<lparr>s_db := (s_db s)\<lparr>db_seq := tx_ID tran, db_txs := db_txs (s_db s) @ [tran]\<rparr>,
        s_cells := s_cells s @ [emptyLabel], s_labels := Some (length (s_cells s))\<rparr>))"
proof -
  let ?t = "tran\<lparr>tx_ID := Suc (db_seq (s_db s))\<rparr>" and ?d = "s_db s"
  have "save_tx en tran ?d = Inr (?t, ?d\<lparr>db_seq := Suc (db_seq ?d), db_txs := db_txs ?d @ [?t]\<rparr>)"
    using assms by (auto simp: save_tx_def Let_def)
  with assms(2) show ?thesis by (simp add: newTxA_def NewTransaction_def CreateT_def Let_def)
qed

text \<open>Every registered handler takes every message.\<close>

definition accepting :: "env \<Rightarrow> bool" where
  "accepting en \<longleftrightarrow> list_all (\<lambda>(name, h). \<forall>updata. h updata = None) (customHandler en)"

lemma dispatch_accepting:
  "list_all (\<lambda>(name, h). \<forall>updata. h updata = None) hs \<Longrightarrow> \<exists>s'. dispatch hs updata s = (Inr (), s')"
  by (induction hs updata s rule: dispatch.induct) (auto simp: Let_def)

lemma OpenTransaction_runs:
  assumes "h (open_book s) = (Inr x, s1)" and "s_entries s1 \<noteq> []" and "\<forall>e \<in> set (s_entries s1). je_ID e \<noteq> 0"
    and "accepting en"
  shows "\<exists>s'. OpenTransaction en h s = (Inr (Some x), s')"
proof -
  from assms(1-3) have "tx_body h s = (Inr (x, DailyUpdateData s1), s1)" by (simp add: tx_body_Inr)
  moreover obtain s' where "dispatch (customHandler en) (DailyUpdateData s1) (restore_book s s1) = (Inr (), s')"
    using assms(4) dispatch_accepting by (force simp: accepting_def)
  ultimately show ?thesis unfolding OpenTransaction_Some by blast
qed

lemma OpenTransaction_tables:
  assumes "OpenTransaction en h s = (r, s')"
  shows "s_db s' = s_db s \<or> (\<exists>x s1. h (open_book s) = (Inr x, s1) \<and> s_db s' = s_db s1)"
proof (cases r)
  case (Inl e)
  with OpenTransaction_error_cases [of en h s e s'] assms show ?thesis by blast
next
  case (Inr q)
  with assms OpenTransaction_None(1) [of en h s s'] show ?thesis
    by (cases q) (auto elim: OpenTransaction_Some_db)
qed

lemma transactionA_tables:
  "transactionA h s = (r, s') \<Longrightarrow> s_db s' = s_db s \<or> (\<exists>x. h s = (Inr x, s'))"
  by (cases r) auto

lemma checked_tables:
  assumes "thenA (checkA eo) h s = (r, s')"
  shows "s' = s \<or> h s = (r, s')"
  using assms by (cases eo) (auto simp: thenA_def checkA_def failA_def bindA_def returnA_def)

lemma newTxA_Inl:
  assumes "newTxA en tran [] s = (Inl e, s')"
  shows "e \<noteq> ErrSkipTransaction \<and> (\<exists>t \<in> set (db_txs (s_db s)). tx_RefID t = tx_RefID tran)"
  using assms
  by (auto simp: newTxA_def NewTransaction_def CreateT_def save_tx_def ct_setErr_def Let_def
      split: if_splits prod.splits sum.splits option.splits)

lemma OpenTransaction_fails:
  assumes "h (open_book s) = (Inl e, s1)" and "e \<noteq> ErrSkipTransaction"
  shows "\<exists>s'. OpenTransaction en h s = (Inl e, s') \<and> s_db s' = s_db s"
proof -
  from assms(1) have "tx_body h s = (Inl e, s1)" by (simp add: tx_body_def open_book_def)
  from OpenTransaction_Inl [OF this, of en] assms(2) show ?thesis by simp
qed

lemma insert_rows_frame [simp]: "db_accounts (insert_rows rows d) = db_accounts d" "db_payments (insert_rows rows d) = db_payments d"
  "db_txs (insert_rows rows d) = db_txs d"
  by (simp_all add: insert_rows_def)

end
