(* ===== verification/Payment.thy ===== *)
theory Payment
  imports Handler
begin

section \<open>Payments between teams\<close>

text \<open>
  \<open>payment/\<close>: a team announces a payment to another team, and it stays pending until the receiver
  accepts or rejects it or the sender cancels it; accepting books it in both teams' books.
  \<open>accounting_transaction/payment_transaction\<close> is an older way to book a payment.
  The handlers return \<open>None\<close> when the transaction was skipped; the error is nil then too.
\<close>

subsection \<open>Rows\<close>

definition payment_entity :: string where
  "payment_entity = ''accounting/payment''"

definition find_payment :: "nat \<Rightarrow> db \<Rightarrow> Payment option" where
  "find_payment i d = find (\<lambda>p. pm_ID p = i) (db_payments d)"

definition save_payment :: "Payment \<Rightarrow> db \<Rightarrow> db" where
  "save_payment p d =
     d\<lparr>db_payments := map (\<lambda>q. if pm_ID q = pm_ID p then p else q) (db_payments d)\<rparr>"

definition first_payment :: "nat \<Rightarrow> Payment action" where
  "first_payment i = bindA (readA (find_payment i))
     (\<lambda>p. case p of Some p \<Rightarrow> returnA p | None \<Rightarrow> failA ErrRecordNotFound)"

subsection \<open>The handlers\<close>

record PaymentCreateRequest =
  pcr_FromTeamId :: nat
  pcr_ToTeamId :: nat
  pcr_Amount :: f64
  pcr_PaymentType :: nat

record PaymentRequest =
  pr_PaymentId :: nat
  pr_TeamId :: nat
  pr_RequestFrom :: RequestFrom

definition PaymentCreate :: "env \<Rightarrow> identity \<Rightarrow> PaymentCreateRequest \<Rightarrow> (nat \<times> PaymentStatus) action" where
  "PaymentCreate en ident pay =
     thenA (checkA (HasPermission ident payment_entity (pcr_FromTeamId pay) ActCreate))
       (transactionA
         (bindA (readA (\<lambda>d. Suc (db_seq d)))
           (\<lambda>i. let payment = \<lparr>pm_ID = i, pm_FromTeamID = pcr_FromTeamId pay,
                   pm_ToTeamID = pcr_ToTeamId pay, pm_Status = PAYMENT_STATUS_PENDING,
                   pm_PaymentType = pcr_PaymentType pay, pm_Amount = pcr_Amount pay,
                   pm_CreatedByID = IdentityID ident, pm_CreatedAt = now en, pm_AcceptedAt = zeroTime\<rparr>
                in thenA (updateA (\<lambda>d. d\<lparr>db_seq := i, db_payments := db_payments d @ [payment]\<rparr>))
                     (returnA (pm_ID payment, PAYMENT_STATUS_PENDING)))))"

definition check_pending :: "bool \<Rightarrow> Payment \<Rightarrow> unit action" where
  "check_pending own payment =
     (if \<not> own then failA (ErrMsg ''payment not you own'')
      else if pm_Status payment \<noteq> PAYMENT_STATUS_PENDING then failA (ErrMsg ''payment not pending'')
      else returnA ())"

definition action_domain :: "identity \<Rightarrow> RequestFrom \<Rightarrow> nat \<Rightarrow> nat" where
  "action_domain ident from team =
     (case from of REQUEST_FROM_ADMIN \<Rightarrow> RootDomain ident | _ \<Rightarrow> team)"

definition payment_ref :: "nat \<Rightarrow> RefID" where
  "payment_ref i = NewRefID \<lparr>rd_RefType = PaymentRef, rd_ID = i\<rparr>"

definition payer_calls :: "Payment \<Rightarrow> Transaction \<Rightarrow> entry_call list" where
  "payer_calls payment tran =
     (let desc = EntryDescOption (''accept payment '' @ tx_RefID tran)
      in [CFrom CashAccount (pm_ToTeamID payment) (pm_Amount payment) [desc],
          CFrom PayableAccount (pm_ToTeamID payment) (pm_Amount payment) [desc],
          CTransaction tran])"

definition receiver_calls :: "Payment \<Rightarrow> Transaction \<Rightarrow> entry_call list" where
  "receiver_calls payment tran =
     (let desc = EntryDescOption (''accept payment '' @ tx_RefID tran)
      in [CFrom ReceivableAccount (pm_FromTeamID payment) (pm_Amount payment) [desc],
          CTo CashAccount (pm_ToTeamID payment) (pm_Amount payment) [desc],
          CTransaction tran])"

definition payment_tran :: "env \<Rightarrow> identity \<Rightarrow> nat \<Rightarrow> Payment \<Rightarrow> Transaction" where
  "payment_tran en ident i payment =
     \<lparr>tx_ID = 0, tx_RefID = payment_ref i, tx_TeamID = pm_FromTeamID payment,
      tx_CreatedByID = IdentityID ident, tx_OrderID = None,
      tx_Desc = ''payment '' @ payment_ref i, tx_Created = now en\<rparr>"

definition book_payment :: "env \<Rightarrow> identity \<Rightarrow> nat \<Rightarrow> Payment \<Rightarrow> unit action" where
  "book_payment en ident i payment =
     bindA (newTxA en (payment_tran en ident i payment) [])
       (\<lambda>tran.
          thenA (entryA en (pm_FromTeamID payment) (IdentityID ident) (payer_calls payment tran) [])
         (thenA (entryA en (pm_ToTeamID payment) (IdentityID ident) (receiver_calls payment tran) [])
           (updateA (save_payment (payment\<lparr>pm_Status := PAYMENT_STATUS_ACCEPTED\<rparr>)))))"

definition PaymentAccept :: "env \<Rightarrow> identity \<Rightarrow> PaymentRequest \<Rightarrow> unit option action" where
  "PaymentAccept en ident pay =
     thenA (checkA (HasPermission ident payment_entity
              (action_domain ident (pr_RequestFrom pay) (pr_TeamId pay)) ActUpdate))
       (OpenTransaction en
         (bindA (first_payment (pr_PaymentId pay))
           (\<lambda>payment.
              thenA (check_pending (pm_ToTeamID payment = pr_TeamId pay) payment)
                (book_payment en ident (pr_PaymentId pay) payment))))"

definition close_payment :: "(Payment \<Rightarrow> nat) \<Rightarrow> PaymentStatus \<Rightarrow> PaymentRequest \<Rightarrow> unit action" where
  "close_payment owner status pay =
     transactionA
       (bindA (first_payment (pr_PaymentId pay))
         (\<lambda>payment.
            thenA (check_pending (owner payment = pr_TeamId pay) payment)
              (updateA (save_payment (payment\<lparr>pm_Status := status\<rparr>)))))"

definition PaymentCancel :: "identity \<Rightarrow> PaymentRequest \<Rightarrow> unit action" where
  "PaymentCancel ident pay =
     thenA (checkA (HasPermission ident payment_entity (pr_TeamId pay) ActUpdate))
       (close_payment pm_FromTeamID PAYMENT_STATUS_CANCELED pay)"

definition PaymentReject :: "identity \<Rightarrow> PaymentRequest \<Rightarrow> unit action" where
  "PaymentReject ident pay =
     thenA (checkA (HasPermission ident payment_entity
              (action_domain ident (pr_RequestFrom pay) (pr_TeamId pay)) ActUpdate))
       (close_payment pm_ToTeamID PAYMENT_STATUS_REJECTED pay)"

subsection \<open>The older payment transaction\<close>

record PaymentPayload =
  pp_ToTeamID :: nat
  pp_FromTeamID :: nat
  pp_Desc :: string
  pp_Amount :: f64

definition PaymentT :: "env \<Rightarrow> identity \<Rightarrow> PaymentPayload \<Rightarrow> unit option action" where
  "PaymentT en agent payment =
     OpenTransaction en
       (bindA (newTxA en emptyTransaction [])
         (\<lambda>tran.
            thenA (entryA en (pp_FromTeamID payment) (GetUserID agent)
                     [ToC CashAccount (pp_FromTeamID payment) (pp_Amount payment),
                      FromC PayableAccount (pp_ToTeamID payment) (pp_Amount payment),
                      CTransaction tran] [])
                  (entryA en (pp_ToTeamID payment) (GetUserID agent)
                     [ToC CashAccount (pp_ToTeamID payment) (pp_Amount payment),
                      FromC ReceivableAccount (pp_FromTeamID payment) (pp_Amount payment),
                      CTransaction tran] [])))"

end
