(* ===== verification/PaymentSpec.thy ===== *)
theory PaymentSpec
  imports Effects Payment Samples
begin

section \<open>Payments: properties\<close>

text \<open>
  A payment moves from pending to one final status, accepting it books both sides, and it is
  accepted when nothing stands against it.
\<close>

subsection \<open>Running the handlers\<close>

lemma find_save_payment:
  "find_payment i d = Some p \<Longrightarrow> pm_ID q = i \<Longrightarrow> find_payment i (save_payment q d) = Some q"
proof -
  have "find (\<lambda>p. pm_ID p = i) ps = Some p \<Longrightarrow> pm_ID q = i \<Longrightarrow>
      find (\<lambda>p. pm_ID p = i) (map (\<lambda>r. if pm_ID r = pm_ID q then q else r) ps) = Some q" for ps
    by (induction ps) auto
  then show "find_payment i d = Some p \<Longrightarrow> pm_ID q = i \<Longrightarrow> ?thesis"
    by (simp add: find_payment_def save_payment_def)
qed

lemma find_payment_id: "find_payment i d = Some p \<Longrightarrow> pm_ID p = i \<and> p \<in> set (db_payments d)"
  unfolding find_payment_def by (drule find_SomeD) simp

lemma first_payment_Inr:
  "first_payment i s = (Inr p, s') \<longleftrightarrow> find_payment i (s_db s) = Some p \<and> s' = s"
  by (auto simp: first_payment_def bindA_Inr split: option.splits)

lemma check_pending_Inr:
  "check_pending own p s = (Inr u, s') \<longleftrightarrow> own \<and> pm_Status p = PAYMENT_STATUS_PENDING \<and> s' = s"
  by (auto simp: check_pending_def)

lemma PaymentAccept_Some:
  assumes "PaymentAccept en ident pay s = (Inr (Some ()), s')"
  obtains p s1 where "find_payment (pr_PaymentId pay) (s_db s) = Some p" and "pm_ToTeamID p = pr_TeamId pay"
    and "pm_Status p = PAYMENT_STATUS_PENDING"
    and "book_payment en ident (pr_PaymentId pay) p (open_book s) = (Inr (), s1)" and "s_db s' = s_db s1"
    and "HasPermission ident payment_entity (action_domain ident (pr_RequestFrom pay) (pr_TeamId pay)) ActUpdate = None"
proof -
  let ?body = "bindA (first_payment (pr_PaymentId pay))
     (\<lambda>payment. thenA (check_pending (pm_ToTeamID payment = pr_TeamId pay) payment)
        (book_payment en ident (pr_PaymentId pay) payment))"
  from assms have "OpenTransaction en ?body s = (Inr (Some ()), s')"
    and perm: "HasPermission ident payment_entity (action_domain ident (pr_RequestFrom pay) (pr_TeamId pay)) ActUpdate = None"
    unfolding PaymentAccept_def thenA_Inr checkA_Inr by blast+
  from OpenTransaction_Some_db [OF this(1)] obtain s1
    where "?body (open_book s) = (Inr (), s1)" and "s_db s' = s_db s1" by blast
  with that perm show thesis
    unfolding bindA_Inr thenA_Inr first_payment_Inr check_pending_Inr book_db by blast
qed

lemma book_payment_payments:
  assumes "book_payment en ident i p s = (Inr u, s')"
  shows "db_payments (s_db s') = db_payments (save_payment (p\<lparr>pm_Status := PAYMENT_STATUS_ACCEPTED\<rparr>) (s_db s))"
proof -
  from assms obtain tran s1 s2 s3 where "newTxA en (payment_tran en ident i p) [] s = (Inr tran, s1)"
    and e: "entryA en (pm_FromTeamID p) (IdentityID ident) (payer_calls p tran) [] s1 = (Inr (), s2)"
      "entryA en (pm_ToTeamID p) (IdentityID ident) (receiver_calls p tran) [] s2 = (Inr (), s3)"
    and s': "s' = s3\<lparr>s_db := save_payment (p\<lparr>pm_Status := PAYMENT_STATUS_ACCEPTED\<rparr>) (s_db s3)\<rparr>"
    by (auto simp: book_payment_def bindA_Inr thenA_Inr)
  then have "db_payments (s_db s3) = db_payments (s_db s)"
    using newTxA_core rest_fields [OF entryA_rest [OF e(1)]] rest_fields [OF entryA_rest [OF e(2)]]
    by (fastforce simp: core_def)
  then show ?thesis by (simp add: s' save_payment_def)
qed

text \<open>The two books of an accepted payment.\<close>

definition payment_books :: "Account list \<Rightarrow> Payment \<Rightarrow> nat \<Rightarrow> nat \<Rightarrow> nat \<Rightarrow> bool" where
  "payment_books acs p cash payable receivable \<longleftrightarrow>
     debit_account acs CashAccount (pm_ToTeamID p) cash \<and>
     credit_account acs PayableAccount (pm_ToTeamID p) payable \<and>
     debit_account acs ReceivableAccount (pm_FromTeamID p) receivable"

lemma payment_whole:
  assumes "whole (pm_Amount p)" and "\<bar>val (pm_Amount p)\<bar> \<le> 2 ^ 52"
  shows "whole_calls (payer_calls p tran)" and "whole_calls (receiver_calls p tran)"
  using assms by (simp_all add: payer_calls_def receiver_calls_def Let_def whole_list_Cons)

lemma payment_posted:
  assumes "payment_books acs p cash payable receivable"
  shows "posted acs (payer_calls p tran) a =
      amounts_on [(cash, - val (pm_Amount p)), (payable, val (pm_Amount p))] a"
    and "posted acs (receiver_calls p tran) a =
      amounts_on [(receivable, - val (pm_Amount p)), (cash, val (pm_Amount p))] a"
proof -
  from assms have "debit_account acs CashAccount (pm_ToTeamID p) cash"
    "credit_account acs PayableAccount (pm_ToTeamID p) payable"
    "debit_account acs ReceivableAccount (pm_FromTeamID p) receivable" by (simp_all add: payment_books_def)
  note ps = this(1,3) [THEN debit_posting(1)] this(1,3) [THEN debit_posting(2)] this(2) [THEN credit_posting(2)]
  show "posted acs (payer_calls p tran) a =
      amounts_on [(cash, - val (pm_Amount p)), (payable, val (pm_Amount p))] a"
    by (simp add: payer_calls_def Let_def ps del: posting.simps(1,2))
  show "posted acs (receiver_calls p tran) a =
      amounts_on [(receivable, - val (pm_Amount p)), (cash, val (pm_Amount p))] a"
    by (simp add: receiver_calls_def Let_def ps del: posting.simps(1,2))
qed

lemma book_payment_books:
  assumes "iter_ok (iter en)" and "payment_books acs p cash payable receivable"
    and "whole (pm_Amount p)" and "\<bar>val (pm_Amount p)\<bar> \<le> 2 ^ 52"
    and "book_payment en ident i p s = (Inr u, s')" and "db_accounts (s_db s) = acs"
  shows "book_balance t a (db_entries (s_db s')) = book_balance t a (db_entries (s_db s)) +
    (if t = pm_FromTeamID p then amounts_on [(cash, - val (pm_Amount p)), (payable, val (pm_Amount p))] a else 0) +
    (if t = pm_ToTeamID p then amounts_on [(receivable, - val (pm_Amount p)), (cash, val (pm_Amount p))] a else 0)"
proof -
  note w = payment_whole [OF assms(3,4)] and q = payment_posted [OF assms(2)]
  note e1 = books_posts [OF w(1) assms(1) _ q(1), of "[]"] and e2 = books_posts [OF w(2) assms(1) _ q(2), of "[]"]
  from assms(5) obtain tran s1 s2 s3 where n: "newTxA en (payment_tran en ident i p) [] s = (Inr tran, s1)"
    and r1: "entryA en (pm_FromTeamID p) (IdentityID ident) (payer_calls p tran) [] s1 = (Inr (), s2)"
    and r2: "entryA en (pm_ToTeamID p) (IdentityID ident) (receiver_calls p tran) [] s2 = (Inr (), s3)"
    and s': "s' = s3\<lparr>s_db := save_payment (p\<lparr>pm_Status := PAYMENT_STATUS_ACCEPTED\<rparr>) (s_db s3)\<rparr>"
    by (auto simp: book_payment_def bindA_Inr thenA_Inr)
  from newTxA_core [OF n] assms(6) have a1: "db_accounts (s_db s1) = acs" "db_entries (s_db s1) = db_entries (s_db s)"
    by (auto simp: core_def)
  from booksD [OF e1 r1 a1(1)] have a2: "db_accounts (s_db s2) = acs" by simp
  from booksD(2) [OF e1 r1 a1(1), of t a] booksD(2) [OF e2 r2 a2, of t a] a1(2) show ?thesis
    by (simp add: s' save_payment_def in_book_def)
qed

text \<open>
  C5: A payment that was accepted was pending and addressed to the accepting team. It is accepted
  afterwards and otherwise unchanged. The payer's book loses the amount on the receiver's cash
  account and its debt goes down by it; the receiver's book turns a receivable into cash. No
  other balance of any book changes.
\<close>

theorem accept_books_payment:
  assumes "PaymentAccept en ident pay s = (Inr (Some ()), s')" and "iter_ok (iter en)"
    and "\<And>p. find_payment (pr_PaymentId pay) (s_db s) = Some p \<Longrightarrow>
      payment_books (db_accounts (s_db s)) p cash payable receivable \<and>
      whole (pm_Amount p) \<and> \<bar>val (pm_Amount p)\<bar> \<le> 2 ^ 52"
  shows "\<exists>p. find_payment (pr_PaymentId pay) (s_db s) = Some p \<and> pm_ToTeamID p = pr_TeamId pay \<and>
    pm_Status p = PAYMENT_STATUS_PENDING \<and>
    find_payment (pr_PaymentId pay) (s_db s') = Some (p\<lparr>pm_Status := PAYMENT_STATUS_ACCEPTED\<rparr>) \<and>
    (\<forall>t a. book_balance t a (db_entries (s_db s')) = book_balance t a (db_entries (s_db s)) +
      (if t = pm_FromTeamID p then amounts_on [(cash, - val (pm_Amount p)), (payable, val (pm_Amount p))] a else 0) +
      (if t = pm_ToTeamID p then amounts_on [(receivable, - val (pm_Amount p)), (cash, val (pm_Amount p))] a else 0))"
proof -
  from PaymentAccept_Some [OF assms(1)] obtain p s1 where
    p: "find_payment (pr_PaymentId pay) (s_db s) = Some p" "pm_ToTeamID p = pr_TeamId pay"
      "pm_Status p = PAYMENT_STATUS_PENDING"
    and b: "book_payment en ident (pr_PaymentId pay) p (open_book s) = (Inr (), s1)" "s_db s' = s_db s1" by blast
  have "find_payment (pr_PaymentId pay) (s_db s1) = Some (p\<lparr>pm_Status := PAYMENT_STATUS_ACCEPTED\<rparr>)"
    using find_save_payment [OF p(1)] find_payment_id [OF p(1)] book_payment_payments [OF b(1)]
    by (simp add: find_payment_def)
  with p b(2) book_payment_books [OF assms(2) _ _ _ b(1)] assms(3) [OF p(1)]
  show ?thesis by (intro exI [of _ p] conjI allI) auto
qed

subsection \<open>Accepting succeeds\<close>

definition payment_ready :: "Account list \<Rightarrow> Payment \<Rightarrow> bool" where
  "payment_ready acs p \<longleftrightarrow> whole (pm_Amount p) \<and> \<bar>val (pm_Amount p)\<bar> \<le> 2 ^ 52 \<and> pm_Amount p \<noteq> 0 \<and>
     (\<exists>cash payable receivable. payment_books acs p cash payable receivable \<and> cash \<noteq> payable \<and> cash \<noteq> receivable)"

lemma book_payment_runs:
  assumes it: "iter_ok (iter en)" and t: "\<not> IsZero (now en)"
    and r: "payment_ready (db_accounts (s_db s)) p"
    and u: "\<forall>t \<in> set (db_txs (s_db s)). tx_RefID t \<noteq> payment_ref i"
    and s: "s_entries s = []"
  shows "\<exists>s1. book_payment en ident i p s = (Inr (), s1) \<and> s_entries s1 \<noteq> [] \<and> (\<forall>e \<in> set (s_entries s1). je_ID e \<noteq> 0)"
proof -
  define acs where "acs = db_accounts (s_db s)"
  from r obtain cash payable receivable where w: "whole (pm_Amount p)" "\<bar>val (pm_Amount p)\<bar> \<le> 2 ^ 52"
    and nz: "pm_Amount p \<noteq> 0" and b: "payment_books acs p cash payable receivable" and ne: "cash \<noteq> payable" "cash \<noteq> receivable"
    by (auto simp: payment_ready_def acs_def)
  from nz have v: "val (pm_Amount p) \<noteq> 0" by (simp add: val_eq)
  obtain tran s1 where n: "newTxA en (payment_tran en ident i p) [] s = (Inr tran, s1)"
    and s1: "s_entries s1 = []" "db_accounts (s_db s1) = acs"
    using newTxA_fresh [of "payment_tran en ident i p" s en] t u s by (auto simp: payment_tran_def Let_def acs_def)
  note q = payment_whole [OF w, of tran] and ps = payment_posted [OF b, of tran]
  from b have ds: "debit_account acs CashAccount (pm_ToTeamID p) cash"
    "credit_account acs PayableAccount (pm_ToTeamID p) payable"
    "debit_account acs ReceivableAccount (pm_FromTeamID p) receivable" by (simp_all add: payment_books_def)
  note pd = ds(1,3) [THEN debit_posting(1)] ds(1,3) [THEN debit_posting(2)] ds(2) [THEN credit_posting(2)]
  note pv = ds(1,3) [THEN debit_posting(3)] ds(1,3) [THEN debit_posting(4)] ds(2) [THEN credit_posting(4)]
  have "\<exists>s2 es rows. entryA en (pm_FromTeamID p) (IdentityID ident) (payer_calls p tran) [] s1 = (Inr (), s2) \<and>
      s2 = s1\<lparr>s_db := insert_rows rows (s_db s1), s_entries := s_entries s1 @ es\<rparr> \<and> es \<noteq> [] \<and> (\<forall>e \<in> set es. je_ID e \<noteq> 0)"
    by (rule entryA_commits [OF q(1) it])
       (use ne nz v in \<open>auto simp: s1 ps payer_calls_def Let_def pd pv is_post_def simp del: posting.simps(1,2) valid_call.simps(1,2)\<close>)
  then obtain s2 es rows where e1: "entryA en (pm_FromTeamID p) (IdentityID ident) (payer_calls p tran) [] s1 = (Inr (), s2)"
    and s2: "s2 = s1\<lparr>s_db := insert_rows rows (s_db s1), s_entries := es\<rparr>" "es \<noteq> []" "\<forall>e \<in> set es. je_ID e \<noteq> 0"
    using s1(1) by auto
  have "\<exists>s3 es' rows. entryA en (pm_ToTeamID p) (IdentityID ident) (receiver_calls p tran) [] s2 = (Inr (), s3) \<and>
      s3 = s2\<lparr>s_db := insert_rows rows (s_db s2), s_entries := s_entries s2 @ es'\<rparr> \<and> es' \<noteq> [] \<and> (\<forall>e \<in> set es'. je_ID e \<noteq> 0)"
    by (rule entryA_commits [OF q(2) it])
       (use ne nz v in \<open>auto simp: s1 s2(1) ps receiver_calls_def Let_def pd pv is_post_def simp del: posting.simps(1,2) valid_call.simps(1,2)\<close>)
  then obtain s3 es' where e2: "entryA en (pm_ToTeamID p) (IdentityID ident) (receiver_calls p tran) [] s2 = (Inr (), s3)"
    and s3: "s_entries s3 = es @ es'" "\<forall>e \<in> set es'. je_ID e \<noteq> 0"
    using s2(1) by auto
  from n e1 e2 s2(2,3) s3 show ?thesis by (auto simp: book_payment_def bindA_Inr thenA_Inr)
qed

lemma PaymentAccept_runs:
  assumes "find_payment (pr_PaymentId pay) (s_db s) = Some p" and "pm_ToTeamID p = pr_TeamId pay"
    and "pm_Status p = PAYMENT_STATUS_PENDING" and "payment_ready (db_accounts (s_db s)) p"
    and "\<forall>t \<in> set (db_txs (s_db s)). tx_RefID t \<noteq> payment_ref (pr_PaymentId pay)"
    and "HasPermission ident payment_entity (action_domain ident (pr_RequestFrom pay) (pr_TeamId pay)) ActUpdate = None"
    and "iter_ok (iter en)" and "\<not> IsZero (now en)" and "accepting en"
  shows "\<exists>s'. PaymentAccept en ident pay s = (Inr (Some ()), s')"
proof -
  let ?body = "bindA (first_payment (pr_PaymentId pay))
     (\<lambda>payment. thenA (check_pending (pm_ToTeamID payment = pr_TeamId pay) payment)
        (book_payment en ident (pr_PaymentId pay) payment))"
  from book_payment_runs [OF assms(7,8), of "open_book s" p "pr_PaymentId pay" ident] assms(4,5)
  obtain s1 where b: "book_payment en ident (pr_PaymentId pay) p (open_book s) = (Inr (), s1)"
    "s_entries s1 \<noteq> []" "\<forall>e \<in> set (s_entries s1). je_ID e \<noteq> 0" by auto
  have "?body (open_book s) = (Inr (), s1)"
    unfolding bindA_Inr thenA_Inr first_payment_Inr check_pending_Inr book_db using assms(1-3) b(1) by blast
  from OpenTransaction_runs [of ?body, OF this b(2,3) assms(9)] obtain s' where "OpenTransaction en ?body s = (Inr (Some ()), s')" by blast
  with assms(6) show ?thesis unfolding PaymentAccept_def thenA_Inr checkA_Inr by blast
qed

text \<open>
  C13: A pending payment addressed to the team, whose reference is unused and whose accounts are
  typed, is accepted: no check, commit or final check of the transaction stands in the way of a
  whole amount that is not zero, once the registered handlers take the message.
\<close>

theorem pending_payment_accepted:
  assumes "find_payment (pr_PaymentId pay) (s_db s) = Some p" and "pm_ToTeamID p = pr_TeamId pay"
    and "pm_Status p = PAYMENT_STATUS_PENDING" and "payment_ready (db_accounts (s_db s)) p"
    and "\<forall>t \<in> set (db_txs (s_db s)). tx_RefID t \<noteq> payment_ref (pr_PaymentId pay)"
    and "HasPermission ident payment_entity (action_domain ident (pr_RequestFrom pay) (pr_TeamId pay)) ActUpdate = None"
    and "iter_ok (iter en)" and "\<not> IsZero (now en)" and "accepting en"
  shows "\<exists>s'. PaymentAccept en ident pay s = (Inr (Some ()), s')"
  using assms by (rule PaymentAccept_runs)

subsection \<open>A pending payment\<close>

text \<open>Team 7 pays 250 to team 8.\<close>

definition sample_payment :: Payment where
  "sample_payment = \<lparr>pm_ID = 60, pm_FromTeamID = 7, pm_ToTeamID = 8, pm_Status = PAYMENT_STATUS_PENDING,
     pm_PaymentType = 0, pm_Amount = f64_of 250, pm_CreatedByID = 1, pm_CreatedAt = sample_time,
     pm_AcceptedAt = zeroTime\<rparr>"

definition pay_db :: db where
  "pay_db = sample_db\<lparr>db_payments := [sample_payment]\<rparr>"

definition pay_request :: "nat \<Rightarrow> PaymentRequest" where
  "pay_request team = \<lparr>pr_PaymentId = 60, pr_TeamId = team, pr_RequestFrom = REQUEST_FROM_SELLING\<rparr>"

lemma sample_payment_books: "payment_books (db_accounts pay_db) sample_payment 4 5 3"
  by (auto simp: payment_books_def debit_account_def credit_account_def key_account_def sample_payment_def
      pay_db_def sample_defs CashAccount_def PayableAccount_def ReceivableAccount_def DebitBalance_def CreditBalance_def)

lemma sample_payment_facts: "find_payment 60 pay_db = Some sample_payment" "pr_PaymentId (pay_request t) = 60"
  "pr_TeamId (pay_request t) = t" "pm_ToTeamID sample_payment = 8" "pm_FromTeamID sample_payment = 7"
  "pm_Status sample_payment = PAYMENT_STATUS_PENDING" "whole (pm_Amount sample_payment)"
  "val (pm_Amount sample_payment) = 250" "pm_Amount sample_payment \<noteq> 0" "db_txs pay_db = []"
  "HasPermission anyone ent dm act = None" "\<not> IsZero (now sample_env)" "accepting sample_env"
  by (simp_all add: find_payment_def pay_db_def sample_payment_def pay_request_def anyone_def whole_f64_of val_f64_of
      f64_of_arith sample_env_def sample_time_def IsZero_def accepting_def sample_db_def empty_db_def)

lemma sample_payment_ready: "payment_ready (db_accounts pay_db) sample_payment"
proof -
  have "\<exists>cash payable receivable. payment_books (db_accounts pay_db) sample_payment cash payable receivable \<and>
      cash \<noteq> payable \<and> cash \<noteq> receivable"
    by (rule exI [of _ 4], rule exI [of _ 5], rule exI [of _ 3]) (simp add: sample_payment_books)
  then show ?thesis by (simp add: payment_ready_def sample_payment_facts)
qed

lemma sample_accepted: "\<exists>s'. PaymentAccept sample_env anyone (pay_request 8) (session_of pay_db) = (Inr (Some ()), s')"
  by (rule PaymentAccept_runs [of _ _ sample_payment])
     (simp_all add: sample_payment_facts sample_payment_ready)

subsection \<open>The life of a payment\<close>

text \<open>One request of one of the four handlers, whatever its outcome.\<close>

inductive payment_step :: "session \<Rightarrow> session \<Rightarrow> bool" where
  create: "PaymentCreate en ident req s = (r, s') \<Longrightarrow> payment_step s s'"
| accept: "PaymentAccept en ident pay s = (r', s') \<Longrightarrow> payment_step s s'"
| cancel: "PaymentCancel ident pay s = (r'', s') \<Longrightarrow> payment_step s s'"
| reject: "PaymentReject ident pay s = (r'', s') \<Longrightarrow> payment_step s s'"

definition status_step :: "PaymentStatus \<Rightarrow> PaymentStatus \<Rightarrow> bool" where
  "status_step st st' \<longleftrightarrow> st' = st \<or> st = PAYMENT_STATUS_PENDING \<and>
     st' \<in> {PAYMENT_STATUS_ACCEPTED, PAYMENT_STATUS_CANCELED, PAYMENT_STATUS_REJECTED}"

definition progress :: "db \<Rightarrow> db \<Rightarrow> bool" where
  "progress d d' \<longleftrightarrow> (\<forall>i p. find_payment i d = Some p \<longrightarrow>
     (\<exists>st. find_payment i d' = Some (p\<lparr>pm_Status := st\<rparr>) \<and> status_step (pm_Status p) st))"

lemma progress_refl: "db_payments d' = db_payments d \<Longrightarrow> progress d d'"
  unfolding progress_def find_payment_def status_step_def
  by (intro allI impI, rule_tac x = "pm_Status p" in exI) simp

lemma progress_trans: "progress d d' \<Longrightarrow> progress d' d'' \<Longrightarrow> progress d d''"
  unfolding progress_def status_step_def by fastforce

lemma progress_save:
  assumes "find_payment i d = Some p" and "status_step (pm_Status p) st"
  shows "progress d (save_payment (p\<lparr>pm_Status := st\<rparr>) d)"
proof -
  have "find (\<lambda>r. pm_ID r = j) (map (\<lambda>r. if pm_ID r = pm_ID q then q else r) ps) = find (\<lambda>r. pm_ID r = j) ps"
    if "j \<noteq> pm_ID q" for j q ps using that by (induction ps) auto
  then have other: "find_payment j (save_payment q d) = find_payment j d" if "j \<noteq> pm_ID q" for j q
    using that by (simp add: find_payment_def save_payment_def)
  from find_payment_id [OF assms(1)] have i: "pm_ID p = i" by simp
  show ?thesis unfolding progress_def
  proof (intro allI impI)
    fix j r assume r: "find_payment j d = Some r"
    show "\<exists>st'. find_payment j (save_payment (p\<lparr>pm_Status := st\<rparr>) d) = Some (r\<lparr>pm_Status := st'\<rparr>) \<and>
        status_step (pm_Status r) st'"
    proof (cases "j = i")
      case True
      with assms r find_save_payment [OF assms(1)] i show ?thesis by (intro exI [of _ st]) auto
    next
      case False
      with other r i show ?thesis by (intro exI [of _ "pm_Status r"]) (simp add: status_step_def)
    qed
  qed
qed

lemma book_payment_progress:
  assumes "find_payment i (s_db s) = Some p" and "pm_Status p = PAYMENT_STATUS_PENDING"
    and "book_payment en ident i p s = (Inr u, s')"
  shows "progress (s_db s) (s_db s')"
proof -
  from assms(2) have "status_step (pm_Status p) PAYMENT_STATUS_ACCEPTED" by (simp add: status_step_def)
  from progress_trans [OF progress_save [OF assms(1) this] progress_refl] book_payment_payments [OF assms(3)]
  show ?thesis by blast
qed

lemma close_payment_progress:
  assumes "close_payment owner st pay s = (r, s')"
    and "st \<in> {PAYMENT_STATUS_ACCEPTED, PAYMENT_STATUS_CANCELED, PAYMENT_STATUS_REJECTED}"
  shows "progress (s_db s) (s_db s')"
proof (rule disjE [OF transactionA_tables [OF assms(1) [unfolded close_payment_def]]])
  assume "\<exists>x. bindA (first_payment (pr_PaymentId pay)) (\<lambda>payment. thenA (check_pending (owner payment = pr_TeamId pay) payment)
      (updateA (save_payment (payment\<lparr>pm_Status := st\<rparr>)))) s = (Inr x, s')"
  then obtain p where "find_payment (pr_PaymentId pay) (s_db s) = Some p" "pm_Status p = PAYMENT_STATUS_PENDING"
    "s' = s\<lparr>s_db := save_payment (p\<lparr>pm_Status := st\<rparr>) (s_db s)\<rparr>"
    unfolding bindA_Inr thenA_Inr first_payment_Inr check_pending_Inr updateA_Inr by blast
  with progress_save [of "pr_PaymentId pay" "s_db s" p st] assms(2) show ?thesis by (auto simp: status_step_def)
qed (simp add: progress_refl)

lemma payment_step_progress: "payment_step s s' \<Longrightarrow> progress (s_db s) (s_db s')"
proof (induction rule: payment_step.induct)
  case (create en ident req s r s')
  from checked_tables [OF create [unfolded PaymentCreate_def]]
  have "s_db s' = s_db s \<or> (\<exists>q. db_payments (s_db s') = db_payments (s_db s) @ [q])"
    by (auto simp: Let_def bindA_Inr thenA_Inr dest!: transactionA_tables)
  then show ?case
  proof
    assume "\<exists>q. db_payments (s_db s') = db_payments (s_db s) @ [q]"
    then obtain q where q: "db_payments (s_db s') = db_payments (s_db s) @ [q]" ..
    have "find_payment i (s_db s') = Some p" if "find_payment i (s_db s) = Some p" for i p
      using that find_append [of "\<lambda>p. pm_ID p = i"] by (simp add: find_payment_def q)
    then show ?thesis unfolding progress_def
      by (intro allI impI, rule_tac x = "pm_Status p" in exI) (simp add: status_step_def)
  qed (simp add: progress_refl)
next
  case (accept en ident pay s r s')
  let ?body = "bindA (first_payment (pr_PaymentId pay))
     (\<lambda>payment. thenA (check_pending (pm_ToTeamID payment = pr_TeamId pay) payment)
        (book_payment en ident (pr_PaymentId pay) payment))"
  from checked_tables [OF accept [unfolded PaymentAccept_def]] show ?case
  proof
    assume "OpenTransaction en ?body s = (r, s')"
    from OpenTransaction_tables [OF this] show ?thesis
    proof
      assume "\<exists>x s1. ?body (open_book s) = (Inr x, s1) \<and> s_db s' = s_db s1"
      then obtain p u s1 where "find_payment (pr_PaymentId pay) (s_db (open_book s)) = Some p"
        "pm_Status p = PAYMENT_STATUS_PENDING" "book_payment en ident (pr_PaymentId pay) p (open_book s) = (Inr u, s1)"
        "s_db s' = s_db s1"
        unfolding bindA_Inr thenA_Inr first_payment_Inr check_pending_Inr by blast
      with book_payment_progress [of "pr_PaymentId pay" "open_book s" p en ident u s1] show ?thesis by simp
    qed (simp add: progress_refl)
  qed (simp add: progress_refl)
next
  case (cancel ident pay s r s')
  from checked_tables [OF cancel [unfolded PaymentCancel_def]] show ?case
    by (auto simp: progress_refl intro: close_payment_progress)
next
  case (reject ident pay s r s')
  from checked_tables [OF reject [unfolded PaymentReject_def]] show ?case
    by (auto simp: progress_refl intro: close_payment_progress)
qed

text \<open>
  C6: Whatever requests of the four handlers run, with whatever outcome, a payment keeps its id, its
  teams, its amount and its times; only its status changes, once, from pending to accepted,
  canceled or rejected, and then never again.
\<close>

theorem payment_lifecycle:
  assumes "payment_step\<^sup>*\<^sup>* s s'" and "find_payment i (s_db s) = Some p"
  shows "\<exists>st. find_payment i (s_db s') = Some (p\<lparr>pm_Status := st\<rparr>) \<and> status_step (pm_Status p) st"
proof -
  from assms(1) have "progress (s_db s) (s_db s')"
    by (induction rule: rtranclp_induct) (auto intro: progress_refl progress_trans payment_step_progress)
  with assms(2) show ?thesis by (simp add: progress_def)
qed

subsection \<open>The older payment transaction\<close>

text \<open>
  \<open>PaymentTransaction\<close> never succeeds for a positive whole amount between teams with typed cash and payable
  accounts: both calls of the payer's chain post on the debit side, so its commit is refused and the tables stay.
\<close>

theorem old_payment_refused:
  assumes "debit_account (db_accounts (s_db s)) CashAccount (pp_FromTeamID pay) cash"
    and "credit_account (db_accounts (s_db s)) PayableAccount (pp_ToTeamID pay) payable"
    and "whole (pp_Amount pay)" and "0 < val (pp_Amount pay)" and "val (pp_Amount pay) \<le> 2 ^ 52"
    and "iter_ok (iter en)"
  shows "\<exists>e s'. PaymentT en agent pay s = (Inl e, s') \<and> s_db s' = s_db s \<and>
    ((\<forall>t \<in> set (db_txs (s_db s)). tx_RefID t \<noteq> []) \<longrightarrow> (\<exists>debit credit. e = ErrEntryInvalid debit credit))"
proof -
  let ?calls = "\<lambda>tran. [ToC CashAccount (pp_FromTeamID pay) (pp_Amount pay),
                FromC PayableAccount (pp_ToTeamID pay) (pp_Amount pay), CTransaction tran]"
  let ?rest = "\<lambda>tran. entryA en (pp_ToTeamID pay) (GetUserID agent)
                     [ToC CashAccount (pp_ToTeamID pay) (pp_Amount pay),
                      FromC ReceivableAccount (pp_FromTeamID pay) (pp_Amount pay),
                      CTransaction tran] []"
  let ?h = "bindA (newTxA en emptyTransaction [])
     (\<lambda>tran. thenA (entryA en (pp_FromTeamID pay) (GetUserID agent) (?calls tran) []) (?rest tran))"
  note pd = debit_posting(1,3) [OF assms(1)] credit_posting(2,4) [OF assms(2)]
  have nz: "pp_Amount pay \<noteq> 0" using assms(4) by auto
  have w: "whole_calls (?calls tran)" for tran using assms(3-5) by (simp add: whole_list_Cons)
  obtain r s1 where n: "newTxA en emptyTransaction [] (open_book s) = (r, s1)" by (cases "newTxA en emptyTransaction [] (open_book s)")
  have "\<exists>e s2. ?h (open_book s) = (Inl e, s2) \<and> e \<noteq> ErrSkipTransaction \<and>
    ((\<forall>t \<in> set (db_txs (s_db s)). tx_RefID t \<noteq> []) \<longrightarrow> (\<exists>debit credit. e = ErrEntryInvalid debit credit))"
  proof (cases r)
    case (Inl e)
    with newTxA_Inl [of en emptyTransaction "open_book s" e s1] n show ?thesis
      by (intro exI [of _ e] exI [of _ s1]) (auto simp: bindA_Inl emptyTransaction_def)
  next
    case (Inr tran)
    from newTxA_core [OF n] have a: "db_accounts (s_db s1) = db_accounts (s_db s)" by (simp add: core_def)
    have "\<exists>debit credit s2. entryA en (pp_FromTeamID pay) (GetUserID agent) (?calls tran) [] s1 =
        (Inl (ErrEntryInvalid debit credit), s2) \<and> s_db s2 = s_db s1"
      by (rule entryA_unbalanced [OF w assms(6)])
         (use assms(4) nz in \<open>auto simp: a pd is_post_def simp del: posting.simps(1,2) valid_call.simps(1,2)\<close>)
    then obtain debit credit s2 where "entryA en (pp_FromTeamID pay) (GetUserID agent) (?calls tran) [] s1 =
        (Inl (ErrEntryInvalid debit credit), s2)" by blast
    with n Inr have "?h (open_book s) = (Inl (ErrEntryInvalid debit credit), s2)"
      unfolding bindA_Inl thenA_Inl by blast
    then show ?thesis by blast
  qed
  then obtain e s2 where h: "?h (open_book s) = (Inl e, s2)" "e \<noteq> ErrSkipTransaction"
    "(\<forall>t \<in> set (db_txs (s_db s)). tx_RefID t \<noteq> []) \<longrightarrow> (\<exists>debit credit. e = ErrEntryInvalid debit credit)" by blast
  from OpenTransaction_fails [of ?h, OF h(1,2)] h(3) show ?thesis unfolding PaymentT_def by fastforce
qed

theorem accept_books_payment_witness:
  "\<exists>s'. PaymentAccept sample_env anyone (pay_request 8) (session_of pay_db) = (Inr (Some ()), s') \<and>
    book_balance 7 4 (db_entries (s_db s')) = - 250 \<and> book_balance 7 5 (db_entries (s_db s')) = 250 \<and>
    book_balance 8 3 (db_entries (s_db s')) = - 250 \<and> book_balance 8 4 (db_entries (s_db s')) = 250"
proof -
  obtain s' where r: "PaymentAccept sample_env anyone (pay_request 8) (session_of pay_db) = (Inr (Some ()), s')"
    using sample_accepted ..
  have e: "db_entries pay_db = []" by (simp add: pay_db_def sample_defs)
  from accept_books_payment [OF r, of 4 5 3] sample_payment_books r show ?thesis
    by (intro exI [of _ s']) (simp add: sample_payment_facts e)
qed

theorem pending_payment_accepted_witness:
  "\<exists>s'. PaymentAccept sample_env anyone (pay_request 8) (session_of pay_db) = (Inr (Some ()), s')"
  by (rule pending_payment_accepted [of _ _ sample_payment])
     (simp_all add: sample_payment_facts sample_payment_ready)

theorem payment_lifecycle_witness:
  "\<exists>s' st. PaymentCancel anyone (pay_request 7) (session_of pay_db) = (Inr (), s') \<and>
    find_payment 60 (s_db s') = Some (sample_payment\<lparr>pm_Status := st\<rparr>) \<and> status_step PAYMENT_STATUS_PENDING st"
proof -
  obtain s' where r: "PaymentCancel anyone (pay_request 7) (session_of pay_db) = (Inr (), s')"
    by (simp add: PaymentCancel_def close_payment_def thenA_Inr bindA_Inr first_payment_Inr check_pending_Inr
        sample_payment_facts)
  then have "payment_step\<^sup>*\<^sup>* (session_of pay_db) s'" by (blast intro: payment_step.cancel)
  from payment_lifecycle [OF this, of 60 sample_payment] r show ?thesis by (auto simp: sample_payment_facts)
qed

theorem old_payment_refused_witness:
  "\<exists>e s'. PaymentT sample_env anyone \<lparr>pp_ToTeamID = 8, pp_FromTeamID = 7, pp_Desc = [], pp_Amount = f64_of 250\<rparr>
      (session_of sample_db) = (Inl e, s') \<and> s_db s' = sample_db"
proof -
  have "debit_account (db_accounts sample_db) CashAccount 7 1" "credit_account (db_accounts sample_db) PayableAccount 8 5"
    by (auto simp: debit_account_def credit_account_def key_account_def sample_defs CashAccount_def PayableAccount_def
        DebitBalance_def CreditBalance_def)
  then show ?thesis
    using old_payment_refused [of "session_of sample_db" "\<lparr>pp_ToTeamID = 8, pp_FromTeamID = 7, pp_Desc = [], pp_Amount = f64_of 250\<rparr>" 1 5 sample_env anyone]
    by (auto simp: whole_f64_of val_f64_of)
qed

end
