(* ===== verification/Bookings.thy ===== *)
theory Bookings
  imports Handler
begin

section \<open>Expenses, transfers and adjustments\<close>

text \<open>
  The handlers that book money of one team: \<open>expense_transaction\<close> and \<open>expense/\<close>,
  \<open>ads_expense/\<close>, \<open>account/transfer_create.go\<close>, \<open>adjustment/\<close>, and the order transaction of
  \<open>accounting_transaction/order_transaction\<close>. The name tables of the generated packages and
  \<open>uuid\<close> are arguments.
\<close>

subsection \<open>Expenses\<close>

record CreatePayload =
  cp_TeamID :: nat
  cp_ExpenseKey :: AccountKey
  cp_ExpenseType :: nat
  cp_Amount :: f64
  cp_Desc :: string

definition expense_ref :: "env \<Rightarrow> (nat \<Rightarrow> string) \<Rightarrow> CreatePayload \<Rightarrow> RefID" where
  "expense_ref en ExpenseType_name payload = NewStringRefID
     \<lparr>srd_RefType = ExpenseRef,
      srd_ID = show_nat (cp_TeamID payload) @ ''-'' @ ExpenseType_name (cp_ExpenseType payload) @ ''-'' @
        show_int (Unix (now en))\<rparr>"

definition expense_calls :: "CreatePayload \<Rightarrow> Transaction \<Rightarrow> entry_call list" where
  "expense_calls payload tran =
     [FromC CashAccount (cp_TeamID payload) (cp_Amount payload),
      ToC (cp_ExpenseKey payload) (cp_TeamID payload) (cp_Amount payload),
      CTransaction tran]"

definition ExpenseCreateT ::
  "env \<Rightarrow> (nat \<Rightarrow> string) \<Rightarrow> identity \<Rightarrow> CreatePayload \<Rightarrow> unit option action" where
  "ExpenseCreateT en ExpenseType_name agent payload =
     (let tran = \<lparr>tx_ID = 0, tx_RefID = expense_ref en ExpenseType_name payload,
                  tx_TeamID = cp_TeamID payload, tx_CreatedByID = GetUserID agent, tx_OrderID = None,
                  tx_Desc = cp_Desc payload, tx_Created = now en\<rparr>
      in OpenTransaction en
           (bindA (newTxA en tran [])
             (\<lambda>tran. entryA en (cp_TeamID payload) (GetUserID agent) (expense_calls payload tran) [])))"

record ExpenseCreateRequest =
  ecr_TeamId :: nat
  ecr_RequestFrom :: RequestFrom
  ecr_ExpenseType :: nat
  ecr_ExpenseKey :: AccountKey
  ecr_Desc :: string
  ecr_Amount :: f64

definition request_domain :: "identity \<Rightarrow> RequestFrom \<Rightarrow> nat \<Rightarrow> nat" where
  "request_domain ident from team =
     (case from of
        REQUEST_FROM_ADMIN \<Rightarrow> RootDomain ident
      | REQUEST_FROM_SELLING \<Rightarrow> team
      | REQUEST_FROM_WAREHOUSE \<Rightarrow> team
      | REQUEST_FROM_OTHER _ \<Rightarrow> 0)"

definition save_expense :: "env \<Rightarrow> identity \<Rightarrow> ExpenseCreateRequest \<Rightarrow> db \<Rightarrow> db" where
  "save_expense en agent pay d =
     (let i = Suc (db_seq d)
      in d\<lparr>db_seq := i, db_expenses := db_expenses d @
           [\<lparr>ex_ID = i, ex_TeamID = ecr_TeamId pay, ex_CreatedByID = GetUserID agent, ex_Desc = ecr_Desc pay,
             ex_ExpenseType = ecr_ExpenseType pay, ex_ExpenseKey = ecr_ExpenseKey pay,
             ex_Amount = ecr_Amount pay, ex_CreatedAt = now en\<rparr>]\<rparr>)"

definition ExpenseCreate ::
  "env \<Rightarrow> (nat \<Rightarrow> string) \<Rightarrow> identity \<Rightarrow> ExpenseCreateRequest \<Rightarrow> unit action" where
  "ExpenseCreate en ExpenseType_name ident pay =
     thenA (checkA (HasPermission ident ''accounting/expense_entity''
              (request_domain ident (ecr_RequestFrom pay) (ecr_TeamId pay)) ActCreate))
       (transactionA
         (thenA (updateA (save_expense en ident pay))
           (unitA (ExpenseCreateT en ExpenseType_name ident
              \<lparr>cp_TeamID = ecr_TeamId pay, cp_ExpenseKey = ecr_ExpenseKey pay,
               cp_ExpenseType = ecr_ExpenseType pay, cp_Amount = ecr_Amount pay, cp_Desc = ecr_Desc pay\<rparr>))))"

subsection \<open>Advertising expenses\<close>

datatype AccountSource = ACCOUNT_SOURCE_SHOP | ACCOUNT_SOURCE_OTHER nat

record AdsExCreateRequest =
  adx_TeamId :: nat
  adx_ShopId :: nat
  adx_Source :: AccountSource
  adx_ExternalRefId :: string
  adx_Desc :: string
  adx_MpType :: MarketplaceType
  adx_CustomTag :: "string list"
  adx_Amount :: f64

text \<open>\<open>Save(tag)\<close> with \<open>OnConflict DoNothing\<close> on the name.\<close>

definition upsert_tag :: "string \<Rightarrow> db \<Rightarrow> db" where
  "upsert_tag name d =
     (if \<exists>t \<in> set (db_tags d). tag_Name t = name then d
      else d\<lparr>db_seq := Suc (db_seq d), db_tags := db_tags d @ [\<lparr>tag_ID = Suc (db_seq d), tag_Name = name\<rparr>]\<rparr>)"

definition ads_ref :: "env \<Rightarrow> (Time \<Rightarrow> string) \<Rightarrow> AdsExCreateRequest \<Rightarrow> err + RefID" where
  "ads_ref en time_String pay =
     (let ref = (\<lambda>extRef. NewStringRefID \<lparr>srd_RefType = AdsPaymentRef,
                    srd_ID = show_nat (adx_ShopId pay) @ ''_'' @ extRef\<rparr>)
      in case adx_Source pay of
           ACCOUNT_SOURCE_SHOP \<Rightarrow>
             (if adx_ExternalRefId pay = [] then Inl (ErrMsg ''source shop must have ext ref'')
              else Inr (ref (adx_ExternalRefId pay)))
         | ACCOUNT_SOURCE_OTHER _ \<Rightarrow> Inr (ref (time_String (now en))))"

text \<open>
  \<open>NewTransactionMutation(ctx, tx).ByRefID(ref, true)\<close> where an existing transaction makes the
  handler skip.
\<close>

definition skip_existing :: "RefID \<Rightarrow> unit action" where
  "skip_existing ref =
     bindA (readA (\<lambda>d. tm_err (ByRefID ref d NewTransactionMutation)))
       (\<lambda>e. case e of
          None \<Rightarrow> failA ErrSkipTransaction
        | Some e \<Rightarrow> if e = ErrTransactionNotFound then returnA () else failA e)"

definition ads_calls :: "AdsExCreateRequest \<Rightarrow> Transaction \<Rightarrow> entry_call list" where
  "ads_calls pay tran =
     [FromC (case adx_Source pay of ACCOUNT_SOURCE_SHOP \<Rightarrow> SellingReceivableAccount | _ \<Rightarrow> CashAccount)
        (adx_TeamId pay) (adx_Amount pay),
      ToC AdsExpenseAccount (adx_TeamId pay) (adx_Amount pay),
      CTransaction tran]"

definition AdsExCreate ::
  "env \<Rightarrow> (Time \<Rightarrow> string) \<Rightarrow> identity \<Rightarrow> err + RequestFrom \<Rightarrow> AdsExCreateRequest \<Rightarrow> nat option action" where
  "AdsExCreate en time_String ident source pay =
     (case source of
        Inl e \<Rightarrow> failA e
      | Inr from \<Rightarrow>
          thenA (checkA (HasPermission ident ''accounting/ads_expense''
                   (case from of REQUEST_FROM_ADMIN \<Rightarrow> RootDomain ident | _ \<Rightarrow> adx_TeamId pay) ActCreate))
            (OpenTransaction en
              (case ads_ref en time_String pay of
                 Inl e \<Rightarrow> failA e
               | Inr ref \<Rightarrow>
                   (let fixtags = map SanityTag (MarketplaceType_name en (adx_MpType pay) # adx_CustomTag pay);
                        tran = \<lparr>tx_ID = 0, tx_RefID = ref, tx_TeamID = adx_TeamId pay,
                          tx_CreatedByID = IdentityID ident, tx_OrderID = None, tx_Desc = adx_Desc pay,
                          tx_Created = now en\<rparr>
                    in thenA (skip_existing ref)
                      (thenA (forA fixtags (\<lambda>name. updateA (upsert_tag name)))
                        (bindA (newTxA en tran [LShop (adx_ShopId pay), LTags fixtags])
                          (\<lambda>tran. thenA
                             (entryA en (adx_TeamId pay) (IdentityID ident) (ads_calls pay tran) [])
                             (returnA (tx_ID tran)))))))))"

subsection \<open>Transfers between bank accounts\<close>

record TransferCreateRequest =
  tcr_TeamId :: nat
  tcr_FromAccountId :: nat
  tcr_ToAccountId :: nat
  tcr_Amount :: f64
  tcr_FeeAmount :: f64
  tcr_Purpose :: nat
  tcr_Desc :: string

definition first_bank_account :: "nat \<Rightarrow> BankAccountV2 action" where
  "first_bank_account i = bindA (readA (\<lambda>d. find (\<lambda>a. ba_ID a = i) (db_bank_accounts d)))
     (\<lambda>a. case a of Some a \<Rightarrow> returnA a
          | None \<Rightarrow> failA (ErrMsg (''account id '' @ show_nat i @ '' not found'')))"

definition save_transfer :: "BankTransferHistory \<Rightarrow> BankTransferHistory action" where
  "save_transfer hist s =
     (let d = s_db s in
      if bh_ID hist = 0 then
        let hist = hist\<lparr>bh_ID := Suc (db_seq d)\<rparr>
        in (Inr hist, s\<lparr>s_db := d\<lparr>db_seq := Suc (db_seq d), db_transfers := db_transfers d @ [hist]\<rparr>\<rparr>)
      else
        (Inr hist, s\<lparr>s_db := d\<lparr>db_transfers :=
           map (\<lambda>h. if bh_ID h = bh_ID hist then hist else h) (db_transfers d)\<rparr>\<rparr>))"

definition transfer_from_calls ::
  "TransferCreateRequest \<Rightarrow> BankAccountV2 \<Rightarrow> BankAccountV2 \<Rightarrow> Transaction \<Rightarrow> entry_call list" where
  "transfer_from_calls pay facc tacc tran =
     [FromC CashAccount (ba_TeamID facc) (tcr_Amount pay + tcr_FeeAmount pay),
      ToC CashAccount (ba_TeamID tacc) (tcr_Amount pay)] @
     (if tcr_FeeAmount pay \<noteq> 0 then [ToC BankFeeAccount (ba_TeamID facc) (tcr_FeeAmount pay)] else []) @
     [CTransaction tran]"

definition transfer_to_calls ::
  "TransferCreateRequest \<Rightarrow> BankAccountV2 \<Rightarrow> BankAccountV2 \<Rightarrow> Transaction \<Rightarrow> entry_call list" where
  "transfer_to_calls pay facc tacc tran =
     [FromC CashAccount (ba_TeamID facc) (tcr_Amount pay),
      ToC CashAccount (ba_TeamID tacc) (tcr_Amount pay),
      CTransaction tran]"

definition transfer_body ::
  "env \<Rightarrow> (nat \<Rightarrow> string) \<Rightarrow> identity \<Rightarrow> TransferCreateRequest \<Rightarrow> unit action" where
  "transfer_body en MutationPurpose_name ident pay =
     bindA (first_bank_account (tcr_FromAccountId pay))
       (\<lambda>facc.
          if ba_TeamID facc \<noteq> tcr_TeamId pay then failA (ErrMsg (''your team not have '' @ ba_Name facc))
          else bindA (first_bank_account (tcr_ToAccountId pay))
            (\<lambda>tacc.
               bindA (save_transfer \<lparr>bh_ID = 0, bh_TxID = 0, bh_TeamID = tcr_TeamId pay,
                   bh_FromAccountID = tcr_FromAccountId pay, bh_ToAccountID = tcr_ToAccountId pay,
                   bh_Amount = tcr_Amount pay, bh_FeeAmount = tcr_FeeAmount pay, bh_Desc = tcr_Desc pay,
                   bh_Purpose = tcr_Purpose pay, bh_Created = now en\<rparr>)
                 (\<lambda>hist.
                    if ba_ID facc = ba_ID tacc then failA (ErrMsg ''account same'')
                    else bindA (newTxA en
                        \<lparr>tx_ID = 0, tx_RefID = NewRefID \<lparr>rd_RefType = TransferRef, rd_ID = bh_ID hist\<rparr>,
                         tx_TeamID = tcr_TeamId pay, tx_CreatedByID = IdentityID ident, tx_OrderID = None,
                         tx_Desc = tcr_Desc pay, tx_Created = now en\<rparr>
                        [LTypeLabel [(LABEL_KEY_TRANSFER_PURPOSE, MutationPurpose_name (tcr_Purpose pay))]])
                      (\<lambda>tran.
                         bindA (save_transfer (hist\<lparr>bh_TxID := tx_ID tran\<rparr>))
                           (\<lambda>_. thenA
                              (entryA en (tcr_TeamId pay) (GetUserID ident)
                                 (transfer_from_calls pay facc tacc tran) [IncludeDebitCreditEqual])
                              (entryA en (ba_TeamID tacc) (GetUserID ident)
                                 (transfer_to_calls pay facc tacc tran) [IncludeDebitCreditEqual]))))))"

definition TransferCreate ::
  "env \<Rightarrow> (nat \<Rightarrow> string) \<Rightarrow> identity \<Rightarrow> TransferCreateRequest \<Rightarrow> unit option action" where
  "TransferCreate en MutationPurpose_name ident pay =
     thenA (checkA (HasPermission ident ''accounting/bank_transfer'' (tcr_TeamId pay) ActCreate))
       (OpenTransaction en (transfer_body en MutationPurpose_name ident pay))"

subsection \<open>Adjustments by the administrator\<close>

record AdjEntry =
  ae_AccountId :: nat
  ae_Credit :: f64
  ae_Debit :: f64

record AdjBook =
  ab_TeamId :: nat
  ab_Entries :: "AdjEntry list"

record AdjCreateRequest =
  acr_Description :: string
  acr_Books :: "AdjBook list"

definition adj_create_body :: "env \<Rightarrow> identity \<Rightarrow> AdjCreateRequest \<Rightarrow> unit action" where
  "adj_create_body en ident pay =
     bindA (newTxA en
        \<lparr>tx_ID = 0,
         tx_RefID = NewRefID \<lparr>rd_RefType = AdminAdjustmentRef, rd_ID = nat (Unix (now en))\<rparr>,
         tx_TeamID = RootDomain ident, tx_CreatedByID = IdentityID ident, tx_OrderID = None,
         tx_Desc = acr_Description pay, tx_Created = now en\<rparr> [])
       (\<lambda>tran. forA (acr_Books pay)
          (\<lambda>book. entryA en (ab_TeamId book) (IdentityID ident)
             (map (\<lambda>e. CSet (ae_AccountId e) (ae_Credit e) (ae_Debit e)) (ab_Entries book) @
              [CTransaction tran]) []))"

text \<open>Two of the error returns hand back nil: a failed identity and a failed transaction.\<close>

definition AdjCreate :: "env \<Rightarrow> identity \<Rightarrow> AdjCreateRequest \<Rightarrow> unit action" where
  "AdjCreate en ident pay =
     (if IdentityErr ident \<noteq> None then returnA ()
      else thenA (checkA (HasPermission ident ''accounting_adjustment'' (RootDomain ident) ActCreate))
        (\<lambda>s. case OpenTransaction en (adj_create_body en ident pay) s of (_, s) \<Rightarrow> (Inr (), s)))"

subsection \<open>Adjustments of single accounts\<close>

record Adj =
  adj_BookeepingId :: nat
  adj_TeamId :: nat
  adj_AccountKey :: AccountKey
  adj_Amount :: f64

record AdjTeam =
  at_Description :: string
  at_Adjs :: "Adj list"

record AccountAdjustmentRequest =
  aar_TeamId :: nat
  aar_RequestFrom :: RequestFrom
  aar_Adjustments :: "AdjTeam list"

text \<open>
  The check of the payload. \<open>checkPair\<close> is computed and then set to false, so the checks of
  pairs never run.
\<close>

definition check_adjustment :: "AccountAdjustmentRequest \<Rightarrow> AdjTeam \<Rightarrow> err option" where
  "check_adjustment pay adjTeam =
     (case at_Adjs adjTeam of
        [adj] \<Rightarrow>
          (if aar_RequestFrom pay \<noteq> REQUEST_FROM_ADMIN \<and>
              (aar_TeamId pay \<noteq> adj_BookeepingId adj \<or> aar_TeamId pay \<noteq> adj_TeamId adj)
           then Some (ErrMsg ''teamid adjustment not same'') else None)
      | _ \<Rightarrow> None)"

definition adj_key :: "CoaCode \<Rightarrow> AccountKey" where
  "adj_key coa =
     (if coa = ASSET then AdjAssetAccount
      else if coa = EQUITY then AdjEquityAccount
      else if coa = EXPENSE then AdjExpenseAccount
      else if coa = LIABILITY then AdjLiabilityAccount
      else if coa = REVENUE then AdjRevenueAccount
      else [])"

definition save_account :: "Account \<Rightarrow> db \<Rightarrow> db" where
  "save_account acc d =
     d\<lparr>db_seq := Suc (db_seq d), db_accounts := db_accounts d @ [acc\<lparr>acc_ID := Suc (db_seq d)\<rparr>]\<rparr>"

text \<open>The opposite account of an adjustment, created when the team has none.\<close>

definition ensure_adj_account :: "env \<Rightarrow> Account \<Rightarrow> nat \<Rightarrow> db \<Rightarrow> db" where
  "ensure_adj_account en acc team d =
     (if (case find_account d (adj_key (acc_Coa acc)) team of Some a \<Rightarrow> acc_ID a \<noteq> 0 | None \<Rightarrow> False)
      then d
      else save_account
          \<lparr>acc_ID = 0, acc_Key = adj_key (acc_Coa acc), acc_TeamID = team, acc_Coa = acc_Coa acc,
           acc_BalanceType = acc_BalanceType acc, acc_CanAdjust = False,
           acc_Name = ''adjustment '' @ acc_Name acc, acc_Created = now en\<rparr> d)"

definition adj_calls :: "Adj \<Rightarrow> AccountKey \<Rightarrow> AccountKey \<Rightarrow> Transaction \<Rightarrow> entry_call list" where
  "adj_calls adj adjKey accKey tran =
     (if adj_Amount adj > 0 then
        [FromC adjKey (adj_TeamId adj) (adj_Amount adj), ToC accKey (adj_TeamId adj) (adj_Amount adj)]
      else []) @
     (if adj_Amount adj < 0 then
        [FromC accKey (adj_TeamId adj) \<bar>adj_Amount adj\<bar>, ToC adjKey (adj_TeamId adj) \<bar>adj_Amount adj\<bar>]
      else []) @
     [CTransaction tran]"

text \<open>
  One adjustment of a list. Every one of them creates (the later ones: saves again) the
  transaction of the list.
\<close>

fun adjust_accounts ::
  "env \<Rightarrow> (RequestFrom \<Rightarrow> string) \<Rightarrow> identity \<Rightarrow> RequestFrom \<Rightarrow> Transaction \<Rightarrow> Adj list \<Rightarrow> unit action" where
  "adjust_accounts en RequestFrom_name ident from tran [] = returnA ()"
| "adjust_accounts en RequestFrom_name ident from tran (adj # adjs) =
     bindA (readA (\<lambda>d. find_account d (adj_AccountKey adj) (adj_TeamId adj)))
       (\<lambda>acc. case acc of
          None \<Rightarrow> failA (ErrMsg (''account '' @ adj_AccountKey adj @ '' in team '' @
                     show_nat (adj_TeamId adj) @ '' not found''))
        | Some acc \<Rightarrow>
            if acc_ID acc = 0 then
              failA (ErrMsg (''account '' @ adj_AccountKey adj @ '' in team '' @
                     show_nat (adj_TeamId adj) @ '' not found''))
            else
              thenA (updateA (ensure_adj_account en acc (adj_TeamId adj)))
              (bindA (newTxA en tran
                   [LTags [''adj_from_'' @ RequestFrom_name from], LCustomerService (IdentityID ident)])
                (\<lambda>tran. thenA
                   (entryA en (adj_BookeepingId adj) (IdentityID ident)
                      (adj_calls adj (adj_key (acc_Coa acc)) (acc_Key acc) tran) [])
                   (adjust_accounts en RequestFrom_name ident from tran adjs))))"

definition AccountAdjustment ::
  "env \<Rightarrow> (RequestFrom \<Rightarrow> string) \<Rightarrow> (nat \<Rightarrow> string) \<Rightarrow> identity \<Rightarrow> AccountAdjustmentRequest \<Rightarrow>
   unit option action" where
  "AccountAdjustment en RequestFrom_name uuid ident pay =
     thenA (checkA (HasPermission ident ''accounting/adjustment''
              (request_domain ident (aar_RequestFrom pay) (aar_TeamId pay)) ActCreate))
    (thenA (forA (aar_Adjustments pay) (\<lambda>adjTeam. checkA (check_adjustment pay adjTeam)))
       (OpenTransaction en
         (forA (enumerate 0 (aar_Adjustments pay))
           (\<lambda>(i, adjTeam).
              adjust_accounts en RequestFrom_name ident (aar_RequestFrom pay)
                \<lparr>tx_ID = 0, tx_RefID = NewStringRefID \<lparr>srd_RefType = AdjustmentRef, srd_ID = uuid i\<rparr>,
                 tx_TeamID = aar_TeamId pay, tx_CreatedByID = IdentityID ident, tx_OrderID = None,
                 tx_Desc = at_Description adjTeam, tx_Created = now en\<rparr>
                (at_Adjs adjTeam)))))"

subsection \<open>The order transaction\<close>

record CrossProductAmount =
  cpa_TeamID :: nat
  cpa_Amount :: f64

definition CrossTotal :: "CrossProductAmount list \<Rightarrow> f64" where
  "CrossTotal lst = foldl (\<lambda>total item. total + cpa_Amount item) 0 lst"

record CreateOrderPayload =
  cop_TeamID :: nat
  cop_OwnProductAmount :: f64
  cop_CrossProductAmount :: "CrossProductAmount list"

definition cross_calls :: "CreateOrderPayload \<Rightarrow> nat \<Rightarrow> entry_call list" where
  "cross_calls payload txID =
     (let crossTotal = CrossTotal (cop_CrossProductAmount payload) in
      [FromC StockCrossAccount (cop_TeamID payload) crossTotal] @
      concat (map (\<lambda>cros.
        [ToC PayableAccount (cpa_TeamID cros) (cpa_Amount cros),
         FromC StockReadyAccount (cpa_TeamID cros) (cpa_Amount cros),
         ToC StockCrossReceivableAccount (cpa_TeamID cros) (cpa_Amount cros)]) (cop_CrossProductAmount payload)) @
      [FromC StockCrossAccount (cop_TeamID payload) crossTotal,
       ToC SellingEstReceivableAccount (cop_TeamID payload) crossTotal,
       CTransactionID txID])"

text \<open>
  The error of \<open>Create\<close> is overwritten by that of the first chain, the error of the second
  chain is dropped, and no chain is committed.
\<close>

definition create_order_body :: "env \<Rightarrow> identity \<Rightarrow> CreateOrderPayload \<Rightarrow> nat \<Rightarrow> unit action" where
  "create_order_body en agent payload txID =
     thenA (uncommittedA en (cop_TeamID payload) (GetUserID agent)
              [FromC StockReadyAccount (cop_TeamID payload) (cop_OwnProductAmount payload),
               ToC SellingEstReceivableAccount (cop_TeamID payload) (cop_OwnProductAmount payload),
               CTransactionID txID])
       (whenA (cop_CrossProductAmount payload \<noteq> [])
         (\<lambda>s. case uncommittedA en (cop_TeamID payload) (GetUserID agent) (cross_calls payload txID) s of
            (_, s) \<Rightarrow> (Inr (), s)))"

definition CreateOrder :: "env \<Rightarrow> identity \<Rightarrow> CreateOrderPayload \<Rightarrow> unit option action" where
  "CreateOrder en agent payload =
     OpenTransaction en
       (\<lambda>s. case newTxA en emptyTransaction [] s of
          (r, s) \<Rightarrow> create_order_body en agent payload
             (case r of Inr tran \<Rightarrow> tx_ID tran | Inl _ \<Rightarrow> 0) s)"

end
