(* ===== verification/Revenue.thy ===== *)
theory Revenue
  imports Bookings
begin

section \<open>Revenue\<close>

text \<open>
  \<open>revenue/\<close>: what the orders of a shop book, from creation over funding, withdrawal and
  adjustments to cancellation and return. The requests carry labels and order information as
  pointers: a missing one is \<open>None\<close>, and reading through it panics.
\<close>

subsection \<open>Requests\<close>

record LabelInfo =
  li_ShopId :: nat
  li_CsId :: nat
  li_TypeLabels :: "(LabelKey \<times> string) list"
  li_Tags :: "string list"

record OrderInfo =
  oi_ExternalOrderId :: string
  oi_Receipt :: string
  oi_ParentExternalOrderId :: nat

record BorrowStock =
  bor_TeamId :: nat
  bor_Amount :: f64
  bor_SellAmount :: f64

datatype OrderPaymentMethod =
    ORDER_METHOD_CASH
  | ORDER_METHOD_SHOPEEPAY
  | ORDER_METHOD_OTHER nat

datatype AdditionalPayment =
    FakeOrderPayment OrderPaymentMethod f64
  | SupplierPayment OrderPaymentMethod f64
  | NoPayment

datatype OrderEvent = ORDER_EVENT_CREATED | ORDER_EVENT_OTHER nat

record OnOrderRequest =
  oor_Event :: OrderEvent
  oor_OrderId :: nat
  oor_TeamId :: nat
  oor_WarehouseId :: nat
  oor_OrderInfo :: "OrderInfo option"
  oor_LabelInfo :: "LabelInfo option"
  oor_OwnStockAmount :: f64
  oor_WarehouseFee :: f64
  oor_BorrowStock :: "BorrowStock list"
  oor_IsCustomOrder :: bool
  oor_OrderAmount :: f64
  oor_AdditionalPayment :: AdditionalPayment

subsection \<open>A new order\<close>

definition own_stock_calls :: "nat \<Rightarrow> f64 \<Rightarrow> Transaction \<Rightarrow> entry_call list" where
  "own_stock_calls team amount tran =
     [FromC StockReadyAccount team amount, ToC StockCostAccount team amount, CTransaction tran]"

text \<open>The chain of the warehouse side has no \<open>Commit\<close>.\<close>

definition ownProductStock :: "env \<Rightarrow> identity \<Rightarrow> OnOrderRequest \<Rightarrow> Transaction \<Rightarrow> unit action" where
  "ownProductStock en agent pay tran =
     (if oor_OwnStockAmount pay = 0 then returnA ()
      else thenA (entryA en (oor_TeamId pay) (GetUserID agent)
                    (own_stock_calls (oor_WarehouseId pay) (oor_OwnStockAmount pay) tran) [])
                 (uncommittedA en (oor_WarehouseId pay) (GetUserID agent)
                    (own_stock_calls (oor_TeamId pay) (oor_OwnStockAmount pay) tran)))"

definition createWarehouseFee :: "env \<Rightarrow> identity \<Rightarrow> OnOrderRequest \<Rightarrow> Transaction \<Rightarrow> unit action" where
  "createWarehouseFee en agent pay tran =
     (if oor_WarehouseFee pay = 0 then returnA ()
      else thenA (entryA en (oor_WarehouseId pay) (GetUserID agent)
                    [ToC ServiceRevenueAccount (oor_TeamId pay) (oor_WarehouseFee pay),
                     ToC ReceivableAccount (oor_TeamId pay) (oor_WarehouseFee pay), CTransaction tran] [])
                 (entryA en (oor_TeamId pay) (GetUserID agent)
                    [ToC WarehouseCostAccount (oor_WarehouseId pay) (oor_WarehouseFee pay),
                     ToC PayableAccount (oor_WarehouseId pay) (oor_WarehouseFee pay), CTransaction tran] []))"

definition borrow_stock :: "env \<Rightarrow> identity \<Rightarrow> OnOrderRequest \<Rightarrow> Transaction \<Rightarrow> BorrowStock \<Rightarrow> unit action" where
  "borrow_stock en agent pay tran bor =
     (let desc = EntryDescOption (''cross '' @ tx_Desc tran); team = oor_TeamId pay; ware = oor_WarehouseId pay in
      thenA (entryA en ware (GetUserID agent)
               [FromC StockReadyAccount (bor_TeamId bor) (bor_Amount bor),
                ToC StockToBorrowCostAccount (bor_TeamId bor) (bor_Amount bor), CTransaction tran] [])
     (thenA (entryA en (bor_TeamId bor) (GetUserID agent)
               [CFrom StockReadyAccount ware (bor_Amount bor) [desc],
                CTo StockToBorrowCostAccount ware (bor_Amount bor) [desc],
                CTo BorrowStockRevenueAccount team (bor_SellAmount bor) [desc],
                CTo ReceivableAccount team (bor_SellAmount bor) [desc], CTransaction tran] [])
            (entryA en team (GetUserID agent)
               [ToC StockBorrowCostAccount (bor_TeamId bor) (bor_SellAmount bor),
                ToC PayableAccount (bor_TeamId bor) (bor_SellAmount bor), CTransaction tran] [])))"

definition crossProductStock :: "env \<Rightarrow> identity \<Rightarrow> OnOrderRequest \<Rightarrow> Transaction \<Rightarrow> unit action" where
  "crossProductStock en agent pay tran = forA (oor_BorrowStock pay) (borrow_stock en agent pay tran)"

definition sale_calls :: "nat \<Rightarrow> f64 \<Rightarrow> Transaction \<Rightarrow> entry_call list" where
  "sale_calls team amount tran =
     [ToC SalesRevenueAccount team amount, ToC SellingReceivableAccount team amount, CTransaction tran]"

definition revenueOrder :: "env \<Rightarrow> identity \<Rightarrow> OnOrderRequest \<Rightarrow> Transaction \<Rightarrow> unit action" where
  "revenueOrder en agent pay tran =
     (if oor_IsCustomOrder pay then
        bindA (derefA (oor_OrderInfo pay))
          (\<lambda>info.
             if oi_ParentExternalOrderId info = 0 then returnA ()
             else case oor_AdditionalPayment pay of
               FakeOrderPayment _ amount \<Rightarrow>
                 entryA en (oor_TeamId pay) (GetUserID agent) (sale_calls (oor_TeamId pay) amount tran) []
             | _ \<Rightarrow> returnA ())
      else entryA en (oor_TeamId pay) (GetUserID agent) (sale_calls (oor_TeamId pay) (oor_OrderAmount pay) tran) [])"

definition pay_with :: "OrderPaymentMethod \<Rightarrow> nat \<Rightarrow> f64 \<Rightarrow> err + entry_call" where
  "pay_with m team amount =
     (case m of
        ORDER_METHOD_CASH \<Rightarrow> Inr (FromC CashAccount team amount)
      | ORDER_METHOD_SHOPEEPAY \<Rightarrow> Inr (FromC ShopeepayAccount team amount)
      | ORDER_METHOD_OTHER _ \<Rightarrow> Inl (ErrMsg ''payment method not supported''))"

definition extra_cost ::
  "env \<Rightarrow> identity \<Rightarrow> OnOrderRequest \<Rightarrow> Transaction \<Rightarrow> OrderPaymentMethod \<Rightarrow> AccountKey \<Rightarrow> f64 \<Rightarrow> string \<Rightarrow>
   unit action" where
  "extra_cost en agent pay tran m cost amount desc =
     (case pay_with m (oor_TeamId pay) amount of
        Inl e \<Rightarrow> failA e
      | Inr from \<Rightarrow> entryA en (oor_TeamId pay) (GetUserID agent)
          [from, ToC cost (oor_TeamId pay) amount, CDesc (desc @ tx_Desc tran), CTransaction tran] [])"

definition additionalAmount :: "env \<Rightarrow> identity \<Rightarrow> OnOrderRequest \<Rightarrow> Transaction \<Rightarrow> unit action" where
  "additionalAmount en agent pay tran =
     (case oor_AdditionalPayment pay of
        FakeOrderPayment m amount \<Rightarrow>
          extra_cost en agent pay tran m FakeOrderExpenseAccount amount ''custom cost fake ''
      | SupplierPayment m amount \<Rightarrow>
          extra_cost en agent pay tran m StockCostAccount amount ''custom cost supplier ''
      | NoPayment \<Rightarrow> returnA ())"

definition order_desc :: "OnOrderRequest \<Rightarrow> RefID \<Rightarrow> string" where
  "order_desc pay ref =
     ''order from '' @ ref @
     (case oor_OrderInfo pay of
        None \<Rightarrow> []
      | Some info \<Rightarrow>
          (if oi_ExternalOrderId info \<noteq> [] then '' dengan orderid '' @ oi_ExternalOrderId info else []) @
          (if oi_Receipt info \<noteq> [] then '' dengan resi '' @ oi_Receipt info else []))"

text \<open>The transaction of an order has neither team nor creator.\<close>

definition order_tran :: "env \<Rightarrow> OnOrderRequest \<Rightarrow> Transaction" where
  "order_tran en pay =
     (let ref = NewRefID \<lparr>rd_RefType = OrderRef, rd_ID = oor_OrderId pay\<rparr>
      in \<lparr>tx_ID = 0, tx_RefID = ref, tx_TeamID = 0, tx_CreatedByID = 0,
          tx_OrderID = Some (oor_OrderId pay), tx_Desc = order_desc pay ref, tx_Created = now en\<rparr>)"

definition skip_if_exists :: "'a action \<Rightarrow> 'a action" where
  "skip_if_exists m s =
     (case m s of
        (Inl e, s) \<Rightarrow> (Inl (if e = ErrTransactionAlreadyExist then ErrSkipTransaction else e), s)
      | r \<Rightarrow> r)"

definition order_created :: "env \<Rightarrow> identity \<Rightarrow> OnOrderRequest \<Rightarrow> unit action" where
  "order_created en agent pay =
     bindA (derefA (oor_LabelInfo pay))
       (\<lambda>label. bindA (skip_if_exists (newTxA en (order_tran en pay)
             [LShop (li_ShopId label), LCustomerService (IdentityID agent),
              LTypeLabel (li_TypeLabels label), LTags (li_Tags label)]))
         (\<lambda>tran.
            thenA (createWarehouseFee en agent pay tran)
           (thenA (ownProductStock en agent pay tran)
           (thenA (crossProductStock en agent pay tran)
           (thenA (revenueOrder en agent pay tran)
                  (additionalAmount en agent pay tran))))))"

definition OnOrder :: "env \<Rightarrow> identity \<Rightarrow> OnOrderRequest \<Rightarrow> unit option action" where
  "OnOrder en ident pay =
     thenA (checkA (IdentityErr ident))
       (case oor_Event pay of
          ORDER_EVENT_CREATED \<Rightarrow> OpenTransaction en (order_created en ident pay)
        | ORDER_EVENT_OTHER _ \<Rightarrow> returnA None)"

subsection \<open>Other revenue and other expense\<close>

record OtherRequest =
  otr_TeamId :: nat
  otr_ExternalId :: string
  otr_Desc :: string
  otr_Amount :: f64
  otr_LabelInfo :: "LabelInfo option"

definition order_entity :: string where
  "order_entity = ''db_models.Order''"

text \<open>Both handlers check the right to update orders in the team of the request's source.\<close>

definition source_checked :: "identity \<Rightarrow> err + (RequestFrom \<times> nat) \<Rightarrow> unit action" where
  "source_checked ident source =
     (case source of
        Inl e \<Rightarrow> failA e
      | Inr (from, team) \<Rightarrow>
          checkA (ErrAfterCheck ident order_entity
            (case from of REQUEST_FROM_ADMIN \<Rightarrow> RootDomain ident | _ \<Rightarrow> team) ActUpdate))"

definition labelled_entry ::
  "env \<Rightarrow> identity \<Rightarrow> OtherRequest \<Rightarrow> RefID \<Rightarrow> string \<Rightarrow> (Transaction \<Rightarrow> entry_call list) \<Rightarrow> nat action" where
  "labelled_entry en agent pay ref desc calls =
     thenA (skip_existing ref)
       (bindA (derefA (otr_LabelInfo pay))
         (\<lambda>label. bindA (newTxA en
             \<lparr>tx_ID = 0, tx_RefID = ref, tx_TeamID = otr_TeamId pay, tx_CreatedByID = IdentityID agent,
              tx_OrderID = None, tx_Desc = desc, tx_Created = now en\<rparr>
             [LCustomerService (li_CsId label), LShop (li_ShopId label), LTypeLabel (li_TypeLabels label)])
           (\<lambda>tran. thenA (entryA en (otr_TeamId pay) (IdentityID agent) (calls tran) [])
              (returnA (tx_ID tran)))))"

definition RevenueOther ::
  "env \<Rightarrow> identity \<Rightarrow> err + (RequestFrom \<times> nat) \<Rightarrow> OtherRequest \<Rightarrow> nat option action" where
  "RevenueOther en ident source pay =
     thenA (source_checked ident source)
       (let ref = NewStringRefID \<lparr>srd_RefType = RevenueAdjustmentRef, srd_ID = otr_ExternalId pay\<rparr> in
        OpenTransaction en
          (labelled_entry en ident pay ref (''returning order '' @ ref @ '' '' @ otr_Desc pay)
            (\<lambda>tran. [ToC OtherRevenueAccount (otr_TeamId pay) (otr_Amount pay),
                     ToC CashAccount (otr_TeamId pay) (otr_Amount pay), CTransaction tran])))"

definition SellingExpenseOther ::
  "env \<Rightarrow> identity \<Rightarrow> err + (RequestFrom \<times> nat) \<Rightarrow> OtherRequest \<Rightarrow> nat option action" where
  "SellingExpenseOther en ident source pay =
     thenA (source_checked ident source)
       (let ref = NewStringRefID \<lparr>srd_RefType = SellingExpenseOtherRef, srd_ID = otr_ExternalId pay\<rparr> in
        OpenTransaction en
          (labelled_entry en ident pay ref (otr_Desc pay)
            (\<lambda>tran. [FromC SellingReceivableAccount (otr_TeamId pay) (otr_Amount pay),
                     ToC SellingOtherExpenseAccount (otr_TeamId pay) (otr_Amount pay), CTransaction tran])))"

subsection \<open>Withdrawals and cancelled orders\<close>

definition NewShopDateRefID :: "RefType \<Rightarrow> nat \<Rightarrow> Time \<Rightarrow> RefID" where
  "NewShopDateRefID refType shopID t =
     refType @ ''#'' @ show_nat shopID @ ''#'' @ show_int (Unix t)"

definition checkTxExist :: "RefID \<Rightarrow> db \<Rightarrow> bool" where
  "checkTxExist ref d =
     (case find (\<lambda>r. tx_RefID r = ref) (db_txs d) of Some r \<Rightarrow> tx_ID r \<noteq> 0 | None \<Rightarrow> False)"

text \<open>\<open>if exist { return nil }\<close>\<close>

definition unless_exists :: "RefID \<Rightarrow> 'a option action \<Rightarrow> 'a option action" where
  "unless_exists ref m =
     bindA (readA (checkTxExist ref)) (\<lambda>exist. if exist then returnA None else m)"

record WithdrawalRequest =
  wdr_TeamId :: nat
  wdr_ShopId :: nat
  wdr_At :: Time
  wdr_Desc :: string
  wdr_Amount :: f64

definition withdrawal_calls :: "nat \<Rightarrow> f64 \<Rightarrow> Transaction \<Rightarrow> entry_call list" where
  "withdrawal_calls team amount tran =
     [FromC SellingReceivableAccount team amount, ToC CashAccount team amount, CTransaction tran]"

definition withdraw :: "env \<Rightarrow> nat \<Rightarrow> nat \<Rightarrow> nat \<Rightarrow> RefID \<Rightarrow> string \<Rightarrow> f64 \<Rightarrow> unit action" where
  "withdraw en team user shop ref desc amount =
     bindA (newTxA en
         \<lparr>tx_ID = 0, tx_RefID = ref, tx_TeamID = team, tx_CreatedByID = user, tx_OrderID = None,
          tx_Desc = ref @ '' '' @ desc, tx_Created = now en\<rparr> [LShop shop])
       (\<lambda>tran. entryA en team user (withdrawal_calls team amount tran) [])"

definition Withdrawal :: "env \<Rightarrow> identity \<Rightarrow> WithdrawalRequest \<Rightarrow> unit option action" where
  "Withdrawal en ident pay =
     (let ref = NewShopDateRefID WithdrawalRef (wdr_ShopId pay) (wdr_At pay) in
      thenA (checkA (IdentityErr ident))
        (unless_exists ref
          (OpenTransaction en
            (withdraw en (wdr_TeamId pay) (IdentityID ident) (wdr_ShopId pay) ref (wdr_Desc pay) (wdr_Amount pay)))))"

definition OrderCancel :: "env \<Rightarrow> identity \<Rightarrow> nat \<Rightarrow> nat \<Rightarrow> unit action" where
  "OrderCancel en ident teamID orderID =
     thenA (checkA (HasPermission ident order_entity teamID ActUpdate))
       (transactionA
         (let ref = NewRefID \<lparr>rd_RefType = OrderRef, rd_ID = orderID\<rparr>
          in rollbackA en ref (GetUserID ident) (''cancelling order '' @ ref)))"

subsection \<open>Adjusting the receivable of an order\<close>

datatype ReceivableAdjustmentType =
    ADJUSTMENT_TYPE_RETURN_COST
  | ADJUSTMENT_TYPE_REFUND_LOST
  | ADJUSTMENT_TYPE_CREATED_REVENUE
  | ADJUSTMENT_TYPE_OTHER_COST
  | ADJUSTMENT_TYPE_OTHER_REVENUE
  | ADJUSTMENT_TYPE_CANCEL_RECEIVE
  | ADJUSTMENT_TYPE_ORDER_FUND
  | ADJUSTMENT_TYPE_OTHER nat

record ReceivableRequest =
  rar_TeamId :: nat
  rar_ShopId :: nat
  rar_OrderId :: nat
  rar_AdjRefId :: string
  rar_Desc :: string
  rar_OnlyRollback :: bool
  rar_Type :: ReceivableAdjustmentType
  rar_Amount :: f64

definition cancelReceivable :: "nat \<Rightarrow> f64 \<Rightarrow> err + entry_call list" where
  "cancelReceivable team amount =
     (if amount \<le> 0 then Inl (ErrMsg ''cancel receivable with value negative or zero'')
      else Inr [FromC SellingReceivableAccount team amount, ToC SellingAdjReceivableAccount team amount])"

definition createOtherCost :: "nat \<Rightarrow> f64 \<Rightarrow> err + entry_call list" where
  "createOtherCost team amount =
     (if amount < 0 then Inl (ErrMsg ''other cost with value negative'')
      else Inr [FromC SellingReceivableAccount team amount, ToC SellingOtherExpenseAccount team amount])"

definition createOtherRevenue :: "nat \<Rightarrow> f64 \<Rightarrow> err + entry_call list" where
  "createOtherRevenue team amount =
     (if amount < 0 then Inl (ErrMsg ''other revenue with value negative'')
      else Inr [ToC SellingReceivableAccount team amount, ToC OtherRevenueAccount team amount])"

definition createdReceivableAdjustment :: "nat \<Rightarrow> f64 \<Rightarrow> err + entry_call list" where
  "createdReceivableAdjustment team amount =
     Inr ((if amount < 0 then
             [FromC SellingAdjReceivableAccount team \<bar>amount\<bar>, ToC SellingReceivableAccount team \<bar>amount\<bar>]
           else []) @
          [FromC SellingReceivableAccount team amount, ToC SellingAdjReceivableAccount team amount])"

definition refundLost :: "nat \<Rightarrow> f64 \<Rightarrow> err + entry_call list" where
  "refundLost team amount =
     (if amount < 0 then Inl (ErrMsg ''refund lost with value negative not implemented'')
      else Inr [ToC SellingReceivableAccount team amount, ToC OtherRevenueAccount team amount])"

definition returnCost :: "nat \<Rightarrow> f64 \<Rightarrow> err + entry_call list" where
  "returnCost team amount =
     Inr (if amount < 0 then
            [FromC SellingReceivableAccount team \<bar>amount\<bar>, ToC SellingReturnExpenseAccount team \<bar>amount\<bar>]
          else [ToC OtherRevenueAccount team amount, ToC SellingReceivableAccount team amount])"

definition adjustment_calls ::
  "(ReceivableAdjustmentType \<Rightarrow> string) \<Rightarrow> ReceivableRequest \<Rightarrow> err + entry_call list" where
  "adjustment_calls Type_name pay =
     (let team = rar_TeamId pay; amount = rar_Amount pay in
      case rar_Type pay of
        ADJUSTMENT_TYPE_RETURN_COST \<Rightarrow> returnCost team amount
      | ADJUSTMENT_TYPE_REFUND_LOST \<Rightarrow> refundLost team amount
      | ADJUSTMENT_TYPE_CREATED_REVENUE \<Rightarrow> createdReceivableAdjustment team amount
      | ADJUSTMENT_TYPE_OTHER_COST \<Rightarrow> createOtherCost team amount
      | ADJUSTMENT_TYPE_OTHER_REVENUE \<Rightarrow> createOtherRevenue team amount
      | ADJUSTMENT_TYPE_CANCEL_RECEIVE \<Rightarrow> cancelReceivable team amount
      | ADJUSTMENT_TYPE_ORDER_FUND \<Rightarrow> Inl ErrSkipTransaction
      | ADJUSTMENT_TYPE_OTHER _ \<Rightarrow> Inl (ErrMsg (''unimplemented '' @ Type_name (rar_Type pay))))"

text \<open>
  The transaction of the adjustment: a new one, or the existing one after its entries are rolled
  back, which is a transaction of its own inside this one.
\<close>

definition receivable_tran :: "env \<Rightarrow> identity \<Rightarrow> ReceivableRequest \<Rightarrow> Transaction action" where
  "receivable_tran en agent pay =
     (let ref = NewStringRefID \<lparr>srd_RefType = SellingReceivableRef, srd_ID = rar_AdjRefId pay\<rparr> in
      bindA (readA (\<lambda>d. ByRefID ref d NewTransactionMutation))
        (\<lambda>txmut. case tm_err txmut of
           Some e \<Rightarrow>
             (if e = ErrTransactionNotFound then
                newTxA en
                  \<lparr>tx_ID = 0, tx_RefID = ref, tx_TeamID = rar_TeamId pay, tx_CreatedByID = IdentityID agent,
                   tx_OrderID = Some (rar_OrderId pay), tx_Desc = rar_Desc pay, tx_Created = now en\<rparr>
                  [LCustomerService (IdentityID agent), LShop (rar_ShopId pay)]
              else failA e)
         | None \<Rightarrow>
             thenA (rollbackA en ref (IdentityID agent) (''rollback '' @ rar_Desc pay @ '' with ref '' @ ref))
               (derefA (tm_data txmut))))"

definition receivable_body ::
  "env \<Rightarrow> (ReceivableAdjustmentType \<Rightarrow> string) \<Rightarrow> identity \<Rightarrow> ReceivableRequest \<Rightarrow> unit action" where
  "receivable_body en Type_name agent pay =
     bindA (receivable_tran en agent pay)
       (\<lambda>tran.
          if rar_OnlyRollback pay then returnA ()
          else if rar_Amount pay = 0 then failA (ErrMsg ''amount is zero'')
          else case adjustment_calls Type_name pay of
            Inl e \<Rightarrow> failA e
          | Inr calls \<Rightarrow> entryA en (rar_TeamId pay) (IdentityID agent) (calls @ [CTransaction tran]) [])"

definition SellingReceivableAdjustment ::
  "env \<Rightarrow> (ReceivableAdjustmentType \<Rightarrow> string) \<Rightarrow> identity \<Rightarrow> ReceivableRequest \<Rightarrow> unit option action" where
  "SellingReceivableAdjustment en Type_name ident pay =
     thenA (checkA (IdentityErr ident)) (OpenTransaction en (receivable_body en Type_name ident pay))"

subsection \<open>The stream of the marketplace\<close>

record StreamInit =
  in_Token :: string
  in_ShopId :: nat
  in_TeamId :: nat
  in_UserId :: nat

definition emptyInit :: StreamInit where
  "emptyInit = \<lparr>in_Token = [], in_ShopId = 0, in_TeamId = 0, in_UserId = 0\<rparr>"

record StreamFund =
  sf_OrderId :: string
  sf_Desc :: string
  sf_EstAmount :: f64
  sf_Amount :: f64

record StreamAdjustment =
  sa_OrderId :: string
  sa_At :: Time
  sa_Desc :: string
  sa_Tags :: "string list"
  sa_Source :: nat
  sa_Amount :: f64

record StreamWithdrawal =
  sw_At :: Time
  sw_Desc :: string
  sw_Amount :: f64

definition move_receivable :: "nat \<Rightarrow> f64 \<Rightarrow> entry_call list" where
  "move_receivable team diff =
     (if diff > 0 then
        [FromC SellingReceivableAccount team diff, ToC SellingAdjReceivableAccount team diff]
      else []) @
     (if diff < 0 then
        [ToC SellingReceivableAccount team \<bar>diff\<bar>, FromC SellingAdjReceivableAccount team \<bar>diff\<bar>]
      else [])"

definition fund_calls :: "nat \<Rightarrow> StreamFund \<Rightarrow> entry_call list" where
  "fund_calls team fund =
     (let amount = sf_Amount fund; est = sf_EstAmount fund in
      (if amount < 0 then
         let absAmount = \<bar>amount\<bar> in
         if est = 0 then
           [ToC SellingReturnExpenseAccount team absAmount, FromC SellingAdjReceivableAccount team absAmount]
         else
           [ToC SellingReturnExpenseAccount team absAmount, FromC SellingReceivableAccount team absAmount] @
           move_receivable team (est - absAmount)
       else []) @
      (if amount > 0 then move_receivable team (est - amount) else []))"

definition fund ::
  "env \<Rightarrow> (nat \<Rightarrow> string) \<Rightarrow> nat \<Rightarrow> StreamInit \<Rightarrow> StreamFund \<Rightarrow> unit option action" where
  "fund en RevenueSource_name source_fund init f =
     (if CompareFloatSafe (sf_EstAmount f) (sf_Amount f) PrecisionEpsilon then returnA None
      else
        let ref = NewStringRefID \<lparr>srd_RefType = OrderFundRef, srd_ID = sf_OrderId f\<rparr> in
        unless_exists ref
          (OpenTransaction en
            (bindA (newTxA en
                \<lparr>tx_ID = 0, tx_RefID = ref, tx_TeamID = in_TeamId init, tx_CreatedByID = in_UserId init,
                 tx_OrderID = None, tx_Desc = ref @ '' '' @ sf_Desc f, tx_Created = now en\<rparr>
                [LShop (in_ShopId init),
                 LTypeLabel [(LABEL_KEY_REVENUE_SOURCE, RevenueSource_name source_fund)]])
              (\<lambda>tran. entryA en (in_TeamId init) (in_UserId init)
                 (fund_calls (in_TeamId init) f @ [CTransaction tran]) []))))"

definition stream_withdrawal :: "env \<Rightarrow> StreamInit \<Rightarrow> StreamWithdrawal \<Rightarrow> unit option action" where
  "stream_withdrawal en init wd =
     (let ref = NewShopDateRefID WithdrawalRef (in_ShopId init) (sw_At wd) in
      unless_exists ref
        (OpenTransaction en
          (withdraw en (in_TeamId init) (in_UserId init) (in_ShopId init) ref (sw_Desc wd) \<bar>sw_Amount wd\<bar>)))"

text \<open>\<open>strings.ReplaceAll(s, "-", "")\<close> and \<open>strings.Trim(s, " ")\<close>.\<close>

definition trim_order :: "string \<Rightarrow> string" where
  "trim_order s =
     (let blank = (\<lambda>c. c = CHR '' ''); s = filter (\<lambda>c. c \<noteq> CHR ''-'') s
      in rev (dropWhile blank (rev (dropWhile blank s))))"

definition adjustment_ref :: "StreamInit \<Rightarrow> StreamAdjustment \<Rightarrow> RefID" where
  "adjustment_ref init adj =
     (if trim_order (sa_OrderId adj) \<noteq> [] then
        NewStringRefID \<lparr>srd_RefType = AdjustmentRef, srd_ID = sa_OrderId adj\<rparr>
      else NewShopDateRefID AdjustmentRef (in_ShopId init) (sa_At adj))"

definition stream_adjustment_calls :: "nat \<Rightarrow> f64 \<Rightarrow> entry_call list" where
  "stream_adjustment_calls team amount =
     (if amount > 0 then [ToC OtherRevenueAccount team amount, ToC SellingReceivableAccount team amount] else []) @
     (if amount < 0 then [FromC OtherRevenueAccount team amount, FromC SellingReceivableAccount team amount] else [])"

definition stream_adjustment ::
  "env \<Rightarrow> (nat \<Rightarrow> string) \<Rightarrow> StreamInit \<Rightarrow> StreamAdjustment \<Rightarrow> unit option action" where
  "stream_adjustment en RevenueSource_name init adj =
     (let ref = adjustment_ref init adj in
      unless_exists ref
        (OpenTransaction en
          (bindA (newTxA en
              \<lparr>tx_ID = 0, tx_RefID = ref, tx_TeamID = in_TeamId init, tx_CreatedByID = in_UserId init,
               tx_OrderID = None, tx_Desc = ref @ '' '' @ sa_Desc adj, tx_Created = now en\<rparr>
              [LShop (in_ShopId init), LTags (sa_Tags adj),
               LTypeLabel [(LABEL_KEY_REVENUE_SOURCE, RevenueSource_name (sa_Source adj))]])
            (\<lambda>tran. entryA en (in_TeamId init) (in_UserId init)
               (stream_adjustment_calls (in_TeamId init) (sa_Amount adj) @ [CTransaction tran]) []))))"

datatype StreamKind =
    EvInit StreamInit
  | EvFund StreamFund
  | EvAdjustment StreamAdjustment
  | EvWithdrawal StreamWithdrawal
  | EvOther

text \<open>
  The loop over the messages. \<open>token_err\<close> answers \<open>AuthIdentityFromToken(token).Err()\<close>; a
  message without event panics; \<open>stream_err\<close> is what the stream reports when it ends.
\<close>

fun RevenueStream ::
  "env \<Rightarrow> (nat \<Rightarrow> string) \<Rightarrow> nat \<Rightarrow> (string \<Rightarrow> err option) \<Rightarrow> err option \<Rightarrow> bool \<Rightarrow> StreamInit \<Rightarrow>
   StreamKind option list \<Rightarrow> unit action" where
  "RevenueStream en nm source_fund token_err stream_err isAuth init [] = checkA stream_err"
| "RevenueStream en nm source_fund token_err stream_err isAuth init (msg # msgs) =
     (case msg of
        None \<Rightarrow> failA (Panic ''nil pointer dereference'')
      | Some (EvInit i) \<Rightarrow>
          thenA (checkA (token_err (in_Token i)))
            (RevenueStream en nm source_fund token_err stream_err True i msgs)
      | Some EvOther \<Rightarrow> RevenueStream en nm source_fund token_err stream_err isAuth init msgs
      | Some ev \<Rightarrow>
          if \<not> isAuth then failA (ErrMsg ''not authenticated'')
          else thenA
            (unitA (case ev of
                EvFund f \<Rightarrow> fund en nm source_fund init f
              | EvAdjustment a \<Rightarrow> stream_adjustment en nm init a
              | EvWithdrawal w \<Rightarrow> stream_withdrawal en init w
              | _ \<Rightarrow> returnA None))
            (RevenueStream en nm source_fund token_err stream_err isAuth init msgs))"

subsection \<open>Returns\<close>

record ReturnRequest =
  rtr_TeamId :: nat
  rtr_WarehouseId :: nat
  rtr_OrderId :: nat
  rtr_OrderInfo :: "OrderInfo option"
  rtr_LabelInfo :: "LabelInfo option"
  rtr_StockAmount :: f64

definition return_calls :: "nat \<Rightarrow> f64 \<Rightarrow> Transaction \<Rightarrow> entry_call list" where
  "return_calls team amount tran =
     [FromC StockCostAccount team amount, ToC StockPendingAccount team amount, CTransaction tran]"

definition return_body :: "env \<Rightarrow> identity \<Rightarrow> ReturnRequest \<Rightarrow> string \<Rightarrow> unit action" where
  "return_body en agent pay descLabel =
     (let ref = NewRefID \<lparr>rd_RefType = StockReturnRef, rd_ID = rtr_OrderId pay\<rparr> in
      bindA (derefA (rtr_LabelInfo pay))
        (\<lambda>label. bindA (newTxA en
            \<lparr>tx_ID = 0, tx_RefID = ref, tx_TeamID = rtr_TeamId pay, tx_CreatedByID = IdentityID agent,
             tx_OrderID = None, tx_Desc = ''returning stock '' @ ref @ '' '' @ descLabel, tx_Created = now en\<rparr>
            [LCustomerService (li_CsId label), LShop (li_ShopId label), LTypeLabel (li_TypeLabels label)])
          (\<lambda>tran. thenA
             (entryA en (rtr_TeamId pay) (IdentityID agent)
                (return_calls (rtr_WarehouseId pay) (rtr_StockAmount pay) tran) [])
             (entryA en (rtr_WarehouseId pay) (IdentityID agent)
                (return_calls (rtr_TeamId pay) (rtr_StockAmount pay) tran) []))))"

definition OrderReturn :: "env \<Rightarrow> identity \<Rightarrow> ReturnRequest \<Rightarrow> unit option action" where
  "OrderReturn en ident pay =
     thenA (checkA (IdentityErr ident))
       (bindA (derefA (rtr_OrderInfo pay))
         (\<lambda>info. OpenTransaction en
            (return_body en ident pay
              (''resi: '' @ oi_Receipt info @ '' orderid: '' @ oi_ExternalOrderId info))))"

text \<open>\<open>StockReturn\<close> is the same code for another request type.\<close>

definition StockReturn :: "env \<Rightarrow> identity \<Rightarrow> ReturnRequest \<Rightarrow> unit option action" where
  "StockReturn en ident pay =
     thenA (checkA (IdentityErr ident))
       (bindA (derefA (rtr_OrderInfo pay))
         (\<lambda>info. OpenTransaction en
            (return_body en ident pay
              (''resi: '' @ oi_Receipt info @ '' orderid: '' @ oi_ExternalOrderId info))))"

end
