(* ===== verification/Stock.thy ===== *)
theory Stock
  imports Handler
begin

section \<open>Stock\<close>

text \<open>
  \<open>stock/\<close>: what a selling team and a warehouse team book when goods are ordered, arrive, are
  corrected or move to another warehouse. Both sides book in their own book on accounts of the
  other side. \<open>InboundSource_name\<close> is the generated name table. Counts are the
  \<open>int64\<close> of the messages, far below overflow.
\<close>

record StockItem =
  si_ItemPrice :: f64
  si_Count :: int
  si_ChargeWarehouse :: bool

record StockInfoExtra =
  sx_Receipt :: string
  sx_ExternalOrderId :: string
  sx_CreatedById :: nat
  sx_Tags :: "string list"

datatype InboundSource =
    INBOUND_SOURCE_RESTOCK
  | INBOUND_SOURCE_RETURN
  | INBOUND_SOURCE_TRANSFER
  | INBOUND_SOURCE_OTHER nat

datatype PaymentMethod =
    PAYMENT_METHOD_CASH
  | PAYMENT_METHOD_SHOPEEPAY
  | PAYMENT_METHOD_OTHER nat

definition stock_entity :: string where
  "stock_entity = ''db_models.InvTransaction''"

text \<open>\<open>ItemPrice * float64(Count)\<close> and the sum of it over a list, starting from \<open>start\<close>.\<close>

definition item_amount :: "StockItem \<Rightarrow> f64" where
  "item_amount i = si_ItemPrice i * f64_of (si_Count i)"

definition add_items :: "f64 \<Rightarrow> StockItem list \<Rightarrow> f64" where
  "add_items start items = foldl (\<lambda>t i. t + item_amount i) start items"

subsection \<open>Accepting an inbound\<close>

record InboundAcceptRequest =
  iar_TeamId :: nat
  iar_WarehouseId :: nat
  iar_ExtTxId :: nat
  iar_Source :: InboundSource
  iar_Extras :: "StockInfoExtra option"
  iar_ShippingFee :: f64
  iar_WarehouseCodFee :: f64
  iar_Accepts :: "StockItem list"
  iar_Losts :: "StockItem list"
  iar_Brokens :: "StockItem list"

text \<open>
  The fees per piece. With fees and no pieces Go divides by zero and goes on with an infinite or
  undefined price, which the numbers of this development do not have: \<open>None\<close>.
\<close>

definition extPriceFee :: "InboundAcceptRequest \<Rightarrow> f64 option" where
  "extPriceFee pay =
     (if iar_ShippingFee pay = 0 \<and> iar_WarehouseCodFee pay = 0 then Some 0
      else
        let totalGood = foldl (\<lambda>n i. n + si_Count i) 0 (iar_Accepts pay @ iar_Losts pay @ iar_Brokens pay)
        in f64_div (iar_ShippingFee pay + iar_WarehouseCodFee pay) (f64_of totalGood))"

definition add_items_ext :: "f64 \<Rightarrow> StockItem list \<Rightarrow> f64" where
  "add_items_ext ext items = foldl (\<lambda>t i. t + (si_ItemPrice i + ext) * f64_of (si_Count i)) 0 items"

definition inbound_ref :: "InboundAcceptRequest \<Rightarrow> RefType option" where
  "inbound_ref pay =
     (case iar_Source pay of
        INBOUND_SOURCE_RESTOCK \<Rightarrow> Some StockAcceptRef
      | INBOUND_SOURCE_RETURN \<Rightarrow> Some StockReturnAcceptRef
      | INBOUND_SOURCE_TRANSFER \<Rightarrow> Some StockTransferAcceptRef
      | INBOUND_SOURCE_OTHER _ \<Rightarrow> None)"

definition inbound_desc :: "InboundAcceptRequest \<Rightarrow> RefID \<Rightarrow> string" where
  "inbound_desc pay ref =
     ''stock diterima '' @ ref @
     (case iar_Extras pay of
        None \<Rightarrow> []
      | Some extra \<Rightarrow>
          (if sx_Receipt extra \<noteq> [] then '' dengan resi '' @ sx_Receipt extra else []) @
          (if sx_ExternalOrderId extra \<noteq> [] then '' dengan orderid '' @ sx_ExternalOrderId extra else []))"

text \<open>\<open>pending\<close>, \<open>accept\<close>, \<open>lost\<close>, \<open>broken\<close>; the sum \<open>warehouse_charge\<close> of the source is not used by it.\<close>

record inbound_amounts =
  in_pending :: f64
  in_accept :: f64
  in_lost :: f64
  in_broken :: f64

definition inbound_sums :: "InboundAcceptRequest \<Rightarrow> f64 \<Rightarrow> inbound_amounts" where
  "inbound_sums pay ext =
     \<lparr>in_pending = add_items (add_items (add_items 0 (iar_Accepts pay)) (iar_Losts pay)) (iar_Brokens pay),
      in_accept = add_items_ext ext (iar_Accepts pay),
      in_lost = add_items_ext ext (iar_Losts pay),
      in_broken = add_items_ext ext (iar_Brokens pay)\<rparr>"

text \<open>The goods part of a book; \<open>team\<close> is the other side, whose accounts are used.\<close>

definition goods_calls :: "nat \<Rightarrow> inbound_amounts \<Rightarrow> entry_call list" where
  "goods_calls team am =
     [FromC StockPendingAccount team (in_pending am), ToC StockReadyAccount team (in_accept am)] @
     (if in_broken am > 0 then [ToC StockBrokenAccount team (in_broken am)] else []) @
     (if in_lost am > 0 then [ToC StockLostAccount team (in_lost am)] else [])"

definition inbound_ware_calls :: "InboundAcceptRequest \<Rightarrow> inbound_amounts \<Rightarrow> Transaction \<Rightarrow> entry_call list" where
  "inbound_ware_calls pay am tran =
     (if iar_ShippingFee pay \<noteq> 0 then [FromC StockPendingAccount (iar_TeamId pay) (iar_ShippingFee pay)] else []) @
     (if iar_WarehouseCodFee pay \<noteq> 0 then
        [FromC CashAccount (iar_WarehouseId pay) (iar_WarehouseCodFee pay),
         FromC StockCodFeeAccount (iar_WarehouseId pay) (iar_WarehouseCodFee pay),
         ToC ReceivableAccount (iar_TeamId pay) (iar_WarehouseCodFee pay)]
      else []) @
     goods_calls (iar_TeamId pay) am @ [CTransaction tran]"

definition inbound_sel_calls :: "InboundAcceptRequest \<Rightarrow> inbound_amounts \<Rightarrow> Transaction \<Rightarrow> entry_call list" where
  "inbound_sel_calls pay am tran =
     (if iar_ShippingFee pay \<noteq> 0 then [FromC StockPendingAccount (iar_WarehouseId pay) (iar_ShippingFee pay)] else []) @
     (if iar_WarehouseCodFee pay \<noteq> 0 then [ToC PayableAccount (iar_WarehouseId pay) (iar_WarehouseCodFee pay)]
      else []) @
     goods_calls (iar_WarehouseId pay) am @ [CTransaction tran]"

definition inbound_tran :: "env \<Rightarrow> identity \<Rightarrow> InboundAcceptRequest \<Rightarrow> RefID \<Rightarrow> Transaction" where
  "inbound_tran en agent pay ref =
     \<lparr>tx_ID = 0, tx_RefID = ref, tx_TeamID = iar_TeamId pay, tx_CreatedByID = IdentityID agent,
      tx_OrderID = None, tx_Desc = inbound_desc pay ref, tx_Created = now en\<rparr>"

definition accept_body ::
  "env \<Rightarrow> (InboundSource \<Rightarrow> string) \<Rightarrow> identity \<Rightarrow> InboundAcceptRequest \<Rightarrow> nat action" where
  "accept_body en InboundSource_name agent pay =
     (case inbound_ref pay of
        None \<Rightarrow> failA (ErrMsg (InboundSource_name (iar_Source pay) @ '' not supported''))
      | Some rt \<Rightarrow>
          bindA (newTxA en (inbound_tran en agent pay (NewRefID \<lparr>rd_RefType = rt, rd_ID = iar_ExtTxId pay\<rparr>))
              [LTags (case iar_Extras pay of None \<Rightarrow> [] | Some extra \<Rightarrow> sx_Tags extra),
               LTypeLabel [(LABEL_KEY_WAREHOUSE_TRANSACTION_TYPE, InboundSource_name (iar_Source pay))]])
            (\<lambda>tran.
               case (if iar_Accepts pay @ iar_Losts pay @ iar_Brokens pay = [] then Some 0 else extPriceFee pay) of
                 None \<Rightarrow> failA (Panic ''infinite price: outside the model'')
               | Some ext \<Rightarrow>
                   (let am = inbound_sums pay ext
                    in thenA (entryA en (iar_WarehouseId pay) (IdentityID agent) (inbound_ware_calls pay am tran) [])
                      (thenA (entryA en (iar_TeamId pay) (IdentityID agent) (inbound_sel_calls pay am tran) [])
                        (returnA (tx_ID tran))))))"

definition InboundAccept ::
  "env \<Rightarrow> (InboundSource \<Rightarrow> string) \<Rightarrow> identity \<Rightarrow> InboundAcceptRequest \<Rightarrow> nat option action" where
  "InboundAccept en InboundSource_name ident pay =
     thenA (checkA (HasPermission ident stock_entity (iar_WarehouseId pay) ActUpdate))
       (OpenTransaction en (accept_body en InboundSource_name ident pay))"

subsection \<open>Creating an inbound\<close>

record InboundCreateRequest =
  icr_TeamId :: nat
  icr_WarehouseId :: nat
  icr_ExtTxId :: nat
  icr_Source :: InboundSource
  icr_Extras :: "StockInfoExtra option"
  icr_PaymentMethod :: PaymentMethod
  icr_Products :: "StockItem list"
  icr_ShippingFee :: f64

definition restock_desc :: "InboundCreateRequest \<Rightarrow> RefID \<Rightarrow> string" where
  "restock_desc pay ref =
     (case icr_Extras pay of
        None \<Rightarrow> ''['' @ ref @ ''] restock created''
      | Some extra \<Rightarrow>
          if sx_ExternalOrderId extra \<noteq> [] then ''['' @ ref @ ''] restock for '' @ sx_ExternalOrderId extra
          else if sx_Receipt extra \<noteq> [] then ''['' @ ref @ ''] restock for '' @ sx_Receipt extra
          else [])"

definition method_calls :: "PaymentMethod \<Rightarrow> nat \<Rightarrow> f64 \<Rightarrow> entry_call list" where
  "method_calls m team amount =
     (case m of
        PAYMENT_METHOD_CASH \<Rightarrow> [FromC CashAccount team amount]
      | PAYMENT_METHOD_SHOPEEPAY \<Rightarrow> [FromC ShopeepayAccount team amount]
      | PAYMENT_METHOD_OTHER _ \<Rightarrow> [])"

definition restock_calls :: "InboundCreateRequest \<Rightarrow> Transaction \<Rightarrow> entry_call list" where
  "restock_calls pay tran =
     (let goodAmount = add_items 0 (icr_Products pay); totalAmount = goodAmount + icr_ShippingFee pay
      in method_calls (icr_PaymentMethod pay) (icr_TeamId pay) totalAmount @
         [ToC StockPendingAccount (icr_WarehouseId pay) goodAmount] @
         (if icr_ShippingFee pay > 0 then [ToC StockPendingAccount (icr_WarehouseId pay) (icr_ShippingFee pay)]
          else []) @
         [CTransaction tran])"

definition InboundCreate ::
  "env \<Rightarrow> (InboundSource \<Rightarrow> string) \<Rightarrow> identity \<Rightarrow> InboundCreateRequest \<Rightarrow> nat option action" where
  "InboundCreate en InboundSource_name ident pay =
     thenA (checkA (HasPermission ident stock_entity (icr_TeamId pay) ActCreate))
       (let ref = NewRefID \<lparr>rd_RefType = RestockRef, rd_ID = icr_ExtTxId pay\<rparr> in
        OpenTransaction en
          (bindA (newTxA en
              \<lparr>tx_ID = 0, tx_RefID = ref, tx_TeamID = icr_TeamId pay, tx_CreatedByID = GetUserID ident,
               tx_OrderID = None, tx_Desc = restock_desc pay ref, tx_Created = now en\<rparr>
              ([LTypeLabel [(LABEL_KEY_WAREHOUSE_TRANSACTION_TYPE, InboundSource_name (icr_Source pay))]] @
               (case icr_Extras pay of
                  None \<Rightarrow> []
                | Some extra \<Rightarrow>
                    (if sx_CreatedById extra \<noteq> 0 then [LCustomerService (sx_CreatedById extra)] else []) @
                    (if sx_Tags extra \<noteq> [] then [LTags (sx_Tags extra)] else []))))
            (\<lambda>tran. thenA (entryA en (icr_TeamId pay) (GetUserID ident) (restock_calls pay tran) [])
               (returnA (tx_ID tran)))))"

subsection \<open>Correcting an inbound\<close>

record InboundUpdateRequest =
  iur_TeamId :: nat
  iur_WarehouseId :: nat
  iur_ExtTxId :: nat
  iur_Source :: InboundSource
  iur_PaymentMethod :: PaymentMethod
  iur_Products :: "StockItem list"
  iur_ShippingFee :: f64

definition update_ref :: "InboundUpdateRequest \<Rightarrow> RefType option" where
  "update_ref pay =
     (case iur_Source pay of
        INBOUND_SOURCE_RESTOCK \<Rightarrow> Some RestockRef
      | INBOUND_SOURCE_RETURN \<Rightarrow> Some StockReturnRef
      | _ \<Rightarrow> None)"

text \<open>The entries of the transaction in the team's book, in the order of their ids.\<close>

definition old_entries :: "db \<Rightarrow> nat \<Rightarrow> nat \<Rightarrow> JournalEntry list" where
  "old_entries d team txID =
     sort_key je_ID (filter (\<lambda>e. je_TeamID e = team) (entries_of_tx d txID))"

text \<open>
  The goods: the new products, or else what the old entries had on the pending account. The fee: the
  new one, or else what the old entries had on the same account. \<open>pending_before\<close> is the result
  of \<open>AccountBalanceKey\<close>, whose error the second use drops.
\<close>

definition pending_before :: "env \<Rightarrow> JournalEntry list \<Rightarrow> ChangeBalance \<times> err option" where
  "pending_before en old = AccountBalanceKey (iter en) old StockPendingAccount"

definition update_goods :: "env \<Rightarrow> InboundUpdateRequest \<Rightarrow> JournalEntry list \<Rightarrow> err + f64" where
  "update_goods en pay old =
     (if iur_Products pay \<noteq> [] then Inr (add_items 0 (iur_Products pay))
      else case pending_before en old of (ch, Some e) \<Rightarrow> Inl e | (ch, None) \<Rightarrow> Inr (Change ch))"

definition update_fee :: "env \<Rightarrow> InboundUpdateRequest \<Rightarrow> JournalEntry list \<Rightarrow> f64" where
  "update_fee en pay old =
     (if iur_ShippingFee pay \<noteq> 0 then iur_ShippingFee pay else Change (fst (pending_before en old)))"

definition update_calls ::
  "InboundUpdateRequest \<Rightarrow> f64 \<Rightarrow> f64 \<Rightarrow> Transaction \<Rightarrow> entry_call list" where
  "update_calls pay goods fee tran =
     [ToC StockPendingAccount (iur_WarehouseId pay) goods] @
     (if fee \<noteq> 0 then [ToC StockPendingAccount (iur_WarehouseId pay) fee] else []) @
     method_calls (iur_PaymentMethod pay) (iur_TeamId pay) (if fee \<noteq> 0 then 0 + goods + fee else 0 + goods) @
     [CTransaction tran, CDesc (''update '' @ tx_Desc tran)]"

definition update_body :: "env \<Rightarrow> identity \<Rightarrow> InboundUpdateRequest \<Rightarrow> unit action" where
  "update_body en ident pay =
     (case update_ref pay of
        None \<Rightarrow> failA (ErrMsg ''source not supported for updating inbound'')
      | Some rt \<Rightarrow>
          bindA (readA (\<lambda>d. ByRefID (NewRefID \<lparr>rd_RefType = rt, rd_ID = iur_ExtTxId pay\<rparr>) d NewTransactionMutation))
            (\<lambda>txmut. thenA (checkA (tm_err txmut))
              (case IsExist txmut of
                 Inl e \<Rightarrow> failA e
               | Inr False \<Rightarrow> failA (ErrMsg ''transaction inbound update not found'')
               | Inr True \<Rightarrow>
                   (let tran = the (tm_data txmut) in
                    bindA (readA (\<lambda>d. old_entries d (iur_TeamId pay) (tx_ID tran)))
                      (\<lambda>old. case AccountBalance old of
                         Inl e \<Rightarrow> failA e
                       | Inr mapBalance \<Rightarrow>
                           thenA (entryA en (iur_TeamId pay) (IdentityID ident)
                                    [CRollback mapBalance, CDesc (''update '' @ tx_Desc tran), CTransaction tran]
                                    [RollbackOption])
                             (case update_goods en pay old of
                                Inl e \<Rightarrow> failA e
                              | Inr goods \<Rightarrow>
                                  entryA en (iur_TeamId pay) (IdentityID ident)
                                    (update_calls pay goods (update_fee en pay old) tran) []))))))"

definition InboundUpdate :: "env \<Rightarrow> identity \<Rightarrow> InboundUpdateRequest \<Rightarrow> unit option action" where
  "InboundUpdate en ident pay =
     thenA (checkA (HasPermission ident stock_entity (iur_TeamId pay) ActUpdate))
       (OpenTransaction en (update_body en ident pay))"

subsection \<open>Adjusting the stock\<close>

record StockAdjustmentRequest =
  sar_TeamId :: nat
  sar_WarehouseId :: nat
  sar_ExtTxId :: nat
  sar_Losts :: "StockItem list"
  sar_Brokens :: "StockItem list"

definition charged :: "StockItem list \<Rightarrow> f64" where
  "charged items = add_items 0 (filter si_ChargeWarehouse items)"

text \<open>The goods part, in the book of either side on accounts of the other side \<open>team\<close>.\<close>

definition adjust_goods_calls :: "nat \<Rightarrow> f64 \<Rightarrow> f64 \<Rightarrow> entry_call list" where
  "adjust_goods_calls team lost broken =
     (if broken > 0 then [FromC StockReadyAccount team broken, ToC StockBrokenAccount team broken] else []) @
     (if lost > 0 then [FromC StockReadyAccount team broken, ToC StockLostAccount team broken] else [])"

definition adjust_ware_calls :: "StockAdjustmentRequest \<Rightarrow> Transaction \<Rightarrow> entry_call list" where
  "adjust_ware_calls pay tran =
     (let team = sar_TeamId pay; lostCharge = charged (sar_Losts pay); brokenCharge = charged (sar_Brokens pay) in
      adjust_goods_calls team (add_items 0 (sar_Losts pay)) (add_items 0 (sar_Brokens pay)) @
      (if lostCharge > 0 then [ToC StockLostCostAccount team lostCharge, ToC PayableAccount team lostCharge] else []) @
      (if brokenCharge > 0 then [ToC StockBrokenCostAccount team brokenCharge, ToC PayableAccount team brokenCharge]
       else []) @
      [CTransaction tran])"

definition adjust_sel_calls :: "StockAdjustmentRequest \<Rightarrow> Transaction \<Rightarrow> entry_call list" where
  "adjust_sel_calls pay tran =
     (let ware = sar_WarehouseId pay; lostCharge = charged (sar_Losts pay); brokenCharge = charged (sar_Brokens pay) in
      adjust_goods_calls ware (add_items 0 (sar_Losts pay)) (add_items 0 (sar_Brokens pay)) @
      (if lostCharge > 0 then [FromC StockLostCostAccount ware lostCharge, ToC ReceivableAccount ware lostCharge]
       else []) @
      (if brokenCharge > 0 then
         [FromC StockBrokenCostAccount ware brokenCharge, ToC ReceivableAccount ware brokenCharge]
       else []) @
      [CTransaction tran])"

definition stock_adjustment_tran :: "env \<Rightarrow> identity \<Rightarrow> StockAdjustmentRequest \<Rightarrow> Transaction" where
  "stock_adjustment_tran en agent pay =
     (let ref = NewRefID \<lparr>rd_RefType = StockAdjustmentRef, rd_ID = sar_ExtTxId pay\<rparr>
      in \<lparr>tx_ID = 0, tx_RefID = ref, tx_TeamID = sar_TeamId pay, tx_CreatedByID = IdentityID agent,
          tx_OrderID = None, tx_Desc = ''stock diterima '' @ ref, tx_Created = now en\<rparr>)"

definition adjustment :: "env \<Rightarrow> identity \<Rightarrow> StockAdjustmentRequest \<Rightarrow> unit action" where
  "adjustment en agent pay =
     bindA (newTxA en (stock_adjustment_tran en agent pay) [])
       (\<lambda>tran. thenA (entryA en (sar_WarehouseId pay) (IdentityID agent) (adjust_ware_calls pay tran) [])
          (entryA en (sar_TeamId pay) (IdentityID agent) (adjust_sel_calls pay tran) []))"

definition StockAdjustment :: "env \<Rightarrow> identity \<Rightarrow> StockAdjustmentRequest \<Rightarrow> unit option action" where
  "StockAdjustment en ident pay =
     thenA (checkA (HasPermission ident stock_entity (sar_TeamId pay) ActUpdate))
       (OpenTransaction en (adjustment en ident pay))"

subsection \<open>Transfers between warehouses\<close>

record TransferItem =
  ti_TeamId :: nat
  ti_ItemPrice :: f64
  ti_Count :: int

record TransferRequest =
  twr_FromWarehouseId :: nat
  twr_ToWarehouseId :: nat
  twr_ExtTxId :: nat
  twr_Products :: "TransferItem list"

definition GetTotalAmount :: "TransferItem list \<Rightarrow> f64" where
  "GetTotalAmount l = foldl (\<lambda>amount d. amount + ti_ItemPrice d * f64_of (ti_Count d)) 0 l"

text \<open>\<open>teamProduct\<close>: the products per team; \<open>teamEntries\<close> has the same keys.\<close>

fun team_products :: "(nat \<times> TransferItem list) list \<Rightarrow> TransferItem list \<Rightarrow> (nat \<times> TransferItem list) list" where
  "team_products m [] = m"
| "team_products m (d # ds) =
     (let old = (case map_of m (ti_TeamId d) of Some xs \<Rightarrow> xs | None \<Rightarrow> [])
      in team_products (alist_upd (ti_TeamId d) (old @ [d]) m) ds)"

definition transfer_ref :: "TransferRequest \<Rightarrow> RefID" where
  "transfer_ref pay = NewRefID \<lparr>rd_RefType = StockTransferRef, rd_ID = twr_ExtTxId pay\<rparr>"

definition transfer_team_calls :: "TransferRequest \<Rightarrow> TransferItem list \<Rightarrow> entry_call list" where
  "transfer_team_calls pay products =
     (let totalAmount = GetTotalAmount products
      in [FromC StockReadyAccount (twr_FromWarehouseId pay) totalAmount,
          ToC StockTransferAccount (twr_ToWarehouseId pay) totalAmount])"

definition transfer_ware_calls :: "TransferRequest \<Rightarrow> (nat \<times> TransferItem list) list \<Rightarrow> entry_call list" where
  "transfer_ware_calls pay teams =
     concat (map (\<lambda>(teamID, products).
        [FromC StockReadyAccount teamID (GetTotalAmount products),
         ToC StockTransferAccount (twr_ToWarehouseId pay) (GetTotalAmount products)]) teams)"

definition TransferToWarehouse :: "env \<Rightarrow> identity \<Rightarrow> TransferRequest \<Rightarrow> unit option action" where
  "TransferToWarehouse en ident pay =
     thenA (checkA (HasPermission ident stock_entity (twr_FromWarehouseId pay) ActCreate))
       (OpenTransaction en
         (let teams = range_map (iter en) (team_products [] (twr_Products pay)); ref = transfer_ref pay in
          bindA (newTxA en
              \<lparr>tx_ID = 0, tx_RefID = ref, tx_TeamID = twr_FromWarehouseId pay,
               tx_CreatedByID = IdentityID ident, tx_OrderID = None,
               tx_Desc = ''transfer stock '' @ ref, tx_Created = now en\<rparr> [])
            (\<lambda>tran. thenA
               (entryA en (twr_FromWarehouseId pay) (IdentityID ident)
                  (transfer_ware_calls pay teams @ [CTransaction tran]) [])
               (forA teams (\<lambda>(teamID, products).
                  entryA en teamID (IdentityID ident)
                    (transfer_team_calls pay products @ [CTransaction tran]) [])))))"

definition TransferToWarehouseCancel :: "env \<Rightarrow> identity \<Rightarrow> TransferRequest \<Rightarrow> unit action" where
  "TransferToWarehouseCancel en ident pay =
     thenA (checkA (HasPermission ident stock_entity (twr_FromWarehouseId pay) ActUpdate))
       (transactionA (rollbackA en (transfer_ref pay) (IdentityID ident) (''cancel transfer '' @ transfer_ref pay)))"

definition accept_team_calls :: "TransferRequest \<Rightarrow> TransferItem list \<Rightarrow> entry_call list" where
  "accept_team_calls pay products =
     (let totalAmount = GetTotalAmount products
      in [FromC StockTransferAccount (twr_ToWarehouseId pay) totalAmount,
          ToC StockReadyAccount (twr_ToWarehouseId pay) totalAmount])"

definition accept_ware_calls :: "TransferRequest \<Rightarrow> (nat \<times> TransferItem list) list \<Rightarrow> entry_call list" where
  "accept_ware_calls pay teams =
     concat (map (\<lambda>(teamID, products).
        [FromC StockTransferAccount (twr_FromWarehouseId pay) (GetTotalAmount products),
         ToC StockReadyAccount teamID (GetTotalAmount products)]) teams)"

definition TransferToWarehouseAccept :: "env \<Rightarrow> identity \<Rightarrow> TransferRequest \<Rightarrow> unit option action" where
  "TransferToWarehouseAccept en ident pay =
     thenA (checkA (HasPermission ident stock_entity (twr_FromWarehouseId pay) ActUpdate))
       (OpenTransaction en
         (let teams = range_map (iter en) (team_products [] (twr_Products pay));
              ref = NewRefID \<lparr>rd_RefType = StockTransferAcceptRef, rd_ID = twr_ExtTxId pay\<rparr> in
          bindA (newTxA en
              \<lparr>tx_ID = 0, tx_RefID = ref, tx_TeamID = twr_FromWarehouseId pay,
               tx_CreatedByID = IdentityID ident, tx_OrderID = None,
               tx_Desc = ''accept transfer '' @ ref, tx_Created = now en\<rparr> [])
            (\<lambda>tran. thenA
               (entryA en (twr_ToWarehouseId pay) (IdentityID ident)
                  (accept_ware_calls pay teams @ [CTransaction tran]) [])
               (forA teams (\<lambda>(teamID, products).
                  entryA en teamID (IdentityID ident)
                    (accept_team_calls pay products @
                     [CTransaction tran, CDesc (''accept transfer stock '' @ tx_RefID tran)]) [])))))"

end
