(* ===== verification/Services.thy ===== *)
theory Services
  imports PaymentSpec Revenue Stock
begin

section \<open>The services keep the ledger\<close>

text \<open>
  Every handler made of chains keeps every property of the accounts and the journal that commits of whole
  amounts keep. The requests are those whose booked amounts are whole and at most \<open>2^48\<close>, so that
  the sums of a chain stay exact.
\<close>

definition amount_ok :: "f64 \<Rightarrow> bool" where
  "amount_ok x \<longleftrightarrow> whole x \<and> \<bar>val x\<bar> \<le> 2 ^ 48"

lemma amount_ok_simps [simp]: "amount_ok 0" "amount_ok (- x) \<longleftrightarrow> amount_ok x" "amount_ok \<bar>x\<bar> \<longleftrightarrow> amount_ok x"
proof -
  show m: "amount_ok (- x) \<longleftrightarrow> amount_ok x" by (simp add: amount_ok_def)
  have "\<bar>x\<bar> = x \<or> \<bar>x\<bar> = - x" by (cases "0 < x"; cases "x < 0") (auto simp: val_less val_eq)
  with m show "amount_ok \<bar>x\<bar> \<longleftrightarrow> amount_ok x" by auto
qed (simp add: amount_ok_def)

definition call_ok :: "entry_call \<Rightarrow> bool" where
  "call_ok call \<longleftrightarrow> plain_call call \<and> list_all amount_ok (call_amounts call)"

lemma call_ok_simps [simp]:
  "call_ok (CTo key team x opts) \<longleftrightarrow> list_all source_entry_option opts \<and> amount_ok x"
  "call_ok (CFrom key team x opts) \<longleftrightarrow> list_all source_entry_option opts \<and> amount_ok x"
  "call_ok (CTransaction tran)" "call_ok (CTransactionID i)" "call_ok (CDesc desc)"
  by (simp_all add: call_ok_def)

lemma abs_sum_small: "list_all amount_ok xs \<Longrightarrow> abs_sum xs \<le> of_nat (length xs) * 2 ^ 48"
  by (induction xs) (auto simp: amount_ok_def algebra_simps)

lemma call_amounts_le: "length (concat (map call_amounts calls)) \<le> length calls"
proof (induction calls)
  case (Cons c cs)
  then show ?case by (cases c) auto
qed simp

lemma small_calls:
  assumes "list_all call_ok calls" and "length calls \<le> 32"
  shows "whole_calls calls"
proof -
  let ?xs = "concat (map call_amounts calls)"
  have ok: "list_all amount_ok ?xs" "list_all plain_call calls"
    using assms(1) by (auto simp: call_ok_def list_all_iff)
  have "abs_sum ?xs \<le> of_nat (length ?xs) * 2 ^ 48" using ok(1) by (rule abs_sum_small)
  also have "\<dots> \<le> of_nat 32 * 2 ^ 48"
    using call_amounts_le [of calls] assms(2) by (intro mult_right_mono) (simp_all only: of_nat_le_iff, simp)
  finally have "abs_sum ?xs \<le> 2 ^ 53" by simp
  moreover have "list_all whole ?xs" using ok(1) by (auto simp: amount_ok_def list_all_iff)
  ultimately show ?thesis using ok(2) by (simp add: whole_list_def)
qed

subsection \<open>Requests with whole amounts\<close>

definition order_ok :: "OnOrderRequest \<Rightarrow> bool" where
  "order_ok pay \<longleftrightarrow> amount_ok (oor_OwnStockAmount pay) \<and> amount_ok (oor_WarehouseFee pay) \<and>
     amount_ok (oor_OrderAmount pay) \<and>
     (\<forall>bor \<in> set (oor_BorrowStock pay). amount_ok (bor_Amount bor) \<and> amount_ok (bor_SellAmount bor)) \<and>
     (case oor_AdditionalPayment pay of FakeOrderPayment m x \<Rightarrow> amount_ok x | SupplierPayment m x \<Rightarrow> amount_ok x
      | NoPayment \<Rightarrow> True)"

definition transfer_ok :: "TransferCreateRequest \<Rightarrow> bool" where
  "transfer_ok pay \<longleftrightarrow> amount_ok (tcr_Amount pay) \<and> amount_ok (tcr_FeeAmount pay) \<and>
     amount_ok (tcr_Amount pay + tcr_FeeAmount pay)"

definition fund_ok :: "StreamFund \<Rightarrow> bool" where
  "fund_ok f \<longleftrightarrow> amount_ok (sf_Amount f) \<and> amount_ok (sf_EstAmount f) \<and>
     amount_ok (sf_EstAmount f - sf_Amount f) \<and> amount_ok (sf_EstAmount f - \<bar>sf_Amount f\<bar>)"

definition restock_ok :: "InboundCreateRequest \<Rightarrow> bool" where
  "restock_ok pay \<longleftrightarrow> amount_ok (icr_ShippingFee pay) \<and> amount_ok (add_items 0 (icr_Products pay)) \<and>
     amount_ok (add_items 0 (icr_Products pay) + icr_ShippingFee pay)"

definition inbound_ok :: "InboundAcceptRequest \<Rightarrow> bool" where
  "inbound_ok pay \<longleftrightarrow> amount_ok (iar_ShippingFee pay) \<and> amount_ok (iar_WarehouseCodFee pay) \<and>
     (\<forall>ext \<in> insert 0 (set_option (extPriceFee pay)). let am = inbound_sums pay ext in amount_ok (in_pending am) \<and>
        amount_ok (in_accept am) \<and> amount_ok (in_lost am) \<and> amount_ok (in_broken am))"

definition stock_ok :: "StockAdjustmentRequest \<Rightarrow> bool" where
  "stock_ok pay \<longleftrightarrow> amount_ok (add_items 0 (sar_Losts pay)) \<and> amount_ok (add_items 0 (sar_Brokens pay)) \<and>
     amount_ok (charged (sar_Losts pay)) \<and> amount_ok (charged (sar_Brokens pay))"

definition transfer_stock_ok :: "env \<Rightarrow> TransferRequest \<Rightarrow> bool" where
  "transfer_stock_ok en pay \<longleftrightarrow> (let teams = range_map (iter en) (team_products [] (twr_Products pay)) in
     length teams \<le> 15 \<and> (\<forall>(team, products) \<in> set teams. amount_ok (GetTotalAmount products)))"

subsection \<open>The handlers\<close>

lemma source_options [simp]: "source_option IncludeDebitCreditEqual" "source_option RollbackOption"
  by (auto simp: source_option_def)

lemma move_ok: "amount_ok diff \<Longrightarrow> list_all call_ok (move_receivable team diff) \<and> length (move_receivable team diff) \<le> 2"
  by (cases "0 < diff"; cases "diff < 0") (simp_all add: move_receivable_def val_less)

lemma fund_calls_ok:
  assumes "fund_ok f"
  shows "list_all call_ok (fund_calls team f) \<and> length (fund_calls team f) \<le> 6"
proof -
  define d1 d2 x where "d1 = sf_EstAmount f - sf_Amount f" and "d2 = sf_EstAmount f - \<bar>sf_Amount f\<bar>" and "x = \<bar>sf_Amount f\<bar>"
  have ok: "amount_ok d1" "amount_ok d2" "amount_ok x" using assms by (simp_all only: fund_ok_def d1_def d2_def x_def amount_ok_simps)
  show ?thesis
    unfolding fund_calls_def Let_def d1_def [symmetric] x_def [symmetric] d2_def [unfolded x_def [symmetric], symmetric]
    using move_ok [OF ok(1), of team] move_ok [OF ok(2), of team] ok(3) by auto
qed

lemma goods_ok:
  assumes "amount_ok (in_pending am)" "amount_ok (in_accept am)" "amount_ok (in_lost am)" "amount_ok (in_broken am)"
  shows "list_all call_ok (goods_calls team am) \<and> length (goods_calls team am) \<le> 4"
  using assms by (simp add: goods_calls_def)

lemma inbound_calls_ok:
  assumes "inbound_ok pay" and "ext \<in> insert 0 (set_option (extPriceFee pay))"
  shows "list_all call_ok (inbound_ware_calls pay (inbound_sums pay ext) tran) \<and>
      length (inbound_ware_calls pay (inbound_sums pay ext) tran) \<le> 32"
    and "list_all call_ok (inbound_sel_calls pay (inbound_sums pay ext) tran) \<and>
      length (inbound_sel_calls pay (inbound_sums pay ext) tran) \<le> 32"
proof -
  define am where "am = inbound_sums pay ext"
  have g: "list_all call_ok (goods_calls team am) \<and> length (goods_calls team am) \<le> 4" for team
    using assms by (intro goods_ok) (auto simp: inbound_ok_def am_def Let_def)
  have "amount_ok (iar_ShippingFee pay)" "amount_ok (iar_WarehouseCodFee pay)" using assms(1) by (simp_all add: inbound_ok_def)
  with g [of "iar_TeamId pay"] g [of "iar_WarehouseId pay"]
  show "list_all call_ok (inbound_ware_calls pay (inbound_sums pay ext) tran) \<and>
      length (inbound_ware_calls pay (inbound_sums pay ext) tran) \<le> 32"
    and "list_all call_ok (inbound_sel_calls pay (inbound_sums pay ext) tran) \<and>
      length (inbound_sel_calls pay (inbound_sums pay ext) tran) \<le> 32"
    unfolding am_def [symmetric] by (auto simp: inbound_ware_calls_def inbound_sel_calls_def)
qed

lemma adjust_goods_ok:
  "amount_ok lost \<Longrightarrow> amount_ok broken \<Longrightarrow> list_all call_ok (adjust_goods_calls team lost broken) \<and>
   length (adjust_goods_calls team lost broken) \<le> 4"
  by (simp add: adjust_goods_calls_def)

lemma stock_calls_ok:
  assumes "stock_ok pay"
  shows "list_all call_ok (adjust_ware_calls pay tran) \<and> length (adjust_ware_calls pay tran) \<le> 32"
    and "list_all call_ok (adjust_sel_calls pay tran) \<and> length (adjust_sel_calls pay tran) \<le> 32"
proof -
  from assms have ok: "amount_ok (charged (sar_Losts pay))" "amount_ok (charged (sar_Brokens pay))"
    and g: "list_all call_ok (adjust_goods_calls team (add_items 0 (sar_Losts pay)) (add_items 0 (sar_Brokens pay))) \<and>
      length (adjust_goods_calls team (add_items 0 (sar_Losts pay)) (add_items 0 (sar_Brokens pay))) \<le> 4" for team
    by (simp_all add: stock_ok_def adjust_goods_ok)
  show "list_all call_ok (adjust_ware_calls pay tran) \<and> length (adjust_ware_calls pay tran) \<le> 32"
    using ok g [of "sar_TeamId pay"] by (auto simp: adjust_ware_calls_def Let_def)
  show "list_all call_ok (adjust_sel_calls pay tran) \<and> length (adjust_sel_calls pay tran) \<le> 32"
    using ok g [of "sar_WarehouseId pay"] by (auto simp: adjust_sel_calls_def Let_def)
qed

lemma transfer_calls_ok:
  assumes "\<forall>(team, products) \<in> set teams. amount_ok (GetTotalAmount products)"
  shows "list_all call_ok (transfer_ware_calls pay teams) \<and> length (transfer_ware_calls pay teams) = 2 * length teams"
    and "list_all call_ok (accept_ware_calls pay teams) \<and> length (accept_ware_calls pay teams) = 2 * length teams"
  using assms by (induction teams) (auto simp: transfer_ware_calls_def accept_ware_calls_def)

lemma payment_calls_ok:
  "amount_ok (pm_Amount p) \<Longrightarrow> list_all call_ok (payer_calls p tran) \<and> length (payer_calls p tran) \<le> 32"
  "amount_ok (pm_Amount p) \<Longrightarrow> list_all call_ok (receiver_calls p tran) \<and> length (receiver_calls p tran) \<le> 32"
  by (simp_all add: payer_calls_def receiver_calls_def Let_def)

context ledger_invariant
begin

lemma keeps_small:
  "list_all call_ok calls \<Longrightarrow> length calls \<le> 32 \<Longrightarrow> iter_ok (iter en) \<Longrightarrow> list_all source_option opts \<Longrightarrow>
   keeps Inv (entryA en team user calls opts)"
  by (intro keeps_entry small_calls)

lemma keeps_unit: "keeps Inv m \<Longrightarrow> keeps Inv (unitA m)"
  unfolding unitA_def by (intro keep)

lemmas handler_rules = keeps_unit keeps_small keeps_newTx keeps_uncommitted keeps_update keep

lemma keeps_expense: "iter_ok (iter en) \<Longrightarrow> amount_ok (ecr_Amount pay) \<Longrightarrow> keeps Inv (ExpenseCreate en nm ident pay)"
  by (auto simp: ExpenseCreate_def ExpenseCreateT_def expense_calls_def save_expense_def Let_def intro!: handler_rules)

lemma keeps_skip: "keeps Inv (skip_existing ref)"
  by (auto simp: skip_existing_def intro!: handler_rules split: option.splits)

lemma keeps_ads: "iter_ok (iter en) \<Longrightarrow> amount_ok (adx_Amount pay) \<Longrightarrow> keeps Inv (AdsExCreate en ts ident source pay)"
  by (auto simp: AdsExCreate_def ads_calls_def upsert_tag_def Let_def intro!: keeps_skip handler_rules split: sum.splits)

lemma keeps_save_transfer: "keeps Inv (save_transfer hist)"
  by (rule keepsI) (auto simp: save_transfer_def Let_def split: if_splits intro: frame)

lemma keeps_bank_account: "keeps Inv (first_bank_account i)"
  by (auto simp: first_bank_account_def intro!: handler_rules split: option.splits)

lemma keeps_transfer: "iter_ok (iter en) \<Longrightarrow> transfer_ok pay \<Longrightarrow> keeps Inv (TransferCreate en nm ident pay)"
  by (auto simp: TransferCreate_def transfer_body_def transfer_from_calls_def transfer_to_calls_def transfer_ok_def
      intro!: keeps_save_transfer keeps_bank_account handler_rules)

lemma keeps_fee: "iter_ok (iter en) \<Longrightarrow> order_ok pay \<Longrightarrow> keeps Inv (createWarehouseFee en ident pay tran)"
  by (auto simp: createWarehouseFee_def order_ok_def intro!: handler_rules)

lemma keeps_own: "iter_ok (iter en) \<Longrightarrow> order_ok pay \<Longrightarrow> keeps Inv (ownProductStock en ident pay tran)"
  by (auto simp: ownProductStock_def own_stock_calls_def order_ok_def intro!: handler_rules)

lemma keeps_cross: "iter_ok (iter en) \<Longrightarrow> order_ok pay \<Longrightarrow> keeps Inv (crossProductStock en ident pay tran)"
  by (auto simp: crossProductStock_def borrow_stock_def Let_def order_ok_def intro!: handler_rules)

lemma keeps_revenue: "iter_ok (iter en) \<Longrightarrow> order_ok pay \<Longrightarrow> keeps Inv (revenueOrder en ident pay tran)"
  by (auto simp: revenueOrder_def sale_calls_def order_ok_def intro!: handler_rules split: AdditionalPayment.splits)

lemma keeps_additional: "iter_ok (iter en) \<Longrightarrow> order_ok pay \<Longrightarrow> keeps Inv (additionalAmount en ident pay tran)"
  by (auto simp: additionalAmount_def extra_cost_def pay_with_def order_ok_def intro!: handler_rules
      split: AdditionalPayment.splits OrderPaymentMethod.splits)

lemma keeps_skip_if: "keeps Inv m \<Longrightarrow> keeps Inv (skip_if_exists m)"
  by (rule keepsI) (auto simp: skip_if_exists_def split: prod.splits sum.splits intro: keepsD)

lemma keeps_order: "iter_ok (iter en) \<Longrightarrow> order_ok pay \<Longrightarrow> keeps Inv (OnOrder en ident pay)"
  by (auto simp: OnOrder_def order_created_def split: OrderEvent.splits
      intro!: keeps_fee keeps_own keeps_cross keeps_revenue keeps_additional keeps_skip_if handler_rules)

lemma keeps_labelled:
  "iter_ok (iter en) \<Longrightarrow> (\<And>tran. list_all call_ok (calls tran) \<and> length (calls tran) \<le> 32) \<Longrightarrow>
   keeps Inv (labelled_entry en ident pay ref desc calls)"
  by (auto simp: labelled_entry_def intro!: keeps_skip handler_rules)

lemma keeps_checked_source: "keeps Inv (source_checked ident source)"
  by (auto simp: source_checked_def intro!: handler_rules split: sum.splits)

lemma keeps_other:
  assumes "iter_ok (iter en)" and "amount_ok (otr_Amount pay)"
  shows "keeps Inv (RevenueOther en ident source pay)" and "keeps Inv (SellingExpenseOther en ident source pay)"
  using assms by (auto simp: RevenueOther_def SellingExpenseOther_def Let_def
      intro!: keeps_checked_source keeps_labelled handler_rules)

lemma keeps_unless: "keeps Inv m \<Longrightarrow> keeps Inv (unless_exists ref m)"
  by (auto simp: unless_exists_def intro!: handler_rules)

lemma keeps_withdraw: "iter_ok (iter en) \<Longrightarrow> amount_ok x \<Longrightarrow> keeps Inv (withdraw en team user shop ref desc x)"
  by (auto simp: withdraw_def withdrawal_calls_def intro!: handler_rules)

lemma keeps_withdrawals:
  assumes "iter_ok (iter en)"
  shows "amount_ok (wdr_Amount pay) \<Longrightarrow> keeps Inv (Withdrawal en ident pay)"
    and "amount_ok (sw_Amount wd) \<Longrightarrow> keeps Inv (stream_withdrawal en init wd)"
  using assms by (auto simp: Withdrawal_def stream_withdrawal_def Let_def
      intro!: keeps_unless keeps_withdraw handler_rules)

lemma keeps_fund: "iter_ok (iter en) \<Longrightarrow> fund_ok f \<Longrightarrow> keeps Inv (fund en nm source_fund init f)"
  using fund_calls_ok [of f "in_TeamId init"]
  by (simp add: fund_def Let_def) (auto intro!: keeps_unless handler_rules)

lemma keeps_stream_adjustment:
  "iter_ok (iter en) \<Longrightarrow> amount_ok (sa_Amount adj) \<Longrightarrow> keeps Inv (stream_adjustment en nm init adj)"
  by (auto simp: stream_adjustment_def stream_adjustment_calls_def Let_def intro!: keeps_unless handler_rules)

lemma keeps_goods_return:
  assumes "iter_ok (iter en)" and "amount_ok (rtr_StockAmount pay)"
  shows "keeps Inv (OrderReturn en ident pay)" and "keeps Inv (StockReturn en ident pay)"
  using assms by (auto simp: OrderReturn_def StockReturn_def return_body_def return_calls_def Let_def intro!: handler_rules)

lemma keeps_restock: "iter_ok (iter en) \<Longrightarrow> restock_ok pay \<Longrightarrow> keeps Inv (InboundCreate en nm ident pay)"
  by (auto simp: InboundCreate_def restock_calls_def method_calls_def restock_ok_def Let_def intro!: handler_rules
      split: PaymentMethod.splits)

lemma keeps_inbound:
  assumes "iter_ok (iter en)" and "inbound_ok pay"
  shows "keeps Inv (InboundAccept en nm ident pay)"
proof -
  have e: "keeps Inv (entryA en (iar_WarehouseId pay) (IdentityID ident) (inbound_ware_calls pay (inbound_sums pay ext) tran) [])"
    "keeps Inv (entryA en (iar_TeamId pay) (IdentityID ident) (inbound_sel_calls pay (inbound_sums pay ext) tran) [])"
    if "ext \<in> insert 0 (set_option (extPriceFee pay))" for ext tran
    using inbound_calls_ok [OF assms(2) that] assms(1) by (auto intro!: keeps_small)
  show ?thesis
    by (auto simp: InboundAccept_def accept_body_def Let_def intro!: e handler_rules split: option.splits)
qed

lemma keeps_stock: "iter_ok (iter en) \<Longrightarrow> stock_ok pay \<Longrightarrow> keeps Inv (StockAdjustment en ident pay)"
  using stock_calls_ok [of pay] by (auto simp: StockAdjustment_def adjustment_def intro!: handler_rules)

lemma keeps_for_teams:
  "(\<And>team products. (team, products) \<in> set teams \<Longrightarrow> keeps Inv (m team products)) \<Longrightarrow>
   keeps Inv (forA teams (\<lambda>(team, products). m team products))"
  by (rule keeps_forA) auto

lemma keeps_transfer_stock:
  assumes "iter_ok (iter en)" and "transfer_stock_ok en pay"
  shows "keeps Inv (TransferToWarehouse en ident pay)" and "keeps Inv (TransferToWarehouseAccept en ident pay)"
proof -
  define teams where "teams = range_map (iter en) (team_products [] (twr_Products pay))"
  from assms(2) have n: "length teams \<le> 15" and ok: "\<forall>(team, products) \<in> set teams. amount_ok (GetTotalAmount products)"
    by (simp_all add: transfer_stock_ok_def teams_def Let_def)
  show "keeps Inv (TransferToWarehouse en ident pay)"
    unfolding TransferToWarehouse_def Let_def teams_def [symmetric]
    by (intro keeps_for_teams handler_rules)
       (use transfer_calls_ok(1) [OF ok, of pay] n ok assms(1) in \<open>auto simp: transfer_team_calls_def Let_def\<close>)
  show "keeps Inv (TransferToWarehouseAccept en ident pay)"
    unfolding TransferToWarehouseAccept_def Let_def teams_def [symmetric]
    by (intro keeps_for_teams handler_rules)
       (use transfer_calls_ok(2) [OF ok, of pay] n ok assms(1) in \<open>auto simp: accept_team_calls_def Let_def\<close>)
qed

lemma keeps_create_order: "keeps Inv (CreateOrder en ident pay)"
proof -
  have drop: "keeps Inv (\<lambda>s. case m s of (_, s) \<Rightarrow> (Inr (), s))" if "keeps Inv m" for m :: "unit action"
    using that by (auto intro!: keepsI split: prod.splits dest: keepsD)
  have over: "keeps Inv (\<lambda>s. case m s of (r, s) \<Rightarrow> n r s)" if "keeps Inv m" "\<And>r. keeps Inv (n r)"
    for m :: "Transaction action" and n :: "err + Transaction \<Rightarrow> unit action"
    using keepsD [OF that(2)] keepsD [OF that(1)] by (auto intro!: keepsI split: prod.splits)
  show ?thesis unfolding CreateOrder_def create_order_body_def by (intro drop over handler_rules)
qed

text \<open>A payment of a table in which every amount is whole.\<close>

lemma keeps_book_payment:
  "iter_ok (iter en) \<Longrightarrow> amount_ok (pm_Amount p) \<Longrightarrow> keeps Inv (book_payment en ident i p)"
  using payment_calls_ok [of p]
  by (auto simp: book_payment_def save_payment_def intro!: handler_rules)

lemma payment_accept_keeps:
  assumes "iter_ok (iter en)" and "\<And>p. find_payment (pr_PaymentId pay) (s_db s) = Some p \<Longrightarrow> amount_ok (pm_Amount p)"
    and "PaymentAccept en ident pay s = (r, s')" and "Inv (s_db s)"
  shows "Inv (s_db s')"
proof -
  let ?body = "bindA (first_payment (pr_PaymentId pay))
     (\<lambda>payment. thenA (check_pending (pm_ToTeamID payment = pr_TeamId pay) payment)
        (book_payment en ident (pr_PaymentId pay) payment))"
  from checked_tables [OF assms(3) [unfolded PaymentAccept_def]] show ?thesis
  proof
    assume "OpenTransaction en ?body s = (r, s')"
    from OpenTransaction_tables [OF this] show ?thesis
    proof
      assume "\<exists>x s1. ?body (open_book s) = (Inr x, s1) \<and> s_db s' = s_db s1"
      then obtain p u s1 where p: "find_payment (pr_PaymentId pay) (s_db s) = Some p"
        and b: "book_payment en ident (pr_PaymentId pay) p (open_book s) = (Inr u, s1)" and d: "s_db s' = s_db s1"
        unfolding bindA_Inr thenA_Inr first_payment_Inr check_pending_Inr book_db by blast
      from keepsD [OF keeps_book_payment [OF assms(1) assms(2) [OF p]] b] assms(4) show ?thesis by (simp add: d)
    qed (simp add: assms(4))
  qed (simp add: assms(4))
qed

lemma keeps_old_payment: "iter_ok (iter en) \<Longrightarrow> amount_ok (pp_Amount pay) \<Longrightarrow> keeps Inv (PaymentT en ident pay)"
  by (auto simp: PaymentT_def intro!: handler_rules)

lemma keeps_payment:
  "keeps Inv (PaymentCreate en ident req)" "keeps Inv (PaymentCancel ident pay)" "keeps Inv (PaymentReject ident pay)"
  by (auto simp: PaymentCreate_def PaymentCancel_def PaymentReject_def close_payment_def first_payment_def check_pending_def
      save_payment_def Let_def intro!: handler_rules split: option.splits)

lemma keeps_stream:
  assumes "iter_ok (iter en)"
    and "\<forall>ev. Some ev \<in> set msgs \<longrightarrow> (case ev of EvFund f \<Rightarrow> fund_ok f | EvAdjustment a \<Rightarrow> amount_ok (sa_Amount a)
          | EvWithdrawal w \<Rightarrow> amount_ok (sw_Amount w) | _ \<Rightarrow> True)"
  shows "keeps Inv (RevenueStream en nm source_fund token_err stream_err isAuth init msgs)"
  using assms(2)
proof (induction msgs arbitrary: isAuth init)
  case (Cons msg msgs)
  then have IH: "keeps Inv (RevenueStream en nm source_fund token_err stream_err isAuth init msgs)" for isAuth init by simp
  show ?case
  proof (cases msg)
    case (Some ev)
    with Cons.prems assms(1) IH show ?thesis
      by (cases ev) (auto intro!: keeps_fund keeps_stream_adjustment keeps_withdrawals(2) handler_rules)
  qed (auto intro: keep)
qed (auto intro: keep)

end

text \<open>An adjustment of accounts may create the opposite account: the journal stays.\<close>

lemma keeps_adjust:
  assumes "iter_ok (iter en)" and "list_all (amount_ok \<circ> adj_Amount) adjs"
  shows "keeps trial_balanced (adjust_accounts en nm ident from tran adjs)"
  using assms(2)
proof (induction adjs arbitrary: tran)
  case (Cons adj adjs)
  have upd: "keeps trial_balanced (updateA (ensure_adj_account en acc team))" for acc team
    by (auto intro!: keepsI simp: ensure_adj_account_def save_account_def trial_balanced_def split: if_splits)
  have e: "list_all call_ok (adj_calls adj k1 k2 tran) \<and> length (adj_calls adj k1 k2 tran) \<le> 32" for k1 k2 tran
    using Cons.prems by (auto simp: adj_calls_def val_less)
  show ?case
    using Cons e assms(1) by (auto intro!: upd balanced.handler_rules split: option.splits)
qed (simp add: keep)

definition adjustments_ok :: "AccountAdjustmentRequest \<Rightarrow> bool" where
  "adjustments_ok pay \<longleftrightarrow> (\<forall>team \<in> set (aar_Adjustments pay). list_all (amount_ok \<circ> adj_Amount) (at_Adjs team))"

lemma keeps_account_adjustment:
  assumes "iter_ok (iter en)" and "adjustments_ok pay"
  shows "keeps trial_balanced (AccountAdjustment en nm uuid ident pay)"
  unfolding AccountAdjustment_def using assms
  by (intro keep) (auto simp: adjustments_ok_def in_set_enumerate_eq intro!: keeps_adjust)

subsection \<open>Any sequence of requests\<close>

text \<open>One request to one of the services, whatever its outcome.\<close>

inductive service_step :: "session \<Rightarrow> session \<Rightarrow> bool" where
  expense: "ExpenseCreate en nm ident ex s = (r, s') \<Longrightarrow> iter_ok (iter en) \<Longrightarrow> amount_ok (ecr_Amount ex) \<Longrightarrow> service_step s s'"
| ads: "AdsExCreate en ts ident source ad s = (r1, s') \<Longrightarrow> iter_ok (iter en) \<Longrightarrow> amount_ok (adx_Amount ad) \<Longrightarrow> service_step s s'"
| bank_transfer: "TransferCreate en nm ident tc s = (r2, s') \<Longrightarrow> iter_ok (iter en) \<Longrightarrow> transfer_ok tc \<Longrightarrow> service_step s s'"
| account_adjustment: "AccountAdjustment en nm1 uuid ident aa s = (r2, s') \<Longrightarrow> iter_ok (iter en) \<Longrightarrow> adjustments_ok aa \<Longrightarrow>
    service_step s s'"
| order: "OnOrder en ident oo s = (r2, s') \<Longrightarrow> iter_ok (iter en) \<Longrightarrow> order_ok oo \<Longrightarrow> service_step s s'"
| revenue_other: "RevenueOther en ident src ot s = (r1, s') \<Longrightarrow> iter_ok (iter en) \<Longrightarrow> amount_ok (otr_Amount ot) \<Longrightarrow>
    service_step s s'"
| expense_other: "SellingExpenseOther en ident src ot s = (r1, s') \<Longrightarrow> iter_ok (iter en) \<Longrightarrow> amount_ok (otr_Amount ot) \<Longrightarrow>
    service_step s s'"
| withdrawal: "Withdrawal en ident wd s = (r2, s') \<Longrightarrow> iter_ok (iter en) \<Longrightarrow> amount_ok (wdr_Amount wd) \<Longrightarrow> service_step s s'"
| stream: "RevenueStream en nm n tok serr isAuth init msgs s = (r, s') \<Longrightarrow> iter_ok (iter en) \<Longrightarrow>
    (\<And>ev. Some ev \<in> set msgs \<Longrightarrow> (case ev of EvFund f \<Rightarrow> fund_ok f | EvAdjustment a \<Rightarrow> amount_ok (sa_Amount a)
       | EvWithdrawal w \<Rightarrow> amount_ok (sw_Amount w) | _ \<Rightarrow> True)) \<Longrightarrow> service_step s s'"
| order_return: "OrderReturn en ident rt s = (r2, s') \<Longrightarrow> iter_ok (iter en) \<Longrightarrow> amount_ok (rtr_StockAmount rt) \<Longrightarrow> service_step s s'"
| stock_return: "StockReturn en ident rt s = (r2, s') \<Longrightarrow> iter_ok (iter en) \<Longrightarrow> amount_ok (rtr_StockAmount rt) \<Longrightarrow> service_step s s'"
| restock: "InboundCreate en nm2 ident ic s = (r1, s') \<Longrightarrow> iter_ok (iter en) \<Longrightarrow> restock_ok ic \<Longrightarrow> service_step s s'"
| inbound: "InboundAccept en nm2 ident ia s = (r1, s') \<Longrightarrow> iter_ok (iter en) \<Longrightarrow> inbound_ok ia \<Longrightarrow> service_step s s'"
| stock_adjustment: "StockAdjustment en ident sa s = (r2, s') \<Longrightarrow> iter_ok (iter en) \<Longrightarrow> stock_ok sa \<Longrightarrow> service_step s s'"
| stock_transfer: "TransferToWarehouse en ident tw s = (r2, s') \<Longrightarrow> iter_ok (iter en) \<Longrightarrow> transfer_stock_ok en tw \<Longrightarrow>
    service_step s s'"
| stock_transfer_accept: "TransferToWarehouseAccept en ident tw s = (r2, s') \<Longrightarrow> iter_ok (iter en) \<Longrightarrow>
    transfer_stock_ok en tw \<Longrightarrow> service_step s s'"
| create_order: "CreateOrder en ident co s = (r2, s') \<Longrightarrow> service_step s s'"
| old_payment: "PaymentT en ident op s = (r2, s') \<Longrightarrow> iter_ok (iter en) \<Longrightarrow> amount_ok (pp_Amount op) \<Longrightarrow> service_step s s'"
| payment_create: "PaymentCreate en ident pc s = (r3, s') \<Longrightarrow> service_step s s'"
| payment_accept: "PaymentAccept en ident pr s = (r2, s') \<Longrightarrow> iter_ok (iter en) \<Longrightarrow>
    (\<And>p. find_payment (pr_PaymentId pr) (s_db s) = Some p \<Longrightarrow> amount_ok (pm_Amount p)) \<Longrightarrow> service_step s s'"
| payment_cancel: "PaymentCancel ident pr s = (r, s') \<Longrightarrow> service_step s s'"
| payment_reject: "PaymentReject ident pr s = (r, s') \<Longrightarrow> service_step s s'"

lemma service_step_balanced:
  assumes "service_step s s'" and "trial_balanced (s_db s)"
  shows "trial_balanced (s_db s')"
  using assms(1)
proof cases
  case expense
  then show ?thesis using assms(2) balanced.keeps_expense [THEN keepsD] by blast
next
  case ads
  then show ?thesis using assms(2) balanced.keeps_ads [THEN keepsD] by blast
next
  case bank_transfer
  then show ?thesis using assms(2) balanced.keeps_transfer [THEN keepsD] by blast
next
  case account_adjustment
  then show ?thesis using assms(2) keeps_account_adjustment [THEN keepsD] by blast
next
  case order
  then show ?thesis using assms(2) balanced.keeps_order [THEN keepsD] by blast
next
  case revenue_other
  then show ?thesis using assms(2) balanced.keeps_other(1) [THEN keepsD] by blast
next
  case expense_other
  then show ?thesis using assms(2) balanced.keeps_other(2) [THEN keepsD] by blast
next
  case withdrawal
  then show ?thesis using assms(2) balanced.keeps_withdrawals(1) [THEN keepsD] by blast
next
  case stream
  then show ?thesis using assms(2) balanced.keeps_stream [THEN keepsD] by blast
next
  case order_return
  then show ?thesis using assms(2) balanced.keeps_goods_return(1) [THEN keepsD] by blast
next
  case stock_return
  then show ?thesis using assms(2) balanced.keeps_goods_return(2) [THEN keepsD] by blast
next
  case restock
  then show ?thesis using assms(2) balanced.keeps_restock [THEN keepsD] by blast
next
  case inbound
  then show ?thesis using assms(2) balanced.keeps_inbound [THEN keepsD] by blast
next
  case stock_adjustment
  then show ?thesis using assms(2) balanced.keeps_stock [THEN keepsD] by blast
next
  case stock_transfer
  then show ?thesis using assms(2) balanced.keeps_transfer_stock(1) [THEN keepsD] by blast
next
  case stock_transfer_accept
  then show ?thesis using assms(2) balanced.keeps_transfer_stock(2) [THEN keepsD] by blast
next
  case create_order
  then show ?thesis using assms(2) balanced.keeps_create_order [THEN keepsD] by blast
next
  case old_payment
  then show ?thesis using assms(2) balanced.keeps_old_payment [THEN keepsD] by blast
next
  case payment_create
  then show ?thesis using assms(2) balanced.keeps_payment(1) [THEN keepsD] by blast
next
  case payment_accept
  then show ?thesis using assms(2) balanced.payment_accept_keeps by blast
next
  case payment_cancel
  then show ?thesis using assms(2) balanced.keeps_payment(2) [THEN keepsD] by blast
next
  case payment_reject
  then show ?thesis using assms(2) balanced.keeps_payment(3) [THEN keepsD] by blast
qed




end
