(* ===== verification/Outcomes.thy ===== *)
theory Outcomes
  imports Effects
begin

section \<open>Handlers that refuse and handlers that succeed\<close>

text \<open>
  The error \<open>ErrSkipTransaction\<close> makes a transaction end without an error. No chain answers with it, so
  a handler that fails in a chain makes its service fail, with the tables as before. A handler succeeds when its chains
  are balanced, post on typed accounts and leave no account at zero.
\<close>

subsection \<open>Chains never skip\<close>
text \<open>No chain answers with the error that makes a transaction skip.\<close>

definition noskip :: "createEntry \<Rightarrow> bool" where
  "noskip c \<longleftrightarrow> ce_err c \<noteq> Some ErrSkipTransaction"

lemma noskip_simps [simp]: "noskip (newCreateEntry team user)" "noskip (mergeEntry k je c) = noskip c"
  "noskip (on_entries f c) = noskip c" "noskip (c\<lparr>ce_entries := es\<rparr>) = noskip c" "noskip (c\<lparr>ce_accountMap := m\<rparr>) = noskip c"
  "e \<noteq> ErrSkipTransaction \<Longrightarrow> noskip c \<Longrightarrow> noskip (ce_setErr e c)"
  by (auto simp: noskip_def newCreateEntry_def ce_setErr_def)

lemma source_entry_options: "list_all source_entry_option opts \<Longrightarrow> run_entry_options opts e \<noteq> Inl err"
  by (induction opts arbitrary: e) (auto simp: source_entry_option_def EntryDescOption_def)

lemma SetAmountEntry_noskip: "SetAmountEntry a x e \<noteq> Inl ErrSkipTransaction"
  by (auto simp: SetAmountEntry_def Let_def split: if_splits)

lemma ToE_noskip: "list_all source_entry_option opts \<Longrightarrow> noskip c \<Longrightarrow> noskip (ToE d acc x opts c)"
  using source_entry_options [of opts]
  by (auto simp: ToE_def getAccount_def split: option.splits sum.splits if_splits)
     (metis SetAmountEntry_noskip noskip_simps(5,6))

lemma run_call_noskip: "plain_call call \<Longrightarrow> noskip c \<Longrightarrow> noskip (run_call en d call c)"
  by (cases call) (simp_all add: FromE_def ToE_noskip TransactionE_def TransactionIDE_def DescE_def)

lemma chain_noskip: "list_all plain_call calls \<Longrightarrow> noskip (chain_of en d team user calls)"
proof -
  have "list_all plain_call calls \<Longrightarrow> noskip c \<Longrightarrow> noskip (run_calls en d calls c)" for c
    by (induction calls arbitrary: c) (simp_all add: run_calls_def run_call_noskip)
  then show "list_all plain_call calls \<Longrightarrow> ?thesis" by (simp add: chain_of_def)
qed

lemma entryA_noskip:
  assumes "list_all plain_call calls" and "list_all source_option opts" and "entryA en team user calls opts s = (Inl e, s')"
  shows "e \<noteq> ErrSkipTransaction"
proof -
  let ?c = "chain_of en (s_db s) team user calls"
  obtain incl f where p: "plain_opts opts incl f" using source_plain [OF assms(2)] by blast
  have l: "commit_loop en c opts kes st \<noteq> (Some e, st')" for c kes st e st'
    using p by (induction kes arbitrary: st) (auto simp: commit_prepare_def plain_opts_def Let_def)
  have "noskip (fst (Commit en opts ?c s))"
    using chain_noskip [OF assms(1), of en "s_db s" team user]
    by (auto simp: Commit_def Let_def l split: option.splits prod.splits)
  with assms(3) show ?thesis
    by (auto simp: entryA_chain commitA_def noskip_def split: prod.splits option.splits)
qed

lemma tx_noskip:
  assumes "ct_err c \<noteq> Some ErrSkipTransaction"
  shows "ct_err (fst (AddTypeLabel ls c s)) \<noteq> Some ErrSkipTransaction"
    and "ct_err (fst (AddTags en ts c s)) \<noteq> Some ErrSkipTransaction"
    and "ct_err (fst (AddShopID en i c s)) \<noteq> Some ErrSkipTransaction"
proof -
  have tags: "create_tags en known ns tags d = Inl e \<Longrightarrow> e \<noteq> ErrSkipTransaction" for known ns tags d e
    by (induction en known ns tags d rule: create_tags.induct) (auto simp: Let_def split: if_splits)
  have t: "ct_err (fst (AddTags en ts c s)) \<noteq> Some ErrSkipTransaction" if "ct_err c \<noteq> Some ErrSkipTransaction" for ts c s
    using that by (auto simp: AddTags_def Let_def ct_setErr_def dest: tags split: sum.splits prod.splits)
  have l: "ct_err (fst (AddTypeLabel ls c s)) \<noteq> Some ErrSkipTransaction" if "ct_err c \<noteq> Some ErrSkipTransaction" for ls c s
    using that by (auto simp: AddTypeLabel_def ct_setErr_def)
  have "ct_err (fst (case AddTypeLabel ls c s of (c, s) \<Rightarrow> AddTags en ts c s)) \<noteq> Some ErrSkipTransaction" for ls s ts
    using l [OF assms, of ls s] t by (cases "AddTypeLabel ls c s") simp
  then show "ct_err (fst (AddShopID en i c s)) \<noteq> Some ErrSkipTransaction"
    using assms by (simp add: AddShopID_def Let_def ct_setErr_def split: option.splits)
  show "ct_err (fst (AddTypeLabel ls c s)) \<noteq> Some ErrSkipTransaction"
    and "ct_err (fst (AddTags en ts c s)) \<noteq> Some ErrSkipTransaction"
    using l t assms by simp_all
qed

lemma run_tx_call_noskip:
  "ct_err c \<noteq> Some ErrSkipTransaction \<Longrightarrow> ct_err (fst (run_tx_call en call c s)) \<noteq> Some ErrSkipTransaction"
  by (cases call) (simp_all add: tx_noskip AddCustomerServiceID_def AddSupplierID_def ct_setErr_def)

lemma run_tx_calls_noskip:
  "ct_err c \<noteq> Some ErrSkipTransaction \<Longrightarrow> ct_err (fst (run_tx_calls en calls c s)) \<noteq> Some ErrSkipTransaction"
proof (induction en calls c s rule: run_tx_calls.induct)
  case (2 en f fs c s)
  then show ?case using run_tx_call_noskip [of c en f s] by (cases "run_tx_call en f c s") simp
qed simp

lemma newTxA_noskip: "newTxA en tran calls s = (Inl e, s') \<Longrightarrow> e \<noteq> ErrSkipTransaction"
proof -
  obtain c1 s1 where n: "NewTransaction s = (c1, s1)" "ct_err c1 = None" by (simp add: NewTransaction_def)
  obtain tran2 c2 s2 where c: "CreateT en tran c1 s1 = (tran2, c2, s2)" by (cases "CreateT en tran c1 s1")
  obtain c3 s3 where l: "run_tx_calls en calls c2 s2 = (c3, s3)" by (cases "run_tx_calls en calls c2 s2")
  have "ct_err c2 \<noteq> Some ErrSkipTransaction"
    using c n(2) by (auto simp: CreateT_def save_tx_def ct_setErr_def Let_def split: if_splits)
  then have "ct_err c3 \<noteq> Some ErrSkipTransaction" using run_tx_calls_noskip [of c2 en calls s2] l by simp
  then show "newTxA en tran calls s = (Inl e, s') \<Longrightarrow> e \<noteq> ErrSkipTransaction"
    by (auto simp: newTxA_def n(1) c l split: option.splits)
qed

subsection \<open>Creating a transaction\<close>

lemma labels_entries: "s_entries (snd (AddTypeLabel ls c s)) = s_entries s" "s_entries (snd (AddTags en ts c s)) = s_entries s"
  by (auto simp: AddTypeLabel_def AddTags_def on_db_def on_labels_def Let_def split: sum.splits prod.splits)

lemma shop_entries: "s_entries (snd (AddShopID en i c s)) = s_entries s"
proof -
  have t: "AddTypeLabel ls c s0 = (c1, s1) \<Longrightarrow> s_entries s1 = s_entries s0" for ls s0 c1 s1
    using labels_entries(1) [of ls c s0] by simp
  show ?thesis
    by (auto simp: AddShopID_def Let_def labels_entries on_labels_def on_db_def split: option.splits prod.splits dest!: t)
qed

lemma run_tx_calls_entries: "s_entries (snd (run_tx_calls en calls c s)) = s_entries s"
proof (induction en calls c s rule: run_tx_calls.induct)
  case (2 en f fs c s)
  have "s_entries (snd (run_tx_call en f c s)) = s_entries s"
  proof (cases f)
    case (LShop i)
    then show ?thesis by (simp add: shop_entries)
  qed (simp_all add: labels_entries AddCustomerServiceID_def AddSupplierID_def on_labels_def on_db_def)
  with 2 show ?case by (cases "run_tx_call en f c s") simp
qed simp

lemma newTxA_entries: "newTxA en tran calls s = (r, s') \<Longrightarrow> s_entries s' = s_entries s"
proof -
  obtain c1 s1 where n: "NewTransaction s = (c1, s1)" "s_entries s1 = s_entries s" by (simp add: NewTransaction_def)
  obtain tran2 c2 s2 where c: "CreateT en tran c1 s1 = (tran2, c2, s2)" by (cases "CreateT en tran c1 s1")
  obtain c3 s3 where l: "run_tx_calls en calls c2 s2 = (c3, s3)" by (cases "run_tx_calls en calls c2 s2")
  have "s_entries (snd (snd (CreateT en tran c1 s1))) = s_entries s1"
    by (auto simp: CreateT_def Let_def split: sum.splits prod.splits)
  then have "s_entries s3 = s_entries s" using run_tx_calls_entries [of en calls c2 s2] n c l by simp
  moreover assume "newTxA en tran calls s = (r, s')"
  ultimately show ?thesis by (simp add: newTxA_def n(1) c l split: option.splits)
qed

lemma run_tx_calls_txs: "db_txs (s_db (snd (run_tx_calls en calls c s))) = db_txs (s_db s)"
proof (induction en calls c s rule: run_tx_calls.induct)
  case (2 en f fs c s)
  have l: "db_txs (s_db (snd (AddTypeLabel ls c s))) = db_txs (s_db s)" for ls c s
    by (simp add: AddTypeLabel_def on_db_def frame)
  have t: "db_txs (s_db (snd (AddTags en ts c s))) = db_txs (s_db s)" for ts c s
    by (auto simp: AddTags_def on_labels_def Let_def split: sum.splits prod.splits dest: create_tags_frame)
  have l': "AddTypeLabel ls c s0 = (c1, s1) \<Longrightarrow> db_txs (s_db s1) = db_txs (s_db s0)" for ls c s0 c1 s1
    using l [of ls c s0] by simp
  have "db_txs (s_db (snd (run_tx_call en f c s))) = db_txs (s_db s)"
  proof (cases f)
    case (LShop i)
    then show ?thesis
      by (auto simp: AddShopID_def t on_labels_def on_db_def Let_def split: option.splits prod.splits dest!: l')
  qed (simp_all add: l t AddCustomerServiceID_def AddSupplierID_def on_labels_def on_db_def)
  with 2 show ?case by (cases "run_tx_call en f c s") simp
qed simp

lemma run_tx_calls_latched: "ct_err c = Some e \<Longrightarrow> ct_err (fst (run_tx_calls en calls c s)) = Some e"
proof (induction en calls c s rule: run_tx_calls.induct)
  case (2 en f fs c s)
  have "ct_err (fst (run_tx_call en f c s)) = Some e" using 2(2) by (cases f) simp_all
  with 2(1) show ?case by (cases "run_tx_call en f c s") simp
qed simp

lemma create_tags_shops: "create_tags en known ns tags d = Inr (tags', d') \<Longrightarrow> db_marketplaces d' = db_marketplaces d"
  by (induction en known ns tags d rule: create_tags.induct) (auto simp: Let_def split: if_splits)

lemma run_tx_calls_shops: "db_marketplaces (s_db (snd (run_tx_calls en calls c s))) = db_marketplaces (s_db s)"
proof (induction en calls c s rule: run_tx_calls.induct)
  case (2 en f fs c s)
  have tl: "db_marketplaces (type_label_loop i ls d) = db_marketplaces d" for i ls d
    by (induction i ls d rule: type_label_loop.induct) (simp_all add: Let_def split: option.splits)
  then have l: "db_marketplaces (s_db (snd (AddTypeLabel ls c s))) = db_marketplaces (s_db s)" for ls c s
    by (simp add: AddTypeLabel_def on_db_def)
  have t: "db_marketplaces (s_db (snd (AddTags en ts c s))) = db_marketplaces (s_db s)" for ts c s
    by (auto simp: AddTags_def on_labels_def Let_def split: sum.splits prod.splits dest: create_tags_shops)
  have l': "AddTypeLabel ls c s0 = (c1, s1) \<Longrightarrow> db_marketplaces (s_db s1) = db_marketplaces (s_db s0)" for ls c s0 c1 s1
    using l [of ls c s0] by simp
  have "db_marketplaces (s_db (snd (run_tx_call en f c s))) = db_marketplaces (s_db s)"
  proof (cases f)
    case (LShop i)
    then show ?thesis
      by (auto simp: AddShopID_def t on_labels_def on_db_def Let_def split: option.splits prod.splits dest!: l')
  qed (simp_all add: l t AddCustomerServiceID_def AddSupplierID_def on_labels_def on_db_def)
  with 2 show ?case by (cases "run_tx_call en f c s") simp
qed simp

lemma newTxA_shops:
  assumes "newTxA en tx calls s = (Inr tran, s')"
  shows "db_marketplaces (s_db s') = db_marketplaces (s_db s)"
proof -
  obtain c1 s1 where n: "NewTransaction s = (c1, s1)" "s_db s1 = s_db s" by (simp add: NewTransaction_def)
  obtain tran2 c2 s2 where c: "CreateT en tx c1 s1 = (tran2, c2, s2)" by (cases "CreateT en tx c1 s1")
  obtain c3 s3 where l: "run_tx_calls en calls c2 s2 = (c3, s3)" by (cases "run_tx_calls en calls c2 s2")
  have "db_marketplaces (s_db s2) = db_marketplaces (s_db s)"
    using c n(2) by (auto simp: CreateT_def save_tx_def Let_def split: if_splits)
  with assms run_tx_calls_shops [of en calls c2 s2] show ?thesis
    by (auto simp: newTxA_def n(1) c l split: option.splits)
qed

text \<open>A transaction that was created is the last row.\<close>

lemma newTxA_row:
  assumes "newTxA en tx calls s = (Inr tran, s')" and "tx_ID tx = 0"
  shows "tx_RefID tran = tx_RefID tx \<and> tx_ID tran \<noteq> 0 \<and> db_txs (s_db s') = db_txs (s_db s) @ [tran] \<and>
    (\<forall>r \<in> set (db_txs (s_db s)). tx_RefID r = tx_RefID tx \<longrightarrow> tx_ID r = 0)"
proof -
  obtain c1 s1 where n: "NewTransaction s = (c1, s1)" "s_db s1 = s_db s" "ct_err c1 = None" by (simp add: NewTransaction_def)
  obtain tran2 c2 s2 where c: "CreateT en tx c1 s1 = (tran2, c2, s2)" by (cases "CreateT en tx c1 s1")
  obtain c3 s3 where l: "run_tx_calls en calls c2 s2 = (c3, s3)" by (cases "run_tx_calls en calls c2 s2")
  have r: "tran = tran2" "ct_err c3 = None" "s' = s3"
    using assms(1) by (auto simp: newTxA_def n(1) c l split: option.splits)
  have "ct_err c2 = None" using run_tx_calls_latched [of c2 _ en calls s2] r(2) l by (cases "ct_err c2") auto
  with c n(2,3) assms(2) have "tx_RefID tran2 = tx_RefID tx \<and> tx_ID tran2 \<noteq> 0 \<and> db_txs (s_db s2) = db_txs (s_db s) @ [tran2] \<and>
    (\<forall>r \<in> set (db_txs (s_db s)). tx_RefID r = tx_RefID tx \<longrightarrow> tx_ID r = 0)"
    by (auto simp: CreateT_def save_tx_def Let_def ct_setErr_def split: if_splits)
  with r run_tx_calls_txs [of en calls c2 s2] l show ?thesis by simp
qed

text \<open>Labels that cannot fail: a known shop, and at most one tag at a time.\<close>

fun label_ok :: "(nat \<times> string) list \<Rightarrow> tx_call \<Rightarrow> bool" where
  "label_ok shops (LShop i) \<longleftrightarrow> i \<noteq> 0 \<and> map_of shops i \<noteq> None"
| "label_ok shops (LTags ts) \<longleftrightarrow> length ts \<le> 1"
| "label_ok shops call \<longleftrightarrow> True"

lemma AddTypeLabel_runs:
  "\<not> isTransactionEmpty c \<Longrightarrow> \<exists>s'. AddTypeLabel ls c s = (c, s') \<and> db_marketplaces (s_db s') = db_marketplaces (s_db s)"
proof -
  have "db_marketplaces (type_label_loop i ls d) = db_marketplaces d" for i d
    by (induction i ls d rule: type_label_loop.induct) (simp_all add: Let_def split: option.splits)
  then show "\<not> isTransactionEmpty c \<Longrightarrow> ?thesis" by (simp add: AddTypeLabel_def on_db_def)
qed

lemma AddTags_runs:
  assumes "\<not> isTransactionEmpty c" and "length ts \<le> 1"
  shows "\<exists>s'. AddTags en ts c s = (c, s') \<and> db_marketplaces (s_db s') = db_marketplaces (s_db s)"
proof (cases ts)
  case (Cons t us)
  with assms have ts: "ts = [t]" by simp
  show ?thesis
    using assms(1) unfolding ts
    by (cases "\<exists>r \<in> set (db_tags (s_db s)). tag_Name r = SanityTag t")
       (auto simp: AddTags_def Let_def on_labels_def SanityTag_idem image_iff)
qed (use assms in \<open>simp add: AddTags_def\<close>)

lemma AddShopID_runs:
  assumes "\<not> isTransactionEmpty c" and "i \<noteq> 0" and "map_of (db_marketplaces (s_db s)) i = Some mp"
  shows "\<exists>s'. AddShopID en i c s = (c, s') \<and> db_marketplaces (s_db s') = db_marketplaces (s_db s)"
proof -
  let ?s1 = "on_labels (\<lambda>l. l\<lparr>le_ShopID := i\<rparr>) c
    (on_db (\<lambda>d. d\<lparr>db_tx_shops := save_rel (tran_ID c, i) (db_tx_shops d)\<rparr>) s)"
  obtain s2 where s2: "AddTypeLabel [(LABEL_KEY_MARKETPLACE, MarketplaceType_name en (mp_source en mp))] c ?s1 = (c, s2)"
    "db_marketplaces (s_db s2) = db_marketplaces (s_db ?s1)"
    using AddTypeLabel_runs [OF assms(1)] by blast
  obtain s3 where "AddTags en [mp] c s2 = (c, s3)" "db_marketplaces (s_db s3) = db_marketplaces (s_db s2)"
    using AddTags_runs [OF assms(1), of "[mp]"] by auto
  with s2 assms show ?thesis by (simp add: AddShopID_def Let_def on_labels_def on_db_def)
qed

lemma run_tx_calls_run:
  assumes "\<not> isTransactionEmpty c" and "list_all (label_ok (db_marketplaces (s_db s))) calls"
  shows "\<exists>s'. run_tx_calls en calls c s = (c, s')"
  using assms(2)
proof (induction calls arbitrary: s)
  case (Cons f fs)
  have "\<exists>s'. run_tx_call en f c s = (c, s') \<and> db_marketplaces (s_db s') = db_marketplaces (s_db s)"
    using Cons.prems assms(1) AddTypeLabel_runs AddTags_runs AddShopID_runs
    by (cases f) (auto simp: AddCustomerServiceID_def AddSupplierID_def on_labels_def on_db_def)
  then obtain s1 where "run_tx_call en f c s = (c, s1)" "db_marketplaces (s_db s1) = db_marketplaces (s_db s)" by blast
  with Cons.prems Cons.IH [of s1] show ?case by simp
qed simp

lemma newTxA_runs:
  assumes "tx_ID tx = 0" and "\<not> IsZero (tx_Created tx)" and "\<forall>r \<in> set (db_txs (s_db s)). tx_RefID r \<noteq> tx_RefID tx"
    and "list_all (label_ok (db_marketplaces (s_db s))) calls"
  shows "\<exists>tran s'. newTxA en tx calls s = (Inr tran, s')"
proof -
  let ?t = "tx\<lparr>tx_ID := Suc (db_seq (s_db s))\<rparr>" and ?d = "s_db s"
  let ?c = "\<lparr>ct_err = None, ct_tran = Some ?t, ct_cell = length (s_cells s)\<rparr>"
  let ?s = "s\<lparr>s_cells := s_cells s @ [emptyLabel], s_db := ?d\<lparr>db_seq := tx_ID ?t, db_txs := db_txs ?d @ [?t]\<rparr>,
        s_labels := Some (length (s_cells s))\<rparr>"
  have sv: "save_tx en tx ?d = Inr (?t, ?d\<lparr>db_seq := Suc (db_seq ?d), db_txs := db_txs ?d @ [?t]\<rparr>)"
    using assms(1,3) by (auto simp: save_tx_def Let_def)
  obtain s' where "run_tx_calls en calls ?c ?s = (?c, s')"
    using run_tx_calls_run [of ?c ?s calls en] assms(4) by (auto simp: isTransactionEmpty_def)
  with sv assms(2) show ?thesis by (simp add: newTxA_def NewTransaction_def CreateT_def Let_def)
qed

subsection \<open>Refused\<close>

definition refused :: "'a action \<Rightarrow> session \<Rightarrow> bool" where
  "refused m s \<longleftrightarrow> (\<exists>e s'. m s = (Inl e, s') \<and> e \<noteq> ErrSkipTransaction)"

lemma refused_fail [simp]: "refused (failA e) s \<longleftrightarrow> e \<noteq> ErrSkipTransaction"
  by (simp add: refused_def)

lemma refused_bind: "refused m s \<Longrightarrow> refused (bindA m f) s"
  unfolding refused_def bindA_Inl by blast

lemma refused_then: "refused m s \<Longrightarrow> refused (thenA m n) s"
  unfolding thenA_def by (rule refused_bind)

text \<open>A chain with a call that cannot be booked.\<close>

lemma refused_entry:
  assumes "whole_calls calls" and "iter_ok (iter en)" and "list_all source_option opts"
    and "\<not> list_all (valid_call (db_accounts (s_db s))) calls"
  shows "refused (entryA en team user calls opts) s"
proof -
  from entryA_invalid [OF assms, where team = team and user = user]
  obtain e s' where e: "entryA en team user calls opts s = (Inl e, s')" by blast
  moreover have "e \<noteq> ErrSkipTransaction" using assms(1) entryA_noskip [OF _ assms(3) e] by (simp add: whole_calls_def)
  ultimately show ?thesis by (auto simp: refused_def)
qed

lemma refused_newTx:
  assumes "\<And>tran s1. core (s_db s1) = core (s_db s) \<Longrightarrow> refused (f tran) s1"
  shows "refused (bindA (newTxA en tx labels) f) s"
proof -
  obtain r s1 where n: "newTxA en tx labels s = (r, s1)" by (cases "newTxA en tx labels s")
  show ?thesis
  proof (cases r)
    case (Inl e)
    with n newTxA_noskip [OF n [unfolded Inl]] show ?thesis unfolding refused_def bindA_Inl by blast
  next
    case (Inr tran)
    with n assms [OF newTxA_core [OF n], of tran] show ?thesis unfolding refused_def bindA_Inl by blast
  qed
qed

lemma refused_handler:
  assumes "refused h (open_book s)"
  shows "\<exists>e s'. thenA (checkA eo) (OpenTransaction en h) s = (Inl e, s') \<and> s_db s' = s_db s"
proof -
  from assms obtain e s1 where "h (open_book s) = (Inl e, s1)" "e \<noteq> ErrSkipTransaction" by (auto simp: refused_def)
  from OpenTransaction_fails [of h, OF this, of en] show ?thesis
    by (cases eo) (auto simp: thenA_def checkA_def)
qed

subsection \<open>Succeeding\<close>

text \<open>\<open>b\<close> tells that the book is not empty.\<close>

definition ready :: "Account list \<Rightarrow> Transaction list \<Rightarrow> bool \<Rightarrow> session \<Rightarrow> bool" where
  "ready acs txs b s \<longleftrightarrow> db_accounts (s_db s) = acs \<and> db_txs (s_db s) = txs \<and> (\<forall>e \<in> set (s_entries s). je_ID e \<noteq> 0) \<and> (b \<longrightarrow> s_entries s \<noteq> [])"

definition succeeds :: "Account list \<Rightarrow> Transaction list \<Rightarrow> bool \<Rightarrow> 'a action \<Rightarrow> bool \<Rightarrow> bool" where
  "succeeds acs txs b m b' \<longleftrightarrow> (\<forall>s. ready acs txs b s \<longrightarrow> (\<exists>x s'. m s = (Inr x, s') \<and> ready acs txs b' s'))"

lemma succeeds_return: "succeeds acs txs b (returnA x) b"
  by (simp add: succeeds_def)

lemma succeeds_update:
  "(\<And>d. db_accounts (f d) = db_accounts d \<and> db_txs (f d) = db_txs d) \<Longrightarrow> succeeds acs txs b (updateA f) b"
  by (auto simp: succeeds_def updateA_def ready_def)

lemma succeeds_bind: "succeeds acs txs b m b' \<Longrightarrow> (\<And>x. succeeds acs txs b' (f x) b'') \<Longrightarrow> succeeds acs txs b (bindA m f) b''"
  unfolding succeeds_def bindA_Inr by blast

lemma succeeds_then: "succeeds acs txs b m b' \<Longrightarrow> succeeds acs txs b' n b'' \<Longrightarrow> succeeds acs txs b (thenA m n) b''"
  unfolding thenA_def by (rule succeeds_bind)

lemma succeeds_for: "(\<And>x. x \<in> set xs \<Longrightarrow> succeeds acs txs True (m x) True) \<Longrightarrow> succeeds acs txs True (forA xs m) True"
  by (induction xs) (auto intro: succeeds_return succeeds_bind)

lemma succeeds_entry:
  assumes "whole_calls calls" and "iter_ok (iter en)" and "list_all source_option opts"
    and "list_all (valid_call acs) calls" and "calls \<noteq> []" and "is_post (hd calls)"
    and "posted_total acs calls = 0"
    and "\<forall>call \<in> set calls. \<forall>k v. posting acs call = Some (k, v) \<longrightarrow> posted acs calls k \<noteq> 0"
  shows "succeeds acs txs b (entryA en team user calls opts) True"
  unfolding succeeds_def
proof (intro allI impI)
  fix s assume r: "ready acs txs b s"
  then have a: "db_accounts (s_db s) = acs" by (simp add: ready_def)
  from entryA_commits [OF assms(1-3), of s team user] assms(4-8) a obtain s' es rows
    where "entryA en team user calls opts s = (Inr (), s')"
      and "s' = s\<lparr>s_db := insert_rows rows (s_db s), s_entries := s_entries s @ es\<rparr>" "es \<noteq> []" "\<forall>e \<in> set es. je_ID e \<noteq> 0"
    by blast
  with r show "\<exists>x s'. entryA en team user calls opts s = (Inr x, s') \<and> ready acs txs True s'"
    by (auto simp: ready_def)
qed

lemma posted_none:
  "(\<And>c. c \<in> set cs \<Longrightarrow> posting acs c = None) \<Longrightarrow> posted acs cs a = 0"
  "(\<And>c. c \<in> set cs \<Longrightarrow> posting acs c = None) \<Longrightarrow> posted_total acs cs = 0"
  by (induction cs) simp_all

text \<open>A chain that moves an amount from one account to another.\<close>

lemma succeeds_move:
  assumes "posting acs c1 = Some (i, - v)" and "posting acs c2 = Some (j, v)" and "i \<noteq> j" and "v \<noteq> 0"
    and "list_all (valid_call acs) [c1, c2]" and "list_all (\<lambda>c. plain_call c \<and> \<not> is_post c) marks"
    and "list_all plain_call [c1, c2]" and "whole_calls [c1, c2]" and "iter_ok (iter en)" and "is_post c1"
    and "list_all source_option opts"
  shows "succeeds acs txs b (entryA en team user (c1 # c2 # marks) opts) True"
proof -
  have mark: "posting acs c = None" "valid_call acs c" "call_amounts c = []" "plain_call c" if "c \<in> set marks" for c
    using assms(6) that mark_posting [of c acs] unfolding list_all_iff is_post_def by blast+
  have v: "list_all (valid_call acs) marks" and pl: "list_all plain_call marks" unfolding list_all_iff using mark by blast+
  note none = posted_none [of marks acs, OF mark(1)]
  show ?thesis
  proof (rule succeeds_entry)
    show "whole_calls (c1 # c2 # marks)"
    proof -
      have eq: "concat (map call_amounts (c1 # c2 # marks)) = concat (map call_amounts [c1, c2])" using mark(3) by simp
      show ?thesis using assms(7,8) pl unfolding whole_calls_def eq by auto
    qed
    show "\<forall>call \<in> set (c1 # c2 # marks). \<forall>k v. posting acs call = Some (k, v) \<longrightarrow> posted acs (c1 # c2 # marks) k \<noteq> 0"
    proof (intro ballI allI impI)
      fix call k v' assume "call \<in> set (c1 # c2 # marks)" and q: "posting acs call = Some (k, v')"
      then have "call = c1 \<or> call = c2" using mark(1) by force
      with q assms(1-4) show "posted acs (c1 # c2 # marks) k \<noteq> 0" by (elim disjE) (simp_all add: none)
    qed
    show "list_all (valid_call acs) (c1 # c2 # marks)" and "posted_total acs (c1 # c2 # marks) = 0"
      using assms(1,2,5) v none by simp_all
  qed (simp_all add: assms(9-11))
qed

lemma succeeds_debits:
  assumes "debit_account acs k1 t1 i" and "debit_account acs k2 t2 j" and "i \<noteq> j" and "x \<noteq> 0" and "whole x"
    and "\<bar>val x\<bar> \<le> 2 ^ 52" and "list_all (\<lambda>c. plain_call c \<and> \<not> is_post c) marks" and "iter_ok (iter en)"
    and "list_all source_option opts"
  shows "succeeds acs txs b (entryA en team user (FromC k1 t1 x # ToC k2 t2 x # marks) opts) True"
proof (rule succeeds_move)
  show "posting acs (FromC k1 t1 x) = Some (i, - val x)" and "posting acs (ToC k2 t2 x) = Some (j, val x)"
    by (rule debit_posting(2) [OF assms(1)] debit_posting(1) [OF assms(2)])+
  show "val x \<noteq> 0" using assms(4) by (simp add: val_eq)
  show "list_all (valid_call acs) [FromC k1 t1 x, ToC k2 t2 x]"
    using debit_posting(4) [OF assms(1), of x "[]"] debit_posting(3) [OF assms(2), of x "[]"] assms(4)
    by (simp del: valid_call.simps)
  show "whole_calls [FromC k1 t1 x, ToC k2 t2 x]" using assms(5,6) by (simp add: whole_list_Cons)
qed (use assms in \<open>simp_all add: is_post_def\<close>)

lemma mark_simps [simp]: "is_post (CTransaction tran) = False" "is_post (CDesc desc) = False"
  by (simp_all add: is_post_def)

lemma ready_newTx:
  assumes "tx_ID tx = 0" and "\<not> IsZero (tx_Created tx)" and "\<forall>r \<in> set (db_txs (s_db s)). tx_RefID r \<noteq> tx_RefID tx"
    and "list_all (label_ok (db_marketplaces (s_db s))) calls" and "s_entries s = []"
  shows "\<exists>tran s' txs. newTxA en tx calls s = (Inr tran, s') \<and> ready (db_accounts (s_db s)) txs False s' \<and>
    map tx_RefID txs = map tx_RefID (db_txs (s_db s)) @ [tx_RefID tx]"
proof -
  from newTxA_runs [OF assms(1-4)] obtain tran s' where n: "newTxA en tx calls s = (Inr tran, s')" by blast
  from newTxA_core [OF n] newTxA_entries [OF n] newTxA_row [OF n assms(1)] assms(5) n show ?thesis
    by (intro exI [of _ tran] exI [of _ s'] exI [of _ "db_txs (s_db s')"]) (simp add: ready_def core_def)
qed

lemma ready_transaction:
  assumes "h (open_book s) = (Inr x, s1)" and "ready acs txs True s1" and "accepting en"
  shows "\<exists>s'. OpenTransaction en h s = (Inr (Some x), s') \<and> db_accounts (s_db s') = acs \<and> db_txs (s_db s') = txs"
proof -
  from OpenTransaction_runs [of h, OF assms(1), of en] assms(2,3)
  obtain s' where run: "OpenTransaction en h s = (Inr (Some x), s')" unfolding ready_def by blast
  from OpenTransaction_Some_db [OF this] obtain s2 where "h (open_book s) = (Inr x, s2)" "s_db s' = s_db s2" by blast
  with assms(1,2) run show ?thesis by (simp add: ready_def)
qed

lemma transaction_succeeds:
  assumes "tx_ID tx = 0" and "\<not> IsZero (tx_Created tx)" and "\<forall>r \<in> set (db_txs (s_db s)). tx_RefID r \<noteq> tx_RefID tx"
    and "list_all (label_ok (db_marketplaces (s_db s))) calls"
    and "\<And>tran txs. succeeds (db_accounts (s_db s)) txs False (f tran) True" and "accepting en"
  shows "\<exists>x s'. OpenTransaction en (bindA (newTxA en tx calls) f) s = (Inr (Some x), s') \<and>
    db_accounts (s_db s') = db_accounts (s_db s) \<and> map tx_RefID (db_txs (s_db s')) = map tx_RefID (db_txs (s_db s)) @ [tx_RefID tx]"
proof -
  from ready_newTx [OF assms(1,2), of "open_book s" calls en] assms(3,4) obtain tran s1 txs
    where n: "newTxA en tx calls (open_book s) = (Inr tran, s1)" and r: "ready (db_accounts (s_db s)) txs False s1"
      and txs: "map tx_RefID txs = map tx_RefID (db_txs (s_db s)) @ [tx_RefID tx]" by auto
  from assms(5) [of txs tran] r obtain x s2 where "f tran s1 = (Inr x, s2)" and s2: "ready (db_accounts (s_db s)) txs True s2"
    unfolding succeeds_def by blast
  with n have "bindA (newTxA en tx calls) f (open_book s) = (Inr x, s2)" unfolding bindA_Inr by blast
  from ready_transaction [where h = "bindA (newTxA en tx calls) f", OF this s2 assms(6)] txs show ?thesis by auto
qed

end
