(* ===== verification/StockSpec.thy ===== *)
theory StockSpec
  imports Services Outcomes
begin

section \<open>Stock: properties\<close>

text \<open>
  What moving stock between warehouses leaves in the books of its owners, and the requests the
  stock handlers cannot book.
\<close>

subsection \<open>Moving stock\<close>

definition team_share :: "nat \<Rightarrow> TransferRequest \<Rightarrow> TransferItem list" where
  "team_share t pay = filter (\<lambda>d. ti_TeamId d = t) (twr_Products pay)"

lemma team_products_lookup:
  "map_of (team_products m ds) t =
     (case map_of m t of
        Some xs \<Rightarrow> Some (xs @ filter (\<lambda>d. ti_TeamId d = t) ds)
      | None \<Rightarrow> if \<exists>d \<in> set ds. ti_TeamId d = t then Some (filter (\<lambda>d. ti_TeamId d = t) ds) else None)"
proof (induction m ds rule: team_products.induct)
  case (1 m)
  then show ?case by (simp split: option.splits)
next
  case (2 m d ds)
  then show ?case
    by (cases "ti_TeamId d = t"; cases "map_of m t")
       (simp_all add: Let_def map_of_alist_upd split: option.splits)
qed

lemma team_products_distinct: "distinct (map fst m) \<Longrightarrow> distinct (map fst (team_products m ds))"
  by (induction m ds rule: team_products.induct) (simp_all add: Let_def distinct_alist_upd)

lemma books_all_teams:
  assumes "distinct (map fst teams)"
  shows "books_all (map (\<lambda>(team, ps). in_book team (g ps)) teams) t a =
    (case map_of teams t of Some ps \<Rightarrow> g ps a | None \<Rightarrow> 0)"
  using assms
proof (induction teams)
  case (Cons p teams)
  obtain u ps where p: "p = (u, ps)" by (cases p)
  with Cons.prems have "map_of teams u = None" by (simp add: map_of_eq_None_iff)
  with Cons p show ?case by (simp add: booked_simps)
qed (simp add: booked_simps)

text \<open>The accounts a team uses when its goods move between the two warehouses.\<close>

definition transfer_accounts :: "Account list \<Rightarrow> TransferRequest \<Rightarrow> nat \<Rightarrow> nat \<Rightarrow> nat \<Rightarrow> bool" where
  "transfer_accounts acs pay from_ready transit to_ready \<longleftrightarrow>
     debit_account acs StockReadyAccount (twr_FromWarehouseId pay) from_ready \<and>
     debit_account acs StockTransferAccount (twr_ToWarehouseId pay) transit \<and>
     debit_account acs StockReadyAccount (twr_ToWarehouseId pay) to_ready"

lemma books_for_teams [book]:
  "(\<And>team ps. (team, ps) \<in> set teams \<Longrightarrow> books acs (f team ps) (m team ps)) \<Longrightarrow>
   books acs (books_all (map (\<lambda>(team, ps). f team ps) teams)) (forA teams (\<lambda>(team, ps). m team ps))"
  using books_for [of teams acs "\<lambda>(team, ps). f team ps" "\<lambda>(team, ps). m team ps"] by auto

lemma team_chains:
  assumes "transfer_accounts acs pay fr tr rt"
  shows "posted acs (transfer_team_calls pay ps @ [CTransaction tran]) a =
      amounts_on [(fr, - val (GetTotalAmount ps)), (tr, val (GetTotalAmount ps))] a"
    and "posted acs (accept_team_calls pay ps @ [CTransaction tran, CDesc desc]) a =
      amounts_on [(tr, - val (GetTotalAmount ps)), (rt, val (GetTotalAmount ps))] a"
proof -
  from assms have ds: "debit_account acs StockReadyAccount (twr_FromWarehouseId pay) fr"
    "debit_account acs StockTransferAccount (twr_ToWarehouseId pay) tr"
    "debit_account acs StockReadyAccount (twr_ToWarehouseId pay) rt" by (simp_all add: transfer_accounts_def)
  note ps = ds [THEN debit_posting(1)] ds [THEN debit_posting(2)]
  show "posted acs (transfer_team_calls pay ps @ [CTransaction tran]) a =
      amounts_on [(fr, - val (GetTotalAmount ps)), (tr, val (GetTotalAmount ps))] a"
    by (simp add: transfer_team_calls_def Let_def ps del: posting.simps(1,2))
  show "posted acs (accept_team_calls pay ps @ [CTransaction tran, CDesc desc]) a =
      amounts_on [(tr, - val (GetTotalAmount ps)), (rt, val (GetTotalAmount ps))] a"
    by (simp add: accept_team_calls_def Let_def ps del: posting.simps(1,2))
qed

definition teams_of :: "env \<Rightarrow> TransferRequest \<Rightarrow> (nat \<times> TransferItem list) list" where
  "teams_of en pay = range_map (iter en) (team_products [] (twr_Products pay))"

lemma teams_of:
  assumes "iter_ok (iter en)"
  shows "distinct (map fst (teams_of en pay))"
    and "map_of (teams_of en pay) t = (if team_share t pay = [] then None else Some (team_share t pay))"
proof -
  have d: "distinct (map fst (team_products [] (twr_Products pay)))" by (rule team_products_distinct) simp
  show "distinct (map fst (teams_of en pay))"
    unfolding teams_of_def by (rule range_map_distinct [OF assms d])
  show "map_of (teams_of en pay) t = (if team_share t pay = [] then None else Some (team_share t pay))"
    unfolding teams_of_def range_map_lookup [OF assms d] team_products_lookup
    by (auto simp: team_share_def filter_empty_conv)
qed

text \<open>A chain in the warehouse's book, then one in the book of each team.\<close>

lemma moving_books:
  assumes it: "iter_ok (iter en)"
    and ware: "\<And>tran. list_all call_ok (wcalls tran) \<and> length (wcalls tran) \<le> 32" "\<And>tran. posted acs (wcalls tran) = W"
    and team: "\<And>u ps tran. (u, ps) \<in> set (teams_of en pay) \<Longrightarrow> list_all call_ok (tcalls ps tran) \<and> length (tcalls ps tran) \<le> 32"
      "\<And>ps tran. posted acs (tcalls ps tran) = g ps"
    and run: "OpenTransaction en (bindA (newTxA en tx [])
       (\<lambda>tran. thenA (entryA en w user (wcalls tran) [])
          (forA (teams_of en pay) (\<lambda>(u, ps). entryA en u user (tcalls ps tran) [])))) s = (Inr (Some ()), s')"
    and s: "db_accounts (s_db s) = acs" and t: "t \<noteq> w" and g: "g [] a = 0"
  shows "db_accounts (s_db s') = acs"
    and "book_balance t a (db_entries (s_db s')) = book_balance t a (db_entries (s_db s)) + g (team_share t pay) a"
proof -
  have bw: "books acs (in_book w W) (entryA en w user (wcalls tran) [])" for tran
    using ware it by (intro books_posts small_calls) auto
  have bt: "books acs (in_book u (g ps)) (entryA en u user (tcalls ps tran) [])" if "(u, ps) \<in> set (teams_of en pay)" for u ps tran
    using team(1) [OF that] team(2) it by (intro books_posts small_calls) auto
  note r = books_OpenTransaction [OF books_bind [OF books_nothing(5) books_then [OF bw books_for_teams [OF bt]]] run s]
  show "db_accounts (s_db s') = acs" by (rule r(1))
  show "book_balance t a (db_entries (s_db s')) = book_balance t a (db_entries (s_db s)) + g (team_share t pay) a"
    using r(2) [of t a] t g
    by (simp add: also_books_def nothing_def in_book_def [of w] books_all_teams [OF teams_of(1) [OF it]] teams_of(2) [OF it])
qed

lemma GetTotalAmount_Nil [simp]: "GetTotalAmount [] = 0"
  by (simp add: GetTotalAmount_def)

lemma teams_ok:
  assumes "transfer_stock_ok en pay"
  shows "length (teams_of en pay) \<le> 15" and "\<forall>(team, products) \<in> set (teams_of en pay). amount_ok (GetTotalAmount products)"
  using assms by (simp_all add: transfer_stock_ok_def teams_of_def Let_def)

lemma send_books:
  assumes "iter_ok (iter en)" and "transfer_stock_ok en pay" and acs: "transfer_accounts acs pay fr tr rt"
    and s: "db_accounts (s_db s) = acs"
    and run: "TransferToWarehouse en ident pay s = (Inr (Some ()), s')" and "t \<noteq> twr_FromWarehouseId pay"
  shows "db_accounts (s_db s') = acs"
    and "book_balance t a (db_entries (s_db s')) = book_balance t a (db_entries (s_db s)) +
      amounts_on [(fr, - val (GetTotalAmount (team_share t pay))), (tr, val (GetTotalAmount (team_share t pay)))] a"
proof -
  from run obtain tx where o: "OpenTransaction en (bindA (newTxA en tx [])
       (\<lambda>tran. thenA (entryA en (twr_FromWarehouseId pay) (IdentityID ident)
            (transfer_ware_calls pay (teams_of en pay) @ [CTransaction tran]) [])
          (forA (teams_of en pay) (\<lambda>(u, ps). entryA en u (IdentityID ident)
            (transfer_team_calls pay ps @ [CTransaction tran]) [])))) s = (Inr (Some ()), s')"
    unfolding TransferToWarehouse_def Let_def teams_of_def [symmetric] thenA_Inr checkA_Inr by blast
  note ok = teams_ok [OF assms(2)]
  have w: "list_all call_ok (transfer_ware_calls pay (teams_of en pay) @ [CTransaction tran]) \<and>
      length (transfer_ware_calls pay (teams_of en pay) @ [CTransaction tran]) \<le> 32" for tran
    using transfer_calls_ok(1) [OF ok(2), of pay] ok(1) by auto
  have tm: "list_all call_ok (transfer_team_calls pay ps @ [CTransaction tran]) \<and>
      length (transfer_team_calls pay ps @ [CTransaction tran]) \<le> 32" if "(u, ps) \<in> set (teams_of en pay)" for u ps tran
    using that ok(2) by (auto simp: transfer_team_calls_def Let_def)
  note r = moving_books [OF assms(1) w _ tm ext [OF team_chains(1) [OF acs]] o s assms(6),
      where W = "posted acs (transfer_ware_calls pay (teams_of en pay))"]
  show "db_accounts (s_db s') = acs"
    and "book_balance t a (db_entries (s_db s')) = book_balance t a (db_entries (s_db s)) +
      amounts_on [(fr, - val (GetTotalAmount (team_share t pay))), (tr, val (GetTotalAmount (team_share t pay)))] a"
    by (rule r; simp add: fun_eq_iff)+
qed

lemma receive_books:
  assumes "iter_ok (iter en)" and "transfer_stock_ok en pay" and acs: "transfer_accounts acs pay fr tr rt"
    and s: "db_accounts (s_db s) = acs"
    and run: "TransferToWarehouseAccept en ident pay s = (Inr (Some ()), s')" and "t \<noteq> twr_ToWarehouseId pay"
  shows "book_balance t a (db_entries (s_db s')) = book_balance t a (db_entries (s_db s)) +
      amounts_on [(tr, - val (GetTotalAmount (team_share t pay))), (rt, val (GetTotalAmount (team_share t pay)))] a"
proof -
  let ?desc = "\<lambda>tran. CDesc (''accept transfer stock '' @ tx_RefID tran)"
  from run obtain tx where o: "OpenTransaction en (bindA (newTxA en tx [])
       (\<lambda>tran. thenA (entryA en (twr_ToWarehouseId pay) (IdentityID ident)
            (accept_ware_calls pay (teams_of en pay) @ [CTransaction tran]) [])
          (forA (teams_of en pay) (\<lambda>(u, ps). entryA en u (IdentityID ident)
            (accept_team_calls pay ps @ [CTransaction tran, ?desc tran]) [])))) s = (Inr (Some ()), s')"
    unfolding TransferToWarehouseAccept_def Let_def teams_of_def [symmetric] thenA_Inr checkA_Inr by blast
  note ok = teams_ok [OF assms(2)]
  have w: "list_all call_ok (accept_ware_calls pay (teams_of en pay) @ [CTransaction tran]) \<and>
      length (accept_ware_calls pay (teams_of en pay) @ [CTransaction tran]) \<le> 32" for tran
    using transfer_calls_ok(2) [OF ok(2), of pay] ok(1) by auto
  have tm: "list_all call_ok (accept_team_calls pay ps @ [CTransaction tran, ?desc tran]) \<and>
      length (accept_team_calls pay ps @ [CTransaction tran, ?desc tran]) \<le> 32"
    if "(u, ps) \<in> set (teams_of en pay)" for u ps tran
    using that ok(2) by (auto simp: accept_team_calls_def Let_def)
  note r = moving_books [OF assms(1) w _ tm ext [OF team_chains(2) [OF acs]] o s assms(6),
      where W = "posted acs (accept_ware_calls pay (teams_of en pay))"]
  show ?thesis by (rule r; simp add: fun_eq_iff)
qed


subsection \<open>What cannot be booked\<close>

text \<open>
  C35: An adjustment of the stock with lost goods and no broken ones always fails: the pieces
  lost are booked with the amount of the broken ones, which is zero.
\<close>

theorem lost_stock_refused:
  assumes "0 < add_items 0 (sar_Losts pay)" and "sar_Brokens pay = []" and "stock_ok pay" and "iter_ok (iter en)"
  shows "\<exists>e s'. StockAdjustment en ident pay s = (Inl e, s') \<and> s_db s' = s_db s"
  unfolding StockAdjustment_def adjustment_def
proof (intro refused_handler refused_newTx refused_then refused_entry assms(4))
  fix tran s1
  show "whole_calls (adjust_ware_calls pay tran)" using stock_calls_ok(1) [OF assms(3), of tran] by (simp add: small_calls)
  show "\<not> list_all (valid_call (db_accounts (s_db s1))) (adjust_ware_calls pay tran)"
    using assms(1,2) by (simp add: adjust_ware_calls_def adjust_goods_calls_def Let_def add_items_def)
qed simp

text \<open>
  A shipment of which nothing arrived in order cannot be accepted: the ready stock is booked
  with the amount zero, which the chain refuses, so neither the lost nor the broken goods are booked.
\<close>

theorem inbound_without_goods_refused:
  assumes "iar_Accepts pay = []" and "inbound_ok pay" and "iter_ok (iter en)"
  shows "\<exists>e s'. InboundAccept en nm ident pay s = (Inl e, s') \<and> s_db s' = s_db s"
  unfolding InboundAccept_def
proof (rule refused_handler)
  have "refused (entryA en w user (inbound_ware_calls pay (inbound_sums pay ext) tran) []) s1"
    if "ext \<in> insert 0 (set_option (extPriceFee pay))" for ext tran w user s1
  proof (rule refused_entry [OF _ assms(3)])
    show "whole_calls (inbound_ware_calls pay (inbound_sums pay ext) tran)"
      using inbound_calls_ok(1) [OF assms(2) that, of tran] by (simp add: small_calls)
    show "\<not> list_all (valid_call (db_accounts (s_db s1))) (inbound_ware_calls pay (inbound_sums pay ext) tran)"
      by (simp add: inbound_ware_calls_def goods_calls_def inbound_sums_def add_items_ext_def assms(1))
  qed simp
  then show "refused (accept_body en nm ident pay) (open_book s)"
    by (auto simp: accept_body_def Let_def intro!: refused_newTx refused_then split: option.splits)
qed

subsection \<open>Samples\<close>

text \<open>Team 7 owns five pieces of price 10 that move from warehouse 21 to warehouse 22.\<close>

definition stock_db :: db where
  "stock_db = empty_db\<lparr>db_accounts :=
     [sample_account 11 StockReadyAccount 7 DebitBalance, sample_account 12 StockTransferAccount 22 DebitBalance,
      sample_account 13 StockReadyAccount 21 DebitBalance, sample_account 14 StockTransferAccount 21 DebitBalance,
      sample_account 15 StockReadyAccount 22 DebitBalance]\<rparr>"

definition move_request :: TransferRequest where
  "move_request = \<lparr>twr_FromWarehouseId = 21, twr_ToWarehouseId = 22, twr_ExtTxId = 9,
     twr_Products = [\<lparr>ti_TeamId = 7, ti_ItemPrice = f64_of 10, ti_Count = 5\<rparr>]\<rparr>"

lemma stock_accounts: "debit_account (db_accounts stock_db) StockReadyAccount 7 11"
  "debit_account (db_accounts stock_db) StockTransferAccount 22 12" "debit_account (db_accounts stock_db) StockReadyAccount 21 13"
  "debit_account (db_accounts stock_db) StockTransferAccount 21 14" "debit_account (db_accounts stock_db) StockReadyAccount 22 15"
  by (simp_all add: debit_account_def key_account_def stock_db_def sample_account_def StockReadyAccount_def StockTransferAccount_def)

lemma move_teams: "teams_of sample_env move_request = [(7, twr_Products move_request)]"
  "GetTotalAmount (twr_Products move_request) = f64_of 50"
  by (simp_all add: teams_of_def move_request_def GetTotalAmount_def f64_of_arith range_map_def sample_env_def)

lemma move_fields: "twr_FromWarehouseId move_request = 21" "twr_ToWarehouseId move_request = 22"
  by (simp_all add: move_request_def)

lemma move_calls:
  "transfer_ware_calls move_request (teams_of sample_env move_request) =
     [FromC StockReadyAccount 7 (f64_of 50), ToC StockTransferAccount 22 (f64_of 50)]"
  "accept_ware_calls move_request (teams_of sample_env move_request) =
     [FromC StockTransferAccount 21 (f64_of 50), ToC StockReadyAccount 7 (f64_of 50)]"
  "transfer_team_calls move_request (twr_Products move_request) =
     [FromC StockReadyAccount 21 (f64_of 50), ToC StockTransferAccount 22 (f64_of 50)]"
  "accept_team_calls move_request (twr_Products move_request) =
     [FromC StockTransferAccount 22 (f64_of 50), ToC StockReadyAccount 22 (f64_of 50)]"
  by (simp_all add: transfer_ware_calls_def accept_ware_calls_def transfer_team_calls_def accept_team_calls_def
      move_teams move_fields Let_def)

lemma move_amount: "f64_of 50 \<noteq> 0" "whole (f64_of 50)" "val (f64_of 50) = 50"
  by (simp_all add: whole_f64_of val_f64_of)

lemma sample_env_facts: "accepting sample_env" "\<not> IsZero (now sample_env)"
  by (simp_all add: accepting_def sample_env_def sample_time_def IsZero_def)

lemma sample_send:
  "\<exists>s'. TransferToWarehouse sample_env anyone move_request (session_of stock_db) = (Inr (Some ()), s') \<and>
     db_accounts (s_db s') = db_accounts stock_db \<and> map tx_RefID (db_txs (s_db s')) = [transfer_ref move_request]"
proof -
  let ?tx = "\<lparr>tx_ID = 0, tx_RefID = transfer_ref move_request, tx_TeamID = twr_FromWarehouseId move_request,
               tx_CreatedByID = IdentityID anyone, tx_OrderID = None,
               tx_Desc = ''transfer stock '' @ transfer_ref move_request, tx_Created = now sample_env\<rparr>"
  let ?f = "\<lambda>tran. thenA
       (entryA sample_env (twr_FromWarehouseId move_request) (IdentityID anyone)
         (transfer_ware_calls move_request (teams_of sample_env move_request) @ [CTransaction tran]) [])
       (forA (teams_of sample_env move_request) (\<lambda>(u, ps). entryA sample_env u (IdentityID anyone)
         (transfer_team_calls move_request ps @ [CTransaction tran]) []))"
  have f: "succeeds (db_accounts (s_db (session_of stock_db))) txs False (?f tran) True" for tran txs
  proof (rule succeeds_then)
    show "succeeds (db_accounts (s_db (session_of stock_db))) txs False
        (entryA sample_env (twr_FromWarehouseId move_request) (IdentityID anyone)
          (transfer_ware_calls move_request (teams_of sample_env move_request) @ [CTransaction tran]) []) True"
      unfolding move_calls append.simps session_of_db
      by (rule succeeds_debits [OF stock_accounts(1,2)]) (simp_all add: move_amount)
  qed (rule succeeds_for, auto simp: move_teams(1) move_calls(3) move_amount
        intro!: succeeds_debits [OF stock_accounts(3,2)])
  have t0: "db_txs stock_db = []" by (simp add: stock_db_def empty_db_def)
  from transaction_succeeds [where tx = ?tx and s = "session_of stock_db" and f = ?f and calls = "[]", OF _ _ _ _ f sample_env_facts(1)] sample_env_facts(2) t0
  obtain x s' where "OpenTransaction sample_env (bindA (newTxA sample_env ?tx []) ?f) (session_of stock_db) = (Inr (Some x), s')"
    and "db_accounts (s_db s') = db_accounts stock_db" "map tx_RefID (db_txs (s_db s')) = [transfer_ref move_request]" by auto
  then show ?thesis
    unfolding TransferToWarehouse_def Let_def teams_of_def [symmetric] thenA_Inr checkA_Inr
    by (intro exI [of _ s']) simp
qed

lemma sample_receive:
  assumes "db_accounts (s_db s) = db_accounts stock_db" and "map tx_RefID (db_txs (s_db s)) = [transfer_ref move_request]"
  shows "\<exists>s'. TransferToWarehouseAccept sample_env anyone move_request s = (Inr (Some ()), s')"
proof -
  let ?ref = "NewRefID \<lparr>rd_RefType = StockTransferAcceptRef, rd_ID = twr_ExtTxId move_request\<rparr>"
  let ?tx = "\<lparr>tx_ID = 0, tx_RefID = ?ref, tx_TeamID = twr_FromWarehouseId move_request,
               tx_CreatedByID = IdentityID anyone, tx_OrderID = None,
               tx_Desc = ''accept transfer '' @ ?ref, tx_Created = now sample_env\<rparr>"
  let ?f = "\<lambda>tran. thenA
       (entryA sample_env (twr_ToWarehouseId move_request) (IdentityID anyone)
         (accept_ware_calls move_request (teams_of sample_env move_request) @ [CTransaction tran]) [])
       (forA (teams_of sample_env move_request) (\<lambda>(u, ps). entryA sample_env u (IdentityID anyone)
         (accept_team_calls move_request ps @ [CTransaction tran, CDesc (''accept transfer stock '' @ tx_RefID tran)]) []))"
  have f: "succeeds (db_accounts (s_db s)) txs False (?f tran) True" for tran txs
  proof (rule succeeds_then)
    show "succeeds (db_accounts (s_db s)) txs False
        (entryA sample_env (twr_ToWarehouseId move_request) (IdentityID anyone)
          (accept_ware_calls move_request (teams_of sample_env move_request) @ [CTransaction tran]) []) True"
      unfolding move_calls append.simps assms(1)
      by (rule succeeds_debits [OF stock_accounts(4,1)]) (simp_all add: move_amount)
  qed (rule succeeds_for, auto simp: move_teams(1) move_calls(4) move_amount assms(1)
        intro!: succeeds_debits [OF stock_accounts(2,5)])
  have "?ref \<noteq> transfer_ref move_request"
    by (simp add: transfer_ref_def NewRefID_def StockTransferAcceptRef_def StockTransferRef_def)
  moreover have "tx_RefID ` set (db_txs (s_db s)) = {transfer_ref move_request}"
    using arg_cong [OF assms(2), of set] by simp
  ultimately have "\<forall>r \<in> set (db_txs (s_db s)). tx_RefID r \<noteq> ?ref" by force
  with transaction_succeeds [where tx = ?tx and s = s and f = ?f and calls = "[]", OF _ _ _ _ f sample_env_facts(1)] sample_env_facts(2)
  obtain x s' where "OpenTransaction sample_env (bindA (newTxA sample_env ?tx []) ?f) s = (Inr (Some x), s')" by auto
  then show ?thesis
    unfolding TransferToWarehouseAccept_def Let_def teams_of_def [symmetric] thenA_Inr checkA_Inr
    by (intro exI [of _ s']) simp
qed

lemma move_ok_sample: "transfer_stock_ok sample_env move_request"
  "transfer_accounts (db_accounts stock_db) move_request 13 12 15"
  using stock_accounts
  by (simp_all add: transfer_stock_ok_def teams_of_def [symmetric] move_teams amount_ok_def move_amount
      transfer_accounts_def move_fields)


definition lost_request :: StockAdjustmentRequest where
  "lost_request = \<lparr>sar_TeamId = 7, sar_WarehouseId = 21, sar_ExtTxId = 9,
     sar_Losts = [\<lparr>si_ItemPrice = f64_of 10, si_Count = 5, si_ChargeWarehouse = False\<rparr>], sar_Brokens = []\<rparr>"

theorem lost_stock_refused_witness:
  "\<exists>e s'. StockAdjustment sample_env anyone lost_request (session_of stock_db) = (Inl e, s') \<and> s_db s' = stock_db"
proof -
  have "add_items 0 (sar_Losts lost_request) = f64_of 50"
    by (simp add: lost_request_def add_items_def item_amount_def f64_of_arith)
  then show ?thesis
    using lost_stock_refused [of lost_request sample_env anyone "session_of stock_db"]
    by (simp add: lost_request_def stock_ok_def charged_def amount_ok_def add_items_def move_amount)
qed

definition broken_request :: InboundAcceptRequest where
  "broken_request = \<lparr>iar_TeamId = 7, iar_WarehouseId = 21, iar_ExtTxId = 9, iar_Source = INBOUND_SOURCE_RESTOCK,
     iar_Extras = None, iar_ShippingFee = 0, iar_WarehouseCodFee = 0, iar_Accepts = [], iar_Losts = [],
     iar_Brokens = [\<lparr>si_ItemPrice = f64_of 10, si_Count = 5, si_ChargeWarehouse = False\<rparr>]\<rparr>"

theorem inbound_without_goods_refused_witness:
  "\<exists>e s'. InboundAccept sample_env (\<lambda>_. ''restock'') anyone broken_request (session_of stock_db) = (Inl e, s') \<and>
    s_db s' = stock_db"
proof -
  have "inbound_ok broken_request"
    by (simp add: inbound_ok_def broken_request_def extPriceFee_def inbound_sums_def add_items_def add_items_ext_def
        item_amount_def f64_of_arith amount_ok_def whole_f64_of val_f64_of)
  then show ?thesis
    using inbound_without_goods_refused [of broken_request sample_env "\<lambda>_. ''restock''" anyone "session_of stock_db"]
    by (simp add: broken_request_def)
qed

end
