(* ===== verification/BookingSpec.thy ===== *)
theory BookingSpec
  imports StockSpec
begin

section \<open>Expenses, transfers and adjustments: properties\<close>

text \<open>
  What an expense and a bank transfer book, and the bookings whose errors are lost.
\<close>

subsection \<open>Expenses\<close>

definition unskipped :: "'a action \<Rightarrow> bool" where
  "unskipped m \<longleftrightarrow> (\<forall>s s'. m s \<noteq> (Inl ErrSkipTransaction, s'))"

lemma unskipped_bind: "unskipped m \<Longrightarrow> (\<And>x. unskipped (f x)) \<Longrightarrow> unskipped (bindA m f)"
  unfolding unskipped_def bindA_Inl by blast

lemma unskipped_then: "unskipped m \<Longrightarrow> unskipped n \<Longrightarrow> unskipped (thenA m n)"
  unfolding thenA_def by (rule unskipped_bind)

lemma unskipped_newTx: "unskipped (newTxA en tx labels)"
  unfolding unskipped_def using newTxA_noskip by blast

lemma unskipped_entry: "list_all plain_call calls \<Longrightarrow> list_all source_option opts \<Longrightarrow> unskipped (entryA en team user calls opts)"
  unfolding unskipped_def using entryA_noskip by blast

lemma OpenTransaction_unskipped:
  assumes "unskipped h" and "OpenTransaction en h s = (Inr q, s')"
  obtains x where "q = Some x"
  using OpenTransaction_None(2) [of en h s s'] assms unfolding unskipped_def by (cases q) auto

definition expense_row :: "env \<Rightarrow> identity \<Rightarrow> ExpenseCreateRequest \<Rightarrow> nat \<Rightarrow> Expense" where
  "expense_row en ident pay i =
     \<lparr>ex_ID = i, ex_TeamID = ecr_TeamId pay, ex_CreatedByID = GetUserID ident, ex_Desc = ecr_Desc pay,
      ex_ExpenseType = ecr_ExpenseType pay, ex_ExpenseKey = ecr_ExpenseKey pay,
      ex_Amount = ecr_Amount pay, ex_CreatedAt = now en\<rparr>"

text \<open>
  C14: An expense that was accepted is recorded as a row, and the team's book moves its exact
  amount from cash to the expense account: no other balance of any book changes.
\<close>

theorem expense_books:
  assumes "ExpenseCreate en nm ident pay s = (Inr u, s')" and "iter_ok (iter en)"
    and "debit_account (db_accounts (s_db s)) CashAccount (ecr_TeamId pay) cash"
    and "debit_account (db_accounts (s_db s)) (ecr_ExpenseKey pay) (ecr_TeamId pay) cost"
    and "whole (ecr_Amount pay)" and "\<bar>val (ecr_Amount pay)\<bar> \<le> 2 ^ 52"
  shows "db_expenses (s_db s') = db_expenses (s_db s) @ [expense_row en ident pay (Suc (db_seq (s_db s)))] \<and>
    (\<forall>t a. book_balance t a (db_entries (s_db s')) = book_balance t a (db_entries (s_db s)) +
      (if t = ecr_TeamId pay then amounts_on [(cash, - val (ecr_Amount pay)), (cost, val (ecr_Amount pay))] a else 0))"
proof -
  let ?p = "\<lparr>cp_TeamID = ecr_TeamId pay, cp_ExpenseKey = ecr_ExpenseKey pay,
               cp_ExpenseType = ecr_ExpenseType pay, cp_Amount = ecr_Amount pay, cp_Desc = ecr_Desc pay\<rparr>"
  let ?acs = "db_accounts (s_db s)" and ?s1 = "s\<lparr>s_db := save_expense en ident pay (s_db s)\<rparr>"
  let ?tx = "\<lparr>tx_ID = 0, tx_RefID = expense_ref en nm ?p, tx_TeamID = ecr_TeamId pay, tx_CreatedByID = GetUserID ident,
              tx_OrderID = None, tx_Desc = ecr_Desc pay, tx_Created = now en\<rparr>"
  let ?e = "\<lambda>tran. entryA en (ecr_TeamId pay) (GetUserID ident) (expense_calls ?p tran) []"
  let ?h = "bindA (newTxA en ?tx []) ?e"
  have run: "\<exists>q. OpenTransaction en ?h ?s1 = (Inr q, s')"
    using assms(1) unfolding ExpenseCreate_def ExpenseCreateT_def Let_def unitA_def thenA_Inr checkA_Inr
      transactionA_Inr updateA_Inr bindA_Inr returnA_Inr
    by auto
  note ps = debit_posting(1,2) [OF assms(3)] debit_posting(1,2) [OF assms(4)]
  have post: "posted ?acs (expense_calls ?p tran) a =
      amounts_on [(cash, - val (ecr_Amount pay)), (cost, val (ecr_Amount pay))] a" for tran a
    by (simp add: expense_calls_def ps del: posting.simps(1,2))
  have w: "whole_calls (expense_calls ?p tran)" for tran
    using assms(5,6) by (simp add: expense_calls_def whole_list_Cons)
  have b: "books ?acs (also_books nothing (in_book (ecr_TeamId pay)
      (amounts_on [(cash, - val (ecr_Amount pay)), (cost, val (ecr_Amount pay))]))) ?h"
    by (intro books_bind books_nothing books_posts) (simp_all add: w post assms(2))
  have "unskipped ?h" by (intro unskipped_bind unskipped_newTx unskipped_entry) (simp_all add: expense_calls_def)
  with run obtain x where r: "OpenTransaction en ?h ?s1 = (Inr (Some x), s')"
    by (metis OpenTransaction_unskipped)
  have a: "db_accounts (s_db ?s1) = ?acs" "db_entries (s_db ?s1) = db_entries (s_db s)"
    by (simp_all add: save_expense_def Let_def)
  have bal: "book_balance t a (db_entries (s_db s')) = book_balance t a (db_entries (s_db s)) +
      (if t = ecr_TeamId pay then amounts_on [(cash, - val (ecr_Amount pay)), (cost, val (ecr_Amount pay))] a else 0)" for t a
    using books_OpenTransaction(2) [OF b r a(1), of t a] a(2) by (simp add: booked_simps)
  from OpenTransaction_Some_db [OF r] obtain s2 where h: "?h (open_book ?s1) = (Inr x, s2)" and d: "s_db s' = s_db s2" by blast
  then obtain tran s3 where n: "newTxA en ?tx [] (open_book ?s1) = (Inr tran, s3)" and e: "?e tran s3 = (Inr x, s2)"
    unfolding bindA_Inr by blast
  from newTxA_core [OF n] rest_fields [OF entryA_rest [OF e]]
  have "db_expenses (s_db s') = db_expenses (s_db s) @ [expense_row en ident pay (Suc (db_seq (s_db s)))]"
    by (simp add: core_def d save_expense_def expense_row_def Let_def)
  with bal show ?thesis by blast
qed

subsection \<open>Bank transfers\<close>

definition bank_account :: "db \<Rightarrow> nat \<Rightarrow> BankAccountV2 option" where
  "bank_account d i = find (\<lambda>a. ba_ID a = i) (db_bank_accounts d)"

lemma first_bank_account_Inr:
  "first_bank_account i s = (Inr a, s') \<longleftrightarrow> bank_account (s_db s) i = Some a \<and> s' = s"
  by (auto simp: first_bank_account_def bank_account_def bindA_Inr split: option.splits)

lemma save_transfer_frame:
  "save_transfer hist s = (r, s') \<Longrightarrow> db_accounts (s_db s') = db_accounts (s_db s) \<and>
     db_entries (s_db s') = db_entries (s_db s) \<and> db_bank_accounts (s_db s') = db_bank_accounts (s_db s)"
  by (auto simp: save_transfer_def Let_def split: if_splits)

lemma books_save_transfer: "books acs nothing (save_transfer hist)"
  by (rule booksI) (auto simp: nothing_def dest!: save_transfer_frame)

text \<open>The accounts of a transfer: cash of both owners and the bank fees of the sender.\<close>

definition transfer_accounts_of :: "Account list \<Rightarrow> nat \<Rightarrow> nat \<Rightarrow> nat \<Rightarrow> nat \<Rightarrow> nat \<Rightarrow> bool" where
  "transfer_accounts_of acs from to out_cash in_cash fee \<longleftrightarrow>
     debit_account acs CashAccount from out_cash \<and> debit_account acs CashAccount to in_cash \<and>
     debit_account acs BankFeeAccount from fee"

lemma transfer_posted:
  assumes "transfer_accounts_of acs (ba_TeamID facc) (ba_TeamID tacc) oc ic fee" and "transfer_ok pay"
  shows "posted acs (transfer_from_calls pay facc tacc tran) a =
      amounts_on [(oc, - val (tcr_Amount pay) - val (tcr_FeeAmount pay)), (ic, val (tcr_Amount pay)), (fee, val (tcr_FeeAmount pay))] a"
    and "posted acs (transfer_to_calls pay facc tacc tran) a = amounts_on [(oc, - val (tcr_Amount pay)), (ic, val (tcr_Amount pay))] a"
    and "whole_calls (transfer_from_calls pay facc tacc tran)" and "whole_calls (transfer_to_calls pay facc tacc tran)"
proof -
  from assms(1) have ds: "debit_account acs CashAccount (ba_TeamID facc) oc" "debit_account acs CashAccount (ba_TeamID tacc) ic"
    "debit_account acs BankFeeAccount (ba_TeamID facc) fee" by (simp_all add: transfer_accounts_of_def)
  note ps = ds [THEN debit_posting(1)] ds [THEN debit_posting(2)]
  from assms(2) have sum: "val (tcr_Amount pay + tcr_FeeAmount pay) = val (tcr_Amount pay) + val (tcr_FeeAmount pay)"
    by (intro val_plus_whole) (auto simp: transfer_ok_def amount_ok_def)
  show "posted acs (transfer_from_calls pay facc tacc tran) a =
      amounts_on [(oc, - val (tcr_Amount pay) - val (tcr_FeeAmount pay)), (ic, val (tcr_Amount pay)), (fee, val (tcr_FeeAmount pay))] a"
    by (simp add: transfer_from_calls_def ps sum del: posting.simps(1,2))
  show "posted acs (transfer_to_calls pay facc tacc tran) a = amounts_on [(oc, - val (tcr_Amount pay)), (ic, val (tcr_Amount pay))] a"
    by (simp add: transfer_to_calls_def ps del: posting.simps(1,2))
  show "whole_calls (transfer_from_calls pay facc tacc tran)" and "whole_calls (transfer_to_calls pay facc tacc tran)"
    by (rule small_calls; use assms(2) in \<open>simp add: transfer_from_calls_def transfer_to_calls_def transfer_ok_def\<close>)+
qed

lemma transfer_run:
  assumes "transfer_body en nm ident pay s = (Inr (), s')"
  obtains facc tacc h hist s1 tx labels tran s2 h2 s3 s4
  where "bank_account (s_db s) (tcr_FromAccountId pay) = Some facc" and "bank_account (s_db s) (tcr_ToAccountId pay) = Some tacc"
    and "ba_TeamID facc = tcr_TeamId pay" and "ba_ID facc \<noteq> ba_ID tacc"
    and "save_transfer h s = (Inr hist, s1)" and "newTxA en tx labels s1 = (Inr tran, s2)"
    and "save_transfer (hist\<lparr>bh_TxID := tx_ID tran\<rparr>) s2 = (Inr h2, s3)"
    and "entryA en (tcr_TeamId pay) (GetUserID ident) (transfer_from_calls pay facc tacc tran) [IncludeDebitCreditEqual] s3 = (Inr (), s4)"
    and "entryA en (ba_TeamID tacc) (GetUserID ident) (transfer_to_calls pay facc tacc tran) [IncludeDebitCreditEqual] s4 = (Inr (), s')"
proof -
  let ?h = "\<lparr>bh_ID = 0, bh_TxID = 0, bh_TeamID = tcr_TeamId pay, bh_FromAccountID = tcr_FromAccountId pay,
     bh_ToAccountID = tcr_ToAccountId pay, bh_Amount = tcr_Amount pay, bh_FeeAmount = tcr_FeeAmount pay,
     bh_Desc = tcr_Desc pay, bh_Purpose = tcr_Purpose pay, bh_Created = now en\<rparr>"
  let ?tx = "\<lambda>hist. \<lparr>tx_ID = 0, tx_RefID = NewRefID \<lparr>rd_RefType = TransferRef, rd_ID = bh_ID hist\<rparr>,
     tx_TeamID = tcr_TeamId pay, tx_CreatedByID = IdentityID ident, tx_OrderID = None, tx_Desc = tcr_Desc pay, tx_Created = now en\<rparr>"
  let ?l = "[LTypeLabel [(LABEL_KEY_TRANSFER_PURPOSE, nm (tcr_Purpose pay))]]"
  let ?tail = "\<lambda>facc tacc hist. bindA (newTxA en (?tx hist) ?l) (\<lambda>tran. bindA (save_transfer (hist\<lparr>bh_TxID := tx_ID tran\<rparr>))
     (\<lambda>_. thenA (entryA en (tcr_TeamId pay) (GetUserID ident) (transfer_from_calls pay facc tacc tran) [IncludeDebitCreditEqual])
        (entryA en (ba_TeamID tacc) (GetUserID ident) (transfer_to_calls pay facc tacc tran) [IncludeDebitCreditEqual])))"
  from assms obtain facc where f: "bank_account (s_db s) (tcr_FromAccountId pay) = Some facc" "ba_TeamID facc = tcr_TeamId pay"
    and r: "bindA (first_bank_account (tcr_ToAccountId pay)) (\<lambda>tacc. bindA (save_transfer ?h)
        (\<lambda>hist. if ba_ID facc = ba_ID tacc then failA (ErrMsg ''account same'') else ?tail facc tacc hist)) s = (Inr (), s')"
    unfolding transfer_body_def bindA_Inr [of "first_bank_account (tcr_FromAccountId pay)"] first_bank_account_Inr
    by (auto split: if_splits)
  from r obtain tacc where tacc: "bank_account (s_db s) (tcr_ToAccountId pay) = Some tacc" and r: "bindA (save_transfer ?h)
        (\<lambda>hist. if ba_ID facc = ba_ID tacc then failA (ErrMsg ''account same'') else ?tail facc tacc hist) s = (Inr (), s')"
    unfolding bindA_Inr [of "first_bank_account (tcr_ToAccountId pay)"] first_bank_account_Inr by blast
  from r obtain hist s1 where sv: "save_transfer ?h s = (Inr hist, s1)"
    and r: "(if ba_ID facc = ba_ID tacc then failA (ErrMsg ''account same'') else ?tail facc tacc hist) s1 = (Inr (), s')"
    unfolding bindA_Inr [of "save_transfer ?h"] by blast
  from r have ne: "ba_ID facc \<noteq> ba_ID tacc" and r: "?tail facc tacc hist s1 = (Inr (), s')" by (auto split: if_splits)
  from r obtain tran s2 where n: "newTxA en (?tx hist) ?l s1 = (Inr tran, s2)"
    and r: "bindA (save_transfer (hist\<lparr>bh_TxID := tx_ID tran\<rparr>))
     (\<lambda>_. thenA (entryA en (tcr_TeamId pay) (GetUserID ident) (transfer_from_calls pay facc tacc tran) [IncludeDebitCreditEqual])
        (entryA en (ba_TeamID tacc) (GetUserID ident) (transfer_to_calls pay facc tacc tran) [IncludeDebitCreditEqual])) s2 = (Inr (), s')"
    unfolding bindA_Inr [of "newTxA en (?tx hist) ?l"] by blast
  from r obtain h2 s3 s4 where "save_transfer (hist\<lparr>bh_TxID := tx_ID tran\<rparr>) s2 = (Inr h2, s3)"
    "entryA en (tcr_TeamId pay) (GetUserID ident) (transfer_from_calls pay facc tacc tran) [IncludeDebitCreditEqual] s3 = (Inr (), s4)"
    "entryA en (ba_TeamID tacc) (GetUserID ident) (transfer_to_calls pay facc tacc tran) [IncludeDebitCreditEqual] s4 = (Inr (), s')"
    unfolding bindA_Inr thenA_Inr by auto
  with f tacc ne sv n show thesis using that by blast
qed

text \<open>
  C12: A successful transfer was between two different known bank accounts, the first of them the
  team's. The sender's book pays amount and fee out of its cash, gains the amount on the
  receiver's cash account and books the fee; the receiver's book mirrors the amount without the fee.
\<close>

theorem transfer_books:
  assumes "TransferCreate en nm ident pay s = (Inr (Some ()), s')" and "iter_ok (iter en)" and "transfer_ok pay"
    and "\<And>facc tacc. bank_account (s_db s) (tcr_FromAccountId pay) = Some facc \<Longrightarrow>
      bank_account (s_db s) (tcr_ToAccountId pay) = Some tacc \<Longrightarrow>
      transfer_accounts_of (db_accounts (s_db s)) (ba_TeamID facc) (ba_TeamID tacc) out_cash in_cash fee"
  shows "\<exists>facc tacc. bank_account (s_db s) (tcr_FromAccountId pay) = Some facc \<and>
    bank_account (s_db s) (tcr_ToAccountId pay) = Some tacc \<and> ba_TeamID facc = tcr_TeamId pay \<and> ba_ID facc \<noteq> ba_ID tacc \<and>
    (\<forall>t a. book_balance t a (db_entries (s_db s')) = book_balance t a (db_entries (s_db s)) +
      (let x = val (tcr_Amount pay); f = val (tcr_FeeAmount pay)
       in (if t = tcr_TeamId pay then amounts_on [(out_cash, - x - f), (in_cash, x), (fee, f)] a else 0) +
          (if t = ba_TeamID tacc then amounts_on [(out_cash, - x), (in_cash, x)] a else 0)))"
proof -
  have "OpenTransaction en (transfer_body en nm ident pay) s = (Inr (Some ()), s')"
    using assms(1) unfolding TransferCreate_def thenA_Inr checkA_Inr by blast
  from OpenTransaction_Some_db [OF this] obtain s1 where
    bd: "transfer_body en nm ident pay (open_book s) = (Inr (), s1)" and d: "s_db s' = s_db s1" by blast
  from transfer_run [OF bd, unfolded book_db] obtain facc tacc h hist s2 tx labels tran s3 h2 s4 s5
    where f: "bank_account (s_db s) (tcr_FromAccountId pay) = Some facc" "bank_account (s_db s) (tcr_ToAccountId pay) = Some tacc"
      "ba_TeamID facc = tcr_TeamId pay" "ba_ID facc \<noteq> ba_ID tacc"
    and v1: "save_transfer h (open_book s) = (Inr hist, s2)" and n: "newTxA en tx labels s2 = (Inr tran, s3)"
    and v2: "save_transfer (hist\<lparr>bh_TxID := tx_ID tran\<rparr>) s3 = (Inr h2, s4)"
    and e1: "entryA en (tcr_TeamId pay) (GetUserID ident) (transfer_from_calls pay facc tacc tran) [IncludeDebitCreditEqual] s4 = (Inr (), s5)"
    and e2: "entryA en (ba_TeamID tacc) (GetUserID ident) (transfer_to_calls pay facc tacc tran) [IncludeDebitCreditEqual] s5 = (Inr (), s1)"
    by blast
  let ?acs = "db_accounts (s_db s)"
  note tp = transfer_posted [OF assms(4) [OF f(1,2)] assms(3), of tran]
  have b1: "books ?acs (in_book (tcr_TeamId pay) (amounts_on [(out_cash, - val (tcr_Amount pay) - val (tcr_FeeAmount pay)),
        (in_cash, val (tcr_Amount pay)), (fee, val (tcr_FeeAmount pay))]))
      (entryA en (tcr_TeamId pay) (GetUserID ident) (transfer_from_calls pay facc tacc tran) [IncludeDebitCreditEqual])"
    by (rule books_posts [OF tp(3) assms(2) _ tp(1)]) simp
  have b2: "books ?acs (in_book (ba_TeamID tacc) (amounts_on [(out_cash, - val (tcr_Amount pay)), (in_cash, val (tcr_Amount pay))]))
      (entryA en (ba_TeamID tacc) (GetUserID ident) (transfer_to_calls pay facc tacc tran) [IncludeDebitCreditEqual])"
    by (rule books_posts [OF tp(4) assms(2) _ tp(2)]) simp
  have a4: "db_accounts (s_db s4) = ?acs" "db_entries (s_db s4) = db_entries (s_db s)"
    using save_transfer_frame [OF v1] save_transfer_frame [OF v2] newTxA_core [OF n] by (simp_all add: core_def)
  note x1 = booksD [OF b1 e1 a4(1)] and x2 = booksD(2) [OF b2 e2]
  from x1(2) x2 [OF x1(1)] a4(2) f d show ?thesis
    by (intro exI [of _ facc] exI [of _ tacc] conjI allI) (simp_all add: in_book_def Let_def)
qed

subsection \<open>Lost errors\<close>

text \<open>
  An adjustment of the administrator answers without an error whatever becomes of its
  bookings: once the permission is granted, the answer is nil, also when the transaction fails
  and leaves the tables as they were.
\<close>

theorem adj_create_hides_errors:
  assumes "HasPermission ident ''accounting_adjustment'' (RootDomain ident) ActCreate = None"
  shows "\<exists>s'. AdjCreate en ident pay s = (Inr (), s') \<and>
    (IdentityErr ident = None \<longrightarrow>
      (\<forall>e s1. OpenTransaction en (adj_create_body en ident pay) s = (Inl e, s1) \<longrightarrow> s' = s1 \<and>
        (accepting en \<longrightarrow> s_db s' = s_db s)))"
proof -
  have db: "s_db s1 = s_db s" if "OpenTransaction en (adj_create_body en ident pay) s = (Inl e, s1)" "accepting en" for e s1
    using OpenTransaction_error_cases [OF that(1)] that(2) by (auto simp: accepting_def list_all_iff)
  show ?thesis
  proof (cases "IdentityErr ident")
    case None
    obtain r s1 where "OpenTransaction en (adj_create_body en ident pay) s = (r, s1)"
      by (cases "OpenTransaction en (adj_create_body en ident pay) s")
    with db None assms show ?thesis by (auto simp: AdjCreate_def thenA_def checkA_def)
  qed (simp add: AdjCreate_def)
qed

lemma uncommitted_frame: "uncommittedA en team user calls s = (r, s') \<Longrightarrow> s' = s"
  by (auto simp: uncommittedA_def checkA_def returnA_def failA_def split: option.splits)

text \<open>A handler that ends with an empty book.\<close>

lemma refused_empty_book:
  assumes "h (open_book s) = (r, s1)" and "r \<noteq> Inl ErrSkipTransaction" and "s_entries s1 = []"
  shows "\<exists>e s'. OpenTransaction en h s = (Inl e, s') \<and> s_db s' = s_db s"
proof (cases r)
  case (Inl e)
  with assms OpenTransaction_fails [of h s e s1 en] show ?thesis by auto
next
  case (Inr x)
  with assms(1,3) have "tx_body h s = (Inl (ErrMsg ''entries empty in ending transaction''), s1)"
    by (simp add: tx_body_def open_book_def)
  from OpenTransaction_Inl [OF this, of en] show ?thesis by simp
qed

text \<open>
  The old order transaction never succeeds: it commits neither of its chains, so the
  final check of the transaction finds the book empty and undoes everything.
\<close>

theorem create_order_fails:
  "\<exists>e s'. CreateOrder en agent payload s = (Inl e, s') \<and> s_db s' = s_db s"
proof -
  let ?h = "\<lambda>s. case newTxA en emptyTransaction [] s of
     (r, s) \<Rightarrow> create_order_body en agent payload (case r of Inr tran \<Rightarrow> tx_ID tran | Inl _ \<Rightarrow> 0) s"
  let ?own = "\<lambda>i. [FromC StockReadyAccount (cop_TeamID payload) (cop_OwnProductAmount payload),
               ToC SellingEstReceivableAccount (cop_TeamID payload) (cop_OwnProductAmount payload), CTransactionID i]"
  have own: "r \<noteq> Inl ErrSkipTransaction \<and> s2 = s1" if "uncommittedA en team user (?own i) s1 = (r, s2)" for i team user s1 r s2
    using chain_noskip [of "?own i" en "s_db s1" team user] that
    by (auto simp: uncommittedA_def checkA_def noskip_def chain_of_def failA_def returnA_def split: option.splits)
  have body: "r \<noteq> Inl ErrSkipTransaction \<and> s2 = s1" if b: "create_order_body en agent payload i s1 = (r, s2)" for i s1 r s2
  proof -
    obtain q s3 where u: "uncommittedA en (cop_TeamID payload) (GetUserID agent) (?own i) s1 = (q, s3)"
      by (cases "uncommittedA en (cop_TeamID payload) (GetUserID agent) (?own i) s1")
    from own [OF this] b u show ?thesis
      by (cases q) (auto simp: create_order_body_def thenA_def bindA_def whenA_def returnA_def
          split: if_splits prod.splits dest!: uncommitted_frame)
  qed
  obtain q s1 where n: "newTxA en emptyTransaction [] (open_book s) = (q, s1)" by (cases "newTxA en emptyTransaction [] (open_book s)")
  obtain r s2 where h: "?h (open_book s) = (r, s2)" by (cases "?h (open_book s)")
  with n body have "r \<noteq> Inl ErrSkipTransaction \<and> s2 = s1" by auto
  with newTxA_entries [OF n] refused_empty_book [of ?h, OF h] show ?thesis by (simp add: CreateOrder_def)
qed

subsection \<open>Samples\<close>

text \<open>Teams 7 and 8 with cash, bank fees and an expense account, and a bank account each.\<close>

definition sample_bank :: "nat \<Rightarrow> nat \<Rightarrow> BankAccountV2" where
  "sample_bank i team = \<lparr>ba_ID = i, ba_TeamID = team, ba_AccountTypeID = 0, ba_Name = ''bank'', ba_NumberID = show_nat i,
     ba_Balance = 0, ba_Disabled = False, ba_Deleted = False, ba_CreatedAt = zeroTime, ba_DeletedAt = zeroTime\<rparr>"

definition bank_db :: db where
  "bank_db = empty_db\<lparr>db_accounts :=
     [sample_account 11 CashAccount 7 DebitBalance, sample_account 12 CashAccount 8 DebitBalance,
      sample_account 13 BankFeeAccount 7 DebitBalance, sample_account 14 AdsExpenseAccount 7 DebitBalance],
     db_bank_accounts := [sample_bank 31 7, sample_bank 32 8]\<rparr>"

lemma bank_accounts: "debit_account (db_accounts bank_db) CashAccount 7 11" "debit_account (db_accounts bank_db) CashAccount 8 12"
  "debit_account (db_accounts bank_db) BankFeeAccount 7 13" "debit_account (db_accounts bank_db) AdsExpenseAccount 7 14"
  by (simp_all add: debit_account_def key_account_def bank_db_def sample_account_def CashAccount_def BankFeeAccount_def
      AdsExpenseAccount_def)

lemma bank_tables: "db_txs bank_db = []" "db_entries bank_db = []" "db_expenses bank_db = []"
  by (simp_all add: bank_db_def empty_db_def)

definition ads_request :: ExpenseCreateRequest where
  "ads_request = \<lparr>ecr_TeamId = 7, ecr_RequestFrom = REQUEST_FROM_SELLING, ecr_ExpenseType = 3,
     ecr_ExpenseKey = AdsExpenseAccount, ecr_Desc = ''ads'', ecr_Amount = f64_of 50\<rparr>"

lemma sample_expense: "\<exists>s'. ExpenseCreate sample_env (\<lambda>_. ''ads'') anyone ads_request (session_of bank_db) = (Inr (), s')"
proof -
  let ?p = "\<lparr>cp_TeamID = ecr_TeamId ads_request, cp_ExpenseKey = ecr_ExpenseKey ads_request,
     cp_ExpenseType = ecr_ExpenseType ads_request, cp_Amount = ecr_Amount ads_request, cp_Desc = ecr_Desc ads_request\<rparr>"
  let ?s1 = "(session_of bank_db)\<lparr>s_db := save_expense sample_env anyone ads_request bank_db\<rparr>"
  let ?tx = "\<lparr>tx_ID = 0, tx_RefID = expense_ref sample_env (\<lambda>_. ''ads'') ?p, tx_TeamID = ecr_TeamId ads_request,
     tx_CreatedByID = GetUserID anyone, tx_OrderID = None, tx_Desc = ecr_Desc ads_request, tx_Created = now sample_env\<rparr>"
  let ?f = "\<lambda>tran. entryA sample_env (ecr_TeamId ads_request) (GetUserID anyone) (expense_calls ?p tran) []"
  have a: "db_accounts (s_db ?s1) = db_accounts bank_db" "db_txs (s_db ?s1) = []"
    by (simp_all add: save_expense_def Let_def bank_tables)
  have "expense_calls ?p tran = [FromC CashAccount 7 (f64_of 50), ToC AdsExpenseAccount 7 (f64_of 50), CTransaction tran]" for tran
    by (simp add: expense_calls_def ads_request_def)
  then have f: "succeeds (db_accounts (s_db ?s1)) txs False (?f tran) True" for tran txs
    unfolding a by (simp add: succeeds_debits [OF bank_accounts(1,4)] move_amount)
  from transaction_succeeds [where tx = ?tx and s = ?s1 and f = ?f and calls = "[]", OF _ _ _ _ f sample_env_facts(1)] sample_env_facts(2) a(2)
  obtain s' where "OpenTransaction sample_env (bindA (newTxA sample_env ?tx []) ?f) ?s1 = (Inr (Some ()), s')" by auto
  then show ?thesis
    unfolding ExpenseCreate_def ExpenseCreateT_def Let_def unitA_def thenA_Inr checkA_Inr transactionA_Inr updateA_Inr bindA_Inr returnA_Inr
    by (intro exI [of _ s']) auto
qed

theorem expense_books_witness:
  "\<exists>s'. ExpenseCreate sample_env (\<lambda>_. ''ads'') anyone ads_request (session_of bank_db) = (Inr (), s') \<and>
    map ex_Amount (db_expenses (s_db s')) = [f64_of 50] \<and>
    book_balance 7 11 (db_entries (s_db s')) = - 50 \<and> book_balance 7 14 (db_entries (s_db s')) = 50"
proof -
  obtain s' where r: "ExpenseCreate sample_env (\<lambda>_. ''ads'') anyone ads_request (session_of bank_db) = (Inr (), s')"
    using sample_expense ..
  have q: "ecr_TeamId ads_request = 7" "ecr_ExpenseKey ads_request = AdsExpenseAccount" "ecr_Amount ads_request = f64_of 50"
    by (simp_all add: ads_request_def)
  from expense_books [OF r iter_ok_sample, of 11 14] bank_accounts r show ?thesis
    by (intro exI [of _ s']) (simp add: q move_amount bank_tables expense_row_def)
qed

definition transfer_request :: TransferCreateRequest where
  "transfer_request = \<lparr>tcr_TeamId = 7, tcr_FromAccountId = 31, tcr_ToAccountId = 32, tcr_Amount = f64_of 50,
     tcr_FeeAmount = 0, tcr_Purpose = 1, tcr_Desc = ''rent''\<rparr>"

lemma newTxA_type_label:
  assumes "tx_ID tran = 0" and "\<not> IsZero (tx_Created tran)" and "\<forall>r \<in> set (db_txs (s_db s)). tx_RefID r \<noteq> tx_RefID tran"
  shows "\<exists>tran' s'. newTxA en tran [LTypeLabel ls] s = (Inr tran', s') \<and> db_accounts (s_db s') = db_accounts (s_db s) \<and>
    s_entries s' = s_entries s"
  using assms
  by (auto simp: newTxA_def NewTransaction_def CreateT_def save_tx_def AddTypeLabel_def isTransactionEmpty_def on_db_def frame Let_def)

lemma save_transfer_runs: "\<exists>hist' s'. save_transfer hist s = (Inr hist', s') \<and> db_accounts (s_db s') = db_accounts (s_db s) \<and>
    db_txs (s_db s') = db_txs (s_db s) \<and> s_entries s' = s_entries s"
  by (simp add: save_transfer_def Let_def)

lemma transfer_fields: "tcr_TeamId transfer_request = 7" "tcr_FromAccountId transfer_request = 31"
  "tcr_ToAccountId transfer_request = 32" "tcr_Amount transfer_request = f64_of 50" "tcr_FeeAmount transfer_request = 0"
  by (simp_all add: transfer_request_def)

lemma bank_lookup: "bank_account bank_db 31 = Some (sample_bank 31 7)" "bank_account bank_db 32 = Some (sample_bank 32 8)"
  "ba_TeamID (sample_bank i t) = t" "ba_ID (sample_bank i t) = i"
  by (simp_all add: bank_account_def bank_db_def sample_bank_def)

lemma sample_transfer:
  "\<exists>s'. TransferCreate sample_env nm anyone transfer_request (session_of bank_db) = (Inr (Some ()), s')"
proof -
  let ?fa = "sample_bank 31 7" and ?ta = "sample_bank 32 8" and ?s0 = "session_of bank_db"
  let ?h = "\<lparr>bh_ID = 0, bh_TxID = 0, bh_TeamID = tcr_TeamId transfer_request, bh_FromAccountID = tcr_FromAccountId transfer_request,
     bh_ToAccountID = tcr_ToAccountId transfer_request, bh_Amount = tcr_Amount transfer_request,
     bh_FeeAmount = tcr_FeeAmount transfer_request, bh_Desc = tcr_Desc transfer_request,
     bh_Purpose = tcr_Purpose transfer_request, bh_Created = now sample_env\<rparr>"
  let ?tx = "\<lambda>hist. \<lparr>tx_ID = 0, tx_RefID = NewRefID \<lparr>rd_RefType = TransferRef, rd_ID = bh_ID hist\<rparr>,
     tx_TeamID = tcr_TeamId transfer_request, tx_CreatedByID = IdentityID anyone, tx_OrderID = None,
     tx_Desc = tcr_Desc transfer_request, tx_Created = now sample_env\<rparr>"
  let ?l = "[LTypeLabel [(LABEL_KEY_TRANSFER_PURPOSE, nm (tcr_Purpose transfer_request))]]"
  let ?e1 = "\<lambda>tran. entryA sample_env (tcr_TeamId transfer_request) (GetUserID anyone) (transfer_from_calls transfer_request ?fa ?ta tran) [IncludeDebitCreditEqual]"
  let ?e2 = "\<lambda>tran. entryA sample_env (ba_TeamID ?ta) (GetUserID anyone) (transfer_to_calls transfer_request ?fa ?ta tran) [IncludeDebitCreditEqual]"
  have e: "succeeds (db_accounts bank_db) txs b (?e1 tran) True" "succeeds (db_accounts bank_db) txs b (?e2 tran) True" for txs b tran
    by (simp_all add: transfer_from_calls_def transfer_to_calls_def transfer_fields bank_lookup move_amount
        succeeds_debits [OF bank_accounts(1,2)])
  obtain hist s1 where 1: "save_transfer ?h ?s0 = (Inr hist, s1)" "db_accounts (s_db s1) = db_accounts bank_db"
    "db_txs (s_db s1) = []" "s_entries s1 = []"
    using save_transfer_runs [of ?h ?s0] bank_tables by (auto simp: session_of_def)
  obtain tran s2 where 2: "newTxA sample_env (?tx hist) ?l s1 = (Inr tran, s2)" "db_accounts (s_db s2) = db_accounts bank_db" "s_entries s2 = []"
    using newTxA_type_label [of "?tx hist" s1 sample_env] 1 sample_env_facts(2) by force
  obtain h2 s3 where 3: "save_transfer (hist\<lparr>bh_TxID := tx_ID tran\<rparr>) s2 = (Inr h2, s3)" "db_accounts (s_db s3) = db_accounts bank_db" "s_entries s3 = []"
    using save_transfer_runs [of "hist\<lparr>bh_TxID := tx_ID tran\<rparr>" s2] 2 by auto
  have "ready (db_accounts bank_db) (db_txs (s_db s3)) False s3" using 3 by (simp add: ready_def)
  with e(1) obtain s4 where 4: "?e1 tran s3 = (Inr (), s4)" "ready (db_accounts bank_db) (db_txs (s_db s3)) True s4"
    unfolding succeeds_def by (metis old.unit.exhaust)
  with e(2) obtain s5 where 5: "?e2 tran s4 = (Inr (), s5)" "ready (db_accounts bank_db) (db_txs (s_db s3)) True s5"
    unfolding succeeds_def by (metis old.unit.exhaust)
  have "transfer_body sample_env nm anyone transfer_request (open_book ?s0) = (Inr (), s5)"
    using 1(1) 2(1) 3(1) 4(1) 5(1)
    by (auto simp: transfer_body_def bindA_Inr thenA_Inr first_bank_account_Inr bank_lookup transfer_fields)
  from OpenTransaction_runs [of "transfer_body sample_env nm anyone transfer_request", OF this, of sample_env] 5(2) sample_env_facts(1)
  show ?thesis unfolding TransferCreate_def thenA_Inr checkA_Inr by (auto simp: ready_def)
qed

theorem transfer_books_witness:
  "\<exists>s'. TransferCreate sample_env (\<lambda>_. ''rent'') anyone transfer_request (session_of bank_db) = (Inr (Some ()), s') \<and>
    book_balance 7 11 (db_entries (s_db s')) = - 50 \<and> book_balance 8 12 (db_entries (s_db s')) = 50"
proof -
  obtain s' where r: "TransferCreate sample_env (\<lambda>_. ''rent'') anyone transfer_request (session_of bank_db) = (Inr (Some ()), s')"
    using sample_transfer ..
  have ok: "transfer_ok transfer_request" by (simp add: transfer_ok_def transfer_fields amount_ok_def move_amount)
  have acc: "transfer_accounts_of (db_accounts bank_db) 7 8 11 12 13" by (simp add: transfer_accounts_of_def bank_accounts)
  have "transfer_accounts_of (db_accounts (s_db (session_of bank_db))) (ba_TeamID facc) (ba_TeamID tacc) 11 12 13"
    if "bank_account (s_db (session_of bank_db)) (tcr_FromAccountId transfer_request) = Some facc"
      "bank_account (s_db (session_of bank_db)) (tcr_ToAccountId transfer_request) = Some tacc" for facc tacc
    using that acc by (auto simp: transfer_fields bank_lookup)
  from transfer_books [OF r iter_ok_sample ok this] r show ?thesis
    by (intro exI [of _ s']) (simp add: transfer_fields bank_lookup bank_tables move_amount Let_def)
qed

theorem adj_create_hides_errors_witness:
  "\<exists>s'. AdjCreate sample_env anyone \<lparr>acr_Description = ''empty'', acr_Books = []\<rparr> (session_of bank_db) = (Inr (), s') \<and>
    s_db s' = bank_db"
proof -
  let ?pay = "\<lparr>acr_Description = ''empty'', acr_Books = []\<rparr>" and ?s = "session_of bank_db"
  obtain tx where b: "adj_create_body sample_env anyone ?pay = bindA (newTxA sample_env tx []) (\<lambda>_. returnA ())"
    by (simp add: adj_create_body_def)
  obtain q s2 where n: "newTxA sample_env tx [] (open_book ?s) = (q, s2)" by (cases "newTxA sample_env tx [] (open_book ?s)")
  obtain r s1 where h: "adj_create_body sample_env anyone ?pay (open_book ?s) = (r, s1)"
    by (cases "adj_create_body sample_env anyone ?pay (open_book ?s)")
  have "r \<noteq> Inl ErrSkipTransaction" "s1 = s2"
    using h n newTxA_noskip [of sample_env tx "[]" "open_book ?s"] unfolding b by (cases q; auto simp: bindA_def returnA_def)+
  note f = this refused_empty_book [of "adj_create_body sample_env anyone ?pay", OF h, of sample_env] newTxA_entries [OF n]
  have "s_entries ?s = []" by (simp add: session_of_def)
  then obtain e s3 where "OpenTransaction sample_env (adj_create_body sample_env anyone ?pay) ?s = (Inl e, s3)" "s_db s3 = bank_db"
    using f by auto
  with adj_create_hides_errors [of anyone sample_env ?pay ?s] show ?thesis by (auto simp: sample_env_facts)
qed

end
