(* ===== verification/RevenueSpec.thy ===== *)
theory RevenueSpec
  imports BookingSpec Services
begin

section \<open>Revenue: properties\<close>

text \<open>
  What a withdrawal and a marketplace adjustment book, and where orders, returns and the
  correction of a receivable do not fit together.
\<close>

subsection \<open>Withdrawals\<close>

lemma unless_exists_Some:
  "unless_exists ref m s = (Inr (Some x), s') \<longleftrightarrow> \<not> checkTxExist ref (s_db s) \<and> m s = (Inr (Some x), s')"
  by (auto simp: unless_exists_def bindA_Inr split: if_splits)

lemma checkTxExist_append:
  assumes "\<forall>r \<in> set txs. tx_RefID r = ref \<longrightarrow> tx_ID r = 0" and "\<forall>r \<in> set txs. tx_ID r \<noteq> 0"
    and "tx_RefID tran = ref" and "tx_ID tran \<noteq> 0" and "db_txs d = txs @ [tran]"
  shows "checkTxExist ref d"
proof -
  from assms(1,2) have "\<forall>r \<in> set txs. tx_RefID r \<noteq> ref" by blast
  then have "find (\<lambda>r. tx_RefID r = ref) (txs @ [tran]) = Some tran" using assms(3) by (induction txs) auto
  then show ?thesis using assms(4,5) by (simp add: checkTxExist_def)
qed

text \<open>
  C15: A successful withdrawal moves its exact amount from the receivable of the marketplace to
  cash in the team's book. Asking again for the same shop and second, whatever the
  amount, answers without an error and changes nothing.
\<close>

theorem withdrawal_once:
  assumes "Withdrawal en ident pay s = (Inr (Some ()), s')" and "iter_ok (iter en)" and "amount_ok (wdr_Amount pay)"
    and "debit_account (db_accounts (s_db s)) SellingReceivableAccount (wdr_TeamId pay) receivable"
    and "debit_account (db_accounts (s_db s)) CashAccount (wdr_TeamId pay) cash"
    and "\<forall>r \<in> set (db_txs (s_db s)). tx_ID r \<noteq> 0"
    and "IdentityErr ident' = None" and "wdr_ShopId pay' = wdr_ShopId pay" and "Unix (wdr_At pay') = Unix (wdr_At pay)"
  shows "(\<forall>t a. book_balance t a (db_entries (s_db s')) = book_balance t a (db_entries (s_db s)) +
      (if t = wdr_TeamId pay then amounts_on [(receivable, - val (wdr_Amount pay)), (cash, val (wdr_Amount pay))] a else 0)) \<and>
    Withdrawal en' ident' pay' s' = (Inr None, s')"
proof -
  let ?ref = "NewShopDateRefID WithdrawalRef (wdr_ShopId pay) (wdr_At pay)" and ?acs = "db_accounts (s_db s)"
  let ?tx = "\<lparr>tx_ID = 0, tx_RefID = ?ref, tx_TeamID = wdr_TeamId pay, tx_CreatedByID = IdentityID ident, tx_OrderID = None,
          tx_Desc = ?ref @ '' '' @ wdr_Desc pay, tx_Created = now en\<rparr>"
  let ?e = "\<lambda>tran. entryA en (wdr_TeamId pay) (IdentityID ident) (withdrawal_calls (wdr_TeamId pay) (wdr_Amount pay) tran) []"
  let ?h = "bindA (newTxA en ?tx [LShop (wdr_ShopId pay)]) ?e"
  have run: "OpenTransaction en ?h s = (Inr (Some ()), s')"
    using assms(1) unfolding Withdrawal_def Let_def thenA_Inr checkA_Inr unless_exists_Some withdraw_def by blast
  note ps = debit_posting(1,2) [OF assms(4)] debit_posting(1,2) [OF assms(5)]
  have b: "books ?acs (also_books nothing (in_book (wdr_TeamId pay)
      (amounts_on [(receivable, - val (wdr_Amount pay)), (cash, val (wdr_Amount pay))]))) ?h"
    using assms(2,3)
    by (intro books_bind books_nothing books_posts small_calls)
       (simp_all add: withdrawal_calls_def ps del: posting.simps(1,2))
  have bal: "book_balance t a (db_entries (s_db s')) = book_balance t a (db_entries (s_db s)) +
      (if t = wdr_TeamId pay then amounts_on [(receivable, - val (wdr_Amount pay)), (cash, val (wdr_Amount pay))] a else 0)" for t a
    using books_OpenTransaction(2) [OF b run refl, of t a] by (simp add: booked_simps)
  from OpenTransaction_Some_db [OF run] obtain s1 where h: "?h (open_book s) = (Inr (), s1)" and d: "s_db s' = s_db s1" by blast
  then obtain tran s2 where n: "newTxA en ?tx [LShop (wdr_ShopId pay)] (open_book s) = (Inr tran, s2)" and e: "?e tran s2 = (Inr (), s1)"
    unfolding bindA_Inr by blast
  have "db_txs (s_db s') = db_txs (s_db s) @ [tran]" "tx_RefID tran = ?ref" "tx_ID tran \<noteq> 0"
    "\<forall>r \<in> set (db_txs (s_db s)). tx_RefID r = ?ref \<longrightarrow> tx_ID r = 0"
    using newTxA_row [OF n] rest_fields [OF entryA_rest [OF e]] by (simp_all add: d)
  then have "checkTxExist ?ref (s_db s')" using checkTxExist_append assms(6) by blast
  moreover have "NewShopDateRefID WithdrawalRef (wdr_ShopId pay') (wdr_At pay') = ?ref"
    using assms(8,9) by (simp add: NewShopDateRefID_def)
  ultimately have "Withdrawal en' ident' pay' s' = (Inr None, s')"
    using assms(7) by (simp add: Withdrawal_def Let_def thenA_Inr unless_exists_def bindA_Inr)
  with bal show ?thesis by blast
qed

subsection \<open>Adjustments of the marketplace\<close>

text \<open>
  An adjustment that the marketplace reports is booked the same way whatever its sign: the
  team gains other revenue and a receivable of its absolute value, also when money was taken.
\<close>

theorem stream_adjustment_ignores_sign:
  assumes "stream_adjustment en nm init adj s = (Inr (Some ()), s')" and "iter_ok (iter en)" and "amount_ok (sa_Amount adj)"
    and "credit_account (db_accounts (s_db s)) OtherRevenueAccount (in_TeamId init) revenue"
    and "debit_account (db_accounts (s_db s)) SellingReceivableAccount (in_TeamId init) receivable"
  shows "book_balance t a (db_entries (s_db s')) = book_balance t a (db_entries (s_db s)) +
      (if t = in_TeamId init then amounts_on [(revenue, - \<bar>val (sa_Amount adj)\<bar>), (receivable, \<bar>val (sa_Amount adj)\<bar>)] a else 0)"
proof -
  let ?acs = "db_accounts (s_db s)" and ?ref = "adjustment_ref init adj"
  let ?tx = "\<lparr>tx_ID = 0, tx_RefID = ?ref, tx_TeamID = in_TeamId init, tx_CreatedByID = in_UserId init,
               tx_OrderID = None, tx_Desc = ?ref @ '' '' @ sa_Desc adj, tx_Created = now en\<rparr>"
  let ?l = "[LShop (in_ShopId init), LTags (sa_Tags adj), LTypeLabel [(LABEL_KEY_REVENUE_SOURCE, nm (sa_Source adj))]]"
  let ?calls = "\<lambda>tran. stream_adjustment_calls (in_TeamId init) (sa_Amount adj) @ [CTransaction tran]"
  let ?h = "bindA (newTxA en ?tx ?l) (\<lambda>tran. entryA en (in_TeamId init) (in_UserId init) (?calls tran) [])"
  have run: "OpenTransaction en ?h s = (Inr (Some ()), s')"
    using assms(1) unfolding stream_adjustment_def Let_def unless_exists_Some by blast
  note ps = debit_posting(1,2) [OF assms(5)] credit_posting(1,2) [OF assms(4)]
  have post: "posted ?acs (?calls tran) a = amounts_on [(revenue, - \<bar>val (sa_Amount adj)\<bar>), (receivable, \<bar>val (sa_Amount adj)\<bar>)] a" for tran a
    by (cases "0 < sa_Amount adj"; cases "sa_Amount adj < 0")
       (auto simp: stream_adjustment_calls_def ps val_less simp del: posting.simps(1,2))
  have w: "whole_calls (?calls tran)" for tran
    using assms(3) by (intro small_calls) (simp_all add: stream_adjustment_calls_def)
  have b: "books ?acs (also_books nothing (in_book (in_TeamId init)
      (amounts_on [(revenue, - \<bar>val (sa_Amount adj)\<bar>), (receivable, \<bar>val (sa_Amount adj)\<bar>)]))) ?h"
    by (intro books_bind books_nothing books_posts [OF w assms(2) _ post]) simp
  from books_OpenTransaction(2) [OF b run refl, of t a] show ?thesis by (simp add: booked_simps)
qed

subsection \<open>Rolling back only\<close>

lemma OpenTransaction_entries: "OpenTransaction en h s = (r, s') \<Longrightarrow> s_entries s' = s_entries s"
proof -
  have d: "s_entries s2 = s_entries s1" if "dispatch hs u s1 = (q, s2)" for hs u s1 q s2
    using dispatch_book(2) [of hs u s1] that by simp
  show "OpenTransaction en h s = (r, s') \<Longrightarrow> s_entries s' = s_entries s"
    by (auto simp: OpenTransaction_def Let_def split: prod.splits sum.splits if_splits dest!: d)
qed

lemma rollbackA_entries: "rollbackA en ref user desc s = (r, s') \<Longrightarrow> s_entries s' = s_entries s"
proof -
  have "s_entries s1 = s_entries s" if "RollbackEntry en user desc t s = (t', s1)" for t t' s1
    using that by (auto simp: RollbackEntry_def Let_def split: if_splits option.splits prod.splits sum.splits dest: OpenTransaction_entries)
  then show "rollbackA en ref user desc s = (r, s') \<Longrightarrow> s_entries s' = s_entries s"
    by (auto simp: rollbackA_def checkA_def failA_def returnA_def split: prod.splits option.splits)
qed

lemma OpenTransaction_empty:
  assumes "OpenTransaction en h s = (r, s')" and "s_entries (snd (h (open_book s))) = []"
  shows "s_db s' = s_db s \<and> r \<noteq> Inr (Some x)"
proof -
  obtain q s1 where h: "h (open_book s) = (q, s1)" by (cases "h (open_book s)")
  with assms(2) have "s_entries s1 = []" by simp
  with h obtain e where "tx_body h s = (Inl e, s1)" by (cases q) (auto simp: tx_body_def open_book_def)
  from OpenTransaction_Inl [OF this, of en] assms(1) show ?thesis by auto
qed

lemma receivable_tran_entries: "s_entries (snd (receivable_tran en ident pay s)) = s_entries s"
proof -
  obtain r s' where "receivable_tran en ident pay s = (r, s')" by (cases "receivable_tran en ident pay s")
  moreover from this have "s_entries s' = s_entries s"
    by (auto simp: receivable_tran_def Let_def bindA_def readA_def thenA_def derefA_def returnA_def failA_def
        split: option.splits if_splits sum.splits prod.splits dest: newTxA_entries rollbackA_entries)
  ultimately show ?thesis by simp
qed

text \<open>
  A correction of a receivable that should only roll back never succeeds: its own book is
  empty when it ends, so everything is undone, the rollback included.
\<close>

theorem only_rollback_never_succeeds:
  assumes "SellingReceivableAdjustment en nm ident pay s = (r, s')" and "rar_OnlyRollback pay"
  shows "s_db s' = s_db s \<and> r \<noteq> Inr (Some ())"
proof -
  have "s_entries (snd (receivable_body en nm ident pay (open_book s))) = []"
    using receivable_tran_entries [of en ident pay "open_book s"] assms(2)
    by (auto simp: receivable_body_def bindA_def returnA_def split: prod.splits sum.splits)
  from OpenTransaction_empty [where h = "receivable_body en nm ident pay", OF _ this] checked_tables [OF assms(1) [unfolded SellingReceivableAdjustment_def]]
    assms(1) show ?thesis
    by (cases "IdentityErr ident") (auto simp: SellingReceivableAdjustment_def thenA_def checkA_def failA_def)
qed

subsection \<open>Orders and returns\<close>

text \<open>Successful runs change no balance in the book of \<open>w\<close>.\<close>

definition leaves_book :: "Account list \<Rightarrow> nat \<Rightarrow> 'a action \<Rightarrow> bool" where
  "leaves_book acs w h \<longleftrightarrow> (\<forall>s r s'. h s = (Inr r, s') \<longrightarrow> db_accounts (s_db s) = acs \<longrightarrow> db_accounts (s_db s') = acs \<and>
     (\<forall>a. book_balance w a (db_entries (s_db s')) = book_balance w a (db_entries (s_db s))))"

lemma leaves_books: "books acs \<delta> h \<Longrightarrow> (\<And>a. \<delta> w a = 0) \<Longrightarrow> leaves_book acs w h"
  by (simp add: books_def leaves_book_def)

lemma leaves_bind: "leaves_book acs w m \<Longrightarrow> (\<And>x. leaves_book acs w (f x)) \<Longrightarrow> leaves_book acs w (bindA m f)"
  unfolding leaves_book_def bindA_Inr by metis

lemma leaves_then: "leaves_book acs w m \<Longrightarrow> leaves_book acs w n \<Longrightarrow> leaves_book acs w (thenA m n)"
  unfolding thenA_def by (rule leaves_bind)

lemma leaves_simple:
  "leaves_book acs w (returnA y)" "leaves_book acs w (failA e)" "leaves_book acs w (derefA p)"
  "leaves_book acs w (newTxA en tran calls)" "leaves_book acs w (uncommittedA en team user ecalls)"
  by (rule leaves_books [where \<delta> = nothing], rule book, simp add: nothing_def)+

lemma leaves_entry:
  assumes "list_all call_ok calls" and "length calls \<le> 32" and "iter_ok (iter en)" and "team \<noteq> w"
  shows "leaves_book acs w (entryA en team user calls [])"
  using assms by (intro leaves_books [OF books_entry]) (auto intro: small_calls simp: in_book_def)

lemma leaves_skip: "leaves_book acs w m \<Longrightarrow> leaves_book acs w (skip_if_exists m)"
  by (auto simp: leaves_book_def skip_if_exists_def split: prod.splits sum.splits)

lemmas leave = leaves_skip leaves_bind leaves_then leaves_entry leaves_simple

lemma order_leaves_warehouse:
  assumes "iter_ok (iter en)" and "order_ok pay" and "oor_WarehouseFee pay = 0" and "oor_BorrowStock pay = []"
    and "oor_TeamId pay \<noteq> oor_WarehouseId pay"
  shows "leaves_book acs (oor_WarehouseId pay) (order_created en ident pay)"
proof -
  have own: "leaves_book acs (oor_WarehouseId pay) (ownProductStock en ident pay tran)" for tran
    using assms by (auto simp: ownProductStock_def own_stock_calls_def order_ok_def intro!: leave)
  have rev: "leaves_book acs (oor_WarehouseId pay) (revenueOrder en ident pay tran)" for tran
    using assms by (auto simp: revenueOrder_def sale_calls_def order_ok_def intro!: leave split: AdditionalPayment.splits)
  have add: "leaves_book acs (oor_WarehouseId pay) (additionalAmount en ident pay tran)" for tran
    using assms by (auto simp: additionalAmount_def extra_cost_def pay_with_def order_ok_def intro!: leave
        split: AdditionalPayment.splits OrderPaymentMethod.splits)
  show ?thesis
    unfolding order_created_def
    by (intro own rev add leave) (simp_all add: createWarehouseFee_def crossProductStock_def leave assms)
qed

lemma return_books:
  assumes "OrderReturn en ident pay s = (Inr (Some ()), s')" and "iter_ok (iter en)" and "amount_ok (rtr_StockAmount pay)"
    and "debit_account (db_accounts (s_db s)) StockCostAccount (rtr_TeamId pay) cost"
    and "debit_account (db_accounts (s_db s)) StockPendingAccount (rtr_TeamId pay) pend"
    and "rtr_TeamId pay \<noteq> rtr_WarehouseId pay"
  shows "book_balance (rtr_WarehouseId pay) a (db_entries (s_db s')) = book_balance (rtr_WarehouseId pay) a (db_entries (s_db s)) +
    amounts_on [(cost, - val (rtr_StockAmount pay)), (pend, val (rtr_StockAmount pay))] a"
proof -
  let ?acs = "db_accounts (s_db s)" and ?x = "rtr_StockAmount pay" and ?ware = "rtr_WarehouseId pay"
  from assms(1) obtain desc where run: "OpenTransaction en (return_body en ident pay desc) s = (Inr (Some ()), s')"
    unfolding OrderReturn_def thenA_Inr checkA_Inr bindA_Inr derefA_Inr by blast
  note ps = debit_posting(1,2) [OF assms(4)] debit_posting(1,2) [OF assms(5)]
  have w: "whole_calls (return_calls t ?x tran)" for t tran
    using assms(3) by (intro small_calls) (simp_all add: return_calls_def)
  have team: "books ?acs (in_book (rtr_TeamId pay) (posted ?acs (take 2 (return_calls ?ware ?x undefined))))
      (entryA en (rtr_TeamId pay) u (return_calls ?ware ?x tran) [])" for tran u
    by (rule books_posts [OF w assms(2)]) (simp_all add: return_calls_def numeral_2_eq_2)
  have ware: "books ?acs (in_book ?ware (amounts_on [(cost, - val ?x), (pend, val ?x)]))
      (entryA en ?ware u (return_calls (rtr_TeamId pay) ?x tran) [])" for tran u
    by (rule books_posts [OF w assms(2)]) (simp_all add: return_calls_def ps del: posting.simps(1,2))
  have b: "books ?acs (also_books nothing (also_books nothing (also_books
      (in_book (rtr_TeamId pay) (posted ?acs (take 2 (return_calls ?ware ?x undefined))))
      (in_book ?ware (amounts_on [(cost, - val ?x), (pend, val ?x)]))))) (return_body en ident pay desc)"
    unfolding return_body_def Let_def by (intro books_bind books_then books_nothing team ware)
  from books_OpenTransaction(2) [OF b run refl, of ?ware a] assms(6) show ?thesis by (simp add: booked_simps)
qed

text \<open>
  C29: An order from own stock is booked on one side only: the chain of the warehouse has no
  commit. When the order comes back, the return books both sides, so the warehouse's book ends
  with a negative stock cost and pending stock for goods whose sale it never saw.
\<close>

theorem returned_order_unmatched:
  assumes "OnOrder en ident pay s = (Inr (Some ()), s1)" and "oor_WarehouseFee pay = 0" and "oor_BorrowStock pay = []"
    and "OrderReturn en' ident' ret s1 = (Inr (Some ()), s2)"
    and "rtr_TeamId ret = oor_TeamId pay" and "rtr_WarehouseId ret = oor_WarehouseId pay"
    and "rtr_StockAmount ret = oor_OwnStockAmount pay" and "oor_TeamId pay \<noteq> oor_WarehouseId pay"
    and "iter_ok (iter en)" and "iter_ok (iter en')" and "order_ok pay"
    and "debit_account (db_accounts (s_db s)) StockCostAccount (oor_TeamId pay) cost"
    and "debit_account (db_accounts (s_db s)) StockPendingAccount (oor_TeamId pay) pend"
  shows "book_balance (oor_WarehouseId pay) a (db_entries (s_db s1)) = book_balance (oor_WarehouseId pay) a (db_entries (s_db s)) \<and>
    book_balance (oor_WarehouseId pay) a (db_entries (s_db s2)) = book_balance (oor_WarehouseId pay) a (db_entries (s_db s)) +
      amounts_on [(cost, - val (oor_OwnStockAmount pay)), (pend, val (oor_OwnStockAmount pay))] a"
proof -
  have "OpenTransaction en (order_created en ident pay) s = (Inr (Some ()), s1)"
    using assms(1) by (simp add: OnOrder_def thenA_Inr split: OrderEvent.splits)
  from OpenTransaction_Some_db [OF this] obtain s' where h: "order_created en ident pay (open_book s) = (Inr (), s')"
    and d: "s_db s1 = s_db s'" by blast
  from order_leaves_warehouse [OF assms(9,11,2,3,8), of "db_accounts (s_db s)" ident] h
  have o: "db_accounts (s_db s1) = db_accounts (s_db s)"
    "book_balance (oor_WarehouseId pay) a (db_entries (s_db s1)) = book_balance (oor_WarehouseId pay) a (db_entries (s_db s))"
    unfolding leaves_book_def d by (metis book_db(1))+
  have "amount_ok (rtr_StockAmount ret)" using assms(7,11) by (simp add: order_ok_def)
  from return_books [OF assms(4,10) this, of cost pend a] assms(5-8,12,13) o show ?thesis by simp
qed

subsection \<open>Samples\<close>

text \<open>Shop 5 of team 7, with the accounts of its sales and of its stock in warehouse 21.\<close>

definition shop_db :: db where
  "shop_db = empty_db\<lparr>db_accounts :=
     [sample_account 11 CashAccount 7 DebitBalance, sample_account 12 SellingReceivableAccount 7 DebitBalance,
      sample_account 13 OtherRevenueAccount 7 CreditBalance, sample_account 14 StockReadyAccount 21 DebitBalance,
      sample_account 15 StockCostAccount 21 DebitBalance, sample_account 16 StockPendingAccount 21 DebitBalance,
      sample_account 17 StockReadyAccount 7 DebitBalance, sample_account 18 StockCostAccount 7 DebitBalance,
      sample_account 19 StockPendingAccount 7 DebitBalance],
     db_marketplaces := [(5, ''tokopedia'')]\<rparr>"

lemma shop_accounts: "debit_account (db_accounts shop_db) CashAccount 7 11"
  "debit_account (db_accounts shop_db) SellingReceivableAccount 7 12" "credit_account (db_accounts shop_db) OtherRevenueAccount 7 13"
  "debit_account (db_accounts shop_db) StockReadyAccount 21 14" "debit_account (db_accounts shop_db) StockCostAccount 21 15"
  "debit_account (db_accounts shop_db) StockPendingAccount 21 16" "debit_account (db_accounts shop_db) StockReadyAccount 7 17"
  "debit_account (db_accounts shop_db) StockCostAccount 7 18" "debit_account (db_accounts shop_db) StockPendingAccount 7 19"
  by (simp_all add: debit_account_def credit_account_def key_account_def shop_db_def sample_account_def CashAccount_def
      SellingReceivableAccount_def OtherRevenueAccount_def StockReadyAccount_def StockCostAccount_def StockPendingAccount_def)

lemma shop_tables: "db_txs shop_db = []" "db_entries shop_db = []" "map_of (db_marketplaces shop_db) 5 = Some ''tokopedia''"
  "s_entries (session_of d) = []"
  by (simp_all add: shop_db_def empty_db_def session_of_def)

definition wd_request :: WithdrawalRequest where
  "wd_request = \<lparr>wdr_TeamId = 7, wdr_ShopId = 5, wdr_At = sample_time, wdr_Desc = ''wd'', wdr_Amount = f64_of 50\<rparr>"

lemma wd_fields: "wdr_TeamId wd_request = 7" "wdr_ShopId wd_request = 5" "wdr_Amount wd_request = f64_of 50"
  by (simp_all add: wd_request_def)

lemma sample_withdrawal: "\<exists>s'. Withdrawal sample_env anyone wd_request (session_of shop_db) = (Inr (Some ()), s')"
proof -
  let ?ref = "NewShopDateRefID WithdrawalRef (wdr_ShopId wd_request) (wdr_At wd_request)"
  let ?tx = "\<lparr>tx_ID = 0, tx_RefID = ?ref, tx_TeamID = wdr_TeamId wd_request, tx_CreatedByID = IdentityID anyone,
     tx_OrderID = None, tx_Desc = ?ref @ '' '' @ wdr_Desc wd_request, tx_Created = now sample_env\<rparr>"
  let ?f = "\<lambda>tran. entryA sample_env (wdr_TeamId wd_request) (IdentityID anyone)
     (withdrawal_calls (wdr_TeamId wd_request) (wdr_Amount wd_request) tran) []"
  have f: "succeeds (db_accounts (s_db (session_of shop_db))) txs False (?f tran) True" for tran txs
    by (simp add: withdrawal_calls_def wd_fields move_amount succeeds_debits [OF shop_accounts(2,1)])
  from transaction_succeeds [where tx = ?tx and s = "session_of shop_db" and f = ?f and calls = "[LShop (wdr_ShopId wd_request)]",
      OF _ _ _ _ f sample_env_facts(1)] sample_env_facts(2)
  obtain s' where "OpenTransaction sample_env (bindA (newTxA sample_env ?tx [LShop (wdr_ShopId wd_request)]) ?f)
      (session_of shop_db) = (Inr (Some ()), s')" by (auto simp: shop_tables wd_fields)
  then show ?thesis unfolding Withdrawal_def Let_def thenA_Inr checkA_Inr unless_exists_Some withdraw_def
    by (intro exI [of _ s']) (auto simp: checkTxExist_def shop_tables)
qed

theorem withdrawal_once_witness:
  "\<exists>s'. Withdrawal sample_env anyone wd_request (session_of shop_db) = (Inr (Some ()), s') \<and>
    book_balance 7 12 (db_entries (s_db s')) = - 50 \<and> book_balance 7 11 (db_entries (s_db s')) = 50 \<and>
    Withdrawal sample_env anyone wd_request s' = (Inr None, s')"
proof -
  obtain s' where r: "Withdrawal sample_env anyone wd_request (session_of shop_db) = (Inr (Some ()), s')"
    using sample_withdrawal ..
  have ok: "amount_ok (wdr_Amount wd_request)" by (simp add: wd_fields amount_ok_def move_amount)
  from withdrawal_once [OF r iter_ok_sample ok, of 12 11 anyone wd_request sample_env] shop_accounts(1,2) r
  show ?thesis by (intro exI [of _ s']) (simp add: wd_fields shop_tables move_amount)
qed

definition adj_event :: StreamAdjustment where
  "adj_event = \<lparr>sa_OrderId = ''A-1'', sa_At = sample_time, sa_Desc = ''fine'', sa_Tags = [], sa_Source = 1, sa_Amount = f64_of (- 50)\<rparr>"

definition shop_init :: StreamInit where
  "shop_init = \<lparr>in_Token = [], in_ShopId = 5, in_TeamId = 7, in_UserId = 1\<rparr>"

lemma adj_fields: "in_TeamId shop_init = 7" "in_ShopId shop_init = 5" "sa_Amount adj_event = f64_of (- 50)" "sa_Tags adj_event = []"
  by (simp_all add: adj_event_def shop_init_def)

lemma sample_adjustment:
  "\<exists>s'. stream_adjustment sample_env (\<lambda>_. ''src'') shop_init adj_event (session_of shop_db) = (Inr (Some ()), s')"
proof -
  let ?ref = "adjustment_ref shop_init adj_event"
  let ?tx = "\<lparr>tx_ID = 0, tx_RefID = ?ref, tx_TeamID = in_TeamId shop_init, tx_CreatedByID = in_UserId shop_init,
     tx_OrderID = None, tx_Desc = ?ref @ '' '' @ sa_Desc adj_event, tx_Created = now sample_env\<rparr>"
  let ?l = "[LShop (in_ShopId shop_init), LTags (sa_Tags adj_event), LTypeLabel [(LABEL_KEY_REVENUE_SOURCE, ''src'')]]"
  let ?f = "\<lambda>tran. entryA sample_env (in_TeamId shop_init) (in_UserId shop_init)
     (stream_adjustment_calls (in_TeamId shop_init) (sa_Amount adj_event) @ [CTransaction tran]) []"
  have v: "f64_of (- 50) < 0" "\<not> 0 < f64_of (- 50)" "f64_of (- 50) \<noteq> 0" "val (f64_of (- 50)) = - 50" "whole (f64_of (- 50))"
    by (simp_all add: val_f64_of whole_f64_of)
  have f: "succeeds (db_accounts (s_db (session_of shop_db))) txs False (?f tran) True" for tran txs
    unfolding adj_fields session_of_db stream_adjustment_calls_def if_not_P [OF v(2)] if_P [OF v(1)] append.simps
  proof (rule succeeds_move [where i = 13 and j = 12 and v = 50])
    show "posting (db_accounts shop_db) (FromC OtherRevenueAccount 7 (f64_of (- 50))) = Some (13, - 50)"
      using credit_posting(2) [OF shop_accounts(3), of "f64_of (- 50)" "[]"] by (simp add: v)
    show "posting (db_accounts shop_db) (FromC SellingReceivableAccount 7 (f64_of (- 50))) = Some (12, 50)"
      using debit_posting(2) [OF shop_accounts(2), of "f64_of (- 50)" "[]"] by (simp add: v)
    show "list_all (valid_call (db_accounts shop_db))
        [FromC OtherRevenueAccount 7 (f64_of (- 50)), FromC SellingReceivableAccount 7 (f64_of (- 50))]"
      using credit_posting(4) [OF shop_accounts(3), of "f64_of (- 50)" "[]"] debit_posting(4) [OF shop_accounts(2), of "f64_of (- 50)" "[]"] v(3)
      by (simp del: valid_call.simps)
    show "whole_calls [FromC OtherRevenueAccount 7 (f64_of (- 50)), FromC SellingReceivableAccount 7 (f64_of (- 50))]"
      by (simp add: whole_list_Cons v)
  qed (simp_all add: is_post_def)
  from transaction_succeeds [where tx = ?tx and s = "session_of shop_db" and f = ?f and calls = ?l, OF _ _ _ _ f sample_env_facts(1)]
    sample_env_facts(2)
  obtain s' where "OpenTransaction sample_env (bindA (newTxA sample_env ?tx ?l) ?f) (session_of shop_db) = (Inr (Some ()), s')"
    by (auto simp: shop_tables adj_fields)
  then show ?thesis unfolding stream_adjustment_def Let_def unless_exists_Some
    by (intro exI [of _ s']) (auto simp: checkTxExist_def shop_tables)
qed

theorem stream_adjustment_ignores_sign_witness:
  "\<exists>s'. stream_adjustment sample_env (\<lambda>_. ''src'') shop_init adj_event (session_of shop_db) = (Inr (Some ()), s') \<and>
    sa_Amount adj_event < 0 \<and> book_balance 7 13 (db_entries (s_db s')) = - 50 \<and> book_balance 7 12 (db_entries (s_db s')) = 50"
proof -
  obtain s' where r: "stream_adjustment sample_env (\<lambda>_. ''src'') shop_init adj_event (session_of shop_db) = (Inr (Some ()), s')"
    using sample_adjustment ..
  have v: "val (sa_Amount adj_event) = - 50" "amount_ok (sa_Amount adj_event)"
    by (simp_all add: adj_fields amount_ok_def val_f64_of whole_f64_of)
  from stream_adjustment_ignores_sign [OF r iter_ok_sample v(2), of 13 12 7] shop_accounts(2,3) r
  show ?thesis by (intro exI [of _ s']) (simp add: adj_fields shop_tables v(1) [unfolded adj_fields])
qed

definition undo_request :: ReceivableRequest where
  "undo_request = \<lparr>rar_TeamId = 7, rar_ShopId = 5, rar_OrderId = 3, rar_AdjRefId = ''A-1'', rar_Desc = ''undo'',
     rar_OnlyRollback = True, rar_Type = ADJUSTMENT_TYPE_OTHER_COST, rar_Amount = 0\<rparr>"

theorem only_rollback_never_succeeds_witness:
  "\<exists>r s'. SellingReceivableAdjustment sample_env (\<lambda>_. ''t'') anyone undo_request (session_of shop_db) = (r, s') \<and>
    s_db s' = shop_db \<and> r \<noteq> Inr (Some ())"
proof -
  obtain r s' where r: "SellingReceivableAdjustment sample_env (\<lambda>_. ''t'') anyone undo_request (session_of shop_db) = (r, s')"
    by (cases "SellingReceivableAdjustment sample_env (\<lambda>_. ''t'') anyone undo_request (session_of shop_db)")
  from only_rollback_never_succeeds [OF r] r show ?thesis by (simp add: undo_request_def)
qed

definition own_order :: OnOrderRequest where
  "own_order = \<lparr>oor_Event = ORDER_EVENT_CREATED, oor_OrderId = 3, oor_TeamId = 7, oor_WarehouseId = 21,
     oor_OrderInfo = Some \<lparr>oi_ExternalOrderId = [], oi_Receipt = [], oi_ParentExternalOrderId = 0\<rparr>,
     oor_LabelInfo = Some \<lparr>li_ShopId = 5, li_CsId = 1, li_TypeLabels = [], li_Tags = []\<rparr>,
     oor_OwnStockAmount = f64_of 50, oor_WarehouseFee = 0, oor_BorrowStock = [], oor_IsCustomOrder = True,
     oor_OrderAmount = 0, oor_AdditionalPayment = NoPayment\<rparr>"

definition own_return :: ReturnRequest where
  "own_return = \<lparr>rtr_TeamId = 7, rtr_WarehouseId = 21, rtr_OrderId = 3,
     rtr_OrderInfo = Some \<lparr>oi_ExternalOrderId = [], oi_Receipt = [], oi_ParentExternalOrderId = 0\<rparr>,
     rtr_LabelInfo = Some \<lparr>li_ShopId = 5, li_CsId = 1, li_TypeLabels = [], li_Tags = []\<rparr>, rtr_StockAmount = f64_of 50\<rparr>"

lemma order_fields: "oor_TeamId own_order = 7" "oor_WarehouseId own_order = 21" "oor_OwnStockAmount own_order = f64_of 50"
  "oor_WarehouseFee own_order = 0" "oor_BorrowStock own_order = []" "oor_AdditionalPayment own_order = NoPayment"
  "rtr_TeamId own_return = 7" "rtr_WarehouseId own_return = 21" "rtr_StockAmount own_return = f64_of 50"
  by (simp_all add: own_order_def own_return_def)

lemma own_chain:
  "own_stock_calls 21 (f64_of 50) tran = [FromC StockReadyAccount 21 (f64_of 50), ToC StockCostAccount 21 (f64_of 50), CTransaction tran]"
  "own_stock_calls 7 (f64_of 50) tran = [FromC StockReadyAccount 7 (f64_of 50), ToC StockCostAccount 7 (f64_of 50), CTransaction tran]"
  by (simp_all add: own_stock_calls_def)

lemma uncommitted_own:
  assumes "db_accounts (s_db s) = db_accounts shop_db"
  shows "uncommittedA sample_env 21 user (own_stock_calls 7 (f64_of 50) tran) s = (Inr (), s)"
proof -
  let ?calls = "own_stock_calls 7 (f64_of 50) tran"
  have "list_all (valid_call (db_accounts (s_db s))) ?calls"
    using debit_posting(4) [OF shop_accounts(7), of "f64_of 50" "[]"] debit_posting(3) [OF shop_accounts(8), of "f64_of 50" "[]"]
    by (simp add: own_chain assms move_amount del: valid_call.simps(1,2))
  moreover have "whole_calls ?calls" by (simp add: own_chain whole_list_Cons move_amount)
  ultimately have "ce_err (chain_of sample_env (s_db s) 21 user ?calls) = None"
    using chain_posted(3) [of ?calls "s_db s" sample_env 21 user] by (simp add: own_chain is_post_def)
  then show ?thesis by (simp add: uncommittedA_def chain_of_def checkA_def returnA_def)
qed

lemma sample_order:
  "\<exists>s'. OnOrder sample_env anyone own_order (session_of shop_db) = (Inr (Some ()), s') \<and>
     db_accounts (s_db s') = db_accounts shop_db \<and> map tx_RefID (db_txs (s_db s')) = [tx_RefID (order_tran sample_env own_order)] \<and>
     db_marketplaces (s_db s') = db_marketplaces shop_db"
proof -
  let ?tx = "order_tran sample_env own_order" and ?s = "session_of shop_db"
  let ?l = "[LShop 5, LCustomerService (IdentityID anyone), LTypeLabel [], LTags []]"
  have tx: "tx_ID ?tx = 0" "\<not> IsZero (tx_Created ?tx)"
    using sample_env_facts(2) by (simp_all add: order_tran_def Let_def)
  have l: "list_all (label_ok (db_marketplaces (s_db ?s))) ?l" by (simp add: shop_tables)
  from ready_newTx [OF tx, of ?s ?l sample_env] l obtain tran s1 txs
    where n: "newTxA sample_env ?tx ?l ?s = (Inr tran, s1)" and r: "ready (db_accounts shop_db) txs False s1"
      and txs: "map tx_RefID txs = [tx_RefID ?tx]" by (auto simp: shop_tables)
  let ?e = "entryA sample_env 7 (GetUserID anyone) (own_stock_calls 21 (f64_of 50) tran) []"
  have "succeeds (db_accounts shop_db) txs False ?e True"
    unfolding own_chain by (rule succeeds_debits [OF shop_accounts(4,5)]) (simp_all add: move_amount)
  with r obtain s2 where e: "?e s1 = (Inr (), s2)" and r2: "ready (db_accounts shop_db) txs True s2"
    unfolding succeeds_def by (metis old.unit.exhaust)
  have "order_created sample_env anyone own_order (open_book ?s) = (Inr (), s2)"
    using n e uncommitted_own [of s2 "GetUserID anyone" tran] r2
    by (auto simp: order_created_def bindA_Inr thenA_Inr skip_if_exists_def createWarehouseFee_def ownProductStock_def
        crossProductStock_def revenueOrder_def additionalAmount_def order_fields own_order_def ready_def)
  then have h: "order_created sample_env anyone own_order (open_book ?s) = (Inr (), s2)" .
  from ready_transaction [where h = "order_created sample_env anyone own_order", OF h r2 sample_env_facts(1)]
  obtain s' where o: "OpenTransaction sample_env (order_created sample_env anyone own_order) ?s = (Inr (Some ()), s')"
    "db_accounts (s_db s') = db_accounts shop_db" "db_txs (s_db s') = txs" by blast
  from OpenTransaction_Some_db [OF o(1)] h have "s_db s' = s_db s2" by (metis Pair_inject)
  with newTxA_shops [OF n] rest_fields [OF entryA_rest [OF e]] have "db_marketplaces (s_db s') = db_marketplaces shop_db" by simp
  with o txs show ?thesis by (auto simp: OnOrder_def own_order_def thenA_Inr anyone_def)
qed

lemma sample_return:
  assumes "db_accounts (s_db s) = db_accounts shop_db" and "map tx_RefID (db_txs (s_db s)) = [tx_RefID (order_tran sample_env own_order)]"
    and "db_marketplaces (s_db s) = db_marketplaces shop_db"
  shows "\<exists>s'. OrderReturn sample_env anyone own_return s = (Inr (Some ()), s')"
proof -
  let ?ref = "NewRefID \<lparr>rd_RefType = StockReturnRef, rd_ID = rtr_OrderId own_return\<rparr>" and ?desc = "''resi: '' @ [] @ '' orderid: '' @ []"
  let ?tx = "\<lparr>tx_ID = 0, tx_RefID = ?ref, tx_TeamID = rtr_TeamId own_return, tx_CreatedByID = IdentityID anyone,
     tx_OrderID = None, tx_Desc = ''returning stock '' @ ?ref @ '' '' @ ?desc, tx_Created = now sample_env\<rparr>"
  let ?l = "[LCustomerService 1, LShop 5, LTypeLabel []]"
  let ?f = "\<lambda>tran. thenA (entryA sample_env (rtr_TeamId own_return) (IdentityID anyone)
        (return_calls (rtr_WarehouseId own_return) (rtr_StockAmount own_return) tran) [])
     (entryA sample_env (rtr_WarehouseId own_return) (IdentityID anyone)
        (return_calls (rtr_TeamId own_return) (rtr_StockAmount own_return) tran) [])"
  have f: "succeeds (db_accounts (s_db s)) txs False (?f tran) True" for tran txs
    unfolding order_fields assms(1) return_calls_def
    by (rule succeeds_then [where b' = True];
        rule succeeds_debits [OF shop_accounts(5,6)] succeeds_debits [OF shop_accounts(8,9)]; simp add: move_amount)
  have "?ref \<noteq> tx_RefID (order_tran sample_env own_order)"
    by (simp add: order_tran_def NewRefID_def StockReturnRef_def OrderRef_def Let_def)
  moreover have "tx_RefID ` set (db_txs (s_db s)) = {tx_RefID (order_tran sample_env own_order)}"
    using arg_cong [OF assms(2), of set] by simp
  ultimately have "\<forall>r \<in> set (db_txs (s_db s)). tx_RefID r \<noteq> tx_RefID ?tx" by force
  with transaction_succeeds [where tx = ?tx and s = s and f = ?f and calls = ?l, OF _ _ _ _ f sample_env_facts(1)]
    sample_env_facts(2) assms(3)
  obtain s' where "OpenTransaction sample_env (bindA (newTxA sample_env ?tx ?l) ?f) s = (Inr (Some ()), s')"
    by (auto simp: shop_tables)
  then have "OpenTransaction sample_env (return_body sample_env anyone own_return ?desc) s = (Inr (Some ()), s')"
    by (simp add: return_body_def own_return_def Let_def derefA_def)
  then show ?thesis by (auto simp: OrderReturn_def thenA_Inr bindA_Inr own_return_def)
qed

theorem returned_order_unmatched_witness:
  "\<exists>s1 s2. OnOrder sample_env anyone own_order (session_of shop_db) = (Inr (Some ()), s1) \<and>
    OrderReturn sample_env anyone own_return s1 = (Inr (Some ()), s2) \<and>
    book_balance 21 18 (db_entries (s_db s2)) = - 50 \<and> book_balance 21 19 (db_entries (s_db s2)) = 50"
proof -
  obtain s1 where o: "OnOrder sample_env anyone own_order (session_of shop_db) = (Inr (Some ()), s1)"
    and a: "db_accounts (s_db s1) = db_accounts shop_db" "map tx_RefID (db_txs (s_db s1)) = [tx_RefID (order_tran sample_env own_order)]"
      "db_marketplaces (s_db s1) = db_marketplaces shop_db"
    using sample_order by (elim exE conjE) (rule that)
  obtain s2 where r: "OrderReturn sample_env anyone own_return s1 = (Inr (Some ()), s2)"
    using sample_return [OF a] ..
  have ok: "order_ok own_order"
    by (simp add: order_ok_def order_fields amount_ok_def move_amount) (simp add: own_order_def)
  have "book_balance 21 a (db_entries (s_db s2)) = amounts_on [(18, - 50), (19, 50)] a" for a
    using returned_order_unmatched [OF o _ _ r, of 18 19 a] ok shop_accounts(8,9)
    by (simp add: order_fields shop_tables move_amount)
  with o r show ?thesis by (intro exI [of _ s1] exI [of _ s2] conjI) simp_all
qed

end
