(* ===== verification/Query.thy ===== *)
theory Query
  imports Handler "HOL-Library.Product_Lexorder" "HOL-Library.List_Lexorder"
    "HOL-Library.Char_ord" "HOL-Library.Signed_Division"
begin

section \<open>Queries\<close>

text \<open>
  The vocabulary of the reading handlers. A query is the list of rows it returns: \<open>WHERE\<close> is
  \<open>filter\<close>, a column list is \<open>map\<close>, and the clauses below are functions on lists. Where SQL
  leaves the order of the rows open (no \<open>ORDER BY\<close>, equal sort keys, the order in which \<open>sum\<close> adds)
  the model takes the order of the table. Text is compared byte by byte. A column that is \<open>NULL\<close>
  leaves its field in the answer at the zero value.
\<close>

subsection \<open>Clauses\<close>

function distinct_on :: "('a \<Rightarrow> 'k) \<Rightarrow> 'a list \<Rightarrow> 'a list" where
  "distinct_on k [] = []"
| "distinct_on k (x # xs) = x # distinct_on k (filter (\<lambda>y. k y \<noteq> k x) xs)"
  by pat_completeness auto
termination
  by (relation "measure (length \<circ> snd)") (simp_all add: le_imp_less_Suc)

definition group_by :: "('a \<Rightarrow> 'k) \<Rightarrow> 'a list \<Rightarrow> ('k \<times> 'a list) list" where
  "group_by k xs = map (\<lambda>x. (k x, filter (\<lambda>y. k y = k x) xs)) (distinct_on k xs)"

definition sum_col :: "('a \<Rightarrow> f64) \<Rightarrow> 'a list \<Rightarrow> f64" where
  "sum_col f rows = foldl (\<lambda>s r. s + f r) 0 rows"

definition full_outer :: "('a \<Rightarrow> 'b \<Rightarrow> bool) \<Rightarrow> 'a list \<Rightarrow> 'b list \<Rightarrow> ('a option \<times> 'b option) list" where
  "full_outer on as bs =
     concat (map (\<lambda>a. if list_ex (on a) bs then map (\<lambda>b. (Some a, Some b)) (filter (on a) bs)
                      else [(Some a, None)]) as) @
     map (\<lambda>b. (None, Some b)) (filter (\<lambda>b. \<not> list_ex (\<lambda>a. on a b) as) bs)"

text \<open>Both orders are stable; PostgreSQL sorts \<open>NULL\<close> as the largest value.\<close>

definition order_asc :: "('a \<Rightarrow> 'k::linorder) \<Rightarrow> 'a list \<Rightarrow> 'a list" where
  "order_asc f xs = sort_key f xs"

definition order_desc :: "('a \<Rightarrow> 'k::linorder) \<Rightarrow> 'a list \<Rightarrow> 'a list" where
  "order_desc f xs = rev (sort_key f (rev xs))"

definition null_key :: "'k \<Rightarrow> 'k option \<Rightarrow> bool \<times> 'k" where
  "null_key dflt x = (case x of None \<Rightarrow> (True, dflt) | Some k \<Rightarrow> (False, k))"

datatype SortType = SORT_TYPE_ASC | SORT_TYPE_DESC | SORT_TYPE_OTHER nat

definition order_by :: "SortType \<Rightarrow> ('a \<Rightarrow> 'k::linorder) \<Rightarrow> 'a list \<Rightarrow> 'a list" where
  "order_by t f xs = (if t = SORT_TYPE_ASC then order_asc f xs else order_desc f xs)"

text \<open>
  \<open>LIKE\<close>: \<open>%\<close> stands for any text, \<open>_\<close> for one byte, and a backslash takes the next byte literally
  (a pattern that ends in it, which PostgreSQL refuses, matches it here).
\<close>

fun like :: "string \<Rightarrow> string \<Rightarrow> bool" where
  "like [] [] = True"
| "like [] (c # cs) = False"
| "like (p # ps) [] = (p = CHR ''%'' \<and> like ps [])"
| "like (p # ps) (c # cs) =
     (if p = CHR ''%'' then like ps (c # cs) \<or> like (p # ps) cs
      else if p = CHR 0x5C then
        (case ps of [] \<Rightarrow> c = p \<and> cs = [] | q # qs \<Rightarrow> c = q \<and> like qs cs)
      else (p = CHR ''_'' \<or> p = c) \<and> like ps cs)"

definition lower :: "string \<Rightarrow> string" where
  "lower s = map lower_char s"

definition contains_pat :: "string \<Rightarrow> string" where
  "contains_pat keyword = ''%'' @ keyword @ ''%''"

text \<open>\<open>JOIN accounts a ON a.id = ...\<close>: a row whose account is missing is dropped.\<close>

definition join_account :: "db \<Rightarrow> nat \<Rightarrow> (Account \<Rightarrow> 'a) \<Rightarrow> 'a list" where
  "join_account d accID f = (case account_by_id d accID of None \<Rightarrow> [] | Some a \<Rightarrow> [f a])"

definition journal_join :: "db \<Rightarrow> (JournalEntry \<times> Account) list" where
  "journal_join d = concat (map (\<lambda>je. join_account d (je_AccountID je) (Pair je)) (db_entries d))"

subsection \<open>Time ranges\<close>

text \<open>A bound that is missing or not a valid timestamp does not restrict the query.\<close>

record TimeFilterRange =
  tr_StartDate :: "Time option"
  tr_EndDate :: "Time option"

definition after_start :: "(Time \<Rightarrow> int) \<Rightarrow> TimeFilterRange \<Rightarrow> Time \<Rightarrow> bool" where
  "after_start f tr t = (case tr_StartDate tr of None \<Rightarrow> True | Some b \<Rightarrow> nanos t > f b)"

definition until_end :: "(Time \<Rightarrow> int) \<Rightarrow> TimeFilterRange \<Rightarrow> Time \<Rightarrow> bool" where
  "until_end f tr t = (case tr_EndDate tr of None \<Rightarrow> True | Some b \<Rightarrow> nanos t \<le> f b)"

definition in_range :: "TimeFilterRange \<Rightarrow> Time \<Rightarrow> bool" where
  "in_range tr t \<longleftrightarrow> until_end nanos tr t \<and> after_start nanos tr t"

text \<open>The bounds cut down to their dates, \<open>accounting_core.ParseDate(bound.AsTime())\<close>.\<close>

definition in_days :: "TimeFilterRange \<Rightarrow> Time \<Rightarrow> bool" where
  "in_days tr t \<longleftrightarrow>
     until_end (\<lambda>b. nanos (ParseDate (AsUTC b))) tr t \<and> after_start (\<lambda>b. nanos (ParseDate (AsUTC b))) tr t"

text \<open>
  \<open>(EXTRACT(EPOCH FROM t) * 1000000)::BIGINT\<close> and \<open>t.UnixMicro()\<close>. Go's zero time is 62135596800
  seconds before 1970.
\<close>

definition UnixMicro :: "Time \<Rightarrow> int" where
  "UnixMicro t = nanos t div 1000 - 62135596800000000"

subsection \<open>The calendar\<close>

text \<open>
  PostgreSQL's \<open>date_trunc\<close>, on day numbers counted from January 1 of year 1. The years of the
  computation begin on March 1: \<open>march_doy\<close> is the day in such a year, \<open>march_year\<close> its number.
\<close>

definition march_year :: "int \<Rightarrow> int" where
  "march_year n = (let z = n + 306; doe = z mod 146097
     in (doe - doe div 1460 + doe div 36524 - doe div 146096) div 365 + 400 * (z div 146097))"

definition march_doy :: "int \<Rightarrow> int" where
  "march_doy n = (let y = march_year n in n + 306 - (365 * y + y div 4 - y div 100 + y div 400))"

definition month_start :: "int \<Rightarrow> int" where
  "month_start n = (let doy = march_doy n; m = (5 * doy + 2) div 153 in n - (doy - (153 * m + 2) div 5))"

definition leap_year :: "int \<Rightarrow> bool" where
  "leap_year y \<longleftrightarrow> y mod 4 = 0 \<and> (y mod 100 \<noteq> 0 \<or> y mod 400 = 0)"

definition year_start :: "int \<Rightarrow> int" where
  "year_start n = (let doy = march_doy n in
     if doy \<ge> 306 then n - (doy - 306) else n - doy - 59 - (if leap_year (march_year n) then 1 else 0))"

text \<open>
  \<open>trunc_local unit off t\<close> is \<open>date_trunc(unit, t AT TIME ZONE z)\<close>, read as a clock without zone, for
  a zone \<open>z\<close> that is \<open>off\<close> ahead of UTC; \<open>trunc_instant unit off t\<close> is \<open>date_trunc(unit, t)\<close> in a session of
  that zone.
\<close>

definition trunc_local :: "(int \<Rightarrow> int) \<Rightarrow> int \<Rightarrow> Time \<Rightarrow> Time" where
  "trunc_local unit off t = \<lparr>nanos = unit ((nanos t + off) div day_ns) * day_ns, offset = 0\<rparr>"

definition trunc_instant :: "(int \<Rightarrow> int) \<Rightarrow> int \<Rightarrow> Time \<Rightarrow> Time" where
  "trunc_instant unit off t = \<lparr>nanos = nanos (trunc_local unit off t) - off, offset = off\<rparr>"

definition jakarta :: int where
  "jakarta = 7 * 3600 * 1000000000"

text \<open>2024-02-29, 2023-12-31, 1900-03-01 and 0001-01-01 as tests.\<close>

lemma calendar_samples:
  "month_start 738944 = 738916" "year_start 738944 = 738885" "month_start 738884 = 738854"
  "year_start 738884 = 738520" "month_start 693654 = 693654" "year_start 693654 = 693595"
  "month_start 0 = 0" "year_start 0 = 0"
  by (simp_all add: month_start_def year_start_def march_doy_def march_year_def leap_year_def Let_def)

subsection \<open>Pages\<close>

text \<open>A number of pages that Go leaves open (below) is \<open>None\<close>.\<close>

record PageFilter =
  pg_Page :: int
  pg_Limit :: int

record PageInfo =
  pi_CurrentPage :: int
  pi_TotalPage :: "int option"
  pi_TotalItems :: int

definition emptyPageInfo :: PageInfo where
  "emptyPageInfo = \<lparr>pi_CurrentPage = 0, pi_TotalPage = Some 0, pi_TotalItems = 0\<rparr>"

definition wrap64 :: "int \<Rightarrow> int" where
  "wrap64 i = (i + 2 ^ 63) mod 2 ^ 64 - 2 ^ 63"

text \<open>gorm writes an offset only if it is positive and a limit only if it is not negative.\<close>

definition sql_offset :: "int \<Rightarrow> 'a list \<Rightarrow> 'a list" where
  "sql_offset n xs = (if n > 0 then drop (nat n) xs else xs)"

definition sql_limit :: "int \<Rightarrow> 'a list \<Rightarrow> 'a list" where
  "sql_limit n xs = (if n \<ge> 0 then take (nat n) xs else xs)"

definition page_rows :: "PageFilter \<Rightarrow> 'a list \<Rightarrow> 'a list" where
  "page_rows p xs = sql_limit (pg_Limit p) (sql_offset (wrap64 ((pg_Page p - 1) * pg_Limit p)) xs)"

text \<open>
  The two ways in which the handlers compute the number of pages: an integer division, and the rounded-up quotient of
  the two numbers as floats. A division by zero panics in the first and yields an infinity
  in the second, whose conversion to an integer Go leaves open.
\<close>

definition floor_pages :: "int \<Rightarrow> int \<Rightarrow> err + int" where
  "floor_pages n limit =
     (if limit = 0 then Inl (Panic ''integer divide by zero'') else Inr (n sdiv limit))"

definition floor_pages1 :: "int \<Rightarrow> int \<Rightarrow> err + int" where
  "floor_pages1 n limit = map_sum id (\<lambda>t. if t = 0 then 1 else t) (floor_pages n limit)"

definition ceil_div :: "int \<Rightarrow> int \<Rightarrow> int option" where
  "ceil_div n limit = map_option (\<lambda>q. \<lceil>val q\<rceil>) (f64_div (f64_of n) (f64_of limit))"

definition ceil_pages :: "int \<Rightarrow> int \<Rightarrow> int option" where
  "ceil_pages n limit = (if n < limit then Some 1 else ceil_div n limit)"

subsection \<open>The clauses and their rows\<close>

lemma set_distinct_on: "set (distinct_on k xs) \<subseteq> set xs"
  by (induction k xs rule: distinct_on.induct) auto

lemma keys_distinct_on: "k ` set (distinct_on k xs) = k ` set xs"
  by (induction k xs rule: distinct_on.induct) auto

lemma distinct_keys_on: "distinct (map k (distinct_on k xs))"
proof (induction k xs rule: distinct_on.induct)
  case (2 k x xs)
  have "k x \<notin> k ` set (distinct_on k (filter (\<lambda>y. k y \<noteq> k x) xs))"
    using set_distinct_on [of k "filter (\<lambda>y. k y \<noteq> k x) xs"] by auto
  with 2 show ?case by simp
qed simp

text \<open>\<open>DISTINCT ON\<close> keeps the first row of each key.\<close>

lemma distinct_on_find:
  "r \<in> set (distinct_on k xs) \<longleftrightarrow> find (\<lambda>y. k y = k r) xs = Some r"
proof (induction k xs rule: distinct_on.induct)
  case (2 k x xs)
  have "find (\<lambda>y. k y = k r) (filter (\<lambda>y. k y \<noteq> k x) xs) = find (\<lambda>y. k y = k r) xs" if "k r \<noteq> k x"
    using that by (induction xs) auto
  moreover have "r \<notin> set (distinct_on k (filter (\<lambda>y. k y \<noteq> k x) xs))" if "k r = k x"
    using set_distinct_on [of k "filter (\<lambda>y. k y \<noteq> k x) xs"] that by auto
  ultimately show ?case using 2 by auto
qed simp

lemma group_by_keys: "distinct (map fst (group_by k xs))" "fst ` set (group_by k xs) = k ` set xs"
  using distinct_keys_on [of k xs] keys_distinct_on [of k xs]
  by (simp_all add: group_by_def comp_def image_image)

lemma group_by_rows: "(v, rs) \<in> set (group_by k xs) \<longleftrightarrow> v \<in> k ` set xs \<and> rs = filter (\<lambda>y. k y = v) xs"
  unfolding keys_distinct_on [of k xs, symmetric] by (auto simp: group_by_def)

lemma sum_col_exact:
  assumes "whole_list (map f rows)"
  shows "val (sum_col f rows) = val_sum (map f rows)"
proof -
  have "foldl (\<lambda>s r. s + f r) a rows = foldl (+) a (map f rows)" for a
    by (induction rows arbitrary: a) simp_all
  with whole_list_sum [OF assms] show ?thesis by (simp add: sum_col_def)
qed

lemma order_set [simp]: "set (order_asc f xs) = set xs" "set (order_desc f xs) = set xs"
  "set (order_by t f xs) = set xs"
  by (simp_all add: order_asc_def order_desc_def order_by_def)

lemma order_mset: "mset (order_asc f xs) = mset xs" "mset (order_desc f xs) = mset xs"
  "mset (order_by t f xs) = mset xs"
  by (simp_all add: order_asc_def order_desc_def order_by_def)

lemma order_desc_sorted: "sorted_wrt (\<lambda>x y. f y \<le> f x) (order_desc f xs)"
  unfolding order_desc_def sorted_wrt_rev using sorted_sort_key [of f "rev xs"] by (simp add: sorted_map)

lemma order_asc_sorted: "sorted_wrt (\<lambda>x y. f x \<le> f y) (order_asc f xs)"
  using sorted_sort_key [of f xs] by (simp add: order_asc_def sorted_map)

text \<open>A pattern that only asks for a text without wildcards asks for a factor of the string.\<close>

definition plain_text :: "string \<Rightarrow> bool" where
  "plain_text s \<longleftrightarrow> set s \<inter> {CHR ''%'', CHR ''_'', CHR 0x5C} = {}"

lemma like_any: "like ''%'' s"
  by (induction s) simp_all

lemma like_prefix: "plain_text kw \<Longrightarrow> like (kw @ ''%'') s \<longleftrightarrow> (\<exists>v. s = kw @ v)"
proof (induction kw arbitrary: s)
  case Nil
  show ?case by (simp add: like_any)
next
  case (Cons k kw)
  then have k: "k \<noteq> CHR ''%''" "k \<noteq> CHR ''_''" "k \<noteq> CHR 0x5C" "plain_text kw" by (auto simp: plain_text_def)
  show ?case using Cons.IH k by (cases s) auto
qed

lemma like_contains:
  assumes "plain_text kw"
  shows "like (contains_pat kw) s \<longleftrightarrow> (\<exists>u v. s = u @ kw @ v)"
proof (induction s)
  case Nil
  show ?case using like_prefix [OF assms, of "[]"] by (cases kw) (auto simp: contains_pat_def plain_text_def)
next
  case (Cons c s)
  have "like (contains_pat kw) (c # s) \<longleftrightarrow> (\<exists>v. c # s = kw @ v) \<or> like (contains_pat kw) s"
    using like_prefix [OF assms, of "c # s"] by (simp add: contains_pat_def)
  also have "\<dots> \<longleftrightarrow> (\<exists>u v. c # s = u @ kw @ v)"
    unfolding Cons.IH by (auto simp: Cons_eq_append_conv)
  finally show ?case .
qed

subsection \<open>Sums of groups\<close>

text \<open>Sums over the groups of a key, and over a part of the rows.\<close>

lemma sum_filter_or:
  fixes g :: "'a \<Rightarrow> rat"
  assumes "\<And>x. \<not> (P x \<and> Q x)"
  shows "sum_list (map g (filter P xs)) + sum_list (map g (filter Q xs)) = sum_list (map g (filter (\<lambda>x. P x \<or> Q x) xs))"
  using assms by (induction xs) auto

lemma sum_groups:
  fixes g :: "'a \<Rightarrow> rat"
  assumes "distinct ks"
  shows "(\<Sum>k\<leftarrow>ks. sum_list (map g (filter (\<lambda>y. f y = k) xs))) = sum_list (map g (filter (\<lambda>y. f y \<in> set ks) xs))"
  using assms
proof (induction ks)
  case (Cons k ks)
  then have "sum_list (map g (filter (\<lambda>y. f y = k) xs)) + sum_list (map g (filter (\<lambda>y. f y \<in> set ks) xs)) =
      sum_list (map g (filter (\<lambda>y. f y = k \<or> f y \<in> set ks) xs))"
    by (intro sum_filter_or) auto
  with Cons show ?case by simp
qed simp

lemma whole_list_where: "whole_list (map c xs) \<Longrightarrow> whole_list (map c (filter P xs))"
proof -
  have "abs_sum (map c (filter P xs)) \<le> abs_sum (map c xs)" by (induction xs) auto
  moreover assume "whole_list (map c xs)"
  ultimately show "whole_list (map c (filter P xs))" by (auto simp: whole_list_def list_all_iff)
qed

lemma abs_filter:
  fixes h :: "'a \<Rightarrow> rat"
  shows "sum_list (map (\<lambda>x. \<bar>h x\<bar>) (filter P xs)) \<le> sum_list (map (\<lambda>x. \<bar>h x\<bar>) xs)"
  by (induction xs) auto

lemma group_by_keys_eq: "group_by f xs = map (\<lambda>k. (k, filter (\<lambda>y. f y = k) xs)) (map f (distinct_on f xs))"
  by (simp add: group_by_def comp_def)

text \<open>\<open>DISTINCT ON (key) ... ORDER BY key, ...\<close> keeps of each key the row the rest of the order puts first.\<close>

lemma distinct_on_first:
  assumes "r \<in> set (distinct_on f (order_asc f ys))" and "sorted_wrt R ys"
  shows "r \<in> set ys \<and> (\<forall>q \<in> set ys. f q = f r \<longrightarrow> q = r \<or> R r q)"
proof -
  have fd: "find P zs = Some x \<Longrightarrow> \<exists>ws. filter P zs = x # ws" for P zs and x :: 'a
    by (induction zs) (auto split: if_splits)
  from assms(1) fd [of "\<lambda>y. f y = f r" "order_asc f ys" r] obtain ws where "filter (\<lambda>y. f y = f r) (order_asc f ys) = r # ws"
    unfolding distinct_on_find by blast
  then have e: "filter (\<lambda>y. f y = f r) ys = r # ws" by (simp add: order_asc_def sort_key_stable)
  from sorted_wrt_filter [OF assms(2), of "\<lambda>y. f y = f r"] have s: "\<forall>q \<in> set ws. R r q" unfolding e by simp
  have "set (filter (\<lambda>y. f y = f r) ys) = insert r (set ws)" unfolding e by simp
  with s show ?thesis by auto
qed

lemma full_outer_same:
  assumes "fst ` set as = fst ` set bs"
  shows "x \<in> set (full_outer (\<lambda>a b. fst b = fst a) as bs) \<longleftrightarrow>
    (\<exists>a \<in> set as. \<exists>b \<in> set bs. fst b = fst a \<and> x = (Some a, Some b))"
proof -
  have "\<exists>b \<in> set bs. fst b = fst a" if "a \<in> set as" for a using assms that by (metis imageE imageI)
  moreover have "\<exists>a \<in> set as. fst b = fst a" if "b \<in> set bs" for b using assms that by (metis imageE imageI)
  ultimately show ?thesis unfolding full_outer_def by (auto simp: list_ex_iff)
qed

end
