(* ===== verification/Pages.thy ===== *)
theory Pages
  imports Query
begin

section \<open>Pages\<close>

text \<open>
  The contract of a paged list: the pages from 1 to the announced number are the whole list, in
  order. The rounded-up count of the daily and monthly reports satisfies it for every list below
  \<open>2 ^ 53\<close> rows, although it is computed with floats. The integer division of the other
  lists does not: the rows after the last full page are on no announced page.
\<close>

subsection \<open>Rounding errors\<close>

lemma rne_close: "\<bar>of_int (rne y) - y\<bar> \<le> 1 / 2"
proof -
  have "of_int \<lfloor>y\<rfloor> \<le> y" "y < of_int \<lfloor>y\<rfloor> + 1" by linarith+
  then show ?thesis by (auto simp: rne_def Let_def abs_le_iff)
qed

lemma rnd_close:
  assumes "0 < x"
  shows "\<bar>rnd x - x\<bar> \<le> x / 2 ^ 53"
proof -
  have "\<bar>of_int (rne (x / ulp x)) * ulp x - x / ulp x * ulp x\<bar> = \<bar>of_int (rne (x / ulp x)) - x / ulp x\<bar> * ulp x"
    unfolding left_diff_distrib [symmetric] abs_mult by (simp add: less_imp_le)
  also have "\<dots> \<le> 1 / 2 * ulp x" by (intro mult_right_mono rne_close less_imp_le ulp_pos)
  also have "\<dots> \<le> x / 2 ^ 53"
    using significand_bounds [OF assms] by (simp add: field_simps)
  finally show ?thesis using assms by (simp add: rnd_def)
qed

text \<open>
  The float quotient rounds up to the same integer as the exact one: an error of the
  division is smaller than the distance of a fraction to the next smaller integer.
\<close>

lemma ceil_rnd_quotient:
  assumes "0 \<le> n" and "n < 2 ^ 53" and "0 < l"
  shows "\<lceil>rnd (of_int n / of_int l)\<rceil> = \<lceil>of_int n / of_int l :: rat\<rceil>"
proof (cases "n = 0")
  case False
  define x :: rat where "x = of_int n / of_int l"
  define q where "q = \<lceil>x\<rceil>"
  have x: "0 < x" "x * of_int l = of_int n" using assms False by (simp_all add: x_def)
  have "of_int n * 1 \<le> of_int n * (of_int l :: rat)" using assms by (intro mult_left_mono) simp_all
  then have xn: "x \<le> of_int n" using assms(3) by (simp add: x_def divide_le_eq)
  have q: "x \<le> of_int q" "of_int (q - 1) < x" unfolding q_def by linarith+
  have "(0::rat) < of_int q" using x(1) q(1) by linarith
  then have q1: "0 < q" by simp
  have qn: "q \<le> n" unfolding q_def using xn by (simp add: ceiling_le_iff)
  have "rnd x \<le> rnd (of_int q)" by (rule rnd_mono [OF q(1)])
  then have up: "rnd x \<le> of_int q" using qn assms q1 by simp
  have "(of_int ((q - 1) * l) :: rat) < of_int n"
    using mult_strict_right_mono [OF q(2), of "of_int l"] assms(3) x(2) by simp
  then have "(q - 1) * l + 1 \<le> n" by (simp only: of_int_less_iff)
  then have "(of_int ((q - 1) * l + 1) :: rat) \<le> of_int n" by (simp only: of_int_le_iff)
  then have "of_int ((q - 1) * l + 1) / of_int l \<le> x"
    unfolding x_def using assms(3) by (intro divide_right_mono) simp_all
  moreover have "(of_int ((q - 1) * l + 1) :: rat) / of_int l = of_int (q - 1) + 1 / of_int l"
    using assms(3) by (simp add: add_divide_distrib)
  ultimately have "of_int (q - 1) + 1 / of_int l \<le> x" by simp
  moreover have "x / 2 ^ 53 < 1 / of_int l"
  proof -
    have "(of_int n :: rat) < of_int (2 ^ 53)" using assms(2) by (simp only: of_int_less_iff)
    then show ?thesis using assms(3) by (simp add: x_def field_simps)
  qed
  moreover have "x - rnd x \<le> x / 2 ^ 53" using rnd_close [OF x(1)] by (simp only: abs_le_iff) linarith
  ultimately have lo: "of_int (q - 1) < rnd x" by linarith
  from up lo have "\<lceil>rnd x\<rceil> = q" by (intro ceiling_unique) simp_all
  then show ?thesis by (simp add: q_def x_def)
qed simp

lemma ceil_div_exact:
  assumes "0 \<le> n" and "n < 2 ^ 53" and "0 < l" and "l \<le> 2 ^ 53"
  shows "ceil_div n l = Some \<lceil>of_int n / of_int l :: rat\<rceil>"
proof -
  have "val (f64_quot (f64_of n) (f64_of l)) = rnd (val (f64_of n) / val (f64_of l))" by transfer simp
  also have "\<dots> = rnd (of_int n / of_int l)" using assms by (simp add: val_f64_of)
  finally show ?thesis using assms by (simp add: ceil_div_def f64_div_def ceil_rnd_quotient)
qed

subsection \<open>The rows of a page\<close>

lemma wrap64_id: "0 \<le> i \<Longrightarrow> i < 2 ^ 63 \<Longrightarrow> wrap64 i = i"
  by (simp add: wrap64_def)

lemma page_rows_window:
  assumes "1 \<le> p" and "0 < l" and "(p - 1) * l < 2 ^ 63"
  shows "page_rows \<lparr>pg_Page = p, pg_Limit = l\<rparr> xs = take (nat l) (drop (nat ((p - 1) * l)) xs)"
proof (cases "p = 1")
  case False
  with assms have "0 < (p - 1) * l" by simp
  with assms show ?thesis by (simp add: page_rows_def wrap64_id sql_offset_def sql_limit_def)
qed (use assms in \<open>simp add: page_rows_def wrap64_def sql_offset_def sql_limit_def\<close>)

definition pages_upto :: "int \<Rightarrow> int \<Rightarrow> 'a list \<Rightarrow> 'a list" where
  "pages_upto t l xs = concat (map (\<lambda>p. page_rows \<lparr>pg_Page = p, pg_Limit = l\<rparr> xs) [1..t])"

lemma take_pages:
  assumes "0 \<le> t" and "0 < l" and "t * l < 2 ^ 63"
  shows "pages_upto t l xs = take (nat (t * l)) xs"
  using assms
proof (induction "nat t" arbitrary: t)
  case (Suc k)
  from Suc.hyps(2) have t: "1 \<le> t" by linarith
  have e: "t * l = (t - 1) * l + l" by (simp add: algebra_simps)
  have up: "[1..t] = [1..t - 1] @ [t]" using t by (metis upto_rec2)
  have b: "(t - 1) * l < 2 ^ 63" using Suc.prems t e by linarith
  have "pages_upto t l xs = pages_upto (t - 1) l xs @ take (nat l) (drop (nat ((t - 1) * l)) xs)"
    unfolding pages_upto_def up using page_rows_window [OF t Suc.prems(2) b] by simp
  also have "pages_upto (t - 1) l xs = take (nat ((t - 1) * l)) xs"
    using Suc.hyps t b Suc.prems(2) by (intro Suc.hyps(1)) linarith+
  also have "\<dots> @ take (nat l) (drop (nat ((t - 1) * l)) xs) = take (nat ((t - 1) * l) + nat l) xs"
    by (simp add: take_add)
  also have "nat ((t - 1) * l) + nat l = nat (t * l)"
    using Suc.prems t e by (simp add: nat_add_distrib)
  finally show ?case .
qed (simp add: pages_upto_def)

subsection \<open>The contract\<close>

locale page_count =
  fixes pages :: "int \<Rightarrow> int \<Rightarrow> int option"
  assumes enough: "0 < l \<Longrightarrow> l < 2 ^ 53 \<Longrightarrow> 0 \<le> n \<Longrightarrow> n < 2 ^ 53 \<Longrightarrow>
    \<exists>t. pages n l = Some t \<and> 1 \<le> t \<and> n \<le> t * l \<and> (1 < t \<longrightarrow> (t - 1) * l < n)"
begin

lemma all_rows:
  assumes "0 < l" and "l < 2 ^ 53" and "length xs < 2 ^ 53"
  shows "\<exists>t. pages (int (length xs)) l = Some t \<and> pages_upto t l xs = xs \<and>
    (1 < t \<longrightarrow> page_rows \<lparr>pg_Page = t, pg_Limit = l\<rparr> xs \<noteq> [])"
proof -
  let ?n = "int (length xs)"
  have n: "0 \<le> ?n" "?n < 2 ^ 53" using assms(3) by (simp_all add: nat_less_iff [symmetric])
  from enough [OF assms(1,2) n] obtain t where
    t: "pages ?n l = Some t" "1 \<le> t" "?n \<le> t * l" "1 < t \<Longrightarrow> (t - 1) * l < ?n" by blast
  have b: "t * l < 2 ^ 63"
  proof (cases "1 < t")
    case True
    with t(4) n assms(2) have "(t - 1) * l + l < 2 ^ 53 + 2 ^ 53" by linarith
    then show ?thesis by (simp add: algebra_simps)
  qed (use t(2) assms(2) in auto)
  have "pages_upto t l xs = xs" 
    using take_pages [OF _ assms(1) b, of xs] t(2,3) by (simp add: nat_le_iff le_nat_iff)
  moreover have "page_rows \<lparr>pg_Page = t, pg_Limit = l\<rparr> xs \<noteq> []" if "1 < t"
  proof -
    have "(t - 1) * l < 2 ^ 63" using t(4) [OF that] n by simp
    moreover have "nat ((t - 1) * l) < length xs" using t(4) [OF that] that assms(1) by (simp add: nat_less_iff)
    ultimately show ?thesis using page_rows_window [OF t(2) assms(1), of xs] assms(1) by (simp add: not_le)
  qed
  ultimately show ?thesis using t(1) by blast
qed

end

interpretation rounded_up: page_count ceil_pages
proof
  fix l n :: int
  assume l: "0 < l" "l < 2 ^ 53" and n: "0 \<le> n" "n < 2 ^ 53"
  show "\<exists>t. ceil_pages n l = Some t \<and> 1 \<le> t \<and> n \<le> t * l \<and> (1 < t \<longrightarrow> (t - 1) * l < n)"
  proof (cases "n < l")
    case False
    define x :: rat where "x = of_int n / of_int l"
    let ?t = "\<lceil>x\<rceil>"
    have x: "x * of_int l = of_int n" using l by (simp add: x_def)
    have t: "x \<le> of_int ?t" "of_int (?t - 1) < x" by linarith+
    have "(of_int n :: rat) \<le> of_int (?t * l)"
      using mult_right_mono [OF t(1), of "of_int l"] l x by simp
    moreover have "(of_int ((?t - 1) * l) :: rat) < of_int n"
      using mult_strict_right_mono [OF t(2), of "of_int l"] l x by simp
    moreover have "1 \<le> x" using False l by (simp add: x_def)
    then have "1 \<le> ?t" by (simp add: le_ceiling_iff)
    ultimately show ?thesis
      using ceil_div_exact [OF n l(1)] l False by (simp add: ceil_pages_def x_def del: of_int_mult)
  qed (use l in \<open>simp add: ceil_pages_def\<close>)
qed

text \<open>What an integer division announces.\<close>

lemma floor_pages_rows:
  assumes "0 < l" and "int (length xs) < 2 ^ 63"
  shows "\<exists>t. floor_pages (int (length xs)) l = Inr t \<and>
    pages_upto t l xs = take (length xs - length xs mod nat l) xs"
proof -
  let ?n = "int (length xs)"
  have d: "?n sdiv l = ?n div l" using assms(1) by (simp add: signed_divide_int_def sgn_if)
  have e: "?n div l * l = ?n - ?n mod l" by (simp add: minus_mod_eq_div_mult)
  have "?n div l * l < 2 ^ 63" using e assms pos_mod_sign [of l ?n] by linarith
  then have "pages_upto (?n div l) l xs = take (nat (?n div l * l)) xs"
    using assms(1) by (intro take_pages) (simp_all add: pos_imp_zdiv_nonneg_iff)
  also have "nat (?n div l * l) = length xs - length xs mod nat l"
  proof -
    have "int (length xs mod nat l) = ?n mod l" using assms(1) by (simp add: zmod_int)
    then show ?thesis unfolding e by linarith
  qed
  finally show ?thesis using assms(1) d by (simp add: floor_pages_def)
qed

end
