(* ===== verification/Reports.thy ===== *)
theory Reports
  imports Pages DailyUpdate
begin

section \<open>The balance reports\<close>

text \<open>
  The reading half of \<open>report/\<close>: balances per account key (\<open>balance.go\<close>, \<open>daily_balance.go\<close>,
  \<open>monthly_balance.go\<close>) and per label (\<open>balance_detail.go\<close>, \<open>daily_balance_detail.go\<close>,
  \<open>monthly_balance_detail.go\<close>), read from the daily tables. A handler is a function of the tables.
  A row that a full outer join completes with \<open>NULL\<close>s is an option; where two joined columns
  have one name, the field of the answer takes the last one that is not \<open>NULL\<close>.
\<close>

definition last_set :: "'k \<Rightarrow> 'k option list \<Rightarrow> 'k" where
  "last_set dflt xs = foldl (\<lambda>k x. case x of None \<Rightarrow> k | Some v \<Rightarrow> v) dflt xs"

definition or_zero :: "('a \<Rightarrow> f64) \<Rightarrow> 'a option \<Rightarrow> f64" where
  "or_zero f x = (case x of None \<Rightarrow> 0 | Some a \<Rightarrow> f a)"

text \<open>Reading \<open>pay.TimeRange.EndDate\<close> or \<open>pay.Page.Limit\<close> of a message without that part.\<close>

definition required :: "'a option \<Rightarrow> ('a \<Rightarrow> err + 'b) \<Rightarrow> err + 'b" where
  "required x f = (case x of None \<Rightarrow> Inl (Panic ''nil pointer dereference'') | Some v \<Rightarrow> f v)"

subsection \<open>Balance\<close>

datatype BalanceFieldSort =
    BALANCE_FIELD_SORT_BALANCE
  | BALANCE_FIELD_SORT_ACCOUNT
  | BALANCE_FIELD_SORT_OTHER nat

record BalanceRequest =
  br_TeamId :: nat
  br_AccountKeys :: "AccountKey list"
  br_TimeRange :: "TimeFilterRange option"
  br_Sort :: "(BalanceFieldSort \<times> SortType) option"

record AccountBalanceItem =
  abi_AccountKey :: AccountKey
  abi_Debit :: f64
  abi_Credit :: f64
  abi_Balance :: f64
  abi_StartBalance :: f64

definition balance_scope :: "BalanceRequest \<Rightarrow> AccountKeyDailyBalance \<Rightarrow> bool" where
  "balance_scope pay r \<longleftrightarrow>
     (br_TeamId pay \<noteq> 0 \<longrightarrow> akd_JournalTeamID r = br_TeamId pay) \<and>
     (br_AccountKeys pay \<noteq> [] \<longrightarrow> akd_AccountKey r \<in> set (br_AccountKeys pay))"

definition dcQuery ::
  "BalanceRequest \<Rightarrow> TimeFilterRange \<Rightarrow> AccountKeyDailyBalance list \<Rightarrow> (AccountKey \<times> f64 \<times> f64) list" where
  "dcQuery pay trange adb =
     map (\<lambda>(key, rs). (key, sum_col akd_Debit rs, sum_col akd_Credit rs))
       (group_by akd_AccountKey (filter (\<lambda>r. balance_scope pay r \<and> in_days trange (akd_Day r)) adb))"

definition lastBalanceQuery ::
  "BalanceRequest \<Rightarrow> TimeFilterRange \<Rightarrow> AccountKeyDailyBalance list \<Rightarrow> (AccountKey \<times> f64) list" where
  "lastBalanceQuery pay trange adb =
     map (\<lambda>r. (akd_AccountKey r, akd_Balance r))
       (distinct_on akd_AccountKey
         (order_asc akd_AccountKey (order_desc (\<lambda>r. nanos (akd_Day r))
           (filter (\<lambda>r. balance_scope pay r \<and> in_range trange (akd_Day r)) adb))))"

definition startBalanceQuery ::
  "BalanceRequest \<Rightarrow> TimeFilterRange \<Rightarrow> AccountKeyDailyBalance list \<Rightarrow> (AccountKey \<times> f64) list" where
  "startBalanceQuery pay trange adb =
     map (\<lambda>r. (akd_AccountKey r, akd_StartBalance r))
       (distinct_on akd_AccountKey
         (order_asc akd_AccountKey (order_asc (\<lambda>r. nanos (akd_Day r))
           (filter (\<lambda>r. balance_scope pay r \<and>
                (case tr_EndDate trange of None \<Rightarrow> True | Some e \<Rightarrow> nanos (akd_Day r) < nanos e) \<and>
                after_start nanos trange (akd_Day r)) adb))))"

type_synonym balance_join =
  "((AccountKey \<times> f64 \<times> f64) option \<times> (AccountKey \<times> f64) option) option \<times> (AccountKey \<times> f64) option"

definition base_of :: "balance_join \<Rightarrow> (AccountKey \<times> f64 \<times> f64) option" where
  "base_of j = (case fst j of None \<Rightarrow> None | Some (b, l) \<Rightarrow> b)"

definition bal_of :: "balance_join \<Rightarrow> (AccountKey \<times> f64) option" where
  "bal_of j = (case fst j of None \<Rightarrow> None | Some (b, l) \<Rightarrow> l)"

definition balance_item :: "balance_join \<Rightarrow> AccountBalanceItem" where
  "balance_item j =
     \<lparr>abi_AccountKey = last_set [] [map_option fst (base_of j), map_option fst (bal_of j), map_option fst (snd j)],
      abi_Debit = or_zero (\<lambda>(_, x, _). x) (base_of j), abi_Credit = or_zero (\<lambda>(_, _, x). x) (base_of j),
      abi_Balance = or_zero snd (bal_of j), abi_StartBalance = or_zero snd (snd j)\<rparr>"

definition balance_join :: "BalanceRequest \<Rightarrow> TimeFilterRange \<Rightarrow> AccountKeyDailyBalance list \<Rightarrow> balance_join list" where
  "balance_join pay trange adb =
     full_outer (\<lambda>(base, bal) start. map_option fst base = Some (fst start))
       (full_outer (\<lambda>base bal. fst bal = fst base) (dcQuery pay trange adb) (lastBalanceQuery pay trange adb))
       (startBalanceQuery pay trange adb)"

definition balance_order :: "(BalanceFieldSort \<times> SortType) option \<Rightarrow> balance_join list \<Rightarrow> balance_join list" where
  "balance_order s rows =
     (case s of
        Some (BALANCE_FIELD_SORT_BALANCE, t) \<Rightarrow> order_by t (\<lambda>j. null_key 0 (map_option snd (bal_of j))) rows
      | Some (BALANCE_FIELD_SORT_ACCOUNT, t) \<Rightarrow> order_by t (\<lambda>j. null_key [] (map_option fst (base_of j))) rows
      | _ \<Rightarrow> rows)"

definition Balance :: "BalanceRequest \<Rightarrow> report_db \<Rightarrow> err + AccountBalanceItem list" where
  "Balance pay st =
     required (br_TimeRange pay) (\<lambda>trange.
       Inr (map balance_item (balance_order (br_Sort pay) (balance_join pay trange (rdb_account_key st)))))"

subsection \<open>The daily report\<close>

record DailyBalanceRequest =
  dbr_TeamId :: nat
  dbr_AccountKey :: AccountKey
  dbr_TimeRange :: "TimeFilterRange option"
  dbr_Page :: "PageFilter option"
  dbr_Sort :: "SortType option"

record DailyAccountBalanceItem =
  dai_Day :: int
  dai_Debit :: f64
  dai_Credit :: f64
  dai_Balance :: f64

text \<open>The requests of the daily and the monthly report have the same fields. Without a sort type the newest day comes first.\<close>

definition sort_type :: "SortType option \<Rightarrow> SortType" where
  "sort_type s = (case s of None \<Rightarrow> SORT_TYPE_DESC | Some t \<Rightarrow> t)"

definition createDailyReportQ ::
  "DailyBalanceRequest \<Rightarrow> TimeFilterRange \<Rightarrow> AccountKeyDailyBalance list \<Rightarrow> DailyAccountBalanceItem list" where
  "createDailyReportQ pay trange adb =
     map (\<lambda>(day, rs). \<lparr>dai_Day = UnixMicro \<lparr>nanos = day, offset = 0\<rparr>, dai_Debit = sum_col akd_Debit rs,
            dai_Credit = sum_col akd_Credit rs, dai_Balance = sum_col akd_Balance rs\<rparr>)
       (order_by (sort_type (dbr_Sort pay)) fst
         (group_by (\<lambda>r. nanos (akd_Day r))
           (filter (\<lambda>r. (dbr_TeamId pay \<noteq> 0 \<longrightarrow> akd_JournalTeamID r = dbr_TeamId pay) \<and>
                (dbr_AccountKey pay \<noteq> [] \<longrightarrow> akd_AccountKey r = dbr_AccountKey pay) \<and>
                in_days trange (akd_Day r)) adb)))"

text \<open>A page of the rows of a query, with the rounded-up number of pages.\<close>

definition ceil_page :: "PageFilter \<Rightarrow> 'a list \<Rightarrow> 'a list \<times> PageInfo" where
  "ceil_page page rows =
     (page_rows page rows,
      \<lparr>pi_CurrentPage = pg_Page page, pi_TotalPage = ceil_pages (int (length rows)) (pg_Limit page),
       pi_TotalItems = int (length rows)\<rparr>)"

definition DailyBalance_rpc ::
  "DailyBalanceRequest \<Rightarrow> report_db \<Rightarrow> err + DailyAccountBalanceItem list \<times> PageInfo" where
  "DailyBalance_rpc pay st =
     required (dbr_TimeRange pay) (\<lambda>trange. required (dbr_Page pay) (\<lambda>page.
       Inr (ceil_page page (createDailyReportQ pay trange (rdb_account_key st)))))"

subsection \<open>The monthly report\<close>

record MonthlyAccountBalanceItem =
  mai_Month :: int
  mai_Debit :: f64
  mai_Credit :: f64
  mai_Balance :: f64
  mai_StartBalance :: f64

text \<open>
  The debits and credits are grouped by the month of the session's time zone \<open>tz\<close>, the balances by
  that of Jakarta; only the former query leaves out a filter that is not set.
\<close>

definition debitCreditQ ::
  "int \<Rightarrow> DailyBalanceRequest \<Rightarrow> TimeFilterRange \<Rightarrow> AccountKeyDailyBalance list \<Rightarrow> (int \<times> f64 \<times> f64) list" where
  "debitCreditQ tz pay trange adb =
     map (\<lambda>(month, rs). (month, sum_col akd_Debit rs, sum_col akd_Credit rs))
       (group_by (\<lambda>r. UnixMicro (trunc_instant month_start tz (akd_Day r)))
         (filter (\<lambda>r. (dbr_TeamId pay \<noteq> 0 \<longrightarrow> akd_JournalTeamID r = dbr_TeamId pay) \<and>
              (dbr_AccountKey pay \<noteq> [] \<longrightarrow> akd_AccountKey r = dbr_AccountKey pay) \<and>
              in_days trange (akd_Day r)) adb))"

definition balanceQ ::
  "DailyBalanceRequest \<Rightarrow> TimeFilterRange \<Rightarrow> AccountKeyDailyBalance list \<Rightarrow> (int \<times> f64 \<times> f64) list" where
  "balanceQ pay trange adb =
     (let month = (\<lambda>r. UnixMicro (trunc_local month_start jakarta (akd_Day r)));
          last = distinct_on (\<lambda>r. (akd_AccountKey r, month r))
            (order_asc (\<lambda>r. (akd_AccountKey r, month r)) (order_desc (\<lambda>r. nanos (akd_Day r))
              (filter (\<lambda>r. akd_JournalTeamID r = dbr_TeamId pay \<and> akd_AccountKey r = dbr_AccountKey pay \<and>
                   in_days trange (akd_Day r)) adb)))
      in map (\<lambda>(m, rs). (m, sum_col akd_Balance rs, sum_col akd_StartBalance rs)) (group_by month last))"

definition month_item :: "(int \<times> f64 \<times> f64) option \<times> (int \<times> f64 \<times> f64) option \<Rightarrow> MonthlyAccountBalanceItem" where
  "month_item j =
     \<lparr>mai_Month = (case fst j of None \<Rightarrow> 0 | Some (m, _) \<Rightarrow> m),
      mai_Debit = or_zero (\<lambda>(_, x, _). x) (fst j), mai_Credit = or_zero (\<lambda>(_, _, x). x) (fst j),
      mai_Balance = or_zero (\<lambda>(_, x, _). x) (snd j), mai_StartBalance = or_zero (\<lambda>(_, _, x). x) (snd j)\<rparr>"

text \<open>\<open>ORDER BY bal.month, dc.month <type>\<close>: the type concerns the second column only.\<close>

definition baseQ ::
  "int \<Rightarrow> DailyBalanceRequest \<Rightarrow> TimeFilterRange \<Rightarrow> AccountKeyDailyBalance list \<Rightarrow> MonthlyAccountBalanceItem list" where
  "baseQ tz pay trange adb =
     map month_item
       (order_asc (\<lambda>j. null_key 0 (map_option fst (snd j)))
         (order_by (sort_type (dbr_Sort pay)) (\<lambda>j. null_key 0 (map_option fst (fst j)))
           (full_outer (\<lambda>dc bal. fst bal = fst dc) (debitCreditQ tz pay trange adb) (balanceQ pay trange adb))))"

definition MonthlyBalance ::
  "int \<Rightarrow> DailyBalanceRequest \<Rightarrow> report_db \<Rightarrow> err + MonthlyAccountBalanceItem list \<times> PageInfo" where
  "MonthlyBalance tz pay st =
     required (dbr_TimeRange pay) (\<lambda>trange. required (dbr_Page pay) (\<lambda>page.
       Inr (ceil_page page (baseQ tz pay trange (rdb_account_key st)))))"

subsection \<open>Balances per label\<close>

datatype LabelFilterType =
    LABEL_FILTER_TYPE_TEAM
  | LABEL_FILTER_TYPE_SHOP
  | LABEL_FILTER_TYPE_SUPPLIER
  | LABEL_FILTER_TYPE_CUSTOM
  | LABEL_FILTER_TYPE_CS
  | LABEL_FILTER_TYPE_OTHER nat

text \<open>A row of one of the five tables, joined with its account.\<close>

record detail_row =
  dt_Account :: Account
  dt_Label :: nat
  dt_Team :: nat
  dt_Day :: Time
  dt_Debit :: f64
  dt_Credit :: f64
  dt_Balance :: f64

definition detail_rows :: "LabelFilterType \<Rightarrow> db \<Rightarrow> report_db \<Rightarrow> detail_row list option" where
  "detail_rows lt d st =
     (case lt of
        LABEL_FILTER_TYPE_TEAM \<Rightarrow> Some (concat (map (\<lambda>r. join_account d (acd_AccountID r) (\<lambda>a.
          \<lparr>dt_Account = a, dt_Label = acc_ID a, dt_Team = acd_JournalTeamID r, dt_Day = acd_Day r,
           dt_Debit = acd_Debit r, dt_Credit = acd_Credit r, dt_Balance = acd_Balance r\<rparr>)) (rdb_account st)))
      | LABEL_FILTER_TYPE_SHOP \<Rightarrow> Some (concat (map (\<lambda>r. join_account d (shd_AccountID r) (\<lambda>a.
          \<lparr>dt_Account = a, dt_Label = shd_ShopID r, dt_Team = shd_JournalTeamID r, dt_Day = shd_Day r,
           dt_Debit = shd_Debit r, dt_Credit = shd_Credit r, dt_Balance = shd_Balance r\<rparr>)) (rdb_shop st)))
      | LABEL_FILTER_TYPE_SUPPLIER \<Rightarrow> Some (concat (map (\<lambda>r. join_account d (spd_AccountID r) (\<lambda>a.
          \<lparr>dt_Account = a, dt_Label = spd_SupplierID r, dt_Team = spd_JournalTeamID r, dt_Day = spd_Day r,
           dt_Debit = spd_Debit r, dt_Credit = spd_Credit r, dt_Balance = spd_Balance r\<rparr>)) (rdb_supplier st)))
      | LABEL_FILTER_TYPE_CUSTOM \<Rightarrow> Some (concat (map (\<lambda>r. join_account d (cld_AccountID r) (\<lambda>a.
          \<lparr>dt_Account = a, dt_Label = cld_CustomID r, dt_Team = cld_JournalTeamID r, dt_Day = cld_Day r,
           dt_Debit = cld_Debit r, dt_Credit = cld_Credit r, dt_Balance = cld_Balance r\<rparr>)) (rdb_custom st)))
      | LABEL_FILTER_TYPE_CS \<Rightarrow> Some (concat (map (\<lambda>r. join_account d (csd_AccountID r) (\<lambda>a.
          \<lparr>dt_Account = a, dt_Label = csd_CsID r, dt_Team = csd_JournalTeamID r, dt_Day = csd_Day r,
           dt_Debit = csd_Debit r, dt_Credit = csd_Credit r, dt_Balance = csd_Balance r\<rparr>)) (rdb_cs st)))
      | LABEL_FILTER_TYPE_OTHER _ \<Rightarrow> None)"

text \<open>The requests of the three reports per label; only the later two read the label's id.\<close>

record BalanceDetailRequest =
  bdr_TeamId :: nat
  bdr_AccountKey :: AccountKey
  bdr_LabelFilterType :: LabelFilterType
  bdr_LabelId :: nat
  bdr_TimeRange :: "TimeFilterRange option"
  bdr_Page :: "PageFilter option"
  bdr_Sort :: "(BalanceFieldSort \<times> SortType) option"

record BalanceDetailItem =
  bdi_LabelFilterType :: LabelFilterType
  bdi_LabelId :: nat
  bdi_Debit :: f64
  bdi_Credit :: f64
  bdi_Balance :: f64

text \<open>\<open>a.team_id as label_id\<close> for teams, the id of the label otherwise.\<close>

definition detail_label :: "LabelFilterType \<Rightarrow> detail_row \<Rightarrow> nat" where
  "detail_label lt r = (if lt = LABEL_FILTER_TYPE_TEAM then acc_TeamID (dt_Account r) else dt_Label r)"

definition detail_scope :: "BalanceDetailRequest \<Rightarrow> TimeFilterRange \<Rightarrow> detail_row \<Rightarrow> bool" where
  "detail_scope pay trange r \<longleftrightarrow>
     dt_Team r = bdr_TeamId pay \<and> acc_Key (dt_Account r) = bdr_AccountKey pay \<and> in_range trange (dt_Day r)"

definition detail_dcQuery ::
  "BalanceDetailRequest \<Rightarrow> TimeFilterRange \<Rightarrow> detail_row list \<Rightarrow> (nat \<times> f64 \<times> f64) list" where
  "detail_dcQuery pay trange rows =
     map (\<lambda>(label, rs). (label, sum_col dt_Debit rs, sum_col dt_Credit rs))
       (group_by (detail_label (bdr_LabelFilterType pay)) (filter (detail_scope pay trange) rows))"

definition detail_lastBalanceQuery ::
  "BalanceDetailRequest \<Rightarrow> TimeFilterRange \<Rightarrow> detail_row list \<Rightarrow> (nat \<times> f64) list" where
  "detail_lastBalanceQuery pay trange rows =
     (let label = detail_label (bdr_LabelFilterType pay) in
      map (\<lambda>r. (label r, dt_Balance r))
        (distinct_on label (order_asc label (order_desc (\<lambda>r. nanos (dt_Day r))
          (filter (detail_scope pay trange) rows)))))"

definition detail_item ::
  "LabelFilterType \<Rightarrow> (nat \<times> f64 \<times> f64) option \<times> (nat \<times> f64) option \<Rightarrow> BalanceDetailItem" where
  "detail_item lt j =
     \<lparr>bdi_LabelFilterType = lt, bdi_LabelId = last_set 0 [map_option fst (fst j), map_option fst (snd j)],
      bdi_Debit = or_zero (\<lambda>(_, x, _). x) (fst j), bdi_Credit = or_zero (\<lambda>(_, _, x). x) (fst j),
      bdi_Balance = or_zero snd (snd j)\<rparr>"

definition detail_order ::
  "(BalanceFieldSort \<times> SortType) option \<Rightarrow> ((nat \<times> f64 \<times> f64) option \<times> (nat \<times> f64) option) list \<Rightarrow>
   ((nat \<times> f64 \<times> f64) option \<times> (nat \<times> f64) option) list" where
  "detail_order s rows =
     (case s of
        Some (BALANCE_FIELD_SORT_BALANCE, t) \<Rightarrow> order_by t (\<lambda>j. null_key 0 (map_option snd (snd j))) rows
      | _ \<Rightarrow> rows)"

text \<open>A statement without a table, for any other label type, is refused by the driver.\<close>

definition BalanceDetail ::
  "identity \<Rightarrow> BalanceDetailRequest \<Rightarrow> db \<Rightarrow> report_db \<Rightarrow> err + BalanceDetailItem list \<times> PageInfo" where
  "BalanceDetail ident pay d st =
     (case IdentityErr ident of
        Some e \<Rightarrow> Inl e
      | None \<Rightarrow>
          required (bdr_TimeRange pay) (\<lambda>trange.
            case detail_rows (bdr_LabelFilterType pay) d st of
              None \<Rightarrow> Inl (ErrDB [])
            | Some rows \<Rightarrow>
                let base = detail_dcQuery pay trange rows;
                    joined = full_outer (\<lambda>base bal. fst bal = fst base) base (detail_lastBalanceQuery pay trange rows)
                in required (bdr_Page pay) (\<lambda>page.
                  case floor_pages (int (length base)) (pg_Limit page) of
                    Inl e \<Rightarrow> Inl e
                  | Inr pages \<Rightarrow>
                      Inr (map (detail_item (bdr_LabelFilterType pay))
                             (page_rows page (detail_order (bdr_Sort pay) joined)),
                           \<lparr>pi_CurrentPage = pg_Page page, pi_TotalPage = Some pages,
                            pi_TotalItems = int (length base)\<rparr>))))"

subsection \<open>The days and months of one label\<close>

record LabelPeriodItem =
  lpi_LabelFilterType :: LabelFilterType
  lpi_LabelId :: nat
  lpi_Period :: int
  lpi_Debit :: f64
  lpi_Credit :: f64
  lpi_Balance :: f64

text \<open>
  The rows of one label, \<open>a.team_id = LabelId\<close> for teams. Other label types leave the query a nil
  pointer.
\<close>

definition one_label :: "BalanceDetailRequest \<Rightarrow> TimeFilterRange \<Rightarrow> detail_row list \<Rightarrow> detail_row list" where
  "one_label pay trange rows =
     filter (\<lambda>r. detail_label (bdr_LabelFilterType pay) r = bdr_LabelId pay \<and> detail_scope pay trange r) rows"

definition label_sort :: "BalanceDetailRequest \<Rightarrow> SortType" where
  "label_sort pay = sort_type (map_option snd (bdr_Sort pay))"

definition dailyBalanceDetailQ :: "BalanceDetailRequest \<Rightarrow> TimeFilterRange \<Rightarrow> detail_row list \<Rightarrow> LabelPeriodItem list" where
  "dailyBalanceDetailQ pay trange rows =
     map (\<lambda>r. \<lparr>lpi_LabelFilterType = bdr_LabelFilterType pay, lpi_LabelId = dt_Label r,
            lpi_Period = UnixMicro (dt_Day r), lpi_Debit = dt_Debit r, lpi_Credit = dt_Credit r,
            lpi_Balance = dt_Balance r\<rparr>)
       (order_by (label_sort pay) (\<lambda>r. nanos (dt_Day r)) (one_label pay trange rows))"

definition monthlyBalanceDetailQ ::
  "int \<Rightarrow> BalanceDetailRequest \<Rightarrow> TimeFilterRange \<Rightarrow> detail_row list \<Rightarrow> LabelPeriodItem list" where
  "monthlyBalanceDetailQ tz pay trange rows =
     order_by (label_sort pay) lpi_Period
       (map (\<lambda>((label, month), rs). \<lparr>lpi_LabelFilterType = bdr_LabelFilterType pay, lpi_LabelId = label,
              lpi_Period = month, lpi_Debit = sum_col dt_Debit rs, lpi_Credit = sum_col dt_Credit rs,
              lpi_Balance = sum_col dt_Balance rs\<rparr>)
         (group_by (\<lambda>r. (dt_Label r, UnixMicro (trunc_instant month_start tz (dt_Day r))))
           (one_label pay trange rows)))"

definition label_report ::
  "(BalanceDetailRequest \<Rightarrow> TimeFilterRange \<Rightarrow> detail_row list \<Rightarrow> LabelPeriodItem list) \<Rightarrow>
   identity \<Rightarrow> BalanceDetailRequest \<Rightarrow> db \<Rightarrow> report_db \<Rightarrow> err + LabelPeriodItem list \<times> PageInfo" where
  "label_report q ident pay d st =
     (case IdentityErr ident of
        Some e \<Rightarrow> Inl e
      | None \<Rightarrow>
          required (detail_rows (bdr_LabelFilterType pay) d st) (\<lambda>rows.
          required (bdr_TimeRange pay) (\<lambda>trange.
          required (bdr_Page pay) (\<lambda>page. Inr (ceil_page page (q pay trange rows))))))"

definition DailyBalanceDetail ::
  "identity \<Rightarrow> BalanceDetailRequest \<Rightarrow> db \<Rightarrow> report_db \<Rightarrow> err + LabelPeriodItem list \<times> PageInfo" where
  "DailyBalanceDetail = label_report dailyBalanceDetailQ"

definition MonthlyBalanceDetail ::
  "int \<Rightarrow> identity \<Rightarrow> BalanceDetailRequest \<Rightarrow> db \<Rightarrow> report_db \<Rightarrow> err + LabelPeriodItem list \<times> PageInfo" where
  "MonthlyBalanceDetail tz = label_report (monthlyBalanceDetailQ tz)"

end
