(* ===== verification/Resync.thy ===== *)
theory Resync
  imports Reports
begin

section \<open>Recomputing the daily balances\<close>

text \<open>
  \<open>report/report_balance/\<close>: \<open>BalanceResync\<close> recomputes two of the daily tables from the journal with
  SQL statements. An entry counts for its date in Jakarta. Each table's statements are the values of
  a Go map, so they run in the order one \<open>range\<close> loop happens to take, an argument here.
\<close>

subsection \<open>The statements\<close>

text \<open>One entry with the key of its row: day, account and team; and its debit, credit and balance.\<close>

type_synonym 'k sync_row = "(int \<times> 'k \<times> nat) \<times> f64 \<times> f64 \<times> f64"

definition sync_day :: "Time \<Rightarrow> int" where
  "sync_day t = nanos (trunc_local (\<lambda>n. n) jakarta t)"

definition sync_entry :: "(Account \<Rightarrow> 'k) \<Rightarrow> JournalEntry \<Rightarrow> Account \<Rightarrow> 'k sync_row" where
  "sync_entry key je a =
     ((sync_day (je_EntryTime je), key a, je_TeamID je),
      (if je_Rollback je then je_Credit je * f64_of (-1) else je_Debit je),
      (if je_Rollback je then je_Debit je * f64_of (-1) else je_Credit je),
      (if acc_BalanceType a = DebitBalance then je_Debit je - je_Credit je
       else if acc_BalanceType a = CreditBalance then je_Credit je - je_Debit je else 0))"

definition sync_entries :: "(Account \<Rightarrow> 'k) \<Rightarrow> db \<Rightarrow> 'k sync_row list" where
  "sync_entries key d =
     concat (map (\<lambda>je. join_account d (je_AccountID je) (sync_entry key je)) (db_entries d))"

definition sync_summary :: "'k sync_row list \<Rightarrow> 'k sync_row list" where
  "sync_summary en =
     map (\<lambda>(k, rs). (k, sum_col (\<lambda>(_, x, _, _). x) rs, sum_col (\<lambda>(_, _, x, _). x) rs,
            sum_col (\<lambda>(_, _, _, x). x) rs)) (group_by fst en)"

text \<open>\<open>sum(balance) OVER (PARTITION BY account, team ORDER BY day)\<close>: the row's and all earlier days.\<close>

definition sync_running :: "'k sync_row list \<Rightarrow> int \<times> 'k \<times> nat \<Rightarrow> f64" where
  "sync_running su k =
     (case k of (day, slot) \<Rightarrow>
        sum_col (\<lambda>(_, _, _, x). x)
          (order_asc (\<lambda>r. fst (fst r)) (filter (\<lambda>r. snd (fst r) = slot \<and> fst (fst r) \<le> day) su)))"

definition statdata :: "'k sync_row list \<Rightarrow> 'k sync_row list" where
  "statdata su = map (\<lambda>(k, debit, credit, _). (k, debit, credit, sync_running su k)) su"

text \<open>\<open>INSERT ... ON CONFLICT (day, account, team) DO UPDATE\<close> of one row.\<close>

definition upsert_daily_acd :: "nat sync_row \<Rightarrow> AccountDailyBalance list \<times> nat \<Rightarrow> AccountDailyBalance list \<times> nat" where
  "upsert_daily_acd row st =
     (case row of ((day, accID, team), debit, credit, balance) \<Rightarrow>
      case st of (rows, sq) \<Rightarrow>
        let hit = (\<lambda>r. nanos (acd_Day r) = day \<and> acd_AccountID r = accID \<and> acd_JournalTeamID r = team)
        in if list_ex hit rows then
             (map (\<lambda>r. if hit r then r\<lparr>acd_Debit := debit, acd_Credit := credit, acd_Balance := balance\<rparr> else r) rows, sq)
           else (rows @ [\<lparr>acd_ID = Suc sq, acd_Day = \<lparr>nanos = day, offset = 0\<rparr>, acd_AccountID = accID,
                   acd_JournalTeamID = team, acd_Debit = debit, acd_Credit = credit, acd_Balance = balance,
                   acd_StartBalance = 0\<rparr>], Suc sq))"

definition upsert_daily_akd ::
  "AccountKey sync_row \<Rightarrow> AccountKeyDailyBalance list \<times> nat \<Rightarrow> AccountKeyDailyBalance list \<times> nat" where
  "upsert_daily_akd row st =
     (case row of ((day, key, team), debit, credit, balance) \<Rightarrow>
      case st of (rows, sq) \<Rightarrow>
        let hit = (\<lambda>r. nanos (akd_Day r) = day \<and> akd_AccountKey r = key \<and> akd_JournalTeamID r = team)
        in if list_ex hit rows then
             (map (\<lambda>r. if hit r then r\<lparr>akd_Debit := debit, akd_Credit := credit, akd_Balance := balance\<rparr> else r) rows, sq)
           else (rows @ [\<lparr>akd_ID = Suc sq, akd_Day = \<lparr>nanos = day, offset = 0\<rparr>, akd_AccountKey = key,
                   akd_JournalTeamID = team, akd_Debit = debit, akd_Credit = credit, akd_Balance = balance,
                   akd_StartBalance = 0\<rparr>], Suc sq))"

text \<open>
  \<open>lag(balance) OVER (PARTITION BY account, team ORDER BY day)\<close>: the balance of the row before, \<open>NULL\<close>
  for the first, which reads as zero.
\<close>

definition lag_start_acd :: "AccountDailyBalance list \<Rightarrow> AccountDailyBalance list" where
  "lag_start_acd rows = map (\<lambda>r. r\<lparr>acd_StartBalance := beforeBalance acd r rows\<rparr>) rows"

definition lag_start_akd :: "AccountKeyDailyBalance list \<Rightarrow> AccountKeyDailyBalance list" where
  "lag_start_akd rows = map (\<lambda>r. r\<lparr>akd_StartBalance := beforeBalance akd r rows\<rparr>) rows"

datatype sync_stmt = LockDaily | LockJournal | UpsertDaily | UpdateStart

definition accountDailySync :: "db \<Rightarrow> sync_stmt \<Rightarrow> report_db \<Rightarrow> report_db" where
  "accountDailySync d stmt st =
     (case stmt of
        LockDaily \<Rightarrow> st
      | LockJournal \<Rightarrow> st
      | UpsertDaily \<Rightarrow>
          (case fold upsert_daily_acd (statdata (sync_summary (sync_entries acc_ID d))) (rdb_account st, rdb_seq st) of
             (rows, sq) \<Rightarrow> st\<lparr>rdb_account := rows, rdb_seq := sq\<rparr>)
      | UpdateStart \<Rightarrow> st\<lparr>rdb_account := lag_start_acd (rdb_account st)\<rparr>)"

definition accountKeyDailySync :: "db \<Rightarrow> sync_stmt \<Rightarrow> report_db \<Rightarrow> report_db" where
  "accountKeyDailySync d stmt st =
     (case stmt of
        LockDaily \<Rightarrow> st
      | LockJournal \<Rightarrow> st
      | UpsertDaily \<Rightarrow>
          (case fold upsert_daily_akd (statdata (sync_summary (sync_entries acc_Key d))) (rdb_account_key st, rdb_seq st) of
             (rows, sq) \<Rightarrow> st\<lparr>rdb_account_key := rows, rdb_seq := sq\<rparr>)
      | UpdateStart \<Rightarrow> st\<lparr>rdb_account_key := lag_start_akd (rdb_account_key st)\<rparr>)"

subsection \<open>The handler\<close>

text \<open>\<open>superuser\<close> is the answer of the agent; \<open>order\<close> and \<open>order'\<close> are the orders of the two maps.\<close>

definition BalanceResync ::
  "sync_stmt list \<Rightarrow> sync_stmt list \<Rightarrow> identity \<Rightarrow> bool \<Rightarrow> db \<Rightarrow> report_db \<Rightarrow> err option \<times> report_db" where
  "BalanceResync order order' ident superuser d st =
     (case IdentityErr ident of
        Some e \<Rightarrow> (Some e, st)
      | None \<Rightarrow>
          if \<not> superuser then (Some (ErrMsg ''bukan superuser''), st)
          else (None, fold (accountDailySync d) order' (fold (accountKeyDailySync d) order st)))"

definition all_stmts :: "sync_stmt list \<Rightarrow> bool" where
  "all_stmts order \<longleftrightarrow> mset order = {#LockDaily, LockJournal, UpsertDaily, UpdateStart#}"

end
