(* ===== verification/BankAccounts.thy ===== *)
theory BankAccounts
  imports Query Bookings
begin

section \<open>Bank accounts\<close>

text \<open>
  \<open>account/\<close>: the handlers that create, change, delete and list bank accounts, the opening balance of
  an account, and the list of transfers. \<open>account/transfer_create.go\<close> is in theory \<open>Bookings\<close>. The table
  of the account types is an argument: pairs of an id and a key.
\<close>

subsection \<open>Opening balance\<close>

record AccountBalanceInitRequest =
  bir_AccountId :: nat
  bir_Amount :: f64
  bir_Desc :: string

definition first_account :: "nat \<Rightarrow> BankAccountV2 action" where
  "first_account i = bindA (readA (\<lambda>d. find (\<lambda>a. ba_ID a = i) (db_bank_accounts d)))
     (\<lambda>a. case a of Some a \<Rightarrow> returnA a | None \<Rightarrow> failA ErrRecordNotFound)"

definition replace_bank_account :: "BankAccountV2 \<Rightarrow> db \<Rightarrow> db" where
  "replace_bank_account acc d =
     d\<lparr>db_bank_accounts := map (\<lambda>a. if ba_ID a = ba_ID acc then acc else a) (db_bank_accounts d)\<rparr>"

definition balance_init_calls ::
  "identity \<Rightarrow> BankAccountV2 \<Rightarrow> AccountBalanceInitRequest \<Rightarrow> Transaction \<Rightarrow> entry_call list" where
  "balance_init_calls ident account pay tran =
     [FromC CapitalStartAccount (RootDomain ident) (bir_Amount pay),
      ToC CashAccount (ba_TeamID account) (bir_Amount pay),
      CTransaction tran]"

definition balance_init_body ::
  "env \<Rightarrow> identity \<Rightarrow> AccountBalanceInitRequest \<Rightarrow> unit action" where
  "balance_init_body en ident pay =
     bindA (first_account (bir_AccountId pay))
       (\<lambda>account.
          if ba_Balance account \<noteq> 0 then failA (ErrMsg ''account balance not Empty'')
          else bindA (newTxA en
              \<lparr>tx_ID = 0, tx_RefID = [], tx_TeamID = 0, tx_CreatedByID = GetUserID ident, tx_OrderID = None,
               tx_Desc = bir_Desc pay, tx_Created = now en\<rparr> [])
            (\<lambda>tran. thenA
               (entryA en (ba_TeamID account) (GetUserID ident) (balance_init_calls ident account pay tran) [])
               (updateA (replace_bank_account (account\<lparr>ba_Balance := bir_Amount pay\<rparr>)))))"

text \<open>The permission is checked with the action \<open>initialize_acc\<close>, whose answer is \<open>perm\<close>.\<close>

definition AccountBalanceInit ::
  "env \<Rightarrow> identity \<Rightarrow> err option \<Rightarrow> AccountBalanceInitRequest \<Rightarrow> unit option action" where
  "AccountBalanceInit en ident perm pay =
     thenA (checkA perm) (OpenTransaction en (balance_init_body en ident pay))"

subsection \<open>Creating an account\<close>

definition bank_entity :: string where
  "bank_entity = ''accounting/bank_account/v2''"

record AccountCreateRequest =
  acq_TeamId :: nat
  acq_Name :: string
  acq_NumberId :: string
  acq_AccountTypeId :: nat
  acq_Labels :: "(string \<times> string) list"

text \<open>
  \<open>Save\<close> of an account under the unique index on the number. Whether the connection translates
  the driver's error into \<open>gorm.ErrDuplicatedKey\<close> is its configuration, \<open>translated\<close>.
\<close>

definition save_bank_account :: "env \<Rightarrow> bool \<Rightarrow> BankAccountV2 \<Rightarrow> db \<Rightarrow> err + BankAccountV2 \<times> db" where
  "save_bank_account en translated acc d =
     (if \<exists>a \<in> set (db_bank_accounts d). ba_NumberID a = ba_NumberID acc then
        Inl (if translated then ErrMsg ''account duplicated'' else ErrDB (uniq_msg en))
      else let acc = acc\<lparr>ba_ID := Suc (db_seq d)\<rparr>
        in Inr (acc, d\<lparr>db_seq := Suc (db_seq d), db_bank_accounts := db_bank_accounts d @ [acc]\<rparr>))"

text \<open>
  A label of the request: the row with the key is taken as it is, or a new one is saved; the
  relation is saved under its composite key.
\<close>

definition add_bank_label :: "nat \<Rightarrow> string \<times> string \<Rightarrow> db \<Rightarrow> db" where
  "add_bank_label accID label d =
     (case find (\<lambda>l. bl_Key l = fst label) (db_bank_labels d) of
        Some lab \<Rightarrow> d\<lparr>db_bank_label_rels := save_rel (accID, bl_ID lab) (db_bank_label_rels d)\<rparr>
      | None \<Rightarrow>
          d\<lparr>db_seq := Suc (db_seq d),
            db_bank_labels := db_bank_labels d @ [\<lparr>bl_ID = Suc (db_seq d), bl_Key = fst label, bl_Value = snd label\<rparr>],
            db_bank_label_rels := save_rel (accID, Suc (db_seq d)) (db_bank_label_rels d)\<rparr>)"

definition account_create_body :: "env \<Rightarrow> bool \<Rightarrow> AccountCreateRequest \<Rightarrow> nat action" where
  "account_create_body en translated pay s =
     (case save_bank_account en translated
         \<lparr>ba_ID = 0, ba_TeamID = acq_TeamId pay, ba_AccountTypeID = acq_AccountTypeId pay, ba_Name = acq_Name pay,
          ba_NumberID = acq_NumberId pay, ba_Balance = 0, ba_Disabled = False, ba_Deleted = False,
          ba_CreatedAt = now en, ba_DeletedAt = zeroTime\<rparr> (s_db s) of
        Inl e \<Rightarrow> (Inl e, s)
      | Inr (acc, d) \<Rightarrow> (Inr (ba_ID acc), s\<lparr>s_db := fold (add_bank_label (ba_ID acc)) (acq_Labels pay) d\<rparr>))"

definition AccountCreate :: "env \<Rightarrow> bool \<Rightarrow> identity \<Rightarrow> AccountCreateRequest \<Rightarrow> nat action" where
  "AccountCreate en translated ident pay =
     thenA (checkA (HasPermission ident bank_entity (acq_TeamId pay) ActCreate))
       (transactionA (account_create_body en translated pay))"

subsection \<open>Deleting accounts\<close>

record AccountDeleteRequest =
  adr_TeamId :: nat
  adr_AccountIds :: "nat list"

text \<open>\<open>strconv.FormatInt(now.UnixMilli(), 10)\<close>.\<close>

definition UnixMilli :: "Time \<Rightarrow> int" where
  "UnixMilli t = nanos t div 1000000 - 62135596800000"

definition mark_deleted :: "env \<Rightarrow> BankAccountV2 \<Rightarrow> BankAccountV2" where
  "mark_deleted en a = a\<lparr>ba_Deleted := True,
     ba_NumberID := ba_NumberID a @ ''_'' @ show_int (UnixMilli (now en)) @ ''_deleted'', ba_DeletedAt := now en\<rparr>"

text \<open>
  \<open>Updates\<close> of the row with the id, whatever team it belongs to; the unique index can refuse the
  new number.
\<close>

definition delete_account :: "env \<Rightarrow> nat \<Rightarrow> unit action" where
  "delete_account en i s =
     (let d = s_db s in
      if \<exists>a \<in> set (db_bank_accounts d). \<exists>b \<in> set (db_bank_accounts d).
           ba_ID a = i \<and> ba_ID b \<noteq> i \<and> ba_NumberID b = ba_NumberID (mark_deleted en a)
      then (Inl (ErrDB (uniq_msg en)), s)
      else (Inr (), s\<lparr>s_db := d\<lparr>db_bank_accounts :=
             map (\<lambda>a. if ba_ID a = i then mark_deleted en a else a) (db_bank_accounts d)\<rparr>\<rparr>))"

text \<open>The error of the transaction is dropped.\<close>

definition AccountDelete :: "env \<Rightarrow> identity \<Rightarrow> AccountDeleteRequest \<Rightarrow> unit action" where
  "AccountDelete en ident pay =
     thenA (checkA (HasPermission ident bank_entity (adr_TeamId pay) ActCreate))
       (\<lambda>s. (Inr (), snd (transactionA (forA (adr_AccountIds pay) (delete_account en)) s)))"

subsection \<open>Changing an account\<close>

record AccountUpdateRequest =
  auq_Id :: nat
  auq_Name :: string
  auq_NumberId :: string

text \<open>\<open>Updates\<close> with a struct writes the fields that are not empty, to the row with the id.\<close>

definition update_fields :: "AccountUpdateRequest \<Rightarrow> BankAccountV2 \<Rightarrow> BankAccountV2" where
  "update_fields pay a =
     a\<lparr>ba_Name := (if auq_Name pay = [] then ba_Name a else auq_Name pay),
       ba_NumberID := (if auq_NumberId pay = [] then ba_NumberID a else auq_NumberId pay)\<rparr>"

definition update_bank_account :: "env \<Rightarrow> AccountUpdateRequest \<Rightarrow> unit action" where
  "update_bank_account en pay s =
     (let d = s_db s in
      if auq_NumberId pay \<noteq> [] \<and> (\<exists>a \<in> set (db_bank_accounts d). ba_ID a = auq_Id pay) \<and>
         (\<exists>b \<in> set (db_bank_accounts d). ba_ID b \<noteq> auq_Id pay \<and> ba_NumberID b = auq_NumberId pay)
      then (Inl (ErrDB (uniq_msg en)), s)
      else (Inr (), s\<lparr>s_db := d\<lparr>db_bank_accounts :=
             map (\<lambda>a. if ba_ID a = auq_Id pay then update_fields pay a else a) (db_bank_accounts d)\<rparr>\<rparr>))"

text \<open>The team that is checked is that of the request's source, not that of the account.\<close>

definition AccountUpdate :: "env \<Rightarrow> identity \<Rightarrow> err + nat \<Rightarrow> AccountUpdateRequest \<Rightarrow> unit action" where
  "AccountUpdate en ident source pay =
     (case source of
        Inl e \<Rightarrow> failA e
      | Inr team \<Rightarrow>
          thenA (checkA (HasPermission ident bank_entity team ActUpdate)) (update_bank_account en pay))"

subsection \<open>Lists of accounts\<close>

record PublicAccountItem =
  pai_Id :: nat
  pai_TeamId :: nat
  pai_Name :: string
  pai_NumberId :: string
  pai_AccountType :: string

text \<open>\<open>bank_account_v2 bav join account_types at2\<close>: an account whose type is unknown is not listed.\<close>

definition public_accounts :: "(nat \<times> string) list \<Rightarrow> (BankAccountV2 \<Rightarrow> bool) \<Rightarrow> db \<Rightarrow> PublicAccountItem list" where
  "public_accounts types P d =
     concat (map (\<lambda>bav. map (\<lambda>at2. \<lparr>pai_Id = ba_ID bav, pai_TeamId = ba_TeamID bav, pai_Name = ba_Name bav,
              pai_NumberId = ba_NumberID bav, pai_AccountType = snd at2\<rparr>)
            (filter (\<lambda>at2. fst at2 = ba_AccountTypeID bav) types))
       (filter P (db_bank_accounts d)))"

definition AccountByIDs :: "(nat \<times> string) list \<Rightarrow> db \<Rightarrow> (nat \<times> PublicAccountItem) list" where
  "AccountByIDs types d =
     fold (\<lambda>item. alist_upd (pai_Id item) item) (public_accounts types (\<lambda>_. True) d) []"

definition AccountPublicSearch :: "(nat \<times> string) list \<Rightarrow> nat \<Rightarrow> string \<Rightarrow> db \<Rightarrow> PublicAccountItem list" where
  "AccountPublicSearch types team keyword d =
     public_accounts types (\<lambda>bav. (team \<noteq> 0 \<longrightarrow> ba_TeamID bav = team) \<and>
       (keyword \<noteq> [] \<longrightarrow> like (contains_pat keyword) (lower (ba_Name bav)))) d"

text \<open>The labels of the listed accounts, joined with their relations.\<close>

definition account_labels :: "nat list \<Rightarrow> db \<Rightarrow> (nat \<times> string \<times> string) list" where
  "account_labels accIDs d =
     concat (map (\<lambda>bal. map (\<lambda>balr. (fst balr, bl_Key bal, bl_Value bal))
         (filter (\<lambda>balr. snd balr = bl_ID bal \<and> fst balr \<in> set accIDs) (db_bank_label_rels d)))
       (db_bank_labels d))"

definition AccountList ::
  "(nat \<times> string) list \<Rightarrow> identity \<Rightarrow> err + nat \<Rightarrow> nat \<Rightarrow> db \<Rightarrow>
   err + (PublicAccountItem \<times> (string \<times> string) list) list" where
  "AccountList types ident source team d =
     (case source of
        Inl e \<Rightarrow> Inl e
      | Inr sourceTeam \<Rightarrow>
          (case HasPermission ident bank_entity sourceTeam ActCreate of
             Some e \<Rightarrow> Inl e
           | None \<Rightarrow>
               let data = public_accounts types
                     (\<lambda>bav. \<not> ba_Deleted bav \<and> (team \<noteq> 0 \<longrightarrow> ba_TeamID bav = team)) d;
                   items = account_labels (map pai_Id data) d
               in Inr (map (\<lambda>item. (item, map snd (filter (\<lambda>l. fst l = pai_Id item) items))) data)))"

definition LabelList :: "string \<Rightarrow> db \<Rightarrow> (string \<times> string) list" where
  "LabelList keyword d =
     map (\<lambda>l. (bl_Key l, bl_Value l))
       (filter (\<lambda>l. keyword \<noteq> [] \<longrightarrow> like (contains_pat (lower keyword)) (lower (bl_Value l))) (db_bank_labels d))"

subsection \<open>The list of transfers\<close>

record AccountMutationListRequest =
  amr_TeamId :: nat
  amr_AccountId :: nat
  amr_TimeRange :: "(int \<times> int) option"
  amr_Page :: "PageFilter option"

record MutationItem =
  mi_Transfer :: BankTransferHistory
  mi_TransferAt :: int
  mi_Type :: nat
  mi_FromAccount :: "PublicAccountItem option"
  mi_ToAccount :: "PublicAccountItem option"

text \<open>
  The query: \<open>fac\<close> and \<open>tac\<close> are left joins, so a missing account is a \<open>NULL\<close> that equals nothing. The
  time range is a pair of microseconds, start and end.
\<close>

definition from_team :: "db \<Rightarrow> nat \<Rightarrow> nat \<Rightarrow> bool" where
  "from_team d accID team = (\<exists>a \<in> set (db_bank_accounts d). ba_ID a = accID \<and> ba_TeamID a = team)"

definition mutation_query :: "AccountMutationListRequest \<Rightarrow> db \<Rightarrow> BankTransferHistory list" where
  "mutation_query pay d =
     filter (\<lambda>bth.
         (from_team d (bh_FromAccountID bth) (amr_TeamId pay) \<or> from_team d (bh_ToAccountID bth) (amr_TeamId pay)) \<and>
         (amr_AccountId pay \<noteq> 0 \<longrightarrow>
            (\<exists>a \<in> set (db_bank_accounts d). ba_ID a = amr_AccountId pay) \<and>
            (bh_FromAccountID bth = amr_AccountId pay \<or> bh_ToAccountID bth = amr_AccountId pay)) \<and>
         (case amr_TimeRange pay of None \<Rightarrow> True
          | Some (startDate, endDate) \<Rightarrow>
              (endDate \<noteq> 0 \<longrightarrow> nanos (bh_Created bth) \<le> (endDate + 62135596800000000) * 1000) \<and>
              (startDate \<noteq> 0 \<longrightarrow> nanos (bh_Created bth) > (startDate + 62135596800000000) * 1000)))
       (db_transfers d)"

definition page_defaults :: "PageFilter \<Rightarrow> PageFilter" where
  "page_defaults p = \<lparr>pg_Page = (if pg_Page p = 0 then 1 else pg_Page p),
     pg_Limit = (if pg_Limit p = 0 then 100 else pg_Limit p)\<rparr>"

definition mutation_item ::
  "(nat \<times> string) list \<Rightarrow> (nat \<Rightarrow> int) \<Rightarrow> db \<Rightarrow> nat \<Rightarrow> BankTransferHistory \<Rightarrow> MutationItem" where
  "mutation_item types transfer_at d team bth =
     (let acc = (\<lambda>i. find (\<lambda>a. pai_Id a = i) (public_accounts types (\<lambda>_. True) d)) in
      \<lparr>mi_Transfer = bth, mi_TransferAt = transfer_at (bh_ID bth), mi_Type = (if from_team d (bh_FromAccountID bth) team then 1 else 2),
       mi_FromAccount = acc (bh_FromAccountID bth), mi_ToAccount = acc (bh_ToAccountID bth)\<rparr>)"

text \<open>A page of rows with the number of pages by integer division, at least one.\<close>

definition floor_page :: "PageFilter \<Rightarrow> 'a list \<Rightarrow> err + 'a list \<times> PageInfo" where
  "floor_page page rows =
     (case floor_pages1 (int (length rows)) (pg_Limit page) of
        Inl e \<Rightarrow> Inl e
      | Inr t \<Rightarrow> Inr (page_rows page rows,
          \<lparr>pi_CurrentPage = pg_Page page, pi_TotalPage = Some t, pi_TotalItems = int (length rows)\<rparr>))"

text \<open>
  The query selects a column \<open>transfer_at\<close> that the model of the table does not declare any more: it
  is an argument, and without it the database refuses the query.
\<close>

definition AccountMutationList ::
  "(nat \<times> string) list \<Rightarrow> (nat \<Rightarrow> int) option \<Rightarrow> identity \<Rightarrow> err + nat \<Rightarrow> AccountMutationListRequest \<Rightarrow> db \<Rightarrow>
   err + MutationItem list \<times> PageInfo" where
  "AccountMutationList types column ident source pay d =
     (case source of
        Inl e \<Rightarrow> Inl e
      | Inr team \<Rightarrow>
          (case amr_Page pay of
             None \<Rightarrow> Inl (ErrMsg ''page must set'')
           | Some page \<Rightarrow>
               (case HasPermission ident ''accounting/bank_transfer'' team ActRead of
                  Some e \<Rightarrow> Inl e
                | None \<Rightarrow>
                    (case column of
                       None \<Rightarrow> Inl (ErrDB ''column bth.transfer_at does not exist'')
                     | Some transfer_at \<Rightarrow>
                         map_sum id (\<lambda>(rows, info). (map (mutation_item types transfer_at d (amr_TeamId pay)) rows, info))
                           (floor_page (page_defaults page) (mutation_query pay d))))))"

end
