(* ===== verification/ExpenseLists.thy ===== *)
theory ExpenseLists
  imports BankAccounts
begin

section \<open>Expense metrics and lists\<close>

text \<open>
  \<open>expense/service.go\<close> and \<open>expense/expense_list.go\<close>: sums of the expense accounts of the journal, per
  period and key or per key, the expense types a team may choose, and the list of the expense
  rows. \<open>expense/expense_create.go\<close> is in theory \<open>Bookings\<close>.
\<close>

subsection \<open>Metrics\<close>

datatype TimeType = TIME_TYPE_DAILY | TIME_TYPE_MONTHLY | TIME_TYPE_YEARLY | TIME_TYPE_OTHER nat

definition trunc_unit :: "TimeType \<Rightarrow> int \<Rightarrow> int" where
  "trunc_unit t =
     (case t of
        TIME_TYPE_DAILY \<Rightarrow> (\<lambda>n. n)
      | TIME_TYPE_MONTHLY \<Rightarrow> month_start
      | TIME_TYPE_YEARLY \<Rightarrow> year_start
      | TIME_TYPE_OTHER _ \<Rightarrow> (\<lambda>n. n))"

record ExpenseMetricRequest =
  emr_TeamId :: nat
  emr_TimeType :: TimeType
  emr_TimeRange :: "TimeFilterRange option"

text \<open>The identity's domain of a request: the administrator asks for the root domain.\<close>

definition source_domain :: "identity \<Rightarrow> RequestFrom \<times> nat \<Rightarrow> nat" where
  "source_domain ident source =
     (case fst source of REQUEST_FROM_ADMIN \<Rightarrow> RootDomain ident | _ \<Rightarrow> snd source)"

text \<open>The entries on expense accounts within the range, with their accounts.\<close>

definition expense_entries ::
  "ExpenseMetricRequest \<Rightarrow> TimeFilterRange \<Rightarrow> db \<Rightarrow> (JournalEntry \<times> Account) list" where
  "expense_entries pay trange d =
     filter (\<lambda>(je, a). acc_Coa a = EXPENSE \<and> (emr_TeamId pay \<noteq> 0 \<longrightarrow> je_TeamID je = emr_TeamId pay) \<and>
         in_range trange (je_EntryTime je))
       (journal_join d)"

definition entry_value :: "JournalEntry \<times> Account \<Rightarrow> f64" where
  "entry_value r = je_Debit (fst r) - je_Credit (fst r)"

text \<open>The rows \<open>KeyValue\<close>: the period as microseconds of its start on the clock of Jakarta, key, value.\<close>

definition time_metric_rows ::
  "ExpenseMetricRequest \<Rightarrow> TimeFilterRange \<Rightarrow> db \<Rightarrow> (int \<times> AccountKey \<times> f64) list" where
  "time_metric_rows pay trange d =
     map (\<lambda>((t, key), rs). (t, key, sum_col entry_value rs))
       (group_by (\<lambda>(je, a). (UnixMicro (trunc_local (trunc_unit (emr_TimeType pay)) jakarta (je_EntryTime je)), acc_Key a))
         (expense_entries pay trange d))"

definition add_metric ::
  "int \<times> AccountKey \<times> f64 \<Rightarrow> f64 \<times> (int \<times> (AccountKey \<times> f64) list) list \<Rightarrow>
   f64 \<times> (int \<times> (AccountKey \<times> f64) list) list" where
  "add_metric item res =
     (case item of (t, key, v) \<Rightarrow>
      case res of (tot, data) \<Rightarrow>
        (tot + v,
         alist_upd t ((case map_of data t of None \<Rightarrow> [] | Some l \<Rightarrow> l) @ [(key, v)]) data))"

definition ExpenseTimeMetric ::
  "identity \<Rightarrow> err + RequestFrom \<times> nat \<Rightarrow> ExpenseMetricRequest \<Rightarrow> db \<Rightarrow>
   err + f64 \<times> (int \<times> (AccountKey \<times> f64) list) list" where
  "ExpenseTimeMetric ident source pay d =
     (case source of
        Inl e \<Rightarrow> Inl e
      | Inr src \<Rightarrow>
          (case HasPermission ident ''accounting/expense_entity'' (source_domain ident src) ActRead of
             Some e \<Rightarrow> Inl e
           | None \<Rightarrow>
               (case emr_TimeRange pay of
                  None \<Rightarrow> Inl (ErrMsg ''specify time range'')
                | Some trange \<Rightarrow> Inr (fold add_metric (time_metric_rows pay trange d) (0, [])))))"

definition overview_rows ::
  "ExpenseMetricRequest \<Rightarrow> TimeFilterRange \<Rightarrow> db \<Rightarrow> (AccountKey \<times> f64) list" where
  "overview_rows pay trange d =
     map (\<lambda>(key, rs). (key, sum_col entry_value rs))
       (group_by (\<lambda>(je, a). acc_Key a) (expense_entries pay trange d))"

definition add_overview ::
  "AccountKey \<times> f64 \<Rightarrow> f64 \<times> (AccountKey \<times> f64) list \<Rightarrow> f64 \<times> (AccountKey \<times> f64) list" where
  "add_overview item res =
     (case item of (key, v) \<Rightarrow> case res of (tot, details) \<Rightarrow> (tot + v, alist_upd key v details))"

text \<open>This handler does not ask whether there is a time range.\<close>

definition ExpenseOverviewMetric ::
  "identity \<Rightarrow> err + RequestFrom \<times> nat \<Rightarrow> ExpenseMetricRequest \<Rightarrow> db \<Rightarrow>
   err + f64 \<times> (AccountKey \<times> f64) list" where
  "ExpenseOverviewMetric ident source pay d =
     (case source of
        Inl e \<Rightarrow> Inl e
      | Inr src \<Rightarrow>
          (case HasPermission ident ''accounting/expense_entity'' (source_domain ident src) ActRead of
             Some e \<Rightarrow> Inl e
           | None \<Rightarrow>
               (case emr_TimeRange pay of
                  None \<Rightarrow> Inl (Panic ''nil pointer dereference'')
                | Some trange \<Rightarrow> Inr (fold add_overview (overview_rows pay trange d) (0, [])))))"

subsection \<open>Expense types\<close>

datatype ExpenseType =
    EXPENSE_TYPE_INTERNAL
  | EXPENSE_TYPE_SELLING
  | EXPENSE_TYPE_WAREHOUSE
  | EXPENSE_TYPE_OTHER nat

definition ExpenseTypeList :: "ExpenseType \<Rightarrow> err + (AccountKey \<times> string) list" where
  "ExpenseTypeList t =
     (let team = [(ShopeepayAccount, ''Top Up ShopeePay''), (SalaryAccount, ''Gaji''),
            (KitchenExpenseAccount, ''Dapur''), (InternetConnectionAccount, ''Internet''),
            (ElectricityExpenseAccount, ''Listrik''), (EquipmentExpenseAccount, ''Peralatan''),
            (ToolExpenseAccount, ''Tools''), (BankFeeAccount, ''Bank''), (AdjExpenseAccount, ''Penyesuaian''),
            (OtherExpenseAccount, ''Lain-Lain'')];
          warehouse = [(OwnerAccommodationAccount, ''Akomodasi Owner''), (KitchenExpenseAccount, ''Dapur''),
            (SalaryAccount, ''Gaji''), (InternetConnectionAccount, ''Internet''), (PackingExpenseAccount, ''Packing''),
            (ElectricityExpenseAccount, ''Listrik''), (EquipmentExpenseAccount, ''Peralatan''),
            (ToolExpenseAccount, ''Tools''), (TransportExpenseAccount, ''Transportasi''),
            (ServerExpenseAccount, ''Server''), (OtherExpenseAccount, ''Lain-Lain'')]
      in case t of
           EXPENSE_TYPE_INTERNAL \<Rightarrow> Inr team
         | EXPENSE_TYPE_SELLING \<Rightarrow> Inr team
         | EXPENSE_TYPE_WAREHOUSE \<Rightarrow> Inr warehouse
         | EXPENSE_TYPE_OTHER _ \<Rightarrow> Inl (ErrMsg ''expense type unspecified or supported''))"

subsection \<open>The list of expenses\<close>

text \<open>Zero stands for a filter that is not set; the numbers of the generated enumeration start with it.\<close>

record ExpenseListRequest =
  elr_TeamId :: nat
  elr_RequestFrom :: RequestFrom
  elr_ByUserId :: nat
  elr_ExpenseType :: nat
  elr_ExpenseKey :: string
  elr_TimeRange :: "TimeFilterRange option"
  elr_Page :: "PageFilter option"

definition expense_query :: "ExpenseListRequest \<Rightarrow> TimeFilterRange \<Rightarrow> db \<Rightarrow> Expense list" where
  "expense_query pay trange d =
     filter (\<lambda>e. (elr_TeamId pay \<noteq> 0 \<longrightarrow> ex_TeamID e = elr_TeamId pay) \<and>
         (elr_ByUserId pay \<noteq> 0 \<longrightarrow> ex_CreatedByID e = elr_ByUserId pay) \<and>
         in_range trange (ex_CreatedAt e) \<and>
         (elr_ExpenseType pay \<noteq> 0 \<longrightarrow> ex_ExpenseType e = elr_ExpenseType pay) \<and>
         (elr_ExpenseKey pay \<noteq> [] \<longrightarrow> ex_ExpenseKey e = elr_ExpenseKey pay))
       (db_expenses d)"

definition ExpenseList ::
  "identity \<Rightarrow> ExpenseListRequest \<Rightarrow> db \<Rightarrow> err + Expense list \<times> PageInfo" where
  "ExpenseList ident pay d =
     (case elr_TimeRange pay of
        None \<Rightarrow> Inl (ErrMsg ''time range must set'')
      | Some trange \<Rightarrow>
          (case elr_Page pay of
             None \<Rightarrow> Inl (ErrMsg ''page must set'')
           | Some page \<Rightarrow>
               (case HasPermission ident ''accounting/expense_entity''
                       (request_domain ident (elr_RequestFrom pay) (elr_TeamId pay)) ActRead of
                  Some e \<Rightarrow> Inl e
                | None \<Rightarrow> floor_page (page_defaults page) (expense_query pay trange d))))"

end
