(* ===== verification/Setup.thy ===== *)
theory Setup
  imports Bookings
begin

section \<open>Setting up a team\<close>

text \<open>
  \<open>setup/service.go\<close>, \<open>setup/permissison.go\<close> and \<open>accounting_core/account.go\<close>: \<open>Setup\<close> gives a team the
  reserved accounts and its roles their permissions. The statements run one by one, without a
  transaction. The team table and the permission tables belong to other packages: the teams are
  an argument, and a call that grants permissions is recorded as a value.
\<close>

subsection \<open>Teams and permissions\<close>

datatype TeamType = RootTeamType | AdminTeamType | SellingTeamType | WarehouseTeamType | OtherTeamType string

record Team =
  team_ID :: nat
  team_Name :: string
  team_Code :: string
  team_Type :: TeamType
  team_Deleted :: bool

definition fullAccess :: "Action list" where
  "fullAccess = [ActCreate, ActRead, ActUpdate, ActDelete]"

text \<open>Entities by their \<open>GetEntityID\<close>; \<open>OweLimitConfiguration\<close> is a type of \<open>db_models\<close>.\<close>

type_synonym RoleItem = "(string \<times> (string \<times> Action list) list) list"

definition adjustmentAccess :: "string \<times> Action list" where
  "adjustmentAccess = (''accounting/adjustment'', fullAccess)"

definition adsExpense :: "string \<times> Action list" where
  "adsExpense = (''accounting/ads_expense'', fullAccess)"

definition paymentAccess :: "string \<times> Action list" where
  "paymentAccess = (''accounting/payment'', fullAccess)"

definition expenseEntity :: "string \<times> Action list" where
  "expenseEntity = (''accounting/expense_entity'', fullAccess)"

definition bankAccess :: "(string \<times> Action list) list" where
  "bankAccess = [(''accounting/bank_account/v2'', fullAccess), (''accounting/bank_transfer'', fullAccess)]"

definition oweLimit :: "string \<times> Action list" where
  "oweLimit = (''OweLimitConfiguration'', fullAccess)"

definition all_entities :: "(string \<times> Action list) list" where
  "all_entities = [adjustmentAccess, adsExpense, paymentAccess, expenseEntity] @ bankAccess @ [oweLimit]"

definition defaultRootRolePermission :: "TeamType \<Rightarrow> RoleItem option" where
  "defaultRootRolePermission t =
     (case t of
        RootTeamType \<Rightarrow> Some []
      | AdminTeamType \<Rightarrow> Some [(''owner'', all_entities), (''admin'', all_entities)]
      | SellingTeamType \<Rightarrow> Some []
      | WarehouseTeamType \<Rightarrow> Some []
      | OtherTeamType _ \<Rightarrow> None)"

definition defaultRolePermission :: "TeamType \<Rightarrow> RoleItem option" where
  "defaultRolePermission t =
     (case t of
        RootTeamType \<Rightarrow> Some []
      | AdminTeamType \<Rightarrow> Some [(''owner'', all_entities), (''admin'', all_entities)]
      | SellingTeamType \<Rightarrow> Some [(''owner'', all_entities), (''admin'', all_entities), (''cs'', [adsExpense])]
      | WarehouseTeamType \<Rightarrow> Some [(''owner'', [adjustmentAccess, paymentAccess, expenseEntity]),
                                  (''admin'', [adjustmentAccess, expenseEntity])]
      | OtherTeamType _ \<Rightarrow> None)"

text \<open>A granted role: the domain, the role's key and the permissions.\<close>

type_synonym grant = "nat \<times> string \<times> (string \<times> Action list) list"

text \<open>
  \<open>add\<close> is the answer of the authorization library to one grant. The two loops range over maps:
  \<open>it\<close> is the order they take. The second lookup tests the outcome of the first one again, so a
  type without an entry in the second map has no roles there.
\<close>

fun grant_loop ::
  "(grant \<Rightarrow> err option) \<Rightarrow> nat \<Rightarrow> RoleItem \<Rightarrow> grant list \<Rightarrow> err option \<times> grant list" where
  "grant_loop add dm [] gs = (None, gs)"
| "grant_loop add dm ((role, perms) # rs) gs =
     (case add (dm, role, perms) of
        Some e \<Rightarrow> (Some e, gs)
      | None \<Rightarrow> grant_loop add dm rs (gs @ [(dm, role, perms)]))"

definition RegisterPermission ::
  "(grant \<Rightarrow> err option) \<Rightarrow> (RoleItem \<Rightarrow> RoleItem) \<Rightarrow> nat \<Rightarrow> nat \<Rightarrow> TeamType \<Rightarrow> err option \<times> grant list" where
  "RegisterPermission add it rootDomain teamID teamType =
     (case defaultRolePermission teamType of
        None \<Rightarrow> (Some (ErrMsg ''team type not found in role map''), [])
      | Some roleItem \<Rightarrow>
          (case grant_loop add teamID (it roleItem) [] of
             (Some e, gs) \<Rightarrow> (Some e, gs)
           | (None, gs) \<Rightarrow>
               grant_loop add rootDomain (it (case defaultRootRolePermission teamType of None \<Rightarrow> [] | Some rs \<Rightarrow> rs)) gs))"

subsection \<open>Accounts\<close>

text \<open>\<open>Save\<close> of a new account under the unique index \<open>team_key\<close>.\<close>

definition CreateAccount ::
  "env \<Rightarrow> BalanceType \<Rightarrow> CoaCode \<Rightarrow> nat \<Rightarrow> AccountKey \<Rightarrow> string \<Rightarrow> db \<Rightarrow> err + db" where
  "CreateAccount en tipe coa teamID key name d =
     (if \<exists>a \<in> set (db_accounts d). acc_Key a = key \<and> acc_TeamID a = teamID then Inl (ErrDB (uniq_msg en))
      else Inr (save_account \<lparr>acc_ID = 0, acc_Key = key, acc_TeamID = teamID, acc_Coa = coa,
                  acc_BalanceType = tipe, acc_CanAdjust = False, acc_Name = name, acc_Created = now en\<rparr> d))"

text \<open>One account of the seed list: the old row gets its type and code, or a new one is created.\<close>

definition setup_account ::
  "env \<Rightarrow> Team \<Rightarrow> nat \<Rightarrow> AccountKey \<times> CoaCode \<times> BalanceType \<Rightarrow> db \<Rightarrow> err + db" where
  "setup_account en team teamID acc d =
     (case acc of (key, coa, tipe) \<Rightarrow>
        let old = (case find_account d key teamID of None \<Rightarrow> emptyAccount | Some a \<Rightarrow> a) in
        if acc_ID old \<noteq> 0 then
          Inr (d\<lparr>db_accounts := map (\<lambda>a. if acc_ID a = acc_ID old
                  then old\<lparr>acc_BalanceType := tipe, acc_Coa := coa\<rparr> else a) (db_accounts d)\<rparr>)
        else CreateAccount en tipe coa teamID key (key @ '' ('' @ team_Name team @ '')'') d)"

fun setup_accounts ::
  "env \<Rightarrow> Team \<Rightarrow> nat \<Rightarrow> (AccountKey \<times> CoaCode \<times> BalanceType) list \<Rightarrow> db \<Rightarrow> err option \<times> db" where
  "setup_accounts en team teamID [] d = (None, d)"
| "setup_accounts en team teamID (acc # accs) d =
     (case setup_account en team teamID acc d of
        Inl e \<Rightarrow> (Some e, d)
      | Inr d \<Rightarrow> setup_accounts en team teamID accs d)"

text \<open>The error of \<open>RegisterPermission\<close> is dropped. The progress messages of the stream are left out.\<close>

definition Setup ::
  "env \<Rightarrow> (grant \<Rightarrow> err option) \<Rightarrow> (RoleItem \<Rightarrow> RoleItem) \<Rightarrow> Team list \<Rightarrow> nat \<Rightarrow> nat \<Rightarrow> db \<Rightarrow>
   err option \<times> db \<times> grant list" where
  "Setup en add it teams rootDomain teamID d =
     (case find (\<lambda>t. team_ID t = teamID) teams of
        None \<Rightarrow> (Some ErrRecordNotFound, d, [])
      | Some team \<Rightarrow>
          (case setup_accounts en team teamID DefaultSeedAccount d of
             (Some e, d) \<Rightarrow> (Some e, d, [])
           | (None, d) \<Rightarrow> (None, d, snd (RegisterPermission add it rootDomain teamID (team_Type team)))))"

end
