(* ===== verification/Directory.thy ===== *)
theory Directory
  imports BankAccounts Setup Payment
begin

section \<open>Tags, teams, account keys and the list of payments\<close>

text \<open>
  The smaller reading services: \<open>tag/\<close>, \<open>common/team_service.go\<close>, \<open>core/\<close> and the list of
  \<open>payment/service.go\<close>. \<open>TagCreate\<close> is the only one that writes.
\<close>

subsection \<open>Tags\<close>

definition TagIDs :: "nat list \<Rightarrow> db \<Rightarrow> (nat \<times> string) list" where
  "TagIDs ids d =
     fold (\<lambda>t. alist_upd (tag_ID t) (tag_Name t)) (filter (\<lambda>t. tag_ID t \<in> set ids) (db_tags d)) []"

definition TagCreate :: "identity \<Rightarrow> string list \<Rightarrow> unit action" where
  "TagCreate ident tags =
     thenA (checkA (IdentityErr ident))
       (transactionA (forA tags (\<lambda>tname. updateA (upsert_tag (SanityTag tname)))))"

definition TagList :: "identity \<Rightarrow> string \<Rightarrow> int \<Rightarrow> int \<Rightarrow> db \<Rightarrow> err + string list" where
  "TagList ident q limit off d =
     (case IdentityErr ident of
        Some e \<Rightarrow> Inl e
      | None \<Rightarrow>
          Inr (sql_limit limit (sql_offset off (order_asc (\<lambda>n. n)
            (filter (\<lambda>n. q \<noteq> [] \<longrightarrow> like (contains_pat (lower q)) (lower n)) (map tag_Name (db_tags d)))))))"

subsection \<open>Teams\<close>

text \<open>The number of items is not set in the answer; a division by zero is left open by Go.\<close>

definition PublicTeamList :: "PageFilter option \<Rightarrow> Team list \<Rightarrow> err + Team list \<times> PageInfo" where
  "PublicTeamList page teams =
     (case page of
        None \<Rightarrow> Inl (Panic ''nil pointer dereference'')
      | Some page \<Rightarrow>
          let rows = filter (\<lambda>t. \<not> team_Deleted t) teams in
          Inr (sql_limit (pg_Limit page) (sql_offset (wrap64 (pg_Page page * pg_Limit page - pg_Limit page)) rows),
               \<lparr>pi_CurrentPage = pg_Page page, pi_TotalPage = ceil_div (int (length rows)) (pg_Limit page),
                pi_TotalItems = 0\<rparr>))"

definition PublicTeamIDs :: "nat list \<Rightarrow> Team list \<Rightarrow> (nat \<times> Team) list" where
  "PublicTeamIDs ids teams = fold (\<lambda>t. alist_upd (team_ID t) t) (filter (\<lambda>t. team_ID t \<in> set ids) teams) []"

subsection \<open>Account keys\<close>

record AccountFilterExtra =
  afe_Team :: bool
  afe_Shop :: bool
  afe_Supplier :: bool
  afe_Cs :: bool
  afe_CustomTag :: bool
  afe_AllowedLabelKey :: "LabelKey list"

definition filter_extra :: "bool \<Rightarrow> bool \<Rightarrow> bool \<Rightarrow> bool \<Rightarrow> bool \<Rightarrow> AccountFilterExtra" where
  "filter_extra t sh sp cs tag = \<lparr>afe_Team = t, afe_Shop = sh, afe_Supplier = sp, afe_Cs = cs,
     afe_CustomTag = tag, afe_AllowedLabelKey = []\<rparr>"

definition filterExtra :: "(AccountKey \<times> AccountFilterExtra) list" where
  "filterExtra =
     (let team = filter_extra True False False False False;
          teamShop = filter_extra True True False False True;
          everything = filter_extra True True True True True;
          selling = filter_extra False True False True True
      in [(CashAccount, teamShop), (PayableAccount, team), (ReceivableAccount, team),
          (BorrowStockRevenueAccount, teamShop), (StockLostAccount, team), (StockCostAccount, everything),
          (StockLostCostAccount, team), (StockBrokenAccount, team), (StockBorrowCostAccount, everything),
          (StockToBorrowCostAccount, everything), (StockPendingAccount, team),
          (StockReadyAccount, (filter_extra True False False False True)
             \<lparr>afe_AllowedLabelKey := [LABEL_KEY_WAREHOUSE_TRANSACTION_TYPE]\<rparr>),
          (WarehouseCostAccount, filter_extra True True False False False),
          (PendingPaymentPayAccount, team), (PendingPaymentReceiveAccount, team),
          (SalesReturnRevenueAccount, selling), (SellingAdjReceivableAccount, selling),
          (SellingEstReceivableAccount, selling), (SalesRevenueAccount, selling), (AdsExpenseAccount, selling),
          (AdjLiabilityAccount, filter_extra True False False False True)])"

record AccountKeyItem =
  aki_Key :: AccountKey
  aki_Coa :: CoaCode
  aki_BalanceType :: nat
  aki_FilterExtra :: AccountFilterExtra

definition AccountKeyList :: "nat \<Rightarrow> db \<Rightarrow> AccountKeyItem list" where
  "AccountKeyList team d =
     map (\<lambda>a. \<lparr>aki_Key = acc_Key a, aki_Coa = acc_Coa a,
            aki_BalanceType = (if acc_BalanceType a = ''d'' then 1 else if acc_BalanceType a = ''c'' then 2 else 0),
            aki_FilterExtra = (case map_of filterExtra (acc_Key a) of Some x \<Rightarrow> x
              | None \<Rightarrow> filter_extra False False False False True)\<rparr>)
       (filter (\<lambda>a. acc_TeamID a = team) (db_accounts d))"

definition TypeLabelList :: "db \<Rightarrow> (LabelKey \<times> string) list" where
  "TypeLabelList d = map (\<lambda>l. (tl_Key l, tl_Label l)) (db_type_labels d)"

subsection \<open>The list of payments\<close>

datatype PaymentSource = PAYMENT_SOURCE_FROM | PAYMENT_SOURCE_TO | PAYMENT_SOURCE_OTHER nat

text \<open>
  A payment type restricts the list only if it is one of the two named ones, \<open>Some\<close> here; the time
  range is a pair of microseconds.
\<close>

record PaymentListRequest =
  plr_TeamId :: nat
  plr_PaymentType :: "nat option"
  plr_Source :: PaymentSource
  plr_ByAccepted :: bool
  plr_TimeRange :: "(int \<times> int) option"
  plr_Page :: "PageFilter option"

definition payment_query :: "PaymentListRequest \<Rightarrow> db \<Rightarrow> Payment list" where
  "payment_query pay d =
     filter (\<lambda>p.
         (case plr_PaymentType pay of None \<Rightarrow> True | Some t \<Rightarrow> pm_PaymentType p = t) \<and>
         (case plr_Source pay of
            PAYMENT_SOURCE_FROM \<Rightarrow> pm_FromTeamID p = plr_TeamId pay
          | PAYMENT_SOURCE_TO \<Rightarrow> pm_ToTeamID p = plr_TeamId pay
          | PAYMENT_SOURCE_OTHER _ \<Rightarrow> pm_FromTeamID p = plr_TeamId pay \<or> pm_ToTeamID p = plr_TeamId pay) \<and>
         (let t = (if plr_ByAccepted pay then pm_AcceptedAt p else pm_CreatedAt p) in
          case plr_TimeRange pay of None \<Rightarrow> True
          | Some (startDate, endDate) \<Rightarrow>
              (endDate \<noteq> 0 \<longrightarrow> nanos t \<le> (endDate + 62135596800000000) * 1000) \<and>
              (startDate \<noteq> 0 \<longrightarrow> nanos t > (startDate + 62135596800000000) * 1000)))
       (db_payments d)"

definition PaymentList :: "identity \<Rightarrow> PaymentListRequest \<Rightarrow> db \<Rightarrow> err + Payment list \<times> PageInfo" where
  "PaymentList ident pay d =
     (case HasPermission ident payment_entity (plr_TeamId pay) ActRead of
        Some e \<Rightarrow> Inl e
      | None \<Rightarrow>
          (case plr_Page pay of
             None \<Rightarrow> Inl (Panic ''nil pointer dereference'')
           | Some page \<Rightarrow> floor_page page (payment_query pay d)))"

end
