(* ===== verification/LedgerViews.thy ===== *)
theory LedgerViews
  imports Query Posting
begin

section \<open>The ledger\<close>

text \<open>
  \<open>ledger/\<close>: the list of the entries of an account (\<open>EntryList\<close>, a chain of filters), the builder
  \<open>LedgerView\<close> with the same filters, the export that uses it, the labels of listed entries, and the
  books of one transaction. \<open>db_connect.SetPaginationQuery\<close> and the generated name tables are
  arguments.
\<close>

subsection \<open>Listed entries\<close>

record EntryAccount =
  ea_Id :: nat
  ea_TeamId :: nat
  ea_AccountKey :: AccountKey
  ea_Name :: string

record EntryItem =
  ei_Id :: nat
  ei_TeamId :: nat
  ei_AccountId :: nat
  ei_TransactionId :: nat
  ei_EntryTime :: int
  ei_Desc :: string
  ei_Debit :: f64
  ei_Credit :: f64
  ei_Balance :: f64
  ei_Account :: EntryAccount

definition entry_account :: "Account \<Rightarrow> EntryAccount" where
  "entry_account a = \<lparr>ea_Id = acc_ID a, ea_TeamId = acc_TeamID a, ea_AccountKey = acc_Key a, ea_Name = acc_Name a\<rparr>"

text \<open>The selected columns: neither the team nor a balance is among them.\<close>

definition entry_item :: "JournalEntry \<times> Account \<Rightarrow> EntryItem" where
  "entry_item r = (case r of (je, a) \<Rightarrow>
     \<lparr>ei_Id = je_ID je, ei_TeamId = 0, ei_AccountId = je_AccountID je, ei_TransactionId = je_TransactionID je,
      ei_EntryTime = UnixMicro (je_EntryTime je), ei_Desc = je_Desc je, ei_Debit = je_Debit je,
      ei_Credit = je_Credit je, ei_Balance = 0, ei_Account = entry_account a\<rparr>)"

subsection \<open>Label filters\<close>

datatype TypeLabelFilter =
    FilterMarketplace MarketplaceType
  | FilterOrderType nat
  | FilterRevenueSource nat
  | FilterTransferPurpose nat
  | FilterWarehouseTransactionType nat
  | FilterUnset

record enum_names =
  OrderType_name :: "nat \<Rightarrow> string"
  RevenueSource_name :: "nat \<Rightarrow> string"
  MutationPurpose_name :: "nat \<Rightarrow> string"
  InboundSource_name :: "nat \<Rightarrow> string"

definition label_filter :: "env \<Rightarrow> enum_names \<Rightarrow> TypeLabelFilter \<Rightarrow> (LabelKey \<times> string) list" where
  "label_filter en ns f =
     (case f of
        FilterMarketplace v \<Rightarrow> [(LABEL_KEY_MARKETPLACE, MarketplaceType_name en v)]
      | FilterOrderType v \<Rightarrow> [(LABEL_KEY_ORDER_TYPE, OrderType_name ns v)]
      | FilterRevenueSource v \<Rightarrow> [(LABEL_KEY_REVENUE_SOURCE, RevenueSource_name ns v)]
      | FilterTransferPurpose v \<Rightarrow> [(LABEL_KEY_TRANSFER_PURPOSE, MutationPurpose_name ns v)]
      | FilterWarehouseTransactionType v \<Rightarrow> [(LABEL_KEY_WAREHOUSE_TRANSACTION_TYPE, InboundSource_name ns v)]
      | FilterUnset \<Rightarrow> [])"

text \<open>\<open>key in ? and label in ?\<close>: any of the keys with any of the labels.\<close>

definition type_label_ids :: "env \<Rightarrow> enum_names \<Rightarrow> TypeLabelFilter list \<Rightarrow> db \<Rightarrow> nat list" where
  "type_label_ids en ns labels d =
     (let fs = concat (map (label_filter en ns) labels) in
      map tl_ID (filter (\<lambda>l. tl_Key l \<in> fst ` set fs \<and> tl_Label l \<in> snd ` set fs) (db_type_labels d)))"

text \<open>The joins with the labels and shops of the transaction: one row per matching relation.\<close>

definition join_type_labels :: "nat list \<Rightarrow> db \<Rightarrow> (JournalEntry \<times> Account) list \<Rightarrow> (JournalEntry \<times> Account) list" where
  "join_type_labels ids d rows =
     concat (map (\<lambda>r. map (\<lambda>ttl. r)
       (filter (\<lambda>ttl. fst ttl = je_TransactionID (fst r) \<and> snd ttl \<in> set ids) (db_tx_type_labels d))) rows)"

definition join_shops :: "nat \<Rightarrow> db \<Rightarrow> (JournalEntry \<times> Account) list \<Rightarrow> (JournalEntry \<times> Account) list" where
  "join_shops sid d rows =
     concat (map (\<lambda>r. map (\<lambda>ts. r)
       (filter (\<lambda>ts. fst ts = je_TransactionID (fst r) \<and> snd ts = sid) (db_tx_shops d))) rows)"

subsection \<open>EntryList\<close>

record EntryListRequest =
  enr_TeamId :: nat
  enr_AccountKey :: AccountKey
  enr_AccountTeamId :: nat
  enr_Keyword :: string
  enr_ShopId :: nat
  enr_TimeRange :: "TimeFilterRange option"
  enr_Marketplace :: "MarketplaceType option"
  enr_Label :: "TypeLabelFilter list"
  enr_Page :: "PageFilter option"
  enr_Sort :: "SortType option"

definition request_labels :: "EntryListRequest \<Rightarrow> TypeLabelFilter list" where
  "request_labels pay = enr_Label pay @ (case enr_Marketplace pay of None \<Rightarrow> [] | Some m \<Rightarrow> [FilterMarketplace m])"

definition entry_filter :: "EntryListRequest \<Rightarrow> TimeFilterRange \<Rightarrow> JournalEntry \<times> Account \<Rightarrow> bool" where
  "entry_filter pay trange r \<longleftrightarrow>
     (enr_TeamId pay \<noteq> 0 \<longrightarrow> je_TeamID (fst r) = enr_TeamId pay) \<and>
     acc_Key (snd r) = enr_AccountKey pay \<and>
     (enr_AccountTeamId pay \<noteq> 0 \<longrightarrow> acc_TeamID (snd r) = enr_AccountTeamId pay) \<and>
     (enr_Keyword pay \<noteq> [] \<longrightarrow> like (contains_pat (lower (enr_Keyword pay))) (lower (je_Desc (fst r)))) \<and>
     in_range trange (je_EntryTime (fst r))"

definition entry_rows ::
  "env \<Rightarrow> enum_names \<Rightarrow> EntryListRequest \<Rightarrow> TimeFilterRange \<Rightarrow> db \<Rightarrow> (JournalEntry \<times> Account) list" where
  "entry_rows en ns pay trange d =
     (let rows = filter (entry_filter pay trange) (journal_join d);
          rows = (if enr_ShopId pay = 0 then rows else join_shops (enr_ShopId pay) d rows)
      in if request_labels pay = [] then rows
         else join_type_labels (type_label_ids en ns (request_labels pay) d) d rows)"

definition sort_entries :: "SortType option \<Rightarrow> (JournalEntry \<times> Account) list \<Rightarrow> (JournalEntry \<times> Account) list" where
  "sort_entries s rows = (case s of None \<Rightarrow> rows | Some t \<Rightarrow> order_by t (\<lambda>r. nanos (je_EntryTime (fst r))) rows)"

text \<open>
  \<open>SetPaginationQuery\<close> gets the page and the number of rows; its answer is the offset and the limit
  it gives the query, and the page information.
\<close>

type_synonym pagination = "PageFilter option \<Rightarrow> int \<Rightarrow> err + (int \<times> int) \<times> PageInfo"

definition CachePaginated ::
  "pagination \<Rightarrow> PageFilter option \<Rightarrow> (JournalEntry \<times> Account) list \<Rightarrow> SortType option \<Rightarrow>
   err + (JournalEntry \<times> Account) list \<times> PageInfo" where
  "CachePaginated paginate page rows s =
     map_sum id (\<lambda>((off, lmt), info). (sql_limit lmt (sql_offset off (sort_entries s rows)), info))
       (paginate page (int (length rows)))"

definition EntryList ::
  "env \<Rightarrow> enum_names \<Rightarrow> pagination \<Rightarrow> identity \<Rightarrow> EntryListRequest \<Rightarrow> db \<Rightarrow> err + EntryItem list \<times> PageInfo" where
  "EntryList en ns paginate ident pay d =
     (case IdentityErr ident of
        Some e \<Rightarrow> Inl e
      | None \<Rightarrow>
          (case enr_TimeRange pay of
             None \<Rightarrow> Inl (Panic ''nil pointer dereference'')
           | Some trange \<Rightarrow>
               map_sum id (\<lambda>(rows, info). (map entry_item rows, info))
                 (CachePaginated paginate (enr_Page pay) (entry_rows en ns pay trange d) (enr_Sort pay))))"

subsection \<open>LedgerView\<close>

text \<open>
  The builder: the conditions of its query, the order and the window it was given, its error, and
  the two joins that only \<open>Iterate\<close> adds. Before \<open>createQuery\<close> the query has no table.
\<close>

record ledger_view =
  lv_table :: bool
  lv_where :: "JournalEntry \<times> Account \<Rightarrow> bool"
  lv_order :: "SortType option"
  lv_window :: "(int \<times> int) option"
  lv_err :: "err option"
  lv_shop :: "nat option"
  lv_labels :: "nat list option"

definition NewLedgerView :: ledger_view where
  "NewLedgerView = \<lparr>lv_table = False, lv_where = (\<lambda>_. True), lv_order = None, lv_window = None, lv_err = None,
     lv_shop = None, lv_labels = None\<rparr>"

definition lv_setErr :: "err \<Rightarrow> ledger_view \<Rightarrow> ledger_view" where
  "lv_setErr e l = (if lv_err l \<noteq> None then l else l\<lparr>lv_err := Some e\<rparr>)"

interpretation lv: error_latch lv_err lv_setErr
  by unfold_locales (simp_all add: lv_setErr_def)

definition where_entry :: "(JournalEntry \<times> Account \<Rightarrow> bool) \<Rightarrow> ledger_view \<Rightarrow> ledger_view" where
  "where_entry P l = l\<lparr>lv_where := (\<lambda>r. lv_where l r \<and> P r)\<rparr>"

definition createQuery :: "ledger_view \<Rightarrow> ledger_view" where
  "createQuery l = l\<lparr>lv_table := True\<rparr>"

definition lv_TeamID :: "nat \<Rightarrow> ledger_view \<Rightarrow> ledger_view" where
  "lv_TeamID tid = where_entry (\<lambda>r. je_TeamID (fst r) = tid)"

definition lv_AccountTeamID :: "nat \<Rightarrow> ledger_view \<Rightarrow> ledger_view" where
  "lv_AccountTeamID tid l = (if tid = 0 then l else where_entry (\<lambda>r. acc_TeamID (snd r) = tid) l)"

definition lv_AccountKey :: "AccountKey \<Rightarrow> ledger_view \<Rightarrow> ledger_view" where
  "lv_AccountKey key = where_entry (\<lambda>r. acc_Key (snd r) = key)"

definition lv_ShopID :: "nat \<Rightarrow> ledger_view \<Rightarrow> ledger_view" where
  "lv_ShopID sid l = (if sid = 0 then l else l\<lparr>lv_shop := Some sid\<rparr>)"

definition SearchDescription :: "string \<Rightarrow> ledger_view \<Rightarrow> ledger_view" where
  "SearchDescription keyword = where_entry (\<lambda>r. like (contains_pat (lower keyword)) (lower (je_Desc (fst r))))"

definition lv_Search :: "string \<Rightarrow> ledger_view \<Rightarrow> ledger_view" where
  "lv_Search keyword l =
     (if keyword = [] then l
      else where_entry (\<lambda>r. like (contains_pat (lower keyword)) (lower (je_Desc (fst r)))) l)"

definition lv_TimeRange :: "TimeFilterRange \<Rightarrow> ledger_view \<Rightarrow> ledger_view" where
  "lv_TimeRange trange = where_entry (\<lambda>r. in_range trange (je_EntryTime (fst r)))"

definition lv_TypeLabel :: "env \<Rightarrow> enum_names \<Rightarrow> TypeLabelFilter list \<Rightarrow> db \<Rightarrow> ledger_view \<Rightarrow> ledger_view" where
  "lv_TypeLabel en ns labels d l =
     (if labels = [] then l else l\<lparr>lv_labels := Some (type_label_ids en ns labels d)\<rparr>)"

definition lv_Sort :: "SortType option \<Rightarrow> ledger_view \<Rightarrow> ledger_view" where
  "lv_Sort s l = (case s of None \<Rightarrow> l | Some t \<Rightarrow> l\<lparr>lv_order := Some t\<rparr>)"

text \<open>The rows of the query, which is ordered and cut after all joins.\<close>

definition finish_query :: "ledger_view \<Rightarrow> (JournalEntry \<times> Account) list \<Rightarrow> (JournalEntry \<times> Account) list" where
  "finish_query l rows =
     (let rows = sort_entries (lv_order l) rows in
      case lv_window l of None \<Rightarrow> rows | Some (off, lmt) \<Rightarrow> sql_limit lmt (sql_offset off rows))"

definition view_rows :: "db \<Rightarrow> ledger_view \<Rightarrow> err + (JournalEntry \<times> Account) list" where
  "view_rows d l =
     (if \<not> lv_table l then Inl (ErrDB ''no table'') else Inr (filter (lv_where l) (journal_join d)))"

text \<open>\<open>Count\<close> and \<open>Find\<close> run the query without the two joins.\<close>

definition lv_Count :: "db \<Rightarrow> ledger_view \<Rightarrow> int \<times> ledger_view" where
  "lv_Count d l =
     (case view_rows d l of
        Inl e \<Rightarrow> (0, lv_setErr e l)
      | Inr rows \<Rightarrow> (int (length rows), l))"

definition lv_Page :: "db \<Rightarrow> PageFilter \<Rightarrow> ledger_view \<Rightarrow> PageInfo \<times> ledger_view" where
  "lv_Page d page l =
     (case lv_Count d l of (n, l) \<Rightarrow>
        case lv_err l of
          Some e \<Rightarrow> (emptyPageInfo, lv_setErr e l)
        | None \<Rightarrow>
            (\<lparr>pi_CurrentPage = pg_Page page, pi_TotalPage = ceil_div n (pg_Limit page), pi_TotalItems = n\<rparr>,
             l\<lparr>lv_window := Some (wrap64 ((pg_Page page - 1) * pg_Limit page), pg_Limit page)\<rparr>))"

definition lv_Find :: "db \<Rightarrow> ledger_view \<Rightarrow> EntryItem list \<times> ledger_view" where
  "lv_Find d l =
     (case view_rows d l of
        Inl e \<Rightarrow> ([], lv_setErr e l)
      | Inr rows \<Rightarrow> (map (\<lambda>r. (entry_item r)\<lparr>ei_Account := entry_account emptyAccount\<rparr>) (finish_query l rows), l))"

definition iterate_rows :: "db \<Rightarrow> ledger_view \<Rightarrow> err + EntryItem list" where
  "iterate_rows d l =
     map_sum id (\<lambda>rows.
       let rows = (case lv_labels l of None \<Rightarrow> rows | Some ids \<Rightarrow> join_type_labels ids d rows);
           rows = (case lv_shop l of None \<Rightarrow> rows | Some sid \<Rightarrow> join_shops sid d rows)
       in map entry_item (finish_query l rows)) (view_rows d l)"

text \<open>\<open>Iterate\<close> calls a handle that changes the state of its caller and stops at its first error.\<close>

fun handle_all :: "(EntryItem \<Rightarrow> 's \<Rightarrow> err option \<times> 's) \<Rightarrow> EntryItem list \<Rightarrow> 's \<Rightarrow> err option \<times> 's" where
  "handle_all handle [] st = (None, st)"
| "handle_all handle (x # xs) st =
     (case handle x st of
        (Some e, st) \<Rightarrow> (Some e, st)
      | (None, st) \<Rightarrow> handle_all handle xs st)"

definition lv_Iterate :: "db \<Rightarrow> (EntryItem \<Rightarrow> 's \<Rightarrow> err option \<times> 's) \<Rightarrow> ledger_view \<Rightarrow> 's \<Rightarrow> err option \<times> 's" where
  "lv_Iterate d handle l st =
     (case iterate_rows d l of Inl e \<Rightarrow> (Some e, st) | Inr items \<Rightarrow> handle_all handle items st)"

subsection \<open>Export\<close>

datatype ExportMessage = Message string | Data int int string

text \<open>
  The writer of the stream numbers its messages. The CSV writer buffers: a record is sent when it is
  flushed, which happens after every entry, so the header goes out with the first one. (A buffer
  of 4096 bytes takes both.) \<open>csv\<close> encodes a record; \<open>fmt\<close> is \<open>%4.f\<close>.
\<close>

record stream_writer =
  sw_sent :: "ExportMessage list"
  sw_offset :: int
  sw_buffer :: string

definition flush_csv :: "int \<Rightarrow> stream_writer \<Rightarrow> stream_writer" where
  "flush_csv n w =
     (if sw_buffer w = [] then w
      else w\<lparr>sw_sent := sw_sent w @ [Data (sw_offset w + 1) n (sw_buffer w)], sw_offset := sw_offset w + 1, sw_buffer := []\<rparr>)"

definition export_entry ::
  "(string list \<Rightarrow> string) \<Rightarrow> (int \<Rightarrow> string) \<Rightarrow> (f64 \<Rightarrow> string) \<Rightarrow> int \<Rightarrow> EntryItem \<Rightarrow> stream_writer \<Rightarrow>
   err option \<times> stream_writer" where
  "export_entry csv time_String fmt n item w =
     (None, flush_csv n (w\<lparr>sw_buffer := sw_buffer w @ csv
        [time_String (ei_EntryTime item), ei_Desc item, fmt (ei_Debit item), fmt (ei_Credit item),
         fmt (ei_Balance item), ea_Name (ei_Account item)]\<rparr>))"

record EntryListExportRequest =
  exr_TeamId :: nat
  exr_AccountKey :: AccountKey
  exr_Keyword :: string
  exr_TimeRange :: "TimeFilterRange option"

definition export_view :: "EntryListExportRequest \<Rightarrow> TimeFilterRange \<Rightarrow> ledger_view" where
  "export_view pay trange =
     lv_TimeRange trange (lv_Search (exr_Keyword pay) (lv_AccountKey (exr_AccountKey pay)
       (lv_TeamID (exr_TeamId pay) (createQuery NewLedgerView))))"

definition export_headers :: "string list" where
  "export_headers = [''entry_at'', ''desc'', ''debit'', ''credit'', ''balance'', ''account'']"

definition EntryListExport ::
  "(string list \<Rightarrow> string) \<Rightarrow> (int \<Rightarrow> string) \<Rightarrow> (f64 \<Rightarrow> string) \<Rightarrow> EntryListExportRequest \<Rightarrow> db \<Rightarrow>
   err option \<times> ExportMessage list" where
  "EntryListExport csv time_String fmt pay d =
     (case exr_TimeRange pay of
        None \<Rightarrow> (Some (Panic ''nil pointer dereference''), [Message ''counting data..''])
      | Some trange \<Rightarrow>
          (case lv_Count d (export_view pay trange) of (n, view) \<Rightarrow>
             case lv_err view of
               Some e \<Rightarrow> (Some e, [Message ''counting data..''])
             | None \<Rightarrow>
                 (case lv_Iterate d (export_entry csv time_String fmt n) view
                     \<lparr>sw_sent = [Message ''counting data..'', Message (show_int n @ '' data ditemukan..'')],
                      sw_offset = 0, sw_buffer = csv export_headers\<rparr> of
                    (e, w) \<Rightarrow> (e, sw_sent w))))"

subsection \<open>Labels and shops of listed entries\<close>

text \<open>A map from a transaction to a list, filled row by row.\<close>

definition add_to_map :: "nat \<times> 'v \<Rightarrow> (nat \<times> 'v list) list \<Rightarrow> (nat \<times> 'v list) list" where
  "add_to_map r m = alist_upd (fst r) ((case map_of m (fst r) of None \<Rightarrow> [] | Some l \<Rightarrow> l) @ [snd r]) m"

definition GetTypeLabel :: "nat list \<Rightarrow> db \<Rightarrow> (nat \<times> (LabelKey \<times> string) list) list" where
  "GetTypeLabel txIDs d =
     fold add_to_map
       (concat (map (\<lambda>ttl. map (\<lambda>tl. (fst ttl, tl_Key tl, tl_Label tl))
           (filter (\<lambda>tl. tl_ID tl = snd ttl) (db_type_labels d)))
         (filter (\<lambda>ttl. fst ttl \<in> set txIDs) (db_tx_type_labels d)))) []"

record Shop =
  sp_Id :: nat
  sp_TeamId :: nat
  sp_Name :: string
  sp_Username :: string
  sp_MarketplaceType :: nat
  sp_Uri :: string

definition marketplace_type :: "string \<Rightarrow> nat" where
  "marketplace_type mp_type =
     (if mp_type = ''tokopedia'' then 2 else if mp_type = ''shopee'' then 3 else if mp_type = ''lazada'' then 5
      else if mp_type = ''mengantar'' then 6 else if mp_type = ''tiktok'' then 4
      else if mp_type = ''custom'' then 1 else 0)"

text \<open>\<open>cols\<close> holds the columns of a marketplace that no other query reads: team, name, user name, uri.\<close>

definition GetShopList ::
  "(nat \<Rightarrow> nat \<times> string \<times> string \<times> string) \<Rightarrow> nat list \<Rightarrow> db \<Rightarrow> (nat \<times> Shop list) list" where
  "GetShopList cols txIDs d =
     fold add_to_map
       (concat (map (\<lambda>ts. map (\<lambda>m. (fst ts, case cols (fst m) of (team, name, username, uri) \<Rightarrow>
             \<lparr>sp_Id = fst m, sp_TeamId = team, sp_Name = name, sp_Username = username,
              sp_MarketplaceType = marketplace_type (snd m), sp_Uri = uri\<rparr>))
           (filter (\<lambda>m. fst m = snd ts) (db_marketplaces d)))
         (filter (\<lambda>ts. fst ts \<in> set txIDs) (db_tx_shops d)))) []"

text \<open>The map of the tags stays empty.\<close>

definition EntryListExtra ::
  "(nat \<Rightarrow> nat \<times> string \<times> string \<times> string) \<Rightarrow> nat list \<Rightarrow> db \<Rightarrow>
   (nat \<times> Shop list) list \<times> (nat \<times> (LabelKey \<times> string) list) list \<times> (nat \<times> string list) list" where
  "EntryListExtra cols txIDs d = (GetShopList cols txIDs d, GetTypeLabel txIDs d, [])"

subsection \<open>The books of a transaction\<close>

definition detail_entry :: "JournalEntry \<Rightarrow> Account \<Rightarrow> EntryItem" where
  "detail_entry item acc =
     \<lparr>ei_Id = je_ID item, ei_TeamId = je_TeamID item, ei_AccountId = je_AccountID item, ei_TransactionId = 0,
      ei_EntryTime = UnixMicro (je_EntryTime item), ei_Desc = je_Desc item, ei_Debit = je_Debit item,
      ei_Credit = je_Credit item, ei_Balance = 0, ei_Account = entry_account acc\<rparr>"

text \<open>An entry whose account is missing is read through a nil pointer.\<close>

fun group_entries :: "JournalEntry list \<Rightarrow> (nat \<times> EntryItem list) list \<Rightarrow> err + (nat \<times> EntryItem list) list" where
  "group_entries [] m = Inr m"
| "group_entries (item # lst) m =
     (case je_Account item of
        None \<Rightarrow> Inl (Panic ''nil pointer dereference'')
      | Some acc \<Rightarrow> group_entries lst (add_to_map (je_TeamID item, detail_entry item acc) m))"

text \<open>The groups in the order a loop over the map takes.\<close>

definition toGroupProto :: "(nat list \<Rightarrow> nat list) \<Rightarrow> JournalEntry list \<Rightarrow> err + (nat \<times> EntryItem list) list" where
  "toGroupProto it lst = map_sum id (range_map it) (group_entries lst [])"

definition TransactionDetail ::
  "env \<Rightarrow> nat \<Rightarrow> db \<Rightarrow> err + Transaction \<times> (nat \<times> EntryItem list) list" where
  "TransactionDetail en txID d =
     (case find (\<lambda>t. tx_ID t = txID) (db_txs d) of
        None \<Rightarrow> Inl ErrRecordNotFound
      | Some tran \<Rightarrow> map_sum id (Pair tran) (toGroupProto (iter en) (entries_of_tx d (tx_ID tran))))"

end
