(* ===== verification/SetupSpec.thy ===== *)
theory SetupSpec
  imports Setup BankAccounts PaymentSpec BookingSpec
begin

section \<open>Setting up a team: properties\<close>

text \<open>
  \<open>Setup\<close> is compared with what it promises: the team has every account of the seed list with its
  code and type, accounts it had keep their ids, and nothing else changes.
\<close>

subsection \<open>The seed list\<close>

text \<open>The list names one account twice, both times the same.\<close>

definition seed :: "AccountKey \<Rightarrow> (CoaCode \<times> BalanceType) option" where
  "seed = map_of DefaultSeedAccount"

lemma seed_agrees: "(k, x) \<in> set DefaultSeedAccount \<Longrightarrow> seed k = Some x"
proof -
  have "list_all (\<lambda>y. map_of DefaultSeedAccount (fst y) = Some (snd y)) DefaultSeedAccount" by code_simp
  then show "(k, x) \<in> set DefaultSeedAccount \<Longrightarrow> seed k = Some x" by (auto simp: list_all_iff seed_def)
qed

lemma seed_mem: "seed k = Some x \<Longrightarrow> (k, x) \<in> set DefaultSeedAccount"
  by (simp add: seed_def map_of_SomeD)

lemma seed_samples: "seed CashAccount = Some (ASSET, DebitBalance)" "seed PayableAccount = Some (LIABILITY, CreditBalance)"
  "seed ReceivableAccount = Some (ASSET, DebitBalance)" "seed CapitalStartAccount = None"
  by code_simp+

subsection \<open>One account\<close>

definition ids_used :: "db \<Rightarrow> bool" where
  "ids_used d \<longleftrightarrow> (\<forall>a \<in> set (db_accounts d). acc_ID a \<le> db_seq d)"

definition seeded :: "CoaCode \<times> BalanceType \<Rightarrow> Account option \<Rightarrow> Account \<Rightarrow> bool" where
  "seeded x old a \<longleftrightarrow> acc_Coa a = fst x \<and> acc_BalanceType a = snd x \<and>
     (\<forall>b. old = Some b \<longrightarrow> a = b\<lparr>acc_BalanceType := snd x, acc_Coa := fst x\<rparr>)"

definition only_accounts :: "db \<Rightarrow> db \<Rightarrow> bool" where
  "only_accounts d d' \<longleftrightarrow> d'\<lparr>db_accounts := [], db_seq := 0\<rparr> = d\<lparr>db_accounts := [], db_seq := 0\<rparr>"

lemma only_accounts_fields:
  "only_accounts d d' \<Longrightarrow> db_entries d' = db_entries d \<and> db_txs d' = db_txs d \<and> db_payments d' = db_payments d \<and>
     db_bank_accounts d' = db_bank_accounts d"
  unfolding only_accounts_def
  by (drule arg_cong [where f = "\<lambda>d. (db_entries d, db_txs d, db_payments d, db_bank_accounts d)"]) simp

lemma find_map_same: "(\<And>a. a \<in> set as \<Longrightarrow> P (g a) = P a) \<Longrightarrow> find P (map g as) = map_option g (find P as)"
  by (induction as) auto

lemma setup_account_step:
  assumes ok: "accounts_ok d" and ids: "ids_used d"
  obtains d' a where "setup_account en team T (k, x) d = Inr d'" and "accounts_ok d'" and "ids_used d'" and "only_accounts d d'"
    and "\<And>k' t'. find_account d' k' t' = (if k' = k \<and> t' = T then Some a else find_account d k' t')"
    and "seeded x (find_account d k T) a"
proof -
  obtain coa bt where x: "x = (coa, bt)" by (cases x)
  show thesis
  proof (cases "find_account d k T")
    case (Some b)
    note f = find_accountD [OF Some] and nz = find_account_nonzero [OF ok Some]
    let ?f = "\<lambda>a. a\<lparr>acc_BalanceType := bt, acc_Coa := coa\<rparr>"
    let ?m = "\<lambda>a. if acc_ID a = acc_ID b then ?f b else a"
    let ?d = "d\<lparr>db_accounts := map ?m (db_accounts d)\<rparr>"
    have m: "acc_ID (?m a) = acc_ID a \<and> acc_Key (?m a) = acc_Key a \<and> acc_TeamID (?m a) = acc_TeamID a"
      if "a \<in> set (db_accounts d)" for a
      using ok f that distinct_map_eq [of acc_ID "db_accounts d" a b] unfolding accounts_ok_def by auto
    then have keep: "map acc_ID (map ?m (db_accounts d)) = map acc_ID (db_accounts d)"
      "map (\<lambda>a. (acc_Key a, acc_TeamID a)) (map ?m (db_accounts d)) = map (\<lambda>a. (acc_Key a, acc_TeamID a)) (db_accounts d)"
      unfolding map_map by (intro map_cong refl, simp add: comp_def)+
    show thesis
    proof (rule that)
      show "setup_account en team T (k, x) d = Inr ?d" using nz Some by (simp add: setup_account_def x Let_def)
      show "accounts_ok ?d" using ok keep nz unfolding accounts_ok_def by (auto simp: list_all_iff simp del: map_map)
      show "ids_used ?d" using ids f by (auto simp: ids_used_def)
      show "only_accounts d ?d" by (simp add: only_accounts_def)
      show "seeded x (find_account d k T) (?f b)" by (simp add: seeded_def x Some)
      fix k' t'
      have "find_account ?d k' t' = map_option ?m (find_account d k' t')"
        using m by (simp add: find_account_def find_map_same)
      moreover have "?m a = a" if "find_account d k' t' = Some a" "\<not> (k' = k \<and> t' = T)" for a
        using find_account_id_inj [OF ok that(1) Some] that(2) by auto
      ultimately show "find_account ?d k' t' = (if k' = k \<and> t' = T then Some (?f b) else find_account d k' t')"
        using Some by (cases "find_account d k' t'") auto
    qed
  next
    case None
    let ?a = "\<lparr>acc_ID = Suc (db_seq d), acc_Key = k, acc_TeamID = T, acc_Coa = coa, acc_BalanceType = bt,
      acc_CanAdjust = False, acc_Name = k @ '' ('' @ team_Name team @ '')'', acc_Created = now en\<rparr>"
    let ?d = "d\<lparr>db_seq := Suc (db_seq d), db_accounts := db_accounts d @ [?a]\<rparr>"
    from None have no: "\<forall>a \<in> set (db_accounts d). \<not> (acc_Key a = k \<and> acc_TeamID a = T)"
      by (simp add: find_account_def find_None_iff)
    show thesis
    proof (rule that)
      show "setup_account en team T (k, x) d = Inr ?d"
        using None no by (auto simp: setup_account_def x Let_def emptyAccount_def CreateAccount_def save_account_def)
      show "accounts_ok ?d" using ok ids no unfolding accounts_ok_def ids_used_def by fastforce
      show "ids_used ?d" using ids by (auto simp: ids_used_def)
      show "only_accounts d ?d" by (simp add: only_accounts_def)
      show "seeded x (find_account d k T) ?a" by (simp add: seeded_def x None)
      have "find P (xs @ [?a]) = (case find P xs of None \<Rightarrow> if P ?a then Some ?a else None | Some b \<Rightarrow> Some b)" for P xs
        by (induction xs) auto
      then show "\<And>k' t'. find_account ?d k' t' = (if k' = k \<and> t' = T then Some ?a else find_account d k' t')"
        using None by (auto simp: find_account_def split: option.splits)
    qed
  qed
qed

subsection \<open>The whole list\<close>

text \<open>What a run over a list of seeds promises.\<close>

definition provided :: "(AccountKey \<times> CoaCode \<times> BalanceType) list \<Rightarrow> nat \<Rightarrow> db \<Rightarrow> db \<Rightarrow> bool" where
  "provided accs T d d' \<longleftrightarrow>
     (\<forall>k t. t \<noteq> T \<or> k \<notin> fst ` set accs \<longrightarrow> find_account d' k t = find_account d k t) \<and>
     (\<forall>k x. (k, x) \<in> set accs \<longrightarrow> (\<exists>a. find_account d' k T = Some a \<and> seeded x (find_account d k T) a))"

definition agree :: "('k \<times> 'x) list \<Rightarrow> bool" where
  "agree accs \<longleftrightarrow> (\<forall>k x y. (k, x) \<in> set accs \<longrightarrow> (k, y) \<in> set accs \<longrightarrow> x = y)"

lemma agreeD: "agree accs \<Longrightarrow> (k, x) \<in> set accs \<Longrightarrow> (k, y) \<in> set accs \<Longrightarrow> x = y"
  unfolding agree_def by blast

lemma seeded_again: "seeded x old b \<Longrightarrow> seeded x (Some b) a \<Longrightarrow> a = b"
  by (simp add: seeded_def)

lemma provided_Cons:
  assumes ag: "agree ((k, x) # accs)" and a: "seeded x (find_account d k T) a"
    and f: "\<And>k' t'. find_account d1 k' t' = (if k' = k \<and> t' = T then Some a else find_account d k' t')"
    and p: "provided accs T d1 d'"
  shows "provided ((k, x) # accs) T d d'"
  unfolding provided_def
proof (intro conjI allI impI)
  fix k' t assume "t \<noteq> T \<or> k' \<notin> fst ` set ((k, x) # accs)"
  with p f [of k' t] show "find_account d' k' t = find_account d k' t" by (auto simp: provided_def)
next
  fix k' y assume m: "(k', y) \<in> set ((k, x) # accs)"
  have p': "\<exists>b. find_account d' k T = Some b \<and> seeded z (find_account d1 k T) b" if "(k, z) \<in> set accs" for k z
    using p that unfolding provided_def by blast
  show "\<exists>b. find_account d' k' T = Some b \<and> seeded y (find_account d k' T) b"
  proof (cases "k' = k")
    case False
    with m p' [of k' y] f [of k' T] show ?thesis by simp
  next
    case True
    with m have y: "y = x" using agreeD [OF ag, of k y x] by simp
    have "find_account d' k T = Some a"
    proof (cases "k \<in> fst ` set accs")
      case True
      then obtain z where z: "(k, z) \<in> set accs" by force
      then have "z = x" using agreeD [OF ag, of k z x] by simp
      with p' [OF z] f [of k T] seeded_again [OF a] show ?thesis by auto
    next
      case False
      with p f [of k T] show ?thesis by (simp add: provided_def)
    qed
    with a y True show ?thesis by simp
  qed
qed

lemma setup_accounts_run:
  "accounts_ok d \<Longrightarrow> ids_used d \<Longrightarrow> agree accs \<Longrightarrow>
     \<exists>d'. setup_accounts en team T accs d = (None, d') \<and> accounts_ok d' \<and> ids_used d' \<and> only_accounts d d' \<and> provided accs T d d'"
proof (induction accs arbitrary: d)
  case Nil
  then show ?case by (simp add: only_accounts_def provided_def)
next
  case (Cons acc accs)
  obtain k x where acc: "acc = (k, x)" by (cases acc)
  obtain d1 a where s: "setup_account en team T (k, x) d = Inr d1" "accounts_ok d1" "ids_used d1" "only_accounts d d1"
    and f: "\<And>k' t'. find_account d1 k' t' = (if k' = k \<and> t' = T then Some a else find_account d k' t')"
    and a: "seeded x (find_account d k T) a"
    using setup_account_step [OF Cons.prems(1,2), of en team T k x] by blast
  have ag: "agree accs" using Cons.prems(3) by (auto simp: agree_def)
  from Cons.IH [OF s(2,3) ag] obtain d' where r: "setup_accounts en team T accs d1 = (None, d')" "accounts_ok d'" "ids_used d'"
    "only_accounts d1 d'" "provided accs T d1 d'" by blast
  have "provided (acc # accs) T d d'"
    using provided_Cons [OF Cons.prems(3) [unfolded acc] a f r(5)] by (simp add: acc)
  moreover have "only_accounts d d'" using s(4) r(4) by (simp add: only_accounts_def)
  ultimately show ?case using s(1) r(1-3) acc by (intro exI [of _ d']) simp
qed

lemma agree_seed: "agree DefaultSeedAccount"
  using seed_agrees by (auto simp: agree_def dest!: seed_agrees)

lemma Setup_run:
  assumes "accounts_ok d" and "ids_used d" and "find (\<lambda>t. team_ID t = T) teams = Some team"
  obtains d' where "Setup en add it teams rd T d = (None, d', snd (RegisterPermission add it rd T (team_Type team)))"
    and "accounts_ok d'" and "ids_used d'" and "only_accounts d d'" and "provided DefaultSeedAccount T d d'"
  using setup_accounts_run [OF assms(1,2) agree_seed, of en team T] assms(3) by (auto simp: Setup_def)

lemma setup_account_same:
  assumes "accounts_ok d" and "find_account d k T = Some a" and "seeded x (Some a) a"
  shows "setup_account en team T (k, x) d = Inr d"
proof -
  note f = find_accountD [OF assms(2)] and nz = find_account_nonzero [OF assms(1,2)]
  have "(if acc_ID b = acc_ID a then a else b) = b" if "b \<in> set (db_accounts d)" for b
    using that f assms(1) distinct_map_eq [of acc_ID "db_accounts d" b a] by (auto simp: accounts_ok_def)
  then have same: "map (\<lambda>b. if acc_ID b = acc_ID a then a else b) (db_accounts d) = db_accounts d" by (intro map_idI)
  have x: "a\<lparr>acc_BalanceType := snd x, acc_Coa := fst x\<rparr> = a" using assms(3) by (simp add: seeded_def)
  show ?thesis using nz same x by (simp add: setup_account_def assms(2) Let_def split_beta cong: if_cong)
qed

lemma setup_accounts_same:
  assumes "accounts_ok d" and "\<And>k x. (k, x) \<in> set accs \<Longrightarrow> \<exists>a. find_account d k T = Some a \<and> seeded x (Some a) a"
  shows "setup_accounts en team T accs d = (None, d)"
  using assms(2)
proof (induction accs)
  case (Cons acc accs)
  obtain k x where acc: "acc = (k, x)" by (cases acc)
  with Cons.prems [of k x] obtain a where "find_account d k T = Some a" "seeded x (Some a) a" by auto
  from setup_account_same [OF assms(1) this] Cons acc show ?case by simp
qed simp


subsection \<open>Payments between teams that were set up\<close>

lemma provided_account:
  assumes "provided DefaultSeedAccount T d d'" and "seed k = Some x"
  shows "\<exists>a. find_account d' k T = Some a \<and> acc_BalanceType a = snd x"
  using assms(1) seed_mem [OF assms(2)] unfolding provided_def seeded_def by blast

lemma provided_keeps:
  assumes "provided DefaultSeedAccount T d d'" and "\<exists>a. find_account d k t = Some a \<and> acc_BalanceType a = snd x"
    and "seed k = Some x"
  shows "\<exists>a. find_account d' k t = Some a \<and> acc_BalanceType a = snd x"
proof (cases "t = T")
  case True
  with provided_account [OF assms(1,3)] show ?thesis by simp
next
  case False
  with assms(1,2) show ?thesis by (simp add: provided_def)
qed

text \<open>
  C18: Setting up the two teams is all a payment needs: a pending payment of a whole amount that is not
  zero, whose reference is unused, is accepted after both were set up, whatever accounts there were.
\<close>

theorem setup_enables_payment:
  assumes "accounts_ok d" and "ids_used d"
    and "find (\<lambda>t. team_ID t = pm_FromTeamID p) teams = Some tf" and "find (\<lambda>t. team_ID t = pm_ToTeamID p) teams = Some tt"
    and "Setup en add it teams rd (pm_FromTeamID p) d = (e, d1, g)" and "Setup en add it teams rd (pm_ToTeamID p) d1 = (e', s_db s, g')"
    and "find_payment (pr_PaymentId pay) d = Some p" and "pm_ToTeamID p = pr_TeamId pay" and "pm_Status p = PAYMENT_STATUS_PENDING"
    and "whole (pm_Amount p)" and "\<bar>val (pm_Amount p)\<bar> \<le> 2 ^ 52" and "pm_Amount p \<noteq> 0"
    and "\<forall>t \<in> set (db_txs d). tx_RefID t \<noteq> payment_ref (pr_PaymentId pay)"
    and "HasPermission ident payment_entity (action_domain ident (pr_RequestFrom pay) (pr_TeamId pay)) ActUpdate = None"
    and "iter_ok (iter en)" and "\<not> IsZero (now en)" and "accepting en"
  shows "\<exists>s'. PaymentAccept en ident pay s = (Inr (Some ()), s')"
proof -
  let ?d = "s_db s"
  from Setup_run [OF assms(1-3), of en add it rd] assms(5) have
    s1: "accounts_ok d1" "ids_used d1" "only_accounts d d1" "provided DefaultSeedAccount (pm_FromTeamID p) d d1" by auto
  from Setup_run [OF s1(1,2) assms(4), of en add it rd] assms(6) have
    s2: "accounts_ok ?d" "only_accounts d1 ?d" "provided DefaultSeedAccount (pm_ToTeamID p) d1 ?d" by auto
  from only_accounts_fields [OF s1(3)] only_accounts_fields [OF s2(2)]
  have f: "db_payments ?d = db_payments d" "db_txs ?d = db_txs d" by simp_all
  note tt = provided_account [OF s2(3)] and frm = provided_keeps [OF s2(3) provided_account [OF s1(4)]]
  obtain a b c where abc: "find_account ?d CashAccount (pm_ToTeamID p) = Some a" "acc_BalanceType a = DebitBalance"
    "find_account ?d PayableAccount (pm_ToTeamID p) = Some b" "acc_BalanceType b = CreditBalance"
    "find_account ?d ReceivableAccount (pm_FromTeamID p) = Some c" "acc_BalanceType c = DebitBalance"
    using tt [OF seed_samples(1)] tt [OF seed_samples(2)] frm [OF seed_samples(3) seed_samples(3)] by auto
  note inj = find_account_id_inj [OF s2(1)] and nz = find_account_nonzero [OF s2(1)]
  have "payment_books (db_accounts ?d) p (acc_ID a) (acc_ID b) (acc_ID c)"
    using abc nz [OF abc(1)] nz [OF abc(3)] nz [OF abc(5)]
    by (simp add: payment_books_def debit_account_def credit_account_def find_account_key)
  moreover have "acc_ID a \<noteq> acc_ID b" "acc_ID a \<noteq> acc_ID c"
    using inj [OF abc(1,3)] inj [OF abc(1,5)] by (auto simp: CashAccount_def PayableAccount_def ReceivableAccount_def)
  ultimately have "payment_ready (db_accounts ?d) p" using assms(10-12) unfolding payment_ready_def by blast
  with assms(7-9,13-17) f show ?thesis
    by (intro PaymentAccept_runs [of _ _ p]) (simp_all add: find_payment_def)
qed

subsection \<open>Opening balances\<close>

lemma provided_none: "provided DefaultSeedAccount T d d' \<Longrightarrow> seed k = None \<Longrightarrow> find_account d' k t = find_account d k t"
  by (auto simp: provided_def seed_def map_of_eq_None_iff)

definition set_up :: "env \<Rightarrow> (grant \<Rightarrow> err option) \<Rightarrow> (RoleItem \<Rightarrow> RoleItem) \<Rightarrow> Team list \<Rightarrow> nat \<Rightarrow> nat list \<Rightarrow> db \<Rightarrow> db" where
  "set_up en add it teams rd Ts d = fold (\<lambda>T d. fst (snd (Setup en add it teams rd T d))) Ts d"

definition no_opening :: "nat \<Rightarrow> db \<Rightarrow> bool" where
  "no_opening root_team d \<longleftrightarrow>
     (\<forall>a. find_account d CapitalStartAccount root_team = Some a \<longrightarrow> acc_BalanceType a = CreditBalance) \<and>
     (\<forall>t a. find_account d CashAccount t = Some a \<longrightarrow> acc_BalanceType a = DebitBalance)"

lemma provided_no_opening:
  assumes "provided DefaultSeedAccount T d d'" and "no_opening rt d"
  shows "no_opening rt d'"
proof -
  have "acc_BalanceType a = DebitBalance" if "find_account d' CashAccount t = Some a" for t a
  proof (cases "t = T")
    case True
    with that provided_account [OF assms(1) seed_samples(1)] show ?thesis by auto
  next
    case False
    with that assms show ?thesis by (simp add: provided_def no_opening_def)
  qed
  with provided_none [OF assms(1) seed_samples(4)] assms(2) show ?thesis by (simp add: no_opening_def)
qed

lemma set_up_no_opening:
  "accounts_ok d \<Longrightarrow> ids_used d \<Longrightarrow> no_opening rt d \<Longrightarrow> no_opening rt (set_up en add it teams rd Ts d)"
  unfolding set_up_def
proof (induction Ts arbitrary: d)
  case (Cons T Ts)
  show ?case
  proof (cases "find (\<lambda>t. team_ID t = T) teams")
    case None
    with Cons show ?thesis by (simp add: Setup_def)
  next
    case (Some team)
    from Setup_run [OF Cons.prems(1,2) this, of en add it rd] obtain d' where
      d': "fst (snd (Setup en add it teams rd T d)) = d'" "accounts_ok d'" "ids_used d'" "provided DefaultSeedAccount T d d'"
      by (metis fst_conv snd_conv)
    with Cons.IH [of d'] provided_no_opening [OF d'(4) Cons.prems(3)] show ?thesis by simp
  qed
qed simp

lemma opening_chain_refused:
  assumes "no_opening (RootDomain ident) (s_db s)" and "whole (bir_Amount pay)" and "\<bar>val (bir_Amount pay)\<bar> \<le> 2 ^ 52"
    and "iter_ok (iter en)"
  shows "refused (entryA en team user (balance_init_calls ident account pay tran) []) s"
proof -
  let ?calls = "balance_init_calls ident account pay tran" and ?acs = "db_accounts (s_db s)"
  have w: "whole_calls ?calls" using assms(2,3) by (simp add: balance_init_calls_def whole_list_Cons)
  show ?thesis
  proof (cases "list_all (valid_call ?acs) ?calls")
    case False
    with w assms(4) show ?thesis by (intro refused_entry) simp_all
  next
    case True
    then obtain a b where a: "key_account ?acs CapitalStartAccount (RootDomain ident) = Some a" "acc_ID a \<noteq> 0"
      and b: "key_account ?acs CashAccount (ba_TeamID account) = Some b" "acc_ID b \<noteq> 0" and nz: "bir_Amount pay \<noteq> 0"
      by (auto simp: balance_init_calls_def account_ok_def split: option.splits)
    from a b assms(1) have ac: "credit_account ?acs CapitalStartAccount (RootDomain ident) (acc_ID a)"
      and bc: "debit_account ?acs CashAccount (ba_TeamID account) (acc_ID b)"
      by (simp_all add: no_opening_def credit_account_def debit_account_def find_account_key)
    have "posted_total ?acs ?calls = 2 * val (bir_Amount pay)"
      using credit_posting(2) [OF ac] debit_posting(1) [OF bc] by (simp add: balance_init_calls_def del: posting.simps(1,2))
    with nz have "posted_total ?acs ?calls \<noteq> 0" by (simp add: val_eq)
    moreover have "?calls \<noteq> []" "is_post (hd ?calls)" by (simp_all add: balance_init_calls_def is_post_def)
    ultimately show ?thesis using entryA_unbalanced [OF w assms(4) _ True, of "[]" team user] by (auto simp: refused_def)
  qed
qed

lemma balance_init_refused:
  assumes "no_opening (RootDomain ident) (s_db s)" and "whole (bir_Amount pay)" and "\<bar>val (bir_Amount pay)\<bar> \<le> 2 ^ 52"
    and "iter_ok (iter en)"
  shows "refused (balance_init_body en ident pay) s"
proof -
  let ?i = "bir_AccountId pay"
  have c: "refused (entryA en team user (balance_init_calls ident account pay tran) []) s1"
    if "core (s_db s1) = core (s_db s)" for team user account tran s1
    by (rule opening_chain_refused) (use assms that in \<open>simp_all add: no_opening_def find_account_def core_def\<close>)
  have a: "refused (first_account ?i) s \<or> (\<exists>a. first_account ?i s = (Inr a, s))"
    by (cases "find (\<lambda>a. ba_ID a = ?i) (db_bank_accounts (s_db s))")
       (auto simp: first_account_def bindA_def readA_def refused_def failA_def returnA_def)
  have b: "refused (bindA (newTxA en tx []) (\<lambda>tran. thenA (entryA en team user (balance_init_calls ident account pay tran) []) m)) s"
    for tx team user account m
    using c by (intro refused_newTx refused_then) simp
  from a show ?thesis
  proof
    assume "refused (first_account ?i) s"
    then show ?thesis unfolding balance_init_body_def by (rule refused_bind)
  next
    assume "\<exists>a. first_account ?i s = (Inr a, s)"
    then obtain a where fa: "first_account ?i s = (Inr a, s)" by blast
    show ?thesis
    proof (cases "ba_Balance a = 0")
      case True
      have "refused (bindA (first_account ?i) f) s \<longleftrightarrow> refused (f a) s" for f :: "_ \<Rightarrow> unit action"
        unfolding refused_def by (simp add: bindA_def fa)
      with True b show ?thesis unfolding balance_init_body_def by simp
    next
      case False
      with fa show ?thesis unfolding balance_init_body_def refused_def by (simp add: bindA_def failA_def)
    qed
  qed
qed

text \<open>
  C37: The opening balance of a bank account cannot be booked. It is booked from the root team's capital
  account, which no sequence of \<open>Setup\<close> calls creates, so unless it was there before, \<open>AccountBalanceInit\<close> fails;
  and where it is there with the credit type of an equity account, \<open>From\<close> debits it, both sides are debits and the
  totals never agree. Nothing changes in either case.
\<close>

theorem opening_balance_refused:
  assumes "accounts_ok d" and "ids_used d" and "no_opening (RootDomain ident) d"
    and "s_db s = set_up en add it teams rd Ts d"
    and "whole (bir_Amount pay)" and "\<bar>val (bir_Amount pay)\<bar> \<le> 2 ^ 52" and "iter_ok (iter en')"
  shows "\<exists>e s'. AccountBalanceInit en' ident perm pay s = (Inl e, s') \<and> s_db s' = s_db s"
proof -
  have "no_opening (RootDomain ident) (s_db (open_book s))"
    using set_up_no_opening [OF assms(1-3)] assms(4) by simp
  from refused_handler [OF balance_init_refused [OF this assms(5-7)]] show ?thesis
    unfolding AccountBalanceInit_def by simp
qed

subsection \<open>Two teams\<close>

definition two_teams :: "Team list" where
  "two_teams = [\<lparr>team_ID = 7, team_Name = ''a'', team_Code = ''A'', team_Type = SellingTeamType, team_Deleted = False\<rparr>,
     \<lparr>team_ID = 8, team_Name = ''b'', team_Code = ''B'', team_Type = WarehouseTeamType, team_Deleted = False\<rparr>]"

definition new_db :: db where
  "new_db = empty_db\<lparr>db_payments := [sample_payment], db_accounts := [sample_account 4 ''cash'' 8 ''c'']\<rparr>"

lemma new_db_ok: "accounts_ok new_db" "ids_used new_db" "find_account new_db CapitalStartAccount t = None"
  by (simp_all add: accounts_ok_def ids_used_def find_account_def new_db_def empty_db_def sample_account_def CapitalStartAccount_def)

lemma two_teams_find: "find (\<lambda>t. team_ID t = 7) two_teams = Some (two_teams ! 0)"
  "find (\<lambda>t. team_ID t = 8) two_teams = Some (two_teams ! 1)"
  by (simp_all add: two_teams_def)


theorem setup_enables_payment_witness:
  "\<exists>d1 d2 g1 g2 s'. Setup sample_env (\<lambda>_. None) id two_teams 1 7 new_db = (None, d1, g1) \<and>
     Setup sample_env (\<lambda>_. None) id two_teams 1 8 d1 = (None, d2, g2) \<and>
     PaymentAccept sample_env anyone (pay_request 8) (session_of d2) = (Inr (Some ()), s')"
proof -
  obtain d1 g1 where r1: "Setup sample_env (\<lambda>_. None) id two_teams 1 7 new_db = (None, d1, g1)" "accounts_ok d1" "ids_used d1"
    using Setup_run [OF new_db_ok(1,2) two_teams_find(1)] by metis
  obtain d2 g2 where r2: "Setup sample_env (\<lambda>_. None) id two_teams 1 8 d1 = (None, d2, g2)"
    using Setup_run [OF r1(2,3) two_teams_find(2)] by metis
  have "\<exists>s'. PaymentAccept sample_env anyone (pay_request 8) (session_of d2) = (Inr (Some ()), s')"
    by (rule setup_enables_payment [OF new_db_ok(1,2), of sample_payment two_teams "two_teams ! 0" "two_teams ! 1"
          sample_env "\<lambda>_. None" id 1 None d1 g1 None _ g2])
       (use r1(1) r2 two_teams_find sample_payment_facts in \<open>simp_all add: new_db_def find_payment_def pay_db_def empty_db_def\<close>)
  with r1(1) r2 show ?thesis by blast
qed

text \<open>The root team 99 has a capital account, team 8 a bank account.\<close>

definition capital_db :: db where
  "capital_db = empty_db\<lparr>db_accounts := [sample_account 9 ''capital_start'' 99 ''c''], db_bank_accounts := [sample_bank 32 8]\<rparr>"

theorem opening_balance_refused_witness:
  "\<exists>e s'. AccountBalanceInit sample_env anyone None \<lparr>bir_AccountId = 32, bir_Amount = f64_of 250, bir_Desc = []\<rparr>
     (session_of (set_up sample_env (\<lambda>_. None) id two_teams 1 [7, 8] capital_db)) = (Inl e, s')"
proof -
  let ?f = "set_up sample_env (\<lambda>_. None) id two_teams 1 [7, 8] capital_db"
  have "accounts_ok capital_db" "ids_used capital_db" "no_opening (RootDomain anyone) capital_db"
    by (auto simp: accounts_ok_def ids_used_def no_opening_def find_account_def capital_db_def empty_db_def sample_account_def
        CreditBalance_def CashAccount_def)
  then have "\<exists>e s'. AccountBalanceInit sample_env anyone None \<lparr>bir_AccountId = 32, bir_Amount = f64_of 250, bir_Desc = []\<rparr> (session_of ?f) =
      (Inl e, s') \<and> s_db s' = s_db (session_of ?f)"
    by (rule opening_balance_refused [where en = sample_env and add = "\<lambda>_. None" and it = id and teams = two_teams and rd = 1 and Ts = "[7, 8]"])
       (simp_all add: whole_f64_of val_f64_of)
  then show ?thesis by blast
qed

end
