(* ===== verification/AccountSpec.thy ===== *)
theory AccountSpec
  imports BankAccounts BookingSpec
begin

section \<open>Bank accounts: properties\<close>

text \<open>
  The unique indexes of the bank accounts hold after any sequence of requests, a number is free again
  once its account is deleted, and only one opening balance can be booked.
\<close>

subsection \<open>The account table\<close>

definition bank_ok :: "db \<Rightarrow> bool" where
  "bank_ok d \<longleftrightarrow> distinct (map ba_ID (db_bank_accounts d)) \<and> distinct (map ba_NumberID (db_bank_accounts d)) \<and>
     (\<forall>a \<in> set (db_bank_accounts d). ba_ID a \<le> db_seq d)"

text \<open>An account stays, with its id, team and type.\<close>

definition accounts_stay :: "db \<Rightarrow> db \<Rightarrow> bool" where
  "accounts_stay d d' \<longleftrightarrow> (\<forall>a \<in> set (db_bank_accounts d). \<exists>b \<in> set (db_bank_accounts d').
     ba_ID b = ba_ID a \<and> ba_TeamID b = ba_TeamID a \<and> ba_AccountTypeID b = ba_AccountTypeID a \<and> ba_CreatedAt b = ba_CreatedAt a)"

definition bank_keeps :: "db \<Rightarrow> db \<Rightarrow> bool" where
  "bank_keeps d d' \<longleftrightarrow> bank_ok d \<longrightarrow> bank_ok d' \<and> accounts_stay d d'"

lemma accounts_stay_refl: "db_bank_accounts d' = db_bank_accounts d \<Longrightarrow> accounts_stay d d'"
  by (auto simp: accounts_stay_def)

lemma accounts_stay_trans: "accounts_stay d d' \<Longrightarrow> accounts_stay d' d'' \<Longrightarrow> accounts_stay d d''"
  unfolding accounts_stay_def by fastforce

lemma bank_keeps_refl: "bank_keeps d d"
  by (simp add: bank_keeps_def accounts_stay_refl)

lemma bank_keeps_trans: "bank_keeps d d' \<Longrightarrow> bank_keeps d' d'' \<Longrightarrow> bank_keeps d d''"
  unfolding bank_keeps_def using accounts_stay_trans by blast

lemma bank_keeps_frame:
  "db_bank_accounts d' = db_bank_accounts d \<Longrightarrow> db_seq d \<le> db_seq d' \<Longrightarrow> bank_keeps d d'"
  unfolding bank_keeps_def bank_ok_def accounts_stay_def by (metis order_trans)

text \<open>A change of rows that keeps ids, teams and types and leads to distinct numbers.\<close>

lemma bank_keeps_map:
  assumes "\<And>a. ba_ID (f a) = ba_ID a \<and> ba_TeamID (f a) = ba_TeamID a \<and> ba_AccountTypeID (f a) = ba_AccountTypeID a \<and> ba_CreatedAt (f a) = ba_CreatedAt a"
    and "bank_ok d \<Longrightarrow> inj_on (\<lambda>a. ba_NumberID (f a)) (set (db_bank_accounts d))"
  shows "bank_keeps d (d\<lparr>db_bank_accounts := map f (db_bank_accounts d)\<rparr>)"
  unfolding bank_keeps_def
proof (intro impI conjI)
  assume ok: "bank_ok d"
  then have "distinct (db_bank_accounts d)" by (simp add: bank_ok_def distinct_map)
  moreover have "map ba_ID (map f (db_bank_accounts d)) = map ba_ID (db_bank_accounts d)" by (simp add: comp_def assms(1))
  ultimately show "bank_ok (d\<lparr>db_bank_accounts := map f (db_bank_accounts d)\<rparr>)"
    using ok assms(2) [OF ok] by (simp add: bank_ok_def assms(1) comp_def) (simp add: distinct_map)
  show "accounts_stay d (d\<lparr>db_bank_accounts := map f (db_bank_accounts d)\<rparr>)"
    using assms(1) by (auto simp: accounts_stay_def)
qed

lemma same_row:
  "bank_ok d \<Longrightarrow> a \<in> set (db_bank_accounts d) \<Longrightarrow> b \<in> set (db_bank_accounts d) \<Longrightarrow>
     ba_ID a = ba_ID b \<or> ba_NumberID a = ba_NumberID b \<Longrightarrow> a = b"
  unfolding bank_ok_def by (elim conjE disjE) (blast dest: distinct_map_eq)+

lemma one_row_inj:
  assumes ok: "bank_ok d" and f: "\<And>a. ba_ID a \<noteq> i \<Longrightarrow> ba_NumberID (f a) = ba_NumberID a"
    and new: "\<And>a b. a \<in> set (db_bank_accounts d) \<Longrightarrow> b \<in> set (db_bank_accounts d) \<Longrightarrow> ba_ID a = i \<Longrightarrow> ba_ID b \<noteq> i \<Longrightarrow>
      ba_NumberID (f a) \<noteq> ba_NumberID b"
  shows "inj_on (\<lambda>a. ba_NumberID (f a)) (set (db_bank_accounts d))"
proof (rule inj_onI)
  fix a b assume ab: "a \<in> set (db_bank_accounts d)" "b \<in> set (db_bank_accounts d)" and eq: "ba_NumberID (f a) = ba_NumberID (f b)"
  consider "ba_ID a = i" "ba_ID b = i" | "ba_ID a = i" "ba_ID b \<noteq> i" | "ba_ID a \<noteq> i" "ba_ID b = i" | "ba_ID a \<noteq> i" "ba_ID b \<noteq> i"
    by blast
  then show "a = b"
  proof cases
    case 1 with same_row [OF ok ab] show ?thesis by simp
  next
    case 2 with eq f new ab show ?thesis by simp
  next
    case 3 with eq f [of a] new [OF ab(2,1)] show ?thesis by simp
  next
    case 4 with eq f same_row [OF ok ab] show ?thesis by simp
  qed
qed

subsection \<open>The handlers\<close>

lemma add_bank_labels_frame:
  "db_bank_accounts (fold (add_bank_label i) ls d) = db_bank_accounts d \<and> db_seq d \<le> db_seq (fold (add_bank_label i) ls d)"
proof (induction ls arbitrary: d)
  case (Cons l ls)
  have "db_bank_accounts (add_bank_label i l d) = db_bank_accounts d \<and> db_seq d \<le> db_seq (add_bank_label i l d)"
    by (auto simp: add_bank_label_def Let_def split: option.splits)
  with Cons.IH [of "add_bank_label i l d"] show ?case by auto
qed simp

lemma account_create_keeps:
  assumes "account_create_body en tr pay s = (r, s')"
  shows "bank_keeps (s_db s) (s_db s')"
proof (cases r)
  case (Inl e)
  with assms have "s' = s" by (auto simp: account_create_body_def split: sum.splits)
  then show ?thesis by (simp add: bank_keeps_refl)
next
  case (Inr i)
  let ?a = "\<lparr>ba_ID = Suc (db_seq (s_db s)), ba_TeamID = acq_TeamId pay, ba_AccountTypeID = acq_AccountTypeId pay, ba_Name = acq_Name pay,
          ba_NumberID = acq_NumberId pay, ba_Balance = 0, ba_Disabled = False, ba_Deleted = False,
          ba_CreatedAt = now en, ba_DeletedAt = zeroTime\<rparr>"
  let ?d = "(s_db s)\<lparr>db_seq := Suc (db_seq (s_db s)), db_bank_accounts := db_bank_accounts (s_db s) @ [?a]\<rparr>"
  have new: "acq_NumberId pay \<notin> ba_NumberID ` set (db_bank_accounts (s_db s))"
  proof
    assume "acq_NumberId pay \<in> ba_NumberID ` set (db_bank_accounts (s_db s))"
    then have "\<exists>a \<in> set (db_bank_accounts (s_db s)). ba_NumberID a = acq_NumberId pay" by auto
    then have "isl (fst (account_create_body en tr pay s))" by (simp add: account_create_body_def save_bank_account_def)
    with assms Inr show False by simp
  qed
  then have "save_bank_account en tr (?a\<lparr>ba_ID := 0\<rparr>) (s_db s) = Inr (?a, ?d)"
    by (force simp: save_bank_account_def Let_def)
  with assms have d: "s_db s' = fold (add_bank_label (Suc (db_seq (s_db s)))) (acq_Labels pay) ?d"
    by (force simp: account_create_body_def)
  have "bank_keeps (s_db s) ?d"
    using new unfolding bank_keeps_def
  proof (intro impI conjI)
    assume ok: "bank_ok (s_db s)"
    then have "Suc (db_seq (s_db s)) \<notin> ba_ID ` set (db_bank_accounts (s_db s))" by (force simp: bank_ok_def)
    with ok new show "bank_ok ?d" by (auto simp: bank_ok_def)
  qed (auto simp: accounts_stay_def)
  moreover have "bank_keeps ?d (s_db s')" unfolding d by (intro bank_keeps_frame) (use add_bank_labels_frame in \<open>blast+\<close>)
  ultimately show ?thesis by (rule bank_keeps_trans)
qed

lemma delete_account_keeps:
  assumes "delete_account en i s = (r, s')"
  shows "bank_keeps (s_db s) (s_db s')"
proof -
  let ?f = "\<lambda>a. if ba_ID a = i then mark_deleted en a else a"
  let ?taken = "\<exists>a \<in> set (db_bank_accounts (s_db s)). \<exists>b \<in> set (db_bank_accounts (s_db s)).
       ba_ID a = i \<and> ba_ID b \<noteq> i \<and> ba_NumberID b = ba_NumberID (mark_deleted en a)"
  have run: "s' = (if ?taken then s else s\<lparr>s_db := (s_db s)\<lparr>db_bank_accounts := map ?f (db_bank_accounts (s_db s))\<rparr>\<rparr>)"
    using assms unfolding delete_account_def Let_def by (metis (no_types, lifting) snd_conv)
  consider "s' = s" | "s' = s\<lparr>s_db := (s_db s)\<lparr>db_bank_accounts := map ?f (db_bank_accounts (s_db s))\<rparr>\<rparr>"
      "\<And>a b. a \<in> set (db_bank_accounts (s_db s)) \<Longrightarrow> b \<in> set (db_bank_accounts (s_db s)) \<Longrightarrow> ba_ID a = i \<Longrightarrow> ba_ID b \<noteq> i \<Longrightarrow>
        ba_NumberID (mark_deleted en a) \<noteq> ba_NumberID b"
  proof (cases ?taken)
    case True
    with run that(1) show thesis by argo
  next
    case False
    show thesis
    proof (rule that(2))
      from False run show "s' = s\<lparr>s_db := (s_db s)\<lparr>db_bank_accounts := map ?f (db_bank_accounts (s_db s))\<rparr>\<rparr>" by argo
    qed (use False in metis)
  qed
  then show ?thesis
  proof cases
    case 2
    have "bank_keeps (s_db s) ((s_db s)\<lparr>db_bank_accounts := map ?f (db_bank_accounts (s_db s))\<rparr>)"
    proof (rule bank_keeps_map)
      assume "bank_ok (s_db s)"
      then show "inj_on (\<lambda>a. ba_NumberID (?f a)) (set (db_bank_accounts (s_db s)))"
        by (rule one_row_inj [where i = i]) (use 2(2) in auto)
    qed (simp add: mark_deleted_def)
    with 2 show ?thesis by simp
  qed (simp add: bank_keeps_refl)
qed

lemma delete_accounts_keep:
  "forA is (delete_account en) s = (r, s') \<Longrightarrow> bank_keeps (s_db s) (s_db s')"
proof (induction "is" arbitrary: s)
  case (Cons i "is")
  obtain r1 s1 where d: "delete_account en i s = (r1, s1)" by (cases "delete_account en i s")
  with Cons.prems show ?case
    using delete_account_keeps [OF d] Cons.IH [of s1] bank_keeps_trans
    by (cases r1) (auto simp: bindA_def)
qed (simp add: returnA_def bank_keeps_refl)

lemma AccountDelete_keeps:
  assumes "AccountDelete en ident pay s = (r, s')"
  shows "bank_keeps (s_db s) (s_db s')"
proof -
  obtain r1 s1 where t: "transactionA (forA (adr_AccountIds pay) (delete_account en)) s = (r1, s1)"
    by (cases "transactionA (forA (adr_AccountIds pay) (delete_account en)) s")
  from transactionA_tables [OF t] have "bank_keeps (s_db s) (s_db s1)"
    using delete_accounts_keep [of "adr_AccountIds pay" en s _ s1] by (auto simp: bank_keeps_frame)
  with checked_tables [OF assms [unfolded AccountDelete_def]] t show ?thesis by (auto simp: bank_keeps_refl)
qed

lemma update_account_keeps:
  assumes "update_bank_account en pay s = (r, s')"
  shows "bank_keeps (s_db s) (s_db s')"
proof -
  let ?f = "\<lambda>a. if ba_ID a = auq_Id pay then update_fields pay a else a"
  let ?taken = "auq_NumberId pay \<noteq> [] \<and> (\<exists>a \<in> set (db_bank_accounts (s_db s)). ba_ID a = auq_Id pay) \<and>
       (\<exists>b \<in> set (db_bank_accounts (s_db s)). ba_ID b \<noteq> auq_Id pay \<and> ba_NumberID b = auq_NumberId pay)"
  have run: "s' = (if ?taken then s else s\<lparr>s_db := (s_db s)\<lparr>db_bank_accounts := map ?f (db_bank_accounts (s_db s))\<rparr>\<rparr>)"
    using assms unfolding update_bank_account_def Let_def by (metis (no_types, lifting) snd_conv)
  consider "s' = s" | "s' = s\<lparr>s_db := (s_db s)\<lparr>db_bank_accounts := map ?f (db_bank_accounts (s_db s))\<rparr>\<rparr>"
      "\<And>a b. a \<in> set (db_bank_accounts (s_db s)) \<Longrightarrow> b \<in> set (db_bank_accounts (s_db s)) \<Longrightarrow> ba_ID a = auq_Id pay \<Longrightarrow>
        ba_ID b \<noteq> auq_Id pay \<Longrightarrow> auq_NumberId pay \<noteq> [] \<Longrightarrow> auq_NumberId pay \<noteq> ba_NumberID b"
  proof (cases ?taken)
    case True
    with run that(1) show thesis by argo
  next
    case False
    show thesis
    proof (rule that(2))
      from False run show "s' = s\<lparr>s_db := (s_db s)\<lparr>db_bank_accounts := map ?f (db_bank_accounts (s_db s))\<rparr>\<rparr>" by argo
    qed (use False in metis)
  qed
  then show ?thesis
  proof cases
    case 2
    have "bank_keeps (s_db s) ((s_db s)\<lparr>db_bank_accounts := map ?f (db_bank_accounts (s_db s))\<rparr>)"
    proof (rule bank_keeps_map)
      assume ok: "bank_ok (s_db s)"
      then show "inj_on (\<lambda>a. ba_NumberID (?f a)) (set (db_bank_accounts (s_db s)))"
      proof (rule one_row_inj [where i = "auq_Id pay"])
        fix a b assume ab: "a \<in> set (db_bank_accounts (s_db s))" "b \<in> set (db_bank_accounts (s_db s))"
          "ba_ID a = auq_Id pay" "ba_ID b \<noteq> auq_Id pay"
        with same_row [OF ok ab(1,2)] have "ba_NumberID a \<noteq> ba_NumberID b" by auto
        with 2(2) [OF ab] ab(3) show "ba_NumberID (?f a) \<noteq> ba_NumberID b" by (simp add: update_fields_def)
      qed simp
    qed (simp add: update_fields_def)
    with 2 show ?thesis by simp
  qed (simp add: bank_keeps_refl)
qed

lemma entryA_seq: "entryA en team user calls opts s = (r, s') \<Longrightarrow> db_seq (s_db s) \<le> db_seq (s_db s')"
proof -
  have e: "db_seq d \<le> db_seq d'" if "save_entry e d = (e', d')" for e d e' d'
    using that by (auto simp: save_entry_def Let_def split: if_splits)
  have s: "db_seq d \<le> db_seq (snd (save_slots ss m d))" for ss m d
    by (induction ss m d rule: save_slots.induct)
       (auto split: option.splits prod.splits dest: e intro: order_trans simp del: save_entry_def)
  let ?c = "chain_of en (s_db s) team user calls"
  have "db_seq (s_db s) \<le> db_seq (s_db (snd (Commit en opts ?c s)))"
    using s by (simp add: Commit_def Let_def split: prod.splits option.splits) (metis snd_conv)
  then show "entryA en team user calls opts s = (r, s') \<Longrightarrow> ?thesis"
    by (auto simp: entryA_chain commitA_def split: prod.splits option.splits)
qed

lemma newTxA_seq: "newTxA en tran [] s = (r, s') \<Longrightarrow> db_seq (s_db s) \<le> db_seq (s_db s')"
  by (auto simp: newTxA_def NewTransaction_def CreateT_def save_tx_def Let_def split: option.splits if_splits)

lemma replace_bank_account_keeps:
  assumes "bank_ok d \<Longrightarrow> a \<in> set (db_bank_accounts d)"
  shows "bank_keeps d (replace_bank_account (a\<lparr>ba_Balance := x\<rparr>) d)"
proof -
  let ?f = "\<lambda>b. if ba_ID b = ba_ID a then b\<lparr>ba_Balance := x\<rparr> else b"
  show ?thesis
  proof (cases "bank_ok d")
    case True
    have "(if ba_ID b = ba_ID a then a\<lparr>ba_Balance := x\<rparr> else b) = ?f b" if "b \<in> set (db_bank_accounts d)" for b
      using same_row [OF True that assms [OF True]] by auto
    then have eq: "replace_bank_account (a\<lparr>ba_Balance := x\<rparr>) d = d\<lparr>db_bank_accounts := map ?f (db_bank_accounts d)\<rparr>"
      by (simp add: replace_bank_account_def)
    show ?thesis unfolding eq
      by (rule bank_keeps_map) (auto intro: one_row_inj simp: inj_on_def dest: same_row)
  qed (simp add: bank_keeps_def)
qed

lemma balance_init_body_Inr:
  assumes "balance_init_body en ident pay s = (Inr u, s')"
  obtains a tran s1 s2 where "a \<in> set (db_bank_accounts (s_db s))" and "ba_Balance a = 0"
    and "newTxA en \<lparr>tx_ID = 0, tx_RefID = [], tx_TeamID = 0, tx_CreatedByID = GetUserID ident, tx_OrderID = None,
         tx_Desc = bir_Desc pay, tx_Created = now en\<rparr> [] s = (Inr tran, s1)"
    and "entryA en (ba_TeamID a) (GetUserID ident) (balance_init_calls ident a pay tran) [] s1 = (Inr (), s2)"
    and "s' = s2\<lparr>s_db := replace_bank_account (a\<lparr>ba_Balance := bir_Amount pay\<rparr>) (s_db s2)\<rparr>"
proof -
  from assms obtain a where f: "first_account (bir_AccountId pay) s = (Inr a, s)" and b: "ba_Balance a = 0"
    by (auto simp: balance_init_body_def bindA_Inr first_account_def split: option.splits if_splits)
  then have "a \<in> set (db_bank_accounts (s_db s))"
    by (auto simp: first_account_def bindA_Inr split: option.splits dest: find_SomeD)
  with that b assms f show thesis by (auto simp: balance_init_body_def bindA_Inr thenA_Inr)
qed

lemma balance_init_keeps:
  assumes "AccountBalanceInit en ident perm pay s = (r, s')"
  shows "bank_keeps (s_db s) (s_db s')"
proof -
  have "bank_keeps (s_db s) (s_db s1)" if "balance_init_body en ident pay (open_book s) = (Inr x, s1)" for x s1
  proof -
    from balance_init_body_Inr [OF that] obtain a tran t1 t2 where
      a: "a \<in> set (db_bank_accounts (s_db s))"
      and n: "newTxA en \<lparr>tx_ID = 0, tx_RefID = [], tx_TeamID = 0, tx_CreatedByID = GetUserID ident, tx_OrderID = None,
         tx_Desc = bir_Desc pay, tx_Created = now en\<rparr> [] (open_book s) = (Inr tran, t1)"
      and e: "entryA en (ba_TeamID a) (GetUserID ident) (balance_init_calls ident a pay tran) [] t1 = (Inr (), t2)"
      and s1: "s1 = t2\<lparr>s_db := replace_bank_account (a\<lparr>ba_Balance := bir_Amount pay\<rparr>) (s_db t2)\<rparr>"
      by (metis book_db(1))
    from newTxA_core [OF n] rest_fields [OF entryA_rest [OF e]]
    have same: "db_bank_accounts (s_db t2) = db_bank_accounts (s_db s)" by (simp add: core_def)
    moreover have "db_seq (s_db s) \<le> db_seq (s_db t2)" using newTxA_seq [OF n] entryA_seq [OF e] by simp
    ultimately have "bank_keeps (s_db s) (s_db t2)" by (rule bank_keeps_frame)
    moreover have "bank_keeps (s_db t2) (s_db s1)" unfolding s1 using a same by (simp add: replace_bank_account_keeps)
    ultimately show ?thesis by (rule bank_keeps_trans)
  qed
  moreover from checked_tables [OF assms [unfolded AccountBalanceInit_def]] OpenTransaction_tables
  have "s_db s' = s_db s \<or> (\<exists>x s1. balance_init_body en ident pay (open_book s) = (Inr x, s1) \<and> s_db s' = s_db s1)" by blast
  ultimately show ?thesis by (auto simp: bank_keeps_refl)
qed

text \<open>One request of the handlers that write accounts, whatever its outcome.\<close>

inductive account_step :: "session \<Rightarrow> session \<Rightarrow> bool" where
  create: "AccountCreate en tr ident pay s = (r, s') \<Longrightarrow> account_step s s'"
| delete: "AccountDelete en ident pay' s = (r', s') \<Longrightarrow> account_step s s'"
| change: "AccountUpdate en ident source pay'' s = (r'', s') \<Longrightarrow> account_step s s'"
| init: "AccountBalanceInit en ident perm req s = (r3, s') \<Longrightarrow> account_step s s'"

lemma account_step_keeps: "account_step s s' \<Longrightarrow> bank_keeps (s_db s) (s_db s')"
proof (induction rule: account_step.induct)
  case (create en tr ident pay s r s')
  from checked_tables [OF create [unfolded AccountCreate_def]] show ?case
    using transactionA_tables account_create_keeps by (metis bank_keeps_refl)
next
  case (delete en ident pay s r s')
  then show ?case by (rule AccountDelete_keeps)
next
  case (change en ident source pay s r s')
  then show ?case
  proof (cases source)
    case (Inr team)
    with change have "thenA (checkA (HasPermission ident bank_entity team ActUpdate)) (update_bank_account en pay) s = (r, s')"
      by (simp add: AccountUpdate_def)
    from checked_tables [OF this] update_account_keeps show ?thesis by (auto simp: bank_keeps_refl)
  qed (simp add: AccountUpdate_def bank_keeps_refl)
next
  case (init en ident perm req s r s')
  then show ?case by (rule balance_init_keeps)
qed

text \<open>
  C20: Over any requests that create, change, delete or fund bank accounts, in any order and with
  any outcome, ids and numbers stay unique, and no account is lost or moved: it keeps its id, its team,
  its type and its creation time.
\<close>

theorem account_numbers_unique:
  assumes "account_step\<^sup>*\<^sup>* s s'" and "bank_ok (s_db s)"
  shows "bank_ok (s_db s') \<and> accounts_stay (s_db s) (s_db s')"
proof -
  from assms(1) have "bank_keeps (s_db s) (s_db s')"
    by (induction rule: rtranclp_induct) (auto intro: bank_keeps_refl bank_keeps_trans account_step_keeps)
  with assms(2) show ?thesis by (simp add: bank_keeps_def)
qed

subsection \<open>From creation to deletion\<close>

text \<open>A label that has been looked up stays the first of its key.\<close>

lemma add_bank_label_keeps:
  assumes "find (\<lambda>l. bl_Key l = k) (db_bank_labels d) = Some l" and "(i, bl_ID l) \<in> set (db_bank_label_rels d)"
  shows "find (\<lambda>l. bl_Key l = k) (db_bank_labels (add_bank_label j lab d)) = Some l \<and>
    (i, bl_ID l) \<in> set (db_bank_label_rels (add_bank_label j lab d))"
proof -
  have "find P (xs @ [y]) = Some x" if "find P xs = Some x" for P :: "BankAccountLabel \<Rightarrow> bool" and xs y x
    using that by (induction xs) (auto split: if_splits)
  with assms show ?thesis by (auto simp: add_bank_label_def split: option.splits)
qed

lemma add_bank_label_adds:
  "\<exists>l. find (\<lambda>l. bl_Key l = fst lab) (db_bank_labels (add_bank_label i lab d)) = Some l \<and>
     (i, bl_ID l) \<in> set (db_bank_label_rels (add_bank_label i lab d))"
proof -
  have "find P (xs @ [y]) = Some y" if "find P xs = None" "P y" for P :: "BankAccountLabel \<Rightarrow> bool" and xs y
    using that by (induction xs) (auto split: if_splits)
  then show ?thesis by (auto simp: add_bank_label_def split: option.splits)
qed

lemma add_bank_labels_found:
  "lab \<in> set ls \<Longrightarrow> \<exists>l. find (\<lambda>l. bl_Key l = fst lab) (db_bank_labels (fold (add_bank_label i) ls d)) = Some l \<and>
     (i, bl_ID l) \<in> set (db_bank_label_rels (fold (add_bank_label i) ls d))"
proof (induction ls rule: rev_induct)
  case (snoc l ls)
  show ?case
  proof (cases "lab = l")
    case True
    with add_bank_label_adds [of l i "fold (add_bank_label i) ls d"] show ?thesis by simp
  next
    case False
    with snoc obtain x where "find (\<lambda>l. bl_Key l = fst lab) (db_bank_labels (fold (add_bank_label i) ls d)) = Some x"
      "(i, bl_ID x) \<in> set (db_bank_label_rels (fold (add_bank_label i) ls d))" by auto
    from add_bank_label_keeps [OF this, of i l] show ?thesis by simp
  qed
qed simp

lemma account_create_body_Inr:
  assumes "account_create_body en tr pay s = (Inr i, s')"
  defines "a \<equiv> \<lparr>ba_ID = i, ba_TeamID = acq_TeamId pay, ba_AccountTypeID = acq_AccountTypeId pay, ba_Name = acq_Name pay,
          ba_NumberID = acq_NumberId pay, ba_Balance = 0, ba_Disabled = False, ba_Deleted = False,
          ba_CreatedAt = now en, ba_DeletedAt = zeroTime\<rparr>"
  shows "db_bank_accounts (s_db s') = db_bank_accounts (s_db s) @ [a]"
    and "lab \<in> set (acq_Labels pay) \<Longrightarrow> \<exists>l. find (\<lambda>l. bl_Key l = fst lab) (db_bank_labels (s_db s')) = Some l \<and>
      (i, bl_ID l) \<in> set (db_bank_label_rels (s_db s'))"
proof -
  have "\<exists>d. s_db s' = fold (add_bank_label i) (acq_Labels pay) d \<and> db_bank_accounts d = db_bank_accounts (s_db s) @ [a]"
    using assms(1) by (simp add: account_create_body_def save_bank_account_def Let_def a_def split: if_splits) force
  then obtain d where d: "s_db s' = fold (add_bank_label i) (acq_Labels pay) d" "db_bank_accounts d = db_bank_accounts (s_db s) @ [a]"
    by blast
  from d add_bank_labels_frame [of i "acq_Labels pay" d] show "db_bank_accounts (s_db s') = db_bank_accounts (s_db s) @ [a]" by simp
  from d(1) add_bank_labels_found [of lab "acq_Labels pay" i d]
  show "lab \<in> set (acq_Labels pay) \<Longrightarrow> \<exists>l. find (\<lambda>l. bl_Key l = fst lab) (db_bank_labels (s_db s')) = Some l \<and>
      (i, bl_ID l) \<in> set (db_bank_label_rels (s_db s'))" by simp
qed

lemma set_public_accounts:
  "x \<in> set (public_accounts types P d) \<longleftrightarrow> (\<exists>a \<in> set (db_bank_accounts d). P a \<and> (\<exists>ty. (ba_AccountTypeID a, ty) \<in> set types \<and>
     x = \<lparr>pai_Id = ba_ID a, pai_TeamId = ba_TeamID a, pai_Name = ba_Name a, pai_NumberId = ba_NumberID a, pai_AccountType = ty\<rparr>))"
  by (force simp: public_accounts_def)

text \<open>The condition of the list, and its answer.\<close>

definition listed :: "nat \<Rightarrow> BankAccountV2 \<Rightarrow> bool" where
  "listed team a \<longleftrightarrow> \<not> ba_Deleted a \<and> (team \<noteq> 0 \<longrightarrow> ba_TeamID a = team)"

lemma listed_eq: "listed team = (\<lambda>a. \<not> ba_Deleted a \<and> (team \<noteq> 0 \<longrightarrow> ba_TeamID a = team))"
  by (simp add: listed_def fun_eq_iff)

lemma AccountList_items:
  assumes "HasPermission ident bank_entity src ActCreate = None"
  obtains items where "AccountList types ident (Inr src) team d = Inr items"
    and "map fst items = public_accounts types (listed team) d"
    and "\<And>x ls l i. (x, ls) \<in> set items \<Longrightarrow> l \<in> set (db_bank_labels d) \<Longrightarrow> (pai_Id x, bl_ID l) \<in> set (db_bank_label_rels d) \<Longrightarrow>
      (bl_Key l, bl_Value l) \<in> set ls"
proof -
  let ?data = "public_accounts types (listed team) d"
  let ?items = "map (\<lambda>item. (item, map snd (filter (\<lambda>l. fst l = pai_Id item) (account_labels (map pai_Id ?data) d)))) ?data"
  show thesis
  proof (rule that)
    show "AccountList types ident (Inr src) team d = Inr ?items"
      using assms by (simp add: AccountList_def Let_def listed_eq)
    show "map fst ?items = ?data" by (simp add: comp_def)
    fix x ls l assume x: "(x, ls) \<in> set ?items" and l: "l \<in> set (db_bank_labels d)" and r: "(pai_Id x, bl_ID l) \<in> set (db_bank_label_rels d)"
    from x have "x \<in> set ?data" and ls: "ls = map snd (filter (\<lambda>l. fst l = pai_Id x) (account_labels (map pai_Id ?data) d))" by auto
    then have "(pai_Id x, bl_Key l, bl_Value l) \<in> set (account_labels (map pai_Id ?data) d)"
      using l r by (force simp: account_labels_def)
    then show "(bl_Key l, bl_Value l) \<in> set ls" unfolding ls by force
  qed
qed


lemma deleted_rows:
  assumes "bank_ok d" and "a \<in> set (db_bank_accounts d)"
  shows "set (map (\<lambda>b. if ba_ID b = ba_ID a then mark_deleted en b else b) (db_bank_accounts d)) =
    insert (mark_deleted en a) (set (db_bank_accounts d) - {a})"
proof -
  have "ba_ID b = ba_ID a \<longleftrightarrow> b = a" if "b \<in> set (db_bank_accounts d)" for b
    using same_row [OF assms(1) that assms(2)] by auto
  with assms(2) show ?thesis by (auto split: if_splits)
qed

lemma mark_deleted_longer: "ba_NumberID (mark_deleted en a) \<noteq> ba_NumberID a"
  by (simp add: mark_deleted_def)

text \<open>
  C38: A user who may create accounts for some team can delete the account of any team: the request's
  team is checked, the account's is not. The account leaves every list, the other accounts stay as they are, and
  its number is free: whoever may create accounts for a team can create one with it.
\<close>

theorem deleted_number_reusable:
  assumes "bank_ok (s_db s)" and "a \<in> set (db_bank_accounts (s_db s))" and "adr_AccountIds pay = [ba_ID a]"
    and "HasPermission ident bank_entity (adr_TeamId pay) ActCreate = None"
    and "\<forall>b \<in> set (db_bank_accounts (s_db s)). ba_NumberID b \<noteq> ba_NumberID (mark_deleted en a)"
    and "acq_NumberId req = ba_NumberID a" and "HasPermission ident' bank_entity (acq_TeamId req) ActCreate = None"
  shows "\<exists>s'. AccountDelete en ident pay s = (Inr (), s') \<and>
    set (db_bank_accounts (s_db s')) = insert (mark_deleted en a) (set (db_bank_accounts (s_db s)) - {a}) \<and>
    (\<forall>types team. \<forall>x \<in> set (public_accounts types (listed team) (s_db s')). pai_Id x \<noteq> ba_ID a) \<and>
    (\<exists>i s''. AccountCreate en' tr ident' req s' = (Inr i, s''))"
proof -
  let ?s = "s\<lparr>s_db := (s_db s)\<lparr>db_bank_accounts :=
      map (\<lambda>b. if ba_ID b = ba_ID a then mark_deleted en b else b) (db_bank_accounts (s_db s))\<rparr>\<rparr>"
  have un: "b = a" if "b \<in> set (db_bank_accounts (s_db s))" "ba_ID b = ba_ID a \<or> ba_NumberID b = ba_NumberID a" for b
    using same_row [OF assms(1) that(1) assms(2) that(2)] .
  have "\<not> (\<exists>b \<in> set (db_bank_accounts (s_db s)). \<exists>c \<in> set (db_bank_accounts (s_db s)).
      ba_ID b = ba_ID a \<and> ba_ID c \<noteq> ba_ID a \<and> ba_NumberID c = ba_NumberID (mark_deleted en b))"
    using un assms(5) by blast
  then have d: "delete_account en (ba_ID a) s = (Inr (), ?s)" by (simp add: delete_account_def Let_def)
  have run: "AccountDelete en ident pay s = (Inr (), ?s)"
    using assms(3,4) d by (simp add: AccountDelete_def thenA_def checkA_def bindA_def returnA_def transactionA_def)
  note rows = deleted_rows [OF assms(1,2), of en]
  have "ba_NumberID b \<noteq> acq_NumberId req" if "b \<in> set (db_bank_accounts (s_db ?s))" for b
    using that rows un mark_deleted_longer [of en a] assms(6) by auto
  then have "\<exists>i s''. AccountCreate en' tr ident' req ?s = (Inr i, s'')"
    using assms(7) by (auto simp: AccountCreate_def thenA_def checkA_def bindA_def returnA_def transactionA_def
      account_create_body_def save_bank_account_def Let_def)
  moreover have "pai_Id x \<noteq> ba_ID a" if "x \<in> set (public_accounts types (listed team) (s_db ?s))" for x types team
    using that un rows by (auto simp: set_public_accounts listed_def mark_deleted_def split: if_splits)
  ultimately show ?thesis using run rows by (intro exI [of _ ?s]) simp
qed

subsection \<open>Two accounts\<close>

definition account_request :: "nat \<Rightarrow> AccountCreateRequest" where
  "account_request team = \<lparr>acq_TeamId = team, acq_Name = ''main'', acq_NumberId = show_nat 31, acq_AccountTypeId = 0,
     acq_Labels = [(''use'', ''shop'')]\<rparr>"

lemma bank_numbers: "show_nat 31 = ''31''" "show_nat 32 = ''32''"
  by code_simp+

lemma bank_db_ok: "bank_ok bank_db" "db_bank_accounts bank_db = [sample_bank 31 7, sample_bank 32 8]"
  by (simp_all add: bank_ok_def bank_db_def sample_bank_def bank_numbers empty_db_def)

theorem account_numbers_unique_witness:
  "\<exists>s'. AccountUpdate sample_env anyone (Inr 7) \<lparr>auq_Id = 32, auq_Name = ''x'', auq_NumberId = ''9''\<rparr> (session_of bank_db) = (Inr (), s') \<and>
     bank_ok (s_db s')"
proof -
  let ?pay = "\<lparr>auq_Id = 32, auq_Name = ''x'', auq_NumberId = ''9''\<rparr>"
  have "\<exists>s'. AccountUpdate sample_env anyone (Inr 7) ?pay (session_of bank_db) = (Inr (), s')"
    by (simp add: AccountUpdate_def thenA_def checkA_def bindA_def returnA_def update_bank_account_def Let_def bank_db_ok sample_bank_def bank_numbers)
  then obtain s' where r: "AccountUpdate sample_env anyone (Inr 7) ?pay (session_of bank_db) = (Inr (), s')" by blast
  then have "account_step\<^sup>*\<^sup>* (session_of bank_db) s'" by (blast intro: account_step.change)
  from account_numbers_unique [OF this] r bank_db_ok show ?thesis by auto
qed


theorem deleted_number_reusable_witness:
  "\<exists>s' i s''. AccountDelete sample_env anyone \<lparr>adr_TeamId = 8, adr_AccountIds = [31]\<rparr> (session_of bank_db) = (Inr (), s') \<and>
     AccountCreate sample_env False anyone (account_request 9) s' = (Inr i, s'')"
proof -
  have m: "\<forall>b \<in> set (db_bank_accounts bank_db). ba_NumberID b \<noteq> ba_NumberID (mark_deleted sample_env (sample_bank 31 7))"
    by (simp add: bank_db_ok sample_bank_def bank_numbers mark_deleted_def)
  from deleted_number_reusable [of "session_of bank_db" "sample_bank 31 7" "\<lparr>adr_TeamId = 8, adr_AccountIds = [31]\<rparr>" anyone sample_env
      "account_request 9" anyone sample_env False] bank_db_ok m
  show ?thesis by (auto simp: sample_bank_def account_request_def)
qed

end
