(* ===== verification/RecalcSpec.thy ===== *)
theory RecalcSpec
  imports DailyCalc
begin

section \<open>Recalculating the daily balances: properties\<close>

text \<open>
  A recalculation leaves in the rows of the journal's days what the journal holds for the day, and all
  other rows as they were. The balances are those of the day: the running balances that the report
  service keeps in the same table are lost.
\<close>

subsection \<open>One entry\<close>

context daily_table
begin

lemma addDaily_existing:
  "\<exists>r \<in> set rows. slot r = slot d \<Longrightarrow>
     addDaily I d (rows, sq) =
       (map (\<lambda>r. if slot r = slot d then AddBalance I (bal d) (IncDebitCredit I (debit d) (credit d) r) else r) rows, sq)"
  by (auto simp: addDaily_def)

lemma addDaily_new:
  "\<not> (\<exists>r \<in> set rows. slot r = slot d) \<Longrightarrow> addDaily I d (rows, sq) = (rows @ [SetID I (Suc sq) d], Suc sq)"
  by (auto simp: addDaily_def)

end

definition row_slot :: "AccountDailyBalance \<Rightarrow> int \<times> nat \<times> nat" where
  "row_slot r = (nanos (acd_Day r), acd_AccountID r, acd_JournalTeamID r)"

definition entry_slot :: "JournalEntry \<Rightarrow> int \<times> nat \<times> nat" where
  "entry_slot e = (nanos (ParseDate (je_EntryTime e)), je_AccountID e, je_TeamID e)"

definition entry_balance :: "AccountCache \<Rightarrow> JournalEntry \<Rightarrow> f64" where
  "entry_balance accounts e = (case accounts (je_AccountID e) of Inl _ \<Rightarrow> 0 | Inr a \<Rightarrow> day_balance a e)"

text \<open>The days of an account that were reset.\<close>

definition day_of :: "int \<times> nat \<times> nat \<Rightarrow> int \<times> nat" where
  "day_of k = (fst k, fst (snd k))"

definition day_sums :: "AccountCache \<Rightarrow> JournalEntry list \<Rightarrow> AccountDailyBalance \<Rightarrow> bool" where
  "day_sums accounts es r \<longleftrightarrow>
     val (acd_Debit r) = booked entry_slot (\<lambda>_. True) je_Debit es (row_slot r) \<and>
     val (acd_Credit r) = booked entry_slot (\<lambda>_. True) je_Credit es (row_slot r) \<and>
     val (acd_Balance r) = booked entry_slot (\<lambda>_. True) (entry_balance accounts) es (row_slot r)"

definition amounts_ok :: "AccountCache \<Rightarrow> JournalEntry list \<Rightarrow> bool" where
  "amounts_ok accounts es \<longleftrightarrow> whole_list (map je_Debit es) \<and> whole_list (map je_Credit es) \<and>
     whole_list (map (entry_balance accounts) es)"

text \<open>What holds once \<open>es\<close> have been added to the table \<open>rows0\<close>, and \<open>ks\<close> are the days that were reset.\<close>

definition recalculated ::
  "AccountCache \<Rightarrow> AccountDailyBalance list \<Rightarrow> (int \<times> nat) set \<Rightarrow> JournalEntry list \<Rightarrow> AccountDailyBalance list \<Rightarrow> bool" where
  "recalculated accounts rows0 ks es rows \<longleftrightarrow> distinct (map row_slot rows) \<and>
     entry_slot ` set es \<subseteq> row_slot ` set rows \<and> row_slot ` set rows0 \<subseteq> row_slot ` set rows \<and>
     (\<forall>r \<in> set rows. if day_of (row_slot r) \<in> ks then day_sums accounts es r else r \<in> set rows0)"

lemma recalculated_map:
  assumes inv: "recalculated accounts rows0 ks es rows" and s: "\<And>r. row_slot (f r) = row_slot r"
    and es: "entry_slot ` set es' \<subseteq> row_slot ` set rows"
    and f: "\<And>r. r \<in> set rows \<Longrightarrow> if day_of (row_slot r) \<in> ks' then day_sums accounts es' (f r) else f r \<in> set rows0"
  shows "recalculated accounts rows0 ks' es' (map f rows)"
proof -
  have m: "map row_slot (map f rows) = map row_slot rows" using s by simp
  then have m': "row_slot ` set (map f rows) = row_slot ` set rows" by (metis set_map)
  have "if day_of (row_slot q) \<in> ks' then day_sums accounts es' q else q \<in> set rows0" if q: "q \<in> set (map f rows)" for q
  proof -
    from q obtain r where r: "r \<in> set rows" "q = f r" by auto
    with f [OF r(1)] show ?thesis unfolding r(2) s by blast
  qed
  with inv es show ?thesis unfolding recalculated_def m m' by blast
qed

lemma recalculated_reset:
  assumes inv: "recalculated accounts rows0 ks es rows" and k: "k \<notin> (day_of \<circ> entry_slot) ` set es"
  shows "recalculated accounts rows0 (insert k ks) es (map (\<lambda>r. if day_of (row_slot r) = k then reset_row r else r) rows)"
proof (rule recalculated_map [OF inv])
  show s: "row_slot (if day_of (row_slot r) = k then reset_row r else r) = row_slot r" for r by (simp add: row_slot_def reset_row_def)
  show "entry_slot ` set es \<subseteq> row_slot ` set rows" using inv unfolding recalculated_def by blast
  fix r assume r: "r \<in> set rows"
  have "booked entry_slot (\<lambda>_. True) amt es (row_slot r) = 0" if "day_of (row_slot r) = k" for amt
    by (rule booked_none) (use k that in \<open>auto simp: image_iff\<close>)
  then have "day_sums accounts es (reset_row r)" if "day_of (row_slot r) = k"
    using that s [of r] by (simp add: day_sums_def) (simp add: reset_row_def)
  with inv r show "if day_of (row_slot r) \<in> insert k ks then day_sums accounts es (if day_of (row_slot r) = k then reset_row r else r)
      else (if day_of (row_slot r) = k then reset_row r else r) \<in> set rows0"
    by (simp add: recalculated_def)
qed

lemma day_sums_step:
  assumes ok: "amounts_ok accounts (es @ [e])" and a: "accounts (je_AccountID e) = Inr a" and r: "day_sums accounts es r"
  shows "row_slot r \<noteq> entry_slot e \<Longrightarrow> day_sums accounts (es @ [e]) r"
    and "row_slot r = entry_slot e \<Longrightarrow> row_slot q = row_slot r \<Longrightarrow> acd_Debit q = acd_Debit r + je_Debit e \<Longrightarrow>
      acd_Credit q = acd_Credit r + je_Credit e \<Longrightarrow> acd_Balance q = acd_Balance r + day_balance a e \<Longrightarrow> day_sums accounts (es @ [e]) q"
proof -
  show "row_slot r \<noteq> entry_slot e \<Longrightarrow> day_sums accounts (es @ [e]) r" using r by (simp add: day_sums_def)
  have ex: "val (x + amt e) = booked entry_slot (\<lambda>_. True) amt es k + val (amt e)"
    if "whole_list (map amt (es @ [e]))" "val x = booked entry_slot (\<lambda>_. True) amt es k" for amt x k
  proof -
    from that(1) have w: "whole_list (map amt es @ [amt e])" by simp
    have "whole x" using booked_whole [of amt es entry_slot "\<lambda>_. True" k] booked_bound [of entry_slot "\<lambda>_. True" amt es k]
        whole_list_snoc(1,3) [OF w] that(2) by (simp add: whole_def whole_list_def)
    from exact_plus(1) [OF this whole_list_snoc(2) [OF w] that(2) booked_step [OF w]] show ?thesis .
  qed
  assume "row_slot r = entry_slot e" "row_slot q = row_slot r" "acd_Debit q = acd_Debit r + je_Debit e"
      "acd_Credit q = acd_Credit r + je_Credit e" "acd_Balance q = acd_Balance r + day_balance a e"
  moreover have "day_balance a e = entry_balance accounts e" using a by (simp add: entry_balance_def)
  ultimately show "day_sums accounts (es @ [e]) q" using r ok ex [of je_Debit] ex [of je_Credit] ex [of "entry_balance accounts"]
    by (simp add: day_sums_def amounts_ok_def)
qed

lemma recalculated_add:
  assumes inv: "recalculated accounts rows0 ks es rows" and k: "day_of (entry_slot e) \<in> ks" and ok: "amounts_ok accounts (es @ [e])"
    and a: "accounts (je_AccountID e) = Inr a" and add: "addDaily acd (new_acd (entry_day a e)) (rows, sq) = (rows', sq')"
    and ks: "(day_of \<circ> entry_slot) ` set es \<subseteq> ks"
  shows "recalculated accounts rows0 ks (es @ [e]) rows'"
proof -
  let ?n = "new_acd (entry_day a e)"
  have n: "(nanos (acd_Day ?n), acd_AccountID ?n, acd_JournalTeamID ?n) = entry_slot e" "acd_Debit ?n = je_Debit e" "acd_Credit ?n = je_Credit e"
    "acd_Balance ?n = day_balance a e"
    by (simp_all add: new_acd_def entry_day_def entry_slot_def)
  note step = day_sums_step [OF ok a]
  have old: "if day_of (row_slot r) \<in> ks then day_sums accounts (es @ [e]) r else r \<in> set rows0"
    if "r \<in> set rows" "row_slot r \<noteq> entry_slot e" for r
    using inv that step(1) [of r] by (auto simp: recalculated_def)
  show ?thesis
  proof (cases "\<exists>r \<in> set rows. row_slot r = entry_slot e")
    case True
    let ?f = "\<lambda>r. if row_slot r = entry_slot e then AddBalance acd (acd_Balance ?n) (IncDebitCredit acd (acd_Debit ?n) (acd_Credit ?n) r) else r"
    from True have r': "rows' = map ?f rows"
      using acd_table.addDaily_existing [of rows ?n sq] add n(1) by (simp add: row_slot_def)
    have s: "row_slot (?f r) = row_slot r" for r by (simp add: row_slot_def acd_defs)
    show ?thesis unfolding r'
    proof (rule recalculated_map [OF inv])
      from True have "entry_slot e \<in> row_slot ` set rows" by (metis imageI)
      with inv show "entry_slot ` set (es @ [e]) \<subseteq> row_slot ` set rows" by (simp add: recalculated_def)
      fix r assume r: "r \<in> set rows"
      show "if day_of (row_slot r) \<in> ks then day_sums accounts (es @ [e]) (?f r) else ?f r \<in> set rows0"
      proof (cases "row_slot r = entry_slot e")
        case True
        with inv r k have "day_sums accounts es r" by (auto simp: recalculated_def)
        from step(2) [OF this True, of "?f r"] True s [of r] n k show ?thesis by (simp add: acd_defs)
      next
        case False
        with old [OF r] show ?thesis by simp
      qed
    qed (rule s)
  next
    case False
    then have r': "rows' = rows @ [SetID acd (Suc sq) ?n]"
      using acd_table.addDaily_new [of rows ?n sq] add n(1) by (simp add: row_slot_def)
    have s: "row_slot (SetID acd (Suc sq) ?n) = entry_slot e" using n(1) by (simp add: row_slot_def acd_defs)
    have "entry_slot e \<notin> entry_slot ` set es" using inv False by (auto simp: recalculated_def image_iff)
    then have "filter (\<lambda>d. entry_slot d = entry_slot e) es = []" by (auto simp: filter_empty_conv image_iff)
    then have "booked entry_slot (\<lambda>_. True) amt es (entry_slot e) = 0" for amt by (simp add: booked_def)
    then have "day_sums accounts (es @ [e]) (SetID acd (Suc sq) ?n)"
      using n a s by (simp add: day_sums_def acd_defs entry_balance_def)
    with inv False old k s show ?thesis unfolding recalculated_def r' by (auto simp: image_iff)
  qed
qed

lemma recalc_loop_sums:
  assumes "recalc_loop accounts es' st = (None, st')" and "amounts_ok accounts (es @ es')"
    and "recalculated accounts rows0 (set (cl_days st)) es (cl_rows st)" and "set (cl_days st) = (day_of \<circ> entry_slot) ` set es"
  shows "recalculated accounts rows0 ((day_of \<circ> entry_slot) ` set (es @ es')) (es @ es') (cl_rows st')"
  using assms
proof (induction es' arbitrary: es st)
  case (Cons e es')
  obtain a where a: "accounts (je_AccountID e) = Inr a"
    using Cons.prems(1) by (cases "accounts (je_AccountID e)") (auto simp: AddEntry_def)
  let ?n = "new_acd (entry_day a e)" and ?k = "day_of (entry_slot e)"
  define st1 where "st1 = snd (recalc_hook ?n st)"
  have h: "recalc_hook ?n st = (None, st1)" by (simp add: st1_def recalc_hook_def Let_def)
  obtain rows sq where ad: "addDaily acd ?n (cl_rows st1, cl_seq st1) = (rows, sq)" by (cases "addDaily acd ?n (cl_rows st1, cl_seq st1)")
  have run: "recalc_loop accounts es' (st1\<lparr>cl_rows := rows, cl_seq := sq\<rparr>) = (None, st')"
    using Cons.prems(1) a h ad by (simp add: AddEntry_def Let_def)
  have key: "(nanos (acd_Day ?n), acd_AccountID ?n) = ?k" by (simp add: new_acd_def entry_day_def entry_slot_def day_of_def)
  have rk: "day_equal (acd_Day r) (acd_Day ?n) \<and> acd_AccountID r = acd_AccountID ?n \<longleftrightarrow> day_of (row_slot r) = ?k" for r
    unfolding key [symmetric] by (auto simp: day_equal_def row_slot_def day_of_def)
  have days: "set (cl_days st1) = insert ?k ((day_of \<circ> entry_slot) ` set es)"
    using h Cons.prems(4) unfolding recalc_hook_def Let_def key by (auto split: if_splits)
  have hooked: "recalculated accounts rows0 (set (cl_days st1)) es (cl_rows st1)"
  proof (cases "?k \<in> set (cl_days st)")
    case True
    with h Cons.prems(3) show ?thesis unfolding recalc_hook_def Let_def key by simp
  next
    case False
    with h have "cl_rows st1 = map (\<lambda>r. if day_of (row_slot r) = ?k then reset_row r else r) (cl_rows st)"
      unfolding recalc_hook_def Let_def key rk by auto
    with recalculated_reset [of accounts rows0 "set (cl_days st)" es "cl_rows st" ?k] False Cons.prems(3,4) days show ?thesis by simp
  qed
  have ok: "amounts_ok accounts (es @ [e])"
  proof -
    have "whole_list xs" if "whole_list (xs @ ys)" for xs ys
    proof -
      from that have "list_all whole xs" "abs_sum xs + abs_sum ys \<le> 2 ^ 53" by (simp_all add: whole_list_def)
      moreover have "0 \<le> abs_sum ys" by simp
      ultimately show ?thesis unfolding whole_list_def by linarith
    qed
    with Cons.prems(2) show ?thesis unfolding amounts_ok_def by (metis append.assoc append_Cons append_Nil map_append)
  qed
  have "recalculated accounts rows0 (set (cl_days st1)) (es @ [e]) rows"
    by (rule recalculated_add [OF hooked _ ok a ad]) (auto simp: days)
  with Cons.IH [OF run, of "es @ [e]"] Cons.prems(2) days show ?case by auto
qed auto

text \<open>
  C22: A recalculation that returns without an error leaves one row per day, account and team: an entry's
  row exists, and the rows of every day and account the journal has entries for hold exactly the sums of
  that day's debits, credits and balance changes; so the balance is not the running balance. All other rows are
  untouched.
\<close>

theorem recalculated_day_sums:
  assumes "RecalculateDaily d (rows, sq) = (None, rows', sq')" and "distinct (map row_slot rows)"
    and "amounts_ok (DBAccount_Get d) (db_entries d)"
  shows "distinct (map row_slot rows') \<and> entry_slot ` set (db_entries d) \<subseteq> row_slot ` set rows' \<and>
    (\<forall>r \<in> set rows'. if \<exists>e \<in> set (db_entries d). day_of (entry_slot e) = day_of (row_slot r)
       then day_sums (DBAccount_Get d) (db_entries d) r else r \<in> set rows)"
proof -
  let ?st = "\<lparr>cl_rows = rows, cl_seq = sq, cl_days = []\<rparr>"
  obtain c where c: "recalc_loop (DBAccount_Get d) (db_entries d) ?st = (None, c)" "rows' = cl_rows c"
    using assms(1) by (auto simp: RecalculateDaily_def split: prod.splits)
  have "recalculated (DBAccount_Get d) rows (set (cl_days ?st)) [] (cl_rows ?st)"
    using assms(2) by (simp add: recalculated_def)
  from recalc_loop_sums [OF c(1) _ this] assms(3) c(2)
  have "recalculated (DBAccount_Get d) rows ((day_of \<circ> entry_slot) ` set (db_entries d)) (db_entries d) rows'" by simp
  then show ?thesis unfolding recalculated_def by (auto simp: image_iff) metis+
qed

subsection \<open>Two entries of a day\<close>

text \<open>The row of the day holds 350 debit, 100 credit and a balance of 250, whatever it held before.\<close>

definition day_db :: db where
  "day_db = sample_db\<lparr>db_entries := [paid_row 101 3 250 0, paid_row 102 3 100 0, paid_row 103 3 0 100]\<rparr>"

definition stale_row :: AccountDailyBalance where
  "stale_row = \<lparr>acd_ID = 2, acd_Day = ParseDate sample_time, acd_AccountID = 3, acd_JournalTeamID = 7, acd_Debit = f64_of 9,
     acd_Credit = f64_of 9, acd_Balance = f64_of 1000, acd_StartBalance = f64_of 750\<rparr>"

theorem recalculated_day_sums_witness:
  "\<exists>r sq. RecalculateDaily day_db ([stale_row], 2) = (None, [r], sq) \<and>
     val (acd_Debit r) = 350 \<and> val (acd_Credit r) = 100 \<and> val (acd_Balance r) = 250"
proof -
  let ?p = paid_row and ?acc = "sample_account 3 ''receivable'' 7 ''d''"
  have acc: "DBAccount_Get day_db 3 = Inr ?acc"
    by (simp add: DBAccount_Get_def account_by_id_def day_db_def sample_db_def sample_accounts_def sample_account_def)
  have es: "db_entries day_db = [?p 101 3 250 0, ?p 102 3 100 0, ?p 103 3 0 100]" by (simp add: day_db_def)
  have p [simp]: "je_AccountID (?p i 3 x y) = 3" "je_TeamID (?p i 3 x y) = 7" "je_EntryTime (?p i 3 x y) = sample_time"
    "je_Debit (?p i 3 x y) = f64_of x" "je_Credit (?p i 3 x y) = f64_of y" for i x y by (simp_all add: paid_row_def newEntry_def)
  have slot: "entry_slot (?p i 3 x y) = (nanos (ParseDate sample_time), 3, 7)" for i x y by (simp add: entry_slot_def)
  have bal: "entry_balance (DBAccount_Get day_db) (?p i 3 x y) = f64_of x - f64_of y" for i x y
    by (simp add: entry_balance_def acc day_balance_def) (simp add: sample_account_def DebitBalance_def CreditBalance_def)
  have ok: "amounts_ok (DBAccount_Get day_db) (db_entries day_db)"
    by (simp add: amounts_ok_def es bal whole_list_def whole_f64_of val_f64_of f64_of_arith)
  have add: "\<exists>st'. AddEntry (DBAccount_Get day_db) (Some recalc_hook) (?p i 3 x y) st = (None, st') \<and>
      (\<exists>r. cl_rows st' = [r] \<and> row_slot r = (nanos (ParseDate sample_time), 3, 7))"
    if "cl_rows st = [r]" "row_slot r = (nanos (ParseDate sample_time), 3, 7)" for i x y st r
    using that by (auto simp: AddEntry_def acc recalc_hook_def addDaily_def Let_def new_acd_def entry_day_def row_slot_def reset_row_def
        acd_defs day_defs)
  have "row_slot stale_row = (nanos (ParseDate sample_time), 3, 7)" by (simp add: row_slot_def stale_row_def)
  then obtain st1 r1 where 1: "AddEntry (DBAccount_Get day_db) (Some recalc_hook) (?p 101 3 250 0)
      \<lparr>cl_rows = [stale_row], cl_seq = 2, cl_days = []\<rparr> = (None, st1)" "cl_rows st1 = [r1]" "row_slot r1 = (nanos (ParseDate sample_time), 3, 7)"
    using add [of "\<lparr>cl_rows = [stale_row], cl_seq = 2, cl_days = []\<rparr>" stale_row 101 250 0] by auto
  obtain st2 r2 where 2: "AddEntry (DBAccount_Get day_db) (Some recalc_hook) (?p 102 3 100 0) st1 = (None, st2)" "cl_rows st2 = [r2]"
      "row_slot r2 = (nanos (ParseDate sample_time), 3, 7)"
    using add [OF 1(2,3), of 102 100 0] by blast
  obtain st3 r where 3: "AddEntry (DBAccount_Get day_db) (Some recalc_hook) (?p 103 3 0 100) st2 = (None, st3)" "cl_rows st3 = [r]"
      "row_slot r = (nanos (ParseDate sample_time), 3, 7)"
    using add [OF 2(2,3), of 103 0 100] by blast
  have run: "RecalculateDaily day_db ([stale_row], 2) = (None, [r], cl_seq st3)"
    by (simp add: RecalculateDaily_def es 1 2 3)
  from recalculated_day_sums [OF run _ ok] have "day_sums (DBAccount_Get day_db) (db_entries day_db) r"
    using 3(3) slot by (simp add: es)
  with run 3(3) show ?thesis by (auto simp: day_sums_def es slot bal val_f64_of f64_of_arith)
qed

end
