(* ===== verification/ResyncSpec.thy ===== *)
theory ResyncSpec
  imports Resync DailyContract Samples
begin

section \<open>Recomputing the daily balances: properties\<close>

text \<open>
  The resync statements rebuild the tables from the journal when the start balances are computed last. The
  statements are written once for both tables, as a locale over the table's interface.
\<close>

subsection \<open>Sums of groups\<close>

text \<open>The sums of the groups whose key satisfies \<open>Q\<close> are whole amounts again and sum to the rows' total.\<close>

lemma group_sums:
  assumes w: "whole_list (map c xs)"
    and ss_def: "ss = map (\<lambda>(k, rs). sum_col c rs) (filter (\<lambda>(k, rs). Q k) (group_by f xs))"
  shows "whole_list ss" and "val_sum ss = sum_list (map (\<lambda>x. val (c x)) (filter (\<lambda>x. Q (f x)) xs))"
proof -
  let ?ks = "filter Q (map f (distinct_on f xs))"
  have d: "distinct ?ks" using distinct_keys_on [of f xs] by simp
  have ks: "set ?ks = {k \<in> f ` set xs. Q k}" using keys_distinct_on [of f xs] by auto
  have ss: "ss = map (\<lambda>k. sum_col c (filter (\<lambda>y. f y = k) xs)) ?ks"
    unfolding ss_def group_by_keys_eq by (simp add: filter_map comp_def)
  have in_ks: "filter (\<lambda>y. f y \<in> set ?ks) xs = filter (\<lambda>x. Q (f x)) xs" unfolding ks by (intro filter_cong) auto
  have v: "val (sum_col c (filter P xs)) = sum_list (map (\<lambda>x. val (c x)) (filter P xs))"
    and wh: "whole (sum_col c (filter P xs))" for P
  proof -
    have "foldl (\<lambda>s r. s + c r) a rows = foldl (+) a (map c rows)" for a rows by (induction rows arbitrary: a) simp_all
    with whole_list_sum [OF whole_list_where [OF w, of P]]
    show "val (sum_col c (filter P xs)) = sum_list (map (\<lambda>x. val (c x)) (filter P xs))" "whole (sum_col c (filter P xs))"
      by (simp_all add: sum_col_def val_sum_def comp_def)
  qed
  have "abs_sum ss \<le> (\<Sum>k\<leftarrow>?ks. sum_list (map (\<lambda>x. \<bar>val (c x)\<bar>) (filter (\<lambda>y. f y = k) xs)))"
  proof -
    have "\<bar>sum_list (map h ys)\<bar> \<le> sum_list (map (\<lambda>x. \<bar>h x\<bar>) ys)" for h :: "'a \<Rightarrow> rat" and ys
    proof (induction ys)
      case (Cons y ys)
      then show ?case using abs_triangle_ineq [of "h y" "sum_list (map h ys)"] by simp
    qed simp
    then show ?thesis unfolding ss abs_sum_def map_map by (intro sum_list_mono) (simp add: v)
  qed
  also have "\<dots> \<le> abs_sum (map c xs)"
    unfolding sum_groups [OF d] using abs_filter by (simp add: abs_sum_def comp_def)
  finally show "whole_list ss" using w wh unfolding ss by (auto simp: whole_list_def list_all_iff)
  show "val_sum ss = sum_list (map (\<lambda>x. val (c x)) (filter (\<lambda>x. Q (f x)) xs))"
    unfolding ss val_sum_def map_map using sum_groups [OF d, of "\<lambda>x. val (c x)" f xs] in_ks by (simp add: comp_def v)
qed

subsection \<open>What the statements compute\<close>

text \<open>A column of the rows, and its exact sum over the entries whose key satisfies \<open>P\<close>.\<close>

abbreviation debit_col :: "'k sync_row \<Rightarrow> f64" where "debit_col \<equiv> \<lambda>(_, x, _, _). x"
abbreviation credit_col :: "'k sync_row \<Rightarrow> f64" where "credit_col \<equiv> \<lambda>(_, _, x, _). x"
abbreviation balance_col :: "'k sync_row \<Rightarrow> f64" where "balance_col \<equiv> \<lambda>(_, _, _, x). x"

definition journal_sum :: "(int \<times> 'k \<times> nat \<Rightarrow> bool) \<Rightarrow> ('k sync_row \<Rightarrow> f64) \<Rightarrow> 'k sync_row list \<Rightarrow> rat" where
  "journal_sum P c en = sum_list (map (\<lambda>r. val (c r)) (filter (\<lambda>r. P (fst r)) en))"

definition whole_rows :: "'k sync_row list \<Rightarrow> bool" where
  "whole_rows en \<longleftrightarrow> whole_list (map debit_col en) \<and> whole_list (map credit_col en) \<and> whole_list (map balance_col en)"

text \<open>A row whose columns are the sums of the journal, and its start balance.\<close>

definition exact_row :: "'k sync_row list \<Rightarrow> int \<Rightarrow> 'k \<times> nat \<Rightarrow> f64 \<Rightarrow> f64 \<Rightarrow> f64 \<Rightarrow> bool" where
  "exact_row en dy sl x y b \<longleftrightarrow> val x = journal_sum (\<lambda>k. k = (dy, sl)) debit_col en \<and>
     val y = journal_sum (\<lambda>k. k = (dy, sl)) credit_col en \<and>
     val b = journal_sum (\<lambda>k. snd k = sl \<and> fst k \<le> dy) balance_col en"

definition exact_start :: "'k sync_row list \<Rightarrow> int \<Rightarrow> 'k \<times> nat \<Rightarrow> f64 \<Rightarrow> bool" where
  "exact_start en dy sl x \<longleftrightarrow> val x = journal_sum (\<lambda>k. snd k = sl \<and> fst k < dy) balance_col en"

lemma summary_keys: "fst ` set (sync_summary en) = fst ` set en" "distinct (map fst (sync_summary en))"
proof -
  have "map fst (sync_summary en) = map fst (group_by fst en)" by (simp add: sync_summary_def comp_def split_beta)
  with group_by_keys [of fst en] show "fst ` set (sync_summary en) = fst ` set en" "distinct (map fst (sync_summary en))"
    by (metis set_map)+
qed

lemma summary_row:
  assumes "(k, x, y, b) \<in> set (sync_summary en)" and "whole_rows en"
  shows "val x = journal_sum (\<lambda>k'. k' = k) debit_col en" and "val y = journal_sum (\<lambda>k'. k' = k) credit_col en"
proof -
  from assms(1) have "x = sum_col debit_col (filter (\<lambda>r. fst r = k) en)" "y = sum_col credit_col (filter (\<lambda>r. fst r = k) en)"
    by (auto simp: sync_summary_def group_by_rows)
  with assms(2) show "val x = journal_sum (\<lambda>k'. k' = k) debit_col en" "val y = journal_sum (\<lambda>k'. k' = k) credit_col en"
    using sum_col_exact [OF whole_list_where, of debit_col en "\<lambda>r. fst r = k"]
      sum_col_exact [OF whole_list_where, of credit_col en "\<lambda>r. fst r = k"]
    by (simp_all add: journal_sum_def whole_rows_def val_sum_def comp_def)
qed

lemma running_exact:
  assumes "whole_rows en"
  shows "val (sync_running (sync_summary en) (dy, sl)) = journal_sum (\<lambda>k. snd k = sl \<and> fst k \<le> dy) balance_col en \<and>
    whole (sync_running (sync_summary en) (dy, sl))"
proof -
  let ?Q = "\<lambda>k. snd k = sl \<and> fst k \<le> dy"
  let ?rows = "filter (\<lambda>r. ?Q (fst r)) (sync_summary en)"
  have cols: "map balance_col ?rows = map (\<lambda>(k, rs). sum_col balance_col rs) (filter (\<lambda>(k, rs). ?Q k) (group_by fst en))"
    unfolding sync_summary_def filter_map map_map by (simp add: comp_def case_prod_unfold)
  have w: "whole_list (map balance_col en)" using assms by (simp add: whole_rows_def)
  note g = group_sums [OF w cols]
  have m: "mset (map balance_col (order_asc (\<lambda>r. fst (fst r)) ?rows)) = mset (map balance_col ?rows)" by (simp add: order_mset)
  then have "whole_list (map balance_col (order_asc (\<lambda>r. fst (fst r)) ?rows))"
    using g(1) whole_list_mset [OF m] by simp
  moreover have "foldl (\<lambda>s r. s + c r) a rows = foldl (+) a (map c rows)" for a rows and c :: "'a sync_row \<Rightarrow> f64"
    by (induction rows arbitrary: a) simp_all
  ultimately show ?thesis
    using whole_list_sum val_sum_mset [OF m] g(2) by (simp add: sync_running_def sum_col_def journal_sum_def)
qed

subsection \<open>The two tables\<close>

text \<open>
  \<open>ups\<close> is the upsert of one row, \<open>lag\<close> the statement that computes the start balances; \<open>put\<close> writes the columns the
  upsert writes, \<open>fresh\<close> is the row it inserts otherwise, \<open>begin\<close> writes a start balance.
\<close>

locale sync_table = daily_table I day key debit credit bal strt
  for I :: "'r DailyBalance" and day :: "'r \<Rightarrow> int" and key :: "'r \<Rightarrow> 'k \<times> nat" and debit credit bal strt :: "'r \<Rightarrow> f64" +
  fixes put :: "f64 \<Rightarrow> f64 \<Rightarrow> f64 \<Rightarrow> 'r \<Rightarrow> 'r" and fresh :: "int \<Rightarrow> 'k \<times> nat \<Rightarrow> nat \<Rightarrow> 'r" and open_with :: "f64 \<Rightarrow> 'r \<Rightarrow> 'r"
    and ups :: "'k sync_row \<Rightarrow> 'r list \<times> nat \<Rightarrow> 'r list \<times> nat" and lag :: "'r list \<Rightarrow> 'r list"
  assumes put: "day (put x y b r) = day r" "key (put x y b r) = key r" "debit (put x y b r) = x" "credit (put x y b r) = y"
      "bal (put x y b r) = b" "strt (put x y b r) = strt r"
    and fresh: "day (fresh n k i) = n" "key (fresh n k i) = k" "strt (fresh n k i) = 0"
    and opened: "day (open_with x r) = day r" "key (open_with x r) = key r" "debit (open_with x r) = debit r"
      "credit (open_with x r) = credit r" "bal (open_with x r) = bal r" "strt (open_with x r) = x"
    and ups_hit: "\<exists>r \<in> set rows. day r = n \<and> key r = k \<Longrightarrow>
      ups ((n, k), x, y, b) (rows, sq) = (map (\<lambda>r. if day r = n \<and> key r = k then put x y b r else r) rows, sq)"
    and ups_miss: "\<not> (\<exists>r \<in> set rows. day r = n \<and> key r = k) \<Longrightarrow>
      ups ((n, k), x, y, b) (rows, sq) = (rows @ [put x y b (fresh n k (Suc sq))], Suc sq)"
    and lag: "lag rows = map (\<lambda>r. open_with (beforeBalance I r rows) r) rows"
begin

lemmas row_laws [simp] = put fresh opened

definition holds :: "'k sync_row \<Rightarrow> 'r \<Rightarrow> bool" where
  "holds s r \<longleftrightarrow> fst s = slot r \<and> debit r = debit_col s \<and> credit r = credit_col s \<and> bal r = balance_col s"

lemma ups_step:
  assumes "ups ((n, k), x, y, b) (rows, sq) = (rows', sq')" and "distinct (map slot rows)"
  shows "distinct (map slot rows')" and "slot ` set rows' = insert (n, k) (slot ` set rows)"
    and "\<forall>r \<in> set rows'. if slot r = (n, k) then holds ((n, k), x, y, b) r else r \<in> set rows"
    and "\<forall>r \<in> set rows'. strt r = 0 \<or> (\<exists>q \<in> set rows. strt r = strt q \<and> slot r = slot q)"
proof -
  have *: "distinct (map slot rows') \<and> slot ` set rows' = insert (n, k) (slot ` set rows) \<and>
    (\<forall>r \<in> set rows'. if slot r = (n, k) then holds ((n, k), x, y, b) r else r \<in> set rows) \<and>
    (\<forall>r \<in> set rows'. strt r = 0 \<or> (\<exists>q \<in> set rows. strt r = strt q \<and> slot r = slot q))"
  proof (cases "\<exists>r \<in> set rows. day r = n \<and> key r = k")
    case True
    let ?f = "\<lambda>r. if day r = n \<and> key r = k then put x y b r else r"
    have r': "rows' = map ?f rows" using ups_hit [OF True] assms(1) by simp
    have s: "slot (?f r) = slot r" for r by simp
    then have m: "map slot (map ?f rows) = map slot rows" by simp
    have "slot ` set (map ?f rows) = slot ` set rows" using arg_cong [OF m, of set] by (simp only: set_map)
    moreover have "(n, k) \<in> slot ` set rows" using True by force
    ultimately have i: "slot ` set rows' = insert (n, k) (slot ` set rows)" unfolding r' by (simp only: insert_absorb)
    have c: "(if slot q = (n, k) then holds ((n, k), x, y, b) q else q \<in> set rows) \<and>
        (\<exists>r \<in> set rows. strt q = strt r \<and> slot q = slot r)" if "q \<in> set (map ?f rows)" for q
    proof -
      from that obtain r where r: "r \<in> set rows" "q = ?f r" by auto
      then show ?thesis by (cases "day r = n \<and> key r = k") (auto simp: holds_def)
    qed
    have "distinct (map slot rows')" using assms(2) unfolding r' m .
    then show ?thesis using i c unfolding r' by (intro conjI ballI disjI2) blast+
  next
    case False
    then have "(n, k) \<notin> slot ` set rows" by auto
    moreover have "\<exists>r0. rows' = rows @ [r0] \<and> holds ((n, k), x, y, b) r0 \<and> slot r0 = (n, k) \<and> strt r0 = 0"
      using ups_miss [OF False, of x y b sq] assms(1)
      by (intro exI [of _ "put x y b (fresh n k (Suc sq))"]) (simp add: holds_def)
    ultimately show ?thesis using assms(2) False by auto
  qed
  from * show "distinct (map slot rows')" and "slot ` set rows' = insert (n, k) (slot ` set rows)"
    and "\<forall>r \<in> set rows'. if slot r = (n, k) then holds ((n, k), x, y, b) r else r \<in> set rows"
    and "\<forall>r \<in> set rows'. strt r = 0 \<or> (\<exists>q \<in> set rows. strt r = strt q \<and> slot r = slot q)" by blast+
qed

lemma ups_fold:
  assumes "fold ups su (rows, sq) = (rows', sq')" and "distinct (map fst su)" and "distinct (map slot rows)"
  shows "distinct (map slot rows') \<and> slot ` set rows' = fst ` set su \<union> slot ` set rows \<and>
    (\<forall>r \<in> set rows'. if slot r \<in> fst ` set su then \<exists>s \<in> set su. holds s r else r \<in> set rows) \<and>
    (\<forall>r \<in> set rows'. strt r = 0 \<or> (\<exists>q \<in> set rows. strt r = strt q \<and> slot r = slot q))"
  using assms
proof (induction su arbitrary: rows sq)
  case (Cons s su)
  obtain n k x y b where s: "s = ((n, k), x, y, b)" by (metis prod.collapse)
  obtain rows1 sq1 where u: "ups ((n, k), x, y, b) (rows, sq) = (rows1, sq1)" by (cases "ups ((n, k), x, y, b) (rows, sq)")
  note st = ups_step [OF u Cons.prems(3)]
  from Cons.prems(1) s u have "fold ups su (rows1, sq1) = (rows', sq')" by simp
  from Cons.IH [OF this _ st(1)] Cons.prems(2) have
    IH: "distinct (map slot rows')" "slot ` set rows' = fst ` set su \<union> slot ` set rows1"
      "\<forall>r \<in> set rows'. if slot r \<in> fst ` set su then \<exists>s \<in> set su. holds s r else r \<in> set rows1"
      "\<forall>r \<in> set rows'. strt r = 0 \<or> (\<exists>q \<in> set rows1. strt r = strt q \<and> slot r = slot q)" by simp_all
  have nk: "(n, k) \<notin> fst ` set su" using Cons.prems(2) s by (auto simp: image_iff)
  have "if slot r \<in> fst ` set (s # su) then \<exists>s \<in> set (s # su). holds s r else r \<in> set rows" if r: "r \<in> set rows'" for r
  proof (cases "slot r \<in> fst ` set su")
    case True
    with IH(3) r show ?thesis by auto
  next
    case False
    with IH(3) r have r1: "r \<in> set rows1" by simp
    show ?thesis
    proof (cases "slot r = (n, k)")
      case True
      with st(3) r1 s have "holds s r" by simp
      with True s show ?thesis by (simp add: rev_image_eqI)
    next
      case False
      with \<open>slot r \<notin> fst ` set su\<close> have "slot r \<notin> fst ` set (s # su)" by (simp add: s)
      moreover have "r \<in> set rows" using st(3) r1 False by metis
      ultimately show ?thesis by simp
    qed
  qed
  moreover have "strt r = 0 \<or> (\<exists>q \<in> set rows. strt r = strt q \<and> slot r = slot q)" if "r \<in> set rows'" for r
    using IH(4) st(4) that by metis
  moreover have "slot ` set rows' = fst ` set (s # su) \<union> slot ` set rows" unfolding IH(2) st(2) by (simp add: s)
  ultimately show ?case using IH(1) by blast
qed auto

text \<open>The balance before a row's day, and what the two statements leave in this order.\<close>

lemma before_latest:
  assumes "\<And>q. q \<in> set rows \<Longrightarrow> key q = key r \<Longrightarrow> day q < day r \<Longrightarrow> P q (bal q)"
    and "(\<And>q. q \<in> set rows \<Longrightarrow> key q = key r \<Longrightarrow> \<not> day q < day r) \<Longrightarrow> R 0"
    and "\<And>q. q \<in> set rows \<Longrightarrow> key q = key r \<Longrightarrow> day q < day r \<Longrightarrow>
      (\<And>q'. q' \<in> set rows \<Longrightarrow> key q' = key r \<Longrightarrow> day q' < day r \<Longrightarrow> day q' \<le> day q) \<Longrightarrow> P q (bal q) \<Longrightarrow> R (bal q)"
  shows "R (beforeBalance I r rows)"
proof (cases "latest I (filter (Before I r) rows)")
  case None
  with latest_spec [of "filter (Before I r) rows"] have "\<And>q. q \<in> set rows \<Longrightarrow> key q = key r \<Longrightarrow> \<not> day q < day r"
    by (auto simp: filter_empty_conv)
  from assms(2) [OF this] None show ?thesis by (simp add: beforeBalance_def)
next
  case (Some q)
  with latest_spec [of "filter (Before I r) rows"] have q: "q \<in> set rows" "day q < day r" "key q = key r"
    and l: "\<And>q'. q' \<in> set rows \<Longrightarrow> key q' = key r \<Longrightarrow> day q' < day r \<Longrightarrow> day q' \<le> day q" by auto
  from assms(3) [OF q(1,3,2) l assms(1) [OF q(1,3,2)]] Some show ?thesis by (simp add: beforeBalance_def)
qed

definition rebuilt :: "'k sync_row list \<Rightarrow> 'r \<Rightarrow> bool" where
  "rebuilt en r \<longleftrightarrow> exact_row en (day r) (key r) (debit r) (credit r) (bal r)"

definition opened_right :: "'k sync_row list \<Rightarrow> 'r \<Rightarrow> bool" where
  "opened_right en r \<longleftrightarrow> exact_start en (day r) (key r) (strt r)"

lemma upsert_rebuilds:
  assumes "fold ups (statdata (sync_summary en)) (rows, sq) = (rows', sq')" and "distinct (map slot rows)" and "whole_rows en"
    and "slot ` set rows \<subseteq> fst ` set en"
  shows "distinct (map slot rows')" and "slot ` set rows' = fst ` set en" and "\<forall>r \<in> set rows'. rebuilt en r"
    and "\<forall>r \<in> set rows'. strt r = 0 \<or> (\<exists>q \<in> set rows. strt r = strt q \<and> slot r = slot q)"
proof -
  let ?su = "statdata (sync_summary en)"
  have keys: "map fst ?su = map fst (sync_summary en)" by (simp add: statdata_def comp_def case_prod_unfold)
  then have ks: "fst ` set ?su = fst ` set en" using summary_keys(1) by (metis set_map)
  note f = ups_fold [OF assms(1) _ assms(2), unfolded keys ks, OF summary_keys(2)]
  from f assms(4) show "distinct (map slot rows')" and s: "slot ` set rows' = fst ` set en"
    and "\<forall>r \<in> set rows'. strt r = 0 \<or> (\<exists>q \<in> set rows. strt r = strt q \<and> slot r = slot q)" by blast+
  show "\<forall>r \<in> set rows'. rebuilt en r"
  proof
    fix r assume r: "r \<in> set rows'"
    with s have "slot r \<in> fst ` set en" by blast
    with f r obtain t where t: "t \<in> set ?su" "holds t r" by metis
    then obtain x y b where su: "(slot r, x, y, b) \<in> set (sync_summary en)"
      and h: "debit r = x" "credit r = y" "bal r = sync_running (sync_summary en) (slot r)"
      by (force simp: statdata_def holds_def)
    from summary_row [OF su assms(3)] running_exact [OF assms(3), of "day r" "key r"] h show "rebuilt en r"
      by (simp add: rebuilt_def exact_row_def)
  qed
qed

lemma lag_rebuilds:
  assumes "\<forall>r \<in> set rows. rebuilt en r" and "slot ` set rows = fst ` set en" and "distinct (map slot rows)"
  shows "distinct (map slot (lag rows))" and "slot ` set (lag rows) = fst ` set en"
    and "\<forall>r \<in> set (lag rows). rebuilt en r \<and> opened_right en r"
proof -
  have m: "map slot (lag rows) = map slot rows" by (simp add: lag)
  with assms(3) show "distinct (map slot (lag rows))" by simp
  from arg_cong [OF m, of set] assms(2) show "slot ` set (lag rows) = fst ` set en" by (simp only: set_map)
  have cong: "journal_sum P balance_col en = journal_sum Q balance_col en"
    if "\<And>k. k \<in> fst ` set en \<Longrightarrow> P k = Q k" for P Q
  proof -
    have "filter (\<lambda>r. P (fst r)) en = filter (\<lambda>r. Q (fst r)) en" using that by (intro filter_cong) simp_all
    then show ?thesis by (simp only: journal_sum_def)
  qed
  have in_en: "\<exists>q \<in> set rows. slot q = k" if "k \<in> fst ` set en" for k
    using that unfolding assms(2) [symmetric] by auto
  have "val (beforeBalance I r rows) = journal_sum (\<lambda>k. snd k = key r \<and> fst k < day r) balance_col en" for r
  proof (rule before_latest [where P = "\<lambda>q b. val b = journal_sum (\<lambda>k. snd k = key q \<and> fst k \<le> day q) balance_col en"])
    fix q assume "q \<in> set rows"
    with assms(1) show "val (bal q) = journal_sum (\<lambda>k. snd k = key q \<and> fst k \<le> day q) balance_col en"
      by (simp add: rebuilt_def exact_row_def)
  next
    assume n: "\<And>q. q \<in> set rows \<Longrightarrow> key q = key r \<Longrightarrow> \<not> day q < day r"
    have "journal_sum (\<lambda>k. snd k = key r \<and> fst k < day r) balance_col en = journal_sum (\<lambda>_. False) balance_col en"
      using n in_en by (intro cong) fastforce
    then show "val 0 = journal_sum (\<lambda>k. snd k = key r \<and> fst k < day r) balance_col en" by (simp add: journal_sum_def)
  next
    fix q assume q: "q \<in> set rows" "key q = key r" "day q < day r"
      and l: "\<And>q'. q' \<in> set rows \<Longrightarrow> key q' = key r \<Longrightarrow> day q' < day r \<Longrightarrow> day q' \<le> day q"
      and v: "val (bal q) = journal_sum (\<lambda>k. snd k = key q \<and> fst k \<le> day q) balance_col en"
    have "journal_sum (\<lambda>k. snd k = key q \<and> fst k \<le> day q) balance_col en = journal_sum (\<lambda>k. snd k = key r \<and> fst k < day r) balance_col en"
    proof (rule cong)
      fix k assume "k \<in> fst ` set en"
      with in_en obtain q' where "q' \<in> set rows" "slot q' = k" by blast
      with l [of q'] q show "(snd k = key q \<and> fst k \<le> day q) = (snd k = key r \<and> fst k < day r)" by auto
    qed
    with v show "val (bal q) = journal_sum (\<lambda>k. snd k = key r \<and> fst k < day r) balance_col en" by simp
  qed
  then show "\<forall>r \<in> set (lag rows). rebuilt en r \<and> opened_right en r"
    using assms(1) by (simp add: lag rebuilt_def opened_right_def exact_start_def)
qed

lemma lag_empty: "lag [] = []"
  by (simp add: lag)

end

interpretation acd_sync: sync_table acd "\<lambda>r. nanos (acd_Day r)" "\<lambda>r. (acd_AccountID r, acd_JournalTeamID r)"
    acd_Debit acd_Credit acd_Balance acd_StartBalance
    "\<lambda>x y b r. r\<lparr>acd_Debit := x, acd_Credit := y, acd_Balance := b\<rparr>"
    "\<lambda>n k i. \<lparr>acd_ID = i, acd_Day = \<lparr>nanos = n, offset = 0\<rparr>, acd_AccountID = fst k, acd_JournalTeamID = snd k,
       acd_Debit = 0, acd_Credit = 0, acd_Balance = 0, acd_StartBalance = 0\<rparr>"
    "\<lambda>x r. r\<lparr>acd_StartBalance := x\<rparr>" upsert_daily_acd lag_start_acd
  by unfold_locales (auto simp: upsert_daily_acd_def lag_start_acd_def list_ex_iff Let_def split: prod.splits)

interpretation akd_sync: sync_table akd "\<lambda>r. nanos (akd_Day r)" "\<lambda>r. (akd_AccountKey r, akd_JournalTeamID r)"
    akd_Debit akd_Credit akd_Balance akd_StartBalance
    "\<lambda>x y b r. r\<lparr>akd_Debit := x, akd_Credit := y, akd_Balance := b\<rparr>"
    "\<lambda>n k i. \<lparr>akd_ID = i, akd_Day = \<lparr>nanos = n, offset = 0\<rparr>, akd_AccountKey = fst k, akd_JournalTeamID = snd k,
       akd_Debit = 0, akd_Credit = 0, akd_Balance = 0, akd_StartBalance = 0\<rparr>"
    "\<lambda>x r. r\<lparr>akd_StartBalance := x\<rparr>" upsert_daily_akd lag_start_akd
  by unfold_locales (auto simp: upsert_daily_akd_def lag_start_akd_def list_ex_iff Let_def split: prod.splits)

subsection \<open>The order of the statements\<close>

text \<open>The statements that write, in the order they run.\<close>

definition writes :: "sync_stmt list \<Rightarrow> sync_stmt list" where
  "writes order = filter (\<lambda>s. s = UpsertDaily \<or> s = UpdateStart) order"

lemma writes_cases:
  assumes "all_stmts order"
  shows "writes order = [UpsertDaily, UpdateStart] \<or> writes order = [UpdateStart, UpsertDaily]"
proof -
  from assms have m: "mset (writes order) = {#UpsertDaily, UpdateStart#}"
    by (simp add: all_stmts_def writes_def)
  then have "length (writes order) = 2" using size_mset [of "writes order"] by simp
  then obtain a b where ab: "writes order = [a, b]" by (metis length_0_conv length_Suc_conv numeral_2_eq_2)
  with m show ?thesis by (cases a; cases b) (auto simp: add_eq_conv_diff)
qed

lemma acd_writes: "fold (accountDailySync d) order st = fold (accountDailySync d) (writes order) st"
proof (induction order arbitrary: st)
  case (Cons s order)
  then show ?case by (cases s) (simp_all add: writes_def accountDailySync_def)
qed (simp add: writes_def)

lemma akd_writes: "fold (accountKeyDailySync d) order st = fold (accountKeyDailySync d) (writes order) st"
proof (induction order arbitrary: st)
  case (Cons s order)
  then show ?case by (cases s) (simp_all add: writes_def accountKeyDailySync_def)
qed (simp add: writes_def)

lemma sync_frames:
  "rdb_account (fold (accountKeyDailySync d) order st) = rdb_account st"
  "rdb_account_key (fold (accountDailySync d) order st) = rdb_account_key st"
proof -
  have "rdb_account (accountKeyDailySync d s st) = rdb_account st" for s st
    by (cases s) (simp_all add: accountKeyDailySync_def split: prod.splits)
  then show "rdb_account (fold (accountKeyDailySync d) order st) = rdb_account st"
    by (induction order arbitrary: st) simp_all
  have "rdb_account_key (accountDailySync d s st) = rdb_account_key st" for s st
    by (cases s) (simp_all add: accountDailySync_def split: prod.splits)
  then show "rdb_account_key (fold (accountDailySync d) order st) = rdb_account_key st"
    by (induction order arbitrary: st) simp_all
qed

text \<open>The keys of the tables' rows, and the condition that every row has a day in the journal.\<close>

definition acd_place :: "AccountDailyBalance \<Rightarrow> int \<times> nat \<times> nat" where
  "acd_place r = (nanos (acd_Day r), acd_AccountID r, acd_JournalTeamID r)"

definition akd_place :: "AccountKeyDailyBalance \<Rightarrow> int \<times> AccountKey \<times> nat" where
  "akd_place r = (nanos (akd_Day r), akd_AccountKey r, akd_JournalTeamID r)"

definition no_orphans :: "db \<Rightarrow> report_db \<Rightarrow> bool" where
  "no_orphans d st \<longleftrightarrow> distinct (map acd_place (rdb_account st)) \<and> distinct (map akd_place (rdb_account_key st)) \<and>
     acd_place ` set (rdb_account st) \<subseteq> fst ` set (sync_entries acc_ID d) \<and>
     akd_place ` set (rdb_account_key st) \<subseteq> fst ` set (sync_entries acc_Key d)"

definition acd_exact :: "db \<Rightarrow> AccountDailyBalance list \<Rightarrow> bool" where
  "acd_exact d rows \<longleftrightarrow> distinct (map acd_place rows) \<and> acd_place ` set rows = fst ` set (sync_entries acc_ID d) \<and>
     (\<forall>r \<in> set rows. exact_row (sync_entries acc_ID d) (nanos (acd_Day r)) (acd_AccountID r, acd_JournalTeamID r)
        (acd_Debit r) (acd_Credit r) (acd_Balance r))"

definition akd_exact :: "db \<Rightarrow> AccountKeyDailyBalance list \<Rightarrow> bool" where
  "akd_exact d rows \<longleftrightarrow> distinct (map akd_place rows) \<and> akd_place ` set rows = fst ` set (sync_entries acc_Key d) \<and>
     (\<forall>r \<in> set rows. exact_row (sync_entries acc_Key d) (nanos (akd_Day r)) (akd_AccountKey r, akd_JournalTeamID r)
        (akd_Debit r) (akd_Credit r) (akd_Balance r))"

lemmas slot_fun = acd_place_def [abs_def, symmetric] akd_place_def [abs_def, symmetric]

lemma acd_upsert:
  assumes "no_orphans d st" and "whole_rows (sync_entries acc_ID d)"
  shows "acd_exact d (rdb_account (accountDailySync d UpsertDaily st))"
    and "\<forall>r \<in> set (rdb_account (accountDailySync d UpsertDaily st)). acd_StartBalance r = 0 \<or>
      (\<exists>q \<in> set (rdb_account st). acd_StartBalance r = acd_StartBalance q \<and> acd_place r = acd_place q)"
proof -
  let ?en = "sync_entries acc_ID d"
  obtain rows sq where u: "fold upsert_daily_acd (statdata (sync_summary ?en)) (rdb_account st, rdb_seq st) = (rows, sq)"
    by (cases "fold upsert_daily_acd (statdata (sync_summary ?en)) (rdb_account st, rdb_seq st)")
  then have r: "rdb_account (accountDailySync d UpsertDaily st) = rows" by (simp add: accountDailySync_def)
  note up = acd_sync.upsert_rebuilds [OF u _ assms(2), unfolded slot_fun]
  from assms(1) have "distinct (map acd_place (rdb_account st))" "acd_place ` set (rdb_account st) \<subseteq> fst ` set ?en"
    by (simp_all add: no_orphans_def)
  note up = up [OF this]
  from up(1-3) show "acd_exact d (rdb_account (accountDailySync d UpsertDaily st))"
    unfolding r acd_exact_def acd_sync.rebuilt_def by blast
  from up(4) show "\<forall>r \<in> set (rdb_account (accountDailySync d UpsertDaily st)). acd_StartBalance r = 0 \<or>
      (\<exists>q \<in> set (rdb_account st). acd_StartBalance r = acd_StartBalance q \<and> acd_place r = acd_place q)"
    unfolding r acd_place_def by blast
qed

lemma akd_upsert:
  assumes "no_orphans d st" and "whole_rows (sync_entries acc_Key d)"
  shows "akd_exact d (rdb_account_key (accountKeyDailySync d UpsertDaily st))"
    and "\<forall>r \<in> set (rdb_account_key (accountKeyDailySync d UpsertDaily st)). akd_StartBalance r = 0 \<or>
      (\<exists>q \<in> set (rdb_account_key st). akd_StartBalance r = akd_StartBalance q \<and> akd_place r = akd_place q)"
proof -
  let ?en = "sync_entries acc_Key d"
  obtain rows sq where u: "fold upsert_daily_akd (statdata (sync_summary ?en)) (rdb_account_key st, rdb_seq st) = (rows, sq)"
    by (cases "fold upsert_daily_akd (statdata (sync_summary ?en)) (rdb_account_key st, rdb_seq st)")
  then have r: "rdb_account_key (accountKeyDailySync d UpsertDaily st) = rows" by (simp add: accountKeyDailySync_def)
  note up = akd_sync.upsert_rebuilds [OF u _ assms(2), unfolded slot_fun]
  from assms(1) have "distinct (map akd_place (rdb_account_key st))" "akd_place ` set (rdb_account_key st) \<subseteq> fst ` set ?en"
    by (simp_all add: no_orphans_def)
  note up = up [OF this]
  from up(1-3) show "akd_exact d (rdb_account_key (accountKeyDailySync d UpsertDaily st))"
    unfolding r akd_exact_def akd_sync.rebuilt_def by blast
  from up(4) show "\<forall>r \<in> set (rdb_account_key (accountKeyDailySync d UpsertDaily st)). akd_StartBalance r = 0 \<or>
      (\<exists>q \<in> set (rdb_account_key st). akd_StartBalance r = akd_StartBalance q \<and> akd_place r = akd_place q)"
    unfolding r akd_place_def by blast
qed

lemma acd_lag:
  assumes "acd_exact d (rdb_account st)"
  shows "acd_exact d (rdb_account (accountDailySync d UpdateStart st))"
    and "\<forall>r \<in> set (rdb_account (accountDailySync d UpdateStart st)).
      exact_start (sync_entries acc_ID d) (nanos (acd_Day r)) (acd_AccountID r, acd_JournalTeamID r) (acd_StartBalance r)"
  using assms acd_sync.lag_rebuilds [of "rdb_account st" "sync_entries acc_ID d", unfolded slot_fun]
  unfolding acd_exact_def acd_sync.rebuilt_def acd_sync.opened_right_def accountDailySync_def by simp_all

lemma akd_lag:
  assumes "akd_exact d (rdb_account_key st)"
  shows "akd_exact d (rdb_account_key (accountKeyDailySync d UpdateStart st))"
    and "\<forall>r \<in> set (rdb_account_key (accountKeyDailySync d UpdateStart st)).
      exact_start (sync_entries acc_Key d) (nanos (akd_Day r)) (akd_AccountKey r, akd_JournalTeamID r) (akd_StartBalance r)"
  using assms akd_sync.lag_rebuilds [of "rdb_account_key st" "sync_entries acc_Key d", unfolded slot_fun]
  unfolding akd_exact_def akd_sync.rebuilt_def akd_sync.opened_right_def accountKeyDailySync_def by simp_all

lemma BalanceResync_tables:
  assumes "BalanceResync order order' ident su d st = (None, st')"
  shows "rdb_account st' = rdb_account (fold (accountDailySync d) (writes order') (fold (accountKeyDailySync d) order st))"
    and "rdb_account_key st' = rdb_account_key (fold (accountKeyDailySync d) (writes order) st)"
    and "rdb_account (fold (accountKeyDailySync d) order st) = rdb_account st"
    and "rdb_account_key (fold (accountKeyDailySync d) order st) = rdb_account_key (fold (accountKeyDailySync d) (writes order) st)"
  using assms akd_writes [of d order st] acd_writes [of d order' "fold (accountKeyDailySync d) order st"]
  by (auto simp: BalanceResync_def sync_frames split: option.splits if_splits)

text \<open>
  C19: A resync rebuilds both tables from the journal, provided its statements happen to run with the start
  balances last and every row has entries: there is one row per Jakarta day, account (or key) and team of the
  journal, with the exact debits and credits of the day, the balance up to the day and the start balance
  before it.
\<close>

theorem resync_rebuilds_balances:
  assumes "BalanceResync order order' ident su d st = (None, st')"
    and "writes order = [UpsertDaily, UpdateStart]" and "writes order' = [UpsertDaily, UpdateStart]"
    and "no_orphans d st" and "whole_rows (sync_entries acc_ID d)" and "whole_rows (sync_entries acc_Key d)"
  shows "acd_exact d (rdb_account st') \<and> akd_exact d (rdb_account_key st') \<and>
    (\<forall>r \<in> set (rdb_account st'). exact_start (sync_entries acc_ID d) (nanos (acd_Day r))
       (acd_AccountID r, acd_JournalTeamID r) (acd_StartBalance r)) \<and>
    (\<forall>r \<in> set (rdb_account_key st'). exact_start (sync_entries acc_Key d) (nanos (akd_Day r))
       (akd_AccountKey r, akd_JournalTeamID r) (akd_StartBalance r))"
proof -
  note t = BalanceResync_tables [OF assms(1)]
  let ?k = "fold (accountKeyDailySync d) order st"
  have "no_orphans d (?k\<lparr>rdb_account_key := rdb_account_key st\<rparr>)" using assms(4) by (simp add: no_orphans_def t(3))
  from acd_upsert(1) [OF this assms(5)] have "acd_exact d (rdb_account (accountDailySync d UpsertDaily ?k))"
    by (simp add: accountDailySync_def split: prod.splits)
  note a = acd_lag [OF this]
  note k = akd_lag [OF akd_upsert(1) [OF assms(4,6)]]
  from a k t(1,2) assms(2,3) show ?thesis by simp
qed

text \<open>
  C39: The order is a map's, so either one can happen. With the start balances first on an empty table, debits,
  credits and balances are the same, but every start balance is 0.
\<close>

theorem resync_order_loses_start:
  assumes "BalanceResync order order' ident su d st = (None, st')" and "all_stmts order'"
    and "writes order' \<noteq> [UpsertDaily, UpdateStart]" and "rdb_account st = []" and "whole_rows (sync_entries acc_ID d)"
  shows "acd_exact d (rdb_account st') \<and> (\<forall>r \<in> set (rdb_account st'). acd_StartBalance r = 0)"
proof -
  note t = BalanceResync_tables [OF assms(1)]
  let ?k = "fold (accountKeyDailySync d) order st"
  let ?empty = "?k\<lparr>rdb_account_key := [], rdb_account := []\<rparr>"
  have w: "writes order' = [UpdateStart, UpsertDaily]" using writes_cases [OF assms(2)] assms(3) by blast
  have e: "rdb_account ?k = []" using t(3) assms(4) by simp
  then have "accountDailySync d UpdateStart ?k = ?k" by (simp add: accountDailySync_def acd_sync.lag_empty)
  then have st': "rdb_account st' = rdb_account (accountDailySync d UpsertDaily ?k)" using t(1) w by simp
  have k0: "rdb_account (accountDailySync d UpsertDaily ?empty) = rdb_account (accountDailySync d UpsertDaily ?k)"
    using e by (simp add: accountDailySync_def split: prod.splits)
  have "no_orphans d ?empty" by (simp add: no_orphans_def)
  from acd_upsert [OF this assms(5)] show ?thesis unfolding st' k0 by simp
qed

subsection \<open>Two days\<close>

definition two_days :: db where
  "two_days = sample_db\<lparr>db_entries := [paid_row 101 3 250 0,
     (paid_row 102 3 100 0)\<lparr>je_EntryTime := \<lparr>nanos = nanos sample_time + day_ns, offset = 0\<rparr>\<rparr>]\<rparr>"

definition first_day :: int where
  "first_day = sync_day sample_time"

lemma two_days_entries:
  "sync_entries acc_ID two_days = [((first_day, 3, 7), f64_of 250, 0, f64_of 250), ((first_day + day_ns, 3, 7), f64_of 100, 0, f64_of 100)]"
  "sync_entries acc_Key two_days = [((first_day, ''receivable'', 7), f64_of 250, 0, f64_of 250),
     ((first_day + day_ns, ''receivable'', 7), f64_of 100, 0, f64_of 100)]"
proof -
  have "(n + day_ns + jakarta) div day_ns * day_ns = (n + jakarta) div day_ns * day_ns + day_ns" for n
  proof -
    have "day_ns \<noteq> 0" by (simp add: day_ns_def)
    from div_add_self2 [OF this, of "n + jakarta"] have "(n + day_ns + jakarta) div day_ns = (n + jakarta) div day_ns + 1"
      by (simp only: add.assoc add.commute [of day_ns])
    then show ?thesis by (simp add: distrib_right)
  qed
  then have s: "sync_day \<lparr>nanos = nanos sample_time + day_ns, offset = 0\<rparr> = first_day + day_ns"
    by (simp add: first_day_def sync_day_def trunc_local_def)
  show "sync_entries acc_ID two_days = [((first_day, 3, 7), f64_of 250, 0, f64_of 250), ((first_day + day_ns, 3, 7), f64_of 100, 0, f64_of 100)]"
    "sync_entries acc_Key two_days = [((first_day, ''receivable'', 7), f64_of 250, 0, f64_of 250),
     ((first_day + day_ns, ''receivable'', 7), f64_of 100, 0, f64_of 100)]"
    using s by (simp_all add: sync_entries_def two_days_def join_account_def account_by_id_def sync_entry_def paid_row_def newEntry_def
        sample_db_def sample_accounts_def sample_account_def DebitBalance_def first_day_def)
qed

lemma two_days_whole: "whole_rows (sync_entries acc_ID two_days)" "whole_rows (sync_entries acc_Key two_days)"
  by (simp_all add: whole_rows_def two_days_entries whole_list_def whole_f64_of val_f64_of)

lemma resync_runs: "\<exists>st'. BalanceResync order order' anyone True d st = (None, st')"
  by (simp add: BalanceResync_def)

theorem resync_rebuilds_balances_witness:
  "\<exists>st'. BalanceResync [LockDaily, LockJournal, UpsertDaily, UpdateStart] [UpsertDaily, LockJournal, UpdateStart, LockDaily]
      anyone True two_days empty_report = (None, st') \<and>
     (\<exists>r \<in> set (rdb_account st'). val (acd_StartBalance r) = 250 \<and> val (acd_Balance r) = 350)"
proof -
  obtain st' where r: "BalanceResync [LockDaily, LockJournal, UpsertDaily, UpdateStart] [UpsertDaily, LockJournal, UpdateStart, LockDaily]
      anyone True two_days empty_report = (None, st')" using resync_runs by blast
  have "no_orphans two_days empty_report" by (simp add: no_orphans_def empty_report_def)
  note t = resync_rebuilds_balances [OF r _ _ this two_days_whole]
  then have x: "acd_exact two_days (rdb_account st')" and s: "\<forall>r \<in> set (rdb_account st').
      exact_start (sync_entries acc_ID two_days) (nanos (acd_Day r)) (acd_AccountID r, acd_JournalTeamID r) (acd_StartBalance r)"
    by (simp_all add: writes_def)
  have "(first_day + day_ns, 3, 7) \<in> acd_place ` set (rdb_account st')" using x by (simp add: acd_exact_def two_days_entries)
  then obtain q where "q \<in> set (rdb_account st')" "acd_place q = (first_day + day_ns, 3, 7)" by (metis imageE)
  with x s r show ?thesis by (intro exI [of _ st'] conjI bexI [of _ q])
     (auto simp: acd_exact_def exact_row_def exact_start_def acd_place_def journal_sum_def two_days_entries val_f64_of day_ns_def)
qed

theorem resync_order_loses_start_witness:
  "\<exists>st'. BalanceResync [] [UpdateStart, LockDaily, LockJournal, UpsertDaily] anyone True two_days empty_report = (None, st') \<and>
     (\<exists>r \<in> set (rdb_account st'). acd_StartBalance r = 0 \<and> val (acd_Balance r) = 350)"
proof -
  obtain st' where r: "BalanceResync [] [UpdateStart, LockDaily, LockJournal, UpsertDaily] anyone True two_days empty_report = (None, st')"
    using resync_runs by blast
  from resync_order_loses_start [OF r _ _ _ two_days_whole(1)]
  have x: "acd_exact two_days (rdb_account st')" and s: "\<forall>r \<in> set (rdb_account st'). acd_StartBalance r = 0"
    by (simp_all add: all_stmts_def writes_def empty_report_def)
  have "(first_day + day_ns, 3, 7) \<in> acd_place ` set (rdb_account st')" using x by (simp add: acd_exact_def two_days_entries)
  then obtain q where "q \<in> set (rdb_account st')" "acd_place q = (first_day + day_ns, 3, 7)" by (metis imageE)
  with x s r show ?thesis by (intro exI [of _ st'] conjI bexI [of _ q])
     (auto simp: acd_exact_def exact_row_def acd_place_def journal_sum_def two_days_entries val_f64_of day_ns_def)
qed

end
