(* ===== verification/ReportSpec.thy ===== *)
theory ReportSpec
  imports ResyncSpec DailySpec
begin

section \<open>The balance report: properties\<close>

text \<open>
  What the report service answers about the messages it has handled: the composition of the handler
  of the messages, which keeps the table per account key, with the query of \<open>Balance\<close>.
\<close>

subsection \<open>The table per account key\<close>

definition akd_key :: "AccountKeyDailyBalance \<Rightarrow> AccountKey \<times> nat" where
  "akd_key r = (akd_AccountKey r, akd_JournalTeamID r)"

definition akd_day :: "AccountKeyDailyBalance \<Rightarrow> int" where
  "akd_day r = nanos (akd_Day r)"

text \<open>The row the handler adds for an entry.\<close>

definition key_row :: "db \<Rightarrow> EntryPayload \<Rightarrow> AccountKeyDailyBalance" where
  "key_row d e = new_akd (the (amounts_of d e)) (acc_Key (the (account_by_id d (ep_AccountId e))))"

definition key_rows :: "db \<Rightarrow> DailyUpdateBalanceRequest list \<Rightarrow> AccountKeyDailyBalance list" where
  "key_rows d ms = map (key_row d) (concat (map dr_Entries ms))"

lemma upd_key_frame [frame]:
  "rdb_account_key (upd_acd r st) = rdb_account_key st"
  "rdb_account_key (upd_csd r2 st) = rdb_account_key st"
  "rdb_account_key (upd_shd r3 st) = rdb_account_key st"
  "rdb_account_key (upd_spd r4 st) = rdb_account_key st"
  "rdb_account_key (upd_cld r5 st) = rdb_account_key st"
  "rdb_account_key (upd_tld r6 st) = rdb_account_key st"
  by (simp_all add: upd_acd_def upd_csd_def upd_shd_def upd_spd_def upd_cld_def upd_tld_def split: prod.splits)

lemma type_labels_key [frame]:
  "type_labels_loop d a ls st = (r, st') \<Longrightarrow> rdb_account_key st' = rdb_account_key st"
proof (induction d a ls st rule: type_labels_loop.induct)
  case (2 d a l ls st)
  obtain x st1 where g: "getTypeLabel d l st = (x, st1)" by (cases "getTypeLabel d l st")
  then have "rdb_account_key st1 = rdb_account_key st" by (auto simp: getTypeLabel_def split: option.splits if_splits)
  with 2 g show ?case by (cases x) (simp_all add: frame)
qed simp

lemma tags_key [frame]: "rdb_account_key (fold (\<lambda>t st. upd_cld (new_cld a t) st) ts st) = rdb_account_key st"
  by (induction ts arbitrary: st) (simp_all add: frame)

lemma update_entry_key_run:
  assumes "update_entry d labels e st = (None, st')" and "cache_ok d st"
    and "daily_run akd h (rdb_account_key st)"
  shows "daily_run akd (h @ [key_row d e]) (rdb_account_key st') \<and> amounts_of d e \<noteq> None"
proof -
  obtain r st1 where g: "getAccountR d (ep_AccountId e) st = (r, st1)"
    by (cases "getAccountR d (ep_AccountId e) st")
  with assms(1) obtain acc where r: "r = Inr acc" by (auto simp: update_entry_def split: sum.splits)
  from getAccountR_ok [OF assms(2) g] r have acc: "account_by_id d (ep_AccountId e) = Some acc" by auto
  have k1: "rdb_account_key st1 = rdb_account_key st"
    using g by (auto simp: getAccountR_def Let_def split: option.splits if_splits)
  from assms(1) g r obtain a where a: "entry_amounts acc e = Some a"
    by (auto simp: update_entry_def split: option.splits)
  from assms(1) g r a obtain st2 where loop: "type_labels_loop d a (rl_TypeLabels labels) st2 = (None, st')"
    and st2: "rdb_account_key st2 = rdb_account_key (upd_akd (new_akd a (acc_Key acc)) st1)"
    by (fastforce simp: update_entry_def Let_def frame)
  have row: "key_row d e = new_akd a (acc_Key acc)" using acc a by (simp add: key_row_def amounts_of_def)
  from assms(3) have "daily_run akd (h @ [new_akd a (acc_Key acc)]) (rdb_account_key (upd_akd (new_akd a (acc_Key acc)) st1))"
    by (auto simp: upd_akd_def k1 intro: daily_run.step split: prod.splits)
  with type_labels_key [OF loop] st2 row acc a show ?thesis by (simp add: amounts_of_def)
qed

lemma update_entries_key_run:
  assumes "update_entries d labels es st = (None, st')" and "cache_ok d st" and "daily_run acd h' (rdb_account st)"
    and "daily_run akd h (rdb_account_key st)"
  shows "daily_run akd (h @ map (key_row d) es) (rdb_account_key st')"
  using assms
proof (induction es arbitrary: st h h')
  case (Cons e es)
  from Cons.prems(1) obtain st1 where e: "update_entry d labels e st = (None, st1)"
    and es: "update_entries d labels es st1 = (None, st')"
    by (auto split: prod.splits option.splits)
  from update_entry_run [OF e Cons.prems(2,3)] obtain a where c: "cache_ok d st1" "daily_run acd (h' @ [new_acd a]) (rdb_account st1)" by blast
  from update_entry_key_run [OF e Cons.prems(2,4)] have "daily_run akd (h @ [key_row d e]) (rdb_account_key st1)" by simp
  from Cons.IH [OF es c this] show ?case by simp
qed simp

lemma handled_key_run: "handled d ms st \<Longrightarrow> daily_run akd (key_rows d ms) (rdb_account_key st)"
proof (induction rule: handled.induct)
  case none
  show ?case by (simp add: empty_report_def key_rows_def daily_run.start)
next
  case (message ms st m st')
  from handled_run [OF message(1)] update_entries_key_run [of d "dr_LabelExtra m" "dr_Entries m" st st'] message
  show ?case by (auto simp: DailyUpdateBalance_def key_rows_def)
qed

text \<open>A row stands at midnight, so cutting the bounds down to dates changes nothing.\<close>

lemma key_row_midnight: "amounts_of d e \<noteq> None \<Longrightarrow> akd_day (key_row d e) mod day_ns = 0"
  by (auto simp: akd_day_def key_row_def new_akd_def amounts_of_def entry_amounts_def Let_def ParseDate_def AsUTC_def
      split: option.splits if_splits)

lemma handled_amounts: "handled d ms st \<Longrightarrow> list_all (\<lambda>e. amounts_of d e \<noteq> None) (concat (map dr_Entries ms))"
proof (induction rule: handled.induct)
  case (message ms st m st')
  from handled_run [OF message(1)] update_entries_run [of d "dr_LabelExtra m" "dr_Entries m" st st'] message
  show ?case by (auto simp: DailyUpdateBalance_def)
qed simp

lemma key_rows_midnight: "handled d ms st \<Longrightarrow> x \<in> set (key_rows d ms) \<Longrightarrow> akd_day x mod day_ns = 0"
  using handled_amounts key_row_midnight by (fastforce simp: key_rows_def list_all_iff)

lemma midnight_le:
  fixes n b :: int
  assumes "n mod day_ns = 0"
  shows "n \<le> b div day_ns * day_ns \<longleftrightarrow> n \<le> b"
proof -
  have p: "0 < day_ns" by (simp add: day_ns_def)
  have "n = n div day_ns * day_ns" using assms by (metis add.right_neutral div_mult_mod_eq)
  then obtain k where k: "n = k * day_ns" by blast
  have b: "b = b div day_ns * day_ns + b mod day_ns" "0 \<le> b mod day_ns" "b mod day_ns < day_ns" using p by simp_all
  show ?thesis
  proof (cases "k \<le> b div day_ns")
    case True
    then have "k * day_ns \<le> b div day_ns * day_ns" using p by (intro mult_right_mono) simp_all
    with b show ?thesis unfolding k by linarith
  next
    case False
    then have "(b div day_ns + 1) * day_ns \<le> k * day_ns" using p by (intro mult_right_mono) simp_all
    then have "b div day_ns * day_ns + day_ns \<le> k * day_ns" by (simp only: distrib_right mult_1)
    with b p have "\<not> k * day_ns \<le> b div day_ns * day_ns" "\<not> k * day_ns \<le> b" by linarith+
    then show ?thesis unfolding k by blast
  qed
qed

lemma in_days_range:
  assumes "nanos t mod day_ns = 0"
  shows "in_days tr t \<longleftrightarrow> in_range tr t"
proof -
  have "nanos (ParseDate (AsUTC b)) = nanos b div day_ns * day_ns" for b by (simp add: ParseDate_def AsUTC_def)
  then show ?thesis using midnight_le [OF assms]
    by (auto simp: in_days_def in_range_def until_end_def after_start_def not_le [symmetric] split: option.splits)
qed

subsection \<open>The three queries\<close>

text \<open>The rows a report with a team and a time range reads.\<close>

definition scoped :: "BalanceRequest \<Rightarrow> TimeFilterRange \<Rightarrow> AccountKeyDailyBalance list \<Rightarrow> AccountKeyDailyBalance list" where
  "scoped pay tr rows = filter (\<lambda>r. balance_scope pay r \<and> in_range tr (akd_Day r)) rows"

lemma lastBalanceQuery_rows:
  "(k, x) \<in> set (lastBalanceQuery pay tr rows) \<longleftrightarrow>
     (\<exists>r. akd_AccountKey r = k \<and> akd_Balance r = x \<and>
        r \<in> set (distinct_on akd_AccountKey (order_asc akd_AccountKey (order_desc akd_day (scoped pay tr rows)))))"
  by (force simp: lastBalanceQuery_def scoped_def akd_day_def [abs_def])

lemma query_keys:
  assumes "\<forall>r \<in> set rows. akd_day r mod day_ns = 0"
    and "\<forall>r \<in> set rows. \<forall>e. tr_EndDate tr = Some e \<longrightarrow> akd_day r \<noteq> nanos e"
  shows "fst ` set (dcQuery pay tr rows) = akd_AccountKey ` set (scoped pay tr rows)"
    and "fst ` set (lastBalanceQuery pay tr rows) = akd_AccountKey ` set (scoped pay tr rows)"
    and "fst ` set (startBalanceQuery pay tr rows) = akd_AccountKey ` set (scoped pay tr rows)"
    and "filter (\<lambda>r. balance_scope pay r \<and> in_days tr (akd_Day r)) rows = scoped pay tr rows"
    and "filter (\<lambda>r. balance_scope pay r \<and>
                (case tr_EndDate tr of None \<Rightarrow> True | Some e \<Rightarrow> nanos (akd_Day r) < nanos e) \<and>
                after_start nanos tr (akd_Day r)) rows = scoped pay tr rows"
proof -
  show d: "filter (\<lambda>r. balance_scope pay r \<and> in_days tr (akd_Day r)) rows = scoped pay tr rows"
    unfolding scoped_def using assms(1) in_days_range by (intro filter_cong) (auto simp: akd_day_def)
  have "(case tr_EndDate tr of None \<Rightarrow> True | Some e \<Rightarrow> nanos (akd_Day r) < nanos e) \<longleftrightarrow> until_end nanos tr (akd_Day r)"
    if "r \<in> set rows" for r
    using assms(2) that by (auto simp: until_end_def akd_day_def less_le split: option.splits)
  then show s: "filter (\<lambda>r. balance_scope pay r \<and>
                (case tr_EndDate tr of None \<Rightarrow> True | Some e \<Rightarrow> nanos (akd_Day r) < nanos e) \<and>
                after_start nanos tr (akd_Day r)) rows = scoped pay tr rows"
    unfolding scoped_def by (intro filter_cong) (auto simp: in_range_def)
  have "map fst (dcQuery pay tr rows) = map fst (group_by akd_AccountKey (scoped pay tr rows))"
    by (simp add: dcQuery_def d comp_def case_prod_unfold)
  with group_by_keys(2) [of akd_AccountKey "scoped pay tr rows"]
  show "fst ` set (dcQuery pay tr rows) = akd_AccountKey ` set (scoped pay tr rows)" by (metis set_map)
  show "fst ` set (lastBalanceQuery pay tr rows) = akd_AccountKey ` set (scoped pay tr rows)"
    by (simp add: lastBalanceQuery_def image_image scoped_def keys_distinct_on)
  show "fst ` set (startBalanceQuery pay tr rows) = akd_AccountKey ` set (scoped pay tr rows)"
    unfolding startBalanceQuery_def s by (simp add: image_image keys_distinct_on)
qed

lemma in_range_cong: "nanos t = nanos u \<Longrightarrow> in_range tr t = in_range tr u"
  by (simp add: in_range_def until_end_def after_start_def split: option.splits)

lemma full_outer_total:
  assumes "\<And>a. a \<in> set as \<Longrightarrow> \<exists>b \<in> set bs. on a b" and "\<And>b. b \<in> set bs \<Longrightarrow> \<exists>a \<in> set as. on a b"
  shows "x \<in> set (full_outer on as bs) \<longleftrightarrow> (\<exists>a \<in> set as. \<exists>b \<in> set bs. on a b \<and> x = (Some a, Some b))"
proof -
  have "filter (\<lambda>b. \<not> list_ex (\<lambda>a. on a b) as) bs = []" using assms(2) by (auto simp: filter_empty_conv list_ex_iff)
  moreover have "list_ex (on a) bs" if "a \<in> set as" for a using assms(1) [OF that] by (simp add: list_ex_iff)
  ultimately show ?thesis by (auto simp: full_outer_def)
qed

text \<open>An item of the report joins one row of each query.\<close>

lemma balance_items:
  assumes "Balance pay st = Inr items" and "br_TimeRange pay = Some tr"
    and "\<forall>r \<in> set (rdb_account_key st). akd_day r mod day_ns = 0"
    and "\<forall>r \<in> set (rdb_account_key st). \<forall>e. tr_EndDate tr = Some e \<longrightarrow> akd_day r \<noteq> nanos e"
  shows "item \<in> set items \<longleftrightarrow> (\<exists>k x y b s. item = \<lparr>abi_AccountKey = k, abi_Debit = x, abi_Credit = y, abi_Balance = b, abi_StartBalance = s\<rparr> \<and>
     (k, x, y) \<in> set (dcQuery pay tr (rdb_account_key st)) \<and> (k, b) \<in> set (lastBalanceQuery pay tr (rdb_account_key st)) \<and>
     (k, s) \<in> set (startBalanceQuery pay tr (rdb_account_key st)))"
proof -
  let ?R = "rdb_account_key st"
  note ks = query_keys [OF assms(3,4), where pay = pay]
  let ?inner = "full_outer (\<lambda>base bal. fst bal = fst base) (dcQuery pay tr ?R) (lastBalanceQuery pay tr ?R)"
  have inner: "z \<in> set ?inner \<longleftrightarrow> (\<exists>a \<in> set (dcQuery pay tr ?R). \<exists>b \<in> set (lastBalanceQuery pay tr ?R). fst b = fst a \<and> z = (Some a, Some b))" for z
    using ks(1,2) by (intro full_outer_same) simp
  have join: "j \<in> set (balance_join pay tr ?R) \<longleftrightarrow> (\<exists>a \<in> set (dcQuery pay tr ?R). \<exists>b \<in> set (lastBalanceQuery pay tr ?R).
      \<exists>s \<in> set (startBalanceQuery pay tr ?R). fst b = fst a \<and> fst s = fst a \<and> j = (Some (Some a, Some b), Some s))" for j
  proof -
    let ?on = "\<lambda>(base, bal) start. map_option fst base = Some (fst start)"
    have on: "?on (Some a, Some b) s \<longleftrightarrow> fst s = fst a" for a b s by (cases a) auto
    have "\<exists>s \<in> set (startBalanceQuery pay tr ?R). ?on z s" if "z \<in> set ?inner" for z
    proof -
      from that inner obtain a b where z: "a \<in> set (dcQuery pay tr ?R)" "z = (Some a, Some b)" by blast
      then have "fst a \<in> fst ` set (startBalanceQuery pay tr ?R)" using ks(1,3) by (metis imageI)
      with z show ?thesis by force
    qed
    moreover have "\<exists>z \<in> set ?inner. ?on z s" if "s \<in> set (startBalanceQuery pay tr ?R)" for s
    proof -
      have "fst s \<in> fst ` set (dcQuery pay tr ?R)" "fst s \<in> fst ` set (lastBalanceQuery pay tr ?R)"
        using imageI [OF that, of fst] ks(1-3) by simp_all
      obtain a where "a \<in> set (dcQuery pay tr ?R)" "fst a = fst s" using \<open>fst s \<in> fst ` set (dcQuery pay tr ?R)\<close> by (metis imageE)
      moreover obtain b where "b \<in> set (lastBalanceQuery pay tr ?R)" "fst b = fst s"
        using \<open>fst s \<in> fst ` set (lastBalanceQuery pay tr ?R)\<close> by (metis imageE)
      ultimately have "a \<in> set (dcQuery pay tr ?R)" "b \<in> set (lastBalanceQuery pay tr ?R)" "fst b = fst a" by simp_all
      then have "(Some a, Some b) \<in> set ?inner" using inner by blast
      with \<open>fst a = fst s\<close> show ?thesis by (intro bexI [of _ "(Some a, Some b)"]) (cases a, simp_all)
    qed
    ultimately have "j \<in> set (balance_join pay tr ?R) \<longleftrightarrow>
        (\<exists>z \<in> set ?inner. \<exists>s \<in> set (startBalanceQuery pay tr ?R). ?on z s \<and> j = (Some z, Some s))"
      unfolding balance_join_def by (rule full_outer_total)
    also have "\<dots> \<longleftrightarrow> (\<exists>a \<in> set (dcQuery pay tr ?R). \<exists>b \<in> set (lastBalanceQuery pay tr ?R).
        \<exists>s \<in> set (startBalanceQuery pay tr ?R). fst b = fst a \<and> ?on (Some a, Some b) s \<and> j = (Some (Some a, Some b), Some s))"
      unfolding Bex_def inner by blast
    finally show ?thesis unfolding on .
  qed
  have ord: "set (balance_order s rows) = set rows" for s and rows :: "balance_join list"
    by (auto simp: balance_order_def split: option.splits prod.splits BalanceFieldSort.splits)
  from assms(1,2) have "set items = balance_item ` set (balance_join pay tr ?R)"
    by (auto simp: Balance_def required_def ord)
  then have mem: "item \<in> set items \<longleftrightarrow> (\<exists>j. j \<in> set (balance_join pay tr ?R) \<and> item = balance_item j)" by auto
  have bi: "balance_item (Some (Some (k, x, y), Some (k, b)), Some (k, s)) =
      \<lparr>abi_AccountKey = k, abi_Debit = x, abi_Credit = y, abi_Balance = b, abi_StartBalance = s\<rparr>" for k x y b s
    by (simp add: balance_item_def base_of_def bal_of_def last_set_def or_zero_def)
  show ?thesis
  proof
    assume "item \<in> set items"
    then obtain a b s where m: "a \<in> set (dcQuery pay tr ?R)" "b \<in> set (lastBalanceQuery pay tr ?R)" "s \<in> set (startBalanceQuery pay tr ?R)"
      and e: "fst b = fst a" "fst s = fst a" and it: "item = balance_item (Some (Some a, Some b), Some s)" unfolding mem join by blast
    obtain k x y where a: "a = (k, x, y)" by (cases a)
    obtain b' s' where bs: "b = (k, b')" "s = (k, s')" using e a by (cases b; cases s) auto
    show "\<exists>k x y b s. item = \<lparr>abi_AccountKey = k, abi_Debit = x, abi_Credit = y, abi_Balance = b, abi_StartBalance = s\<rparr> \<and>
     (k, x, y) \<in> set (dcQuery pay tr ?R) \<and> (k, b) \<in> set (lastBalanceQuery pay tr ?R) \<and> (k, s) \<in> set (startBalanceQuery pay tr ?R)"
      using m it unfolding a bs bi by blast
  next
    assume "\<exists>k x y b s. item = \<lparr>abi_AccountKey = k, abi_Debit = x, abi_Credit = y, abi_Balance = b, abi_StartBalance = s\<rparr> \<and>
     (k, x, y) \<in> set (dcQuery pay tr ?R) \<and> (k, b) \<in> set (lastBalanceQuery pay tr ?R) \<and> (k, s) \<in> set (startBalanceQuery pay tr ?R)"
    then obtain k x y b s where it: "item = balance_item (Some (Some (k, x, y), Some (k, b)), Some (k, s))"
      and m: "(k, x, y) \<in> set (dcQuery pay tr ?R)" "(k, b) \<in> set (lastBalanceQuery pay tr ?R)" "(k, s) \<in> set (startBalanceQuery pay tr ?R)"
      unfolding bi by blast
    then have "(Some (Some (k, x, y), Some (k, b)), Some (k, s)) \<in> set (balance_join pay tr ?R)"
      unfolding join by (intro bexI [OF _ m(1)] bexI [OF _ m(2)] bexI [OF _ m(3)]) simp
    with it show "item \<in> set items" unfolding mem by blast
  qed
qed

subsection \<open>What an item says\<close>

text \<open>Rows that each hold the sum of a day add up to the sum of their days.\<close>

lemma day_columns:
  fixes g :: "'a \<Rightarrow> int"
  assumes c: "\<And>r. r \<in> set F \<Longrightarrow> whole (c r) \<and> val (c r) = sum_list (map (\<lambda>x. val (c x)) (filter (\<lambda>x. g x = g r) xs))"
    and d: "distinct (map g F)" and w: "whole_list (map c xs)"
  shows "val (sum_col c F) = sum_list (map (\<lambda>x. val (c x)) (filter (\<lambda>x. g x \<in> g ` set F) xs))"
proof -
  let ?D = "\<lambda>n. sum_list (map (\<lambda>x. val (c x)) (filter (\<lambda>x. g x = n) xs))"
  have v: "map (\<lambda>r. val (c r)) F = map ?D (map g F)" using c by simp
  have "abs_sum (map c F) = (\<Sum>n\<leftarrow>map g F. \<bar>?D n\<bar>)"
    using arg_cong [OF v, of "map abs"] by (simp only: abs_sum_def map_map comp_def)
  also have "\<dots> \<le> (\<Sum>n\<leftarrow>map g F. sum_list (map (\<lambda>x. \<bar>val (c x)\<bar>) (filter (\<lambda>x. g x = n) xs)))"
  proof (rule sum_list_mono)
    have "\<bar>sum_list (map f ys)\<bar> \<le> sum_list (map (\<lambda>x. \<bar>f x\<bar>) ys)" for f :: "'a \<Rightarrow> rat" and ys
    proof (induction ys)
      case (Cons y ys)
      then show ?case using abs_triangle_ineq [of "f y" "sum_list (map f ys)"] by simp
    qed simp
    then show "\<bar>?D n\<bar> \<le> sum_list (map (\<lambda>x. \<bar>val (c x)\<bar>) (filter (\<lambda>x. g x = n) xs))" for n .
  qed
  also have "\<dots> \<le> abs_sum (map c xs)"
    unfolding sum_groups [OF d] using abs_filter by (simp add: abs_sum_def comp_def)
  finally have "whole_list (map c F)" using c w by (auto simp: whole_list_def list_all_iff)
  then have "val (sum_col c F) = sum_list (map (\<lambda>r. val (c r)) F)"
    using sum_col_exact [of c F] by (simp add: val_sum_def comp_def)
  also have "\<dots> = sum_list (map (\<lambda>x. val (c x)) (filter (\<lambda>x. g x \<in> set (map g F)) xs))"
    unfolding v by (rule sum_groups [OF d])
  finally show ?thesis by simp
qed

lemma order_desc_wrt: "sorted_wrt (\<lambda>x y. f y \<le> f x) (order_desc f xs)"
  by (rule order_desc_sorted)

definition key_booked ::
  "(AccountKeyDailyBalance \<Rightarrow> f64) \<Rightarrow> (Time \<Rightarrow> bool) \<Rightarrow> AccountKeyDailyBalance list \<Rightarrow> AccountKey \<times> nat \<Rightarrow> rat" where
  "key_booked amt P h = booked akd_key (\<lambda>x. P (akd_Day x)) amt h"

lemma scoped_rows:
  assumes run: "daily_run akd h R" and T: "br_TeamId pay \<noteq> 0" and r0: "r0 \<in> set (scoped pay tr R)"
  shows "akd_key r0 = (akd_AccountKey r0, br_TeamId pay)"
    and "x \<in> set h \<Longrightarrow> akd_key x = akd_key r0 \<Longrightarrow> in_range tr (akd_Day x) \<Longrightarrow>
      \<exists>r \<in> set (scoped pay tr R). akd_key r = akd_key x \<and> akd_day r = akd_day x"
proof -
  from r0 T show k: "akd_key r0 = (akd_AccountKey r0, br_TeamId pay)"
    by (simp add: scoped_def balance_scope_def akd_key_def)
  assume x: "x \<in> set h" "akd_key x = akd_key r0" "in_range tr (akd_Day x)"
  from akd_table.run_rows(1) [OF run x(1)] obtain r where r: "r \<in> set R" "akd_day r = akd_day x" "akd_key r = akd_key x"
    by (auto simp: akd_day_def akd_key_def)
  have "in_range tr (akd_Day r) = in_range tr (akd_Day x)"
    using r(2) by (intro in_range_cong) (simp add: akd_day_def)
  moreover have "balance_scope pay r = balance_scope pay r0"
    using r(3) x(2) by (simp add: balance_scope_def akd_key_def)
  ultimately have "r \<in> set (scoped pay tr R)" using r(1) r0 x(3) by (simp add: scoped_def)
  with r show "\<exists>r \<in> set (scoped pay tr R). akd_key r = akd_key x \<and> akd_day r = akd_day x" by blast
qed

lemma debit_credit_exact:
  assumes run: "daily_run akd h R" and w: "whole_list (map akd_Debit h)" "whole_list (map akd_Credit h)"
    and T: "br_TeamId pay \<noteq> 0" and kxy: "(k, x, y) \<in> set (dcQuery pay tr R)"
    and dq: "filter (\<lambda>r. balance_scope pay r \<and> in_days tr (akd_Day r)) R = scoped pay tr R"
  shows "val x = key_booked akd_Debit (in_range tr) h (k, br_TeamId pay) \<and> val y = key_booked akd_Credit (in_range tr) h (k, br_TeamId pay)"
proof -
  let ?F = "filter (\<lambda>r. akd_AccountKey r = k) (scoped pay tr R)" and ?hk = "filter (\<lambda>x. akd_key x = (k, br_TeamId pay)) h"
  from kxy have xy: "x = sum_col akd_Debit ?F" "y = sum_col akd_Credit ?F" and kin: "k \<in> akd_AccountKey ` set (scoped pay tr R)"
    unfolding dcQuery_def dq by (auto simp: group_by_rows)
  from kin obtain r0 where r0: "r0 \<in> set (scoped pay tr R)" "k = akd_AccountKey r0" by blast
  note sr = scoped_rows [OF run T r0(1)]
  have F: "r \<in> set R" "akd_key r = (k, br_TeamId pay)" "in_range tr (akd_Day r)" if "r \<in> set ?F" for r
    using that T by (auto simp: scoped_def balance_scope_def akd_key_def)
  have dist: "distinct (map akd_day ?F)"
  proof -
    have "distinct R" using akd_table.run_slots [OF run] by (simp add: distinct_map)
    then have "distinct ?F" by (simp add: scoped_def)
    moreover have "inj_on akd_day (set ?F)"
    proof (rule inj_onI)
      fix p q assume pq: "p \<in> set ?F" "q \<in> set ?F" "akd_day p = akd_day q"
      with F [OF pq(1)] F [OF pq(2)] have "(nanos (akd_Day p), akd_AccountKey p, akd_JournalTeamID p) = (nanos (akd_Day q), akd_AccountKey q, akd_JournalTeamID q)"
        by (simp add: akd_key_def akd_day_def)
      with akd_table.run_slots [OF run] F(1) [OF pq(1)] F(1) [OF pq(2)] show "p = q"
        using distinct_map_eq [of "\<lambda>r. (nanos (akd_Day r), akd_AccountKey r, akd_JournalTeamID r)" R p q] by blast
    qed
    ultimately show ?thesis by (simp add: distinct_map)
  qed
  have days: "filter (\<lambda>x. akd_day x \<in> akd_day ` set ?F) ?hk = filter (\<lambda>x. in_range tr (akd_Day x)) ?hk"
  proof (rule filter_cong [OF refl])
    fix x assume x: "x \<in> set ?hk"
    show "(akd_day x \<in> akd_day ` set ?F) = in_range tr (akd_Day x)"
    proof
      assume "akd_day x \<in> akd_day ` set ?F"
      then obtain r where "r \<in> set ?F" "akd_day x = akd_day r" by blast
      with F(3) [of r] in_range_cong [of "akd_Day x" "akd_Day r" tr] show "in_range tr (akd_Day x)" by (simp add: akd_day_def)
    next
      assume "in_range tr (akd_Day x)"
      with x sr r0 obtain r where "r \<in> set (scoped pay tr R)" "akd_key r = akd_key x" "akd_day r = akd_day x" by auto
      with x have "r \<in> set ?F" by (simp add: akd_key_def)
      with \<open>akd_day r = akd_day x\<close> show "akd_day x \<in> akd_day ` set ?F" by (metis imageI)
    qed
  qed
  have bk: "booked akd_key P amt h (k, br_TeamId pay) = sum_list (map (\<lambda>x. val (amt x)) (filter P ?hk))" for P amt
    by (simp add: booked_def conj_commute)
  have c: "whole (akd_Debit r) \<and> val (akd_Debit r) = sum_list (map (\<lambda>x. val (akd_Debit x)) (filter (\<lambda>x. akd_day x = akd_day r) ?hk))"
    "whole (akd_Credit r) \<and> val (akd_Credit r) = sum_list (map (\<lambda>x. val (akd_Credit x)) (filter (\<lambda>x. akd_day x = akd_day r) ?hk))"
    if "r \<in> set ?F" for r
    using akd_table.run_day_sums [OF run w F(1) [OF that]] F(2) [OF that] bk [of "\<lambda>x. akd_day x = akd_day r"]
    unfolding akd_key_def [abs_def] akd_day_def [abs_def] by simp_all
  have "whole_list (map akd_Debit ?hk)" "whole_list (map akd_Credit ?hk)" using w whole_list_where by blast+
  from day_columns [OF c(1) dist this(1)] day_columns [OF c(2) dist this(2)] show ?thesis
    unfolding xy days key_booked_def bk by simp
qed

lemma last_balance_exact:
  assumes run: "daily_run akd h R" and w: "whole_list (map akd_Balance h)"
    and ch: "sorted_wrt (\<lambda>x y. akd_key x = akd_key y \<longrightarrow> akd_day x \<le> akd_day y) h"
    and T: "br_TeamId pay \<noteq> 0" and kb: "(k, b) \<in> set (lastBalanceQuery pay tr R)"
  shows "val b = key_booked akd_Balance (until_end nanos tr) h (k, br_TeamId pay)"
proof -
  from kb obtain r where r: "akd_AccountKey r = k" "akd_Balance r = b"
    and m: "r \<in> set (distinct_on akd_AccountKey (order_asc akd_AccountKey (order_desc akd_day (scoped pay tr R))))"
    unfolding lastBalanceQuery_rows by blast
  from distinct_on_first [OF m order_desc_sorted] have rs: "r \<in> set (scoped pay tr R)"
    and mx: "\<And>q. q \<in> set (scoped pay tr R) \<Longrightarrow> akd_AccountKey q = k \<Longrightarrow> akd_day q \<le> akd_day r"
    using r(1) by auto
  note sr = scoped_rows [OF run T rs]
  from rs have in_r: "in_range tr (akd_Day r)" and rR: "r \<in> set R" by (simp_all add: scoped_def)
  have "akd_day x \<le> akd_day r \<longleftrightarrow> until_end nanos tr (akd_Day x)" if x: "x \<in> set h" "akd_key x = akd_key r" for x
  proof
    assume "akd_day x \<le> akd_day r"
    with in_r show "until_end nanos tr (akd_Day x)" by (auto simp: in_range_def until_end_def akd_day_def split: option.splits)
  next
    assume u: "until_end nanos tr (akd_Day x)"
    show "akd_day x \<le> akd_day r"
    proof (cases "after_start nanos tr (akd_Day x)")
      case True
      with u sr(2) [OF x] obtain q where "q \<in> set (scoped pay tr R)" "akd_key q = akd_key x" "akd_day q = akd_day x"
        by (auto simp: in_range_def)
      with mx [of q] x(2) r(1) show ?thesis by (simp add: akd_key_def)
    next
      case False
      with in_r show ?thesis by (auto simp: in_range_def after_start_def akd_day_def split: option.splits)
    qed
  qed
  then have "booked akd_key (\<lambda>x. akd_day x \<le> akd_day r) akd_Balance h (akd_key r) =
      booked akd_key (\<lambda>x. until_end nanos tr (akd_Day x)) akd_Balance h (akd_key r)" by (intro booked_cong) simp
  moreover have "val (akd_Balance r) = booked akd_key (\<lambda>x. akd_day x \<le> akd_day r) akd_Balance h (akd_key r)"
    using akd_table.run_balance [OF run w _ rR] ch unfolding akd_table.chronological_def akd_key_def [abs_def] akd_day_def [abs_def] by blast
  ultimately show ?thesis using sr(1) r by (simp add: key_booked_def)
qed

lemma start_balance_exact:
  assumes run: "daily_run akd h R" and w: "whole_list (map akd_Balance h)"
    and ch: "sorted_wrt (\<lambda>x y. akd_key x = akd_key y \<longrightarrow> akd_day x \<le> akd_day y) h"
    and T: "br_TeamId pay \<noteq> 0" and ks: "(k, s) \<in> set (startBalanceQuery pay tr R)"
    and sq: "filter (\<lambda>r. balance_scope pay r \<and>
                (case tr_EndDate tr of None \<Rightarrow> True | Some e \<Rightarrow> nanos (akd_Day r) < nanos e) \<and>
                after_start nanos tr (akd_Day r)) R = scoped pay tr R"
  shows "val s = key_booked akd_Balance (\<lambda>t. \<not> after_start nanos tr t) h (k, br_TeamId pay)"
proof -
  from ks obtain r where r: "akd_AccountKey r = k" "akd_StartBalance r = s"
    and m: "r \<in> set (distinct_on akd_AccountKey (order_asc akd_AccountKey (order_asc (\<lambda>r. nanos (akd_Day r)) (scoped pay tr R))))"
    unfolding startBalanceQuery_def sq by auto
  from distinct_on_first [OF m order_asc_sorted] have rs: "r \<in> set (scoped pay tr R)"
    and mn: "\<And>q. q \<in> set (scoped pay tr R) \<Longrightarrow> akd_AccountKey q = k \<Longrightarrow> akd_day r \<le> akd_day q"
    using r(1) by (auto simp: akd_day_def)
  note sr = scoped_rows [OF run T rs]
  from rs have in_r: "in_range tr (akd_Day r)" and rR: "r \<in> set R" by (simp_all add: scoped_def)
  have "akd_day x < akd_day r \<longleftrightarrow> \<not> after_start nanos tr (akd_Day x)" if x: "x \<in> set h" "akd_key x = akd_key r" for x
  proof
    assume l: "akd_day x < akd_day r"
    show "\<not> after_start nanos tr (akd_Day x)"
    proof
      assume "after_start nanos tr (akd_Day x)"
      moreover have "until_end nanos tr (akd_Day x)"
        using in_r l by (auto simp: in_range_def until_end_def akd_day_def split: option.splits)
      ultimately obtain q where "q \<in> set (scoped pay tr R)" "akd_key q = akd_key x" "akd_day q = akd_day x"
        using sr(2) [OF x] by (auto simp: in_range_def)
      with mn [of q] x(2) r(1) l show False by (simp add: akd_key_def)
    qed
  next
    assume "\<not> after_start nanos tr (akd_Day x)"
    with in_r show "akd_day x < akd_day r" by (auto simp: in_range_def after_start_def akd_day_def split: option.splits)
  qed
  then have "booked akd_key (\<lambda>x. akd_day x < akd_day r) akd_Balance h (akd_key r) =
      booked akd_key (\<lambda>x. \<not> after_start nanos tr (akd_Day x)) akd_Balance h (akd_key r)" by (intro booked_cong) simp
  moreover have "val (akd_StartBalance r) = booked akd_key (\<lambda>x. akd_day x < akd_day r) akd_Balance h (akd_key r)"
    using akd_table.run_balance [OF run w _ rR] ch unfolding akd_table.chronological_def akd_key_def [abs_def] akd_day_def [abs_def] by blast
  ultimately show ?thesis using sr(1) r by (simp add: key_booked_def)
qed

text \<open>
  C16: The balance report of a team, after any number of messages handled without an error in day order,
  is exact: every item holds the debits and credits of its account key in the time range, the balance of
  everything up to the end, and as start balance everything up to the beginning. Every key of the request with
  an entry in the range has an item. The end must not fall on midnight of a day with a row: the query of the
  start balances leaves that day out while the others include it.
\<close>

theorem balance_report_exact:
  assumes "handled d ms st" and "Balance pay st = Inr items" and "br_TimeRange pay = Some tr" and "br_TeamId pay \<noteq> 0"
    and "\<forall>r \<in> set (rdb_account_key st). \<forall>e. tr_EndDate tr = Some e \<longrightarrow> akd_day r \<noteq> nanos e"
    and "whole_list (map akd_Debit (key_rows d ms))" and "whole_list (map akd_Credit (key_rows d ms))"
    and "whole_list (map akd_Balance (key_rows d ms))"
    and "sorted_wrt (\<lambda>x y. akd_key x = akd_key y \<longrightarrow> akd_day x \<le> akd_day y) (key_rows d ms)"
  shows "(\<forall>item \<in> set items. let k = (abi_AccountKey item, br_TeamId pay); h = key_rows d ms in
       val (abi_Debit item) = key_booked akd_Debit (in_range tr) h k \<and>
       val (abi_Credit item) = key_booked akd_Credit (in_range tr) h k \<and>
       val (abi_Balance item) = key_booked akd_Balance (until_end nanos tr) h k \<and>
       val (abi_StartBalance item) = key_booked akd_Balance (\<lambda>t. \<not> after_start nanos tr t) h k) \<and>
    (\<forall>x \<in> set (key_rows d ms). in_range tr (akd_Day x) \<longrightarrow> balance_scope pay x \<longrightarrow>
       (\<exists>item \<in> set items. abi_AccountKey item = akd_AccountKey x))"
proof -
  let ?R = "rdb_account_key st" and ?h = "key_rows d ms"
  note run = handled_key_run [OF assms(1)]
  have mid: "\<forall>r \<in> set ?R. akd_day r mod day_ns = 0"
  proof
    fix r assume r: "r \<in> set ?R"
    from akd_table.run_rows(2) [OF run r] obtain x where "x \<in> set ?h" "akd_day x = akd_day r" by (auto simp: akd_day_def)
    with key_rows_midnight [OF assms(1)] show "akd_day r mod day_ns = 0" by metis
  qed
  note items = balance_items [OF assms(2,3) mid assms(5)]
  note ks = query_keys [OF mid assms(5), where pay = pay]
  show ?thesis
  proof (intro conjI ballI impI)
    fix item assume "item \<in> set items"
    then obtain k x y b s where it: "item = \<lparr>abi_AccountKey = k, abi_Debit = x, abi_Credit = y, abi_Balance = b, abi_StartBalance = s\<rparr>"
      and m: "(k, x, y) \<in> set (dcQuery pay tr ?R)" "(k, b) \<in> set (lastBalanceQuery pay tr ?R)" "(k, s) \<in> set (startBalanceQuery pay tr ?R)"
      unfolding items by blast
    from debit_credit_exact [OF run assms(6,7,4) m(1) ks(4)] last_balance_exact [OF run assms(8,9,4) m(2)]
      start_balance_exact [OF run assms(8,9,4) m(3) ks(5)]
    show "let k = (abi_AccountKey item, br_TeamId pay); h = key_rows d ms in
       val (abi_Debit item) = key_booked akd_Debit (in_range tr) h k \<and>
       val (abi_Credit item) = key_booked akd_Credit (in_range tr) h k \<and>
       val (abi_Balance item) = key_booked akd_Balance (until_end nanos tr) h k \<and>
       val (abi_StartBalance item) = key_booked akd_Balance (\<lambda>t. \<not> after_start nanos tr t) h k"
      unfolding it by (simp add: Let_def)
  next
    fix x assume x: "x \<in> set ?h" "in_range tr (akd_Day x)" "balance_scope pay x"
    from akd_table.run_rows(1) [OF run x(1)] obtain r where r: "r \<in> set ?R" "akd_day r = akd_day x" "akd_key r = akd_key x"
      by (auto simp: akd_day_def akd_key_def)
    have "in_range tr (akd_Day r)" "balance_scope pay r"
      using x in_range_cong [of "akd_Day r" "akd_Day x" tr] r(2,3) by (simp_all add: akd_day_def balance_scope_def akd_key_def)
    then have "akd_AccountKey x \<in> akd_AccountKey ` set (scoped pay tr ?R)"
      using r by (intro image_eqI [of _ _ r]) (simp_all add: scoped_def akd_key_def)
    then have "akd_AccountKey x \<in> fst ` set (dcQuery pay tr ?R)" "akd_AccountKey x \<in> fst ` set (lastBalanceQuery pay tr ?R)"
      "akd_AccountKey x \<in> fst ` set (startBalanceQuery pay tr ?R)" using ks(1-3) by simp_all
    then obtain v w b s where "(akd_AccountKey x, v, w) \<in> set (dcQuery pay tr ?R)" "(akd_AccountKey x, b) \<in> set (lastBalanceQuery pay tr ?R)"
      "(akd_AccountKey x, s) \<in> set (startBalanceQuery pay tr ?R)" by (auto simp: image_iff)
    then have "\<lparr>abi_AccountKey = akd_AccountKey x, abi_Debit = v, abi_Credit = w, abi_Balance = b, abi_StartBalance = s\<rparr> \<in> set items"
      unfolding items by blast
    then show "\<exists>item \<in> set items. abi_AccountKey item = akd_AccountKey x" by (metis AccountBalanceItem.select_convs(1))
  qed
qed

subsection \<open>A report about the second day\<close>

text \<open>The range begins during the first day and has no end.\<close>

definition second_day :: BalanceRequest where
  "second_day = \<lparr>br_TeamId = 7, br_AccountKeys = [],
     br_TimeRange = Some \<lparr>tr_StartDate = Some \<lparr>nanos = day_ns + 1, offset = 0\<rparr>, tr_EndDate = None\<rparr>, br_Sort = None\<rparr>"

definition key_day_row :: "int \<Rightarrow> int \<Rightarrow> AccountKeyDailyBalance" where
  "key_day_row n x = \<lparr>akd_ID = 0, akd_Day = \<lparr>nanos = n * day_ns, offset = 0\<rparr>, akd_AccountKey = ''receivable'',
     akd_JournalTeamID = 7, akd_Debit = f64_of x, akd_Credit = 0, akd_Balance = f64_of x, akd_StartBalance = 0\<rparr>"

lemma sample_key_rows: "key_rows sample_db [sample_message d1 x1, sample_message d2 x2] = [key_day_row d1 x1, key_day_row d2 x2]"
  by (simp add: key_rows_def key_row_def sample_message_def amounts_of_def sample_account_row sample_amounts new_akd_def key_day_row_def)
     (simp add: sample_account_def)

theorem balance_report_exact_witness:
  "\<exists>st items. handled sample_db [sample_message 1 100, sample_message 2 50] st \<and> Balance second_day st = Inr items \<and>
     (\<exists>item \<in> set items. abi_AccountKey item = ''receivable'' \<and> val (abi_Debit item) = 50 \<and>
        val (abi_Balance item) = 150 \<and> val (abi_StartBalance item) = 100)"
proof -
  obtain st where st: "handled sample_db [sample_message 1 100, sample_message 2 50] st"
    using sample_handled by blast
  obtain items where items: "Balance second_day st = Inr items" by (simp add: Balance_def required_def second_day_def)
  let ?h = "key_rows sample_db [sample_message 1 100, sample_message 2 50]"
  let ?tr = "\<lparr>tr_StartDate = Some \<lparr>nanos = day_ns + 1, offset = 0\<rparr>, tr_EndDate = None\<rparr>"
  have tr: "br_TimeRange second_day = Some ?tr" "br_TeamId second_day = 7" by (simp_all add: second_day_def)
  have d: "0 < day_ns" by (simp add: day_ns_def)
  note ex = balance_report_exact [OF st items tr(1)]
  have "(\<forall>item \<in> set items. let k = (abi_AccountKey item, br_TeamId second_day); h = ?h in
       val (abi_Debit item) = key_booked akd_Debit (in_range ?tr) h k \<and>
       val (abi_Credit item) = key_booked akd_Credit (in_range ?tr) h k \<and>
       val (abi_Balance item) = key_booked akd_Balance (until_end nanos ?tr) h k \<and>
       val (abi_StartBalance item) = key_booked akd_Balance (\<lambda>t. \<not> after_start nanos ?tr t) h k) \<and>
    (\<forall>x \<in> set ?h. in_range ?tr (akd_Day x) \<longrightarrow> balance_scope second_day x \<longrightarrow>
       (\<exists>item \<in> set items. abi_AccountKey item = akd_AccountKey x))"
    by (rule ex) (simp_all add: tr sample_key_rows key_day_row_def whole_list_def whole_f64_of val_f64_of akd_key_def akd_day_def d)
  moreover have "in_range ?tr (akd_Day (key_day_row 2 50))" "balance_scope second_day (key_day_row 2 50)"
    by (simp_all add: in_range_def until_end_def after_start_def key_day_row_def balance_scope_def second_day_def day_ns_def)
  ultimately obtain item where it: "item \<in> set items" "abi_AccountKey item = ''receivable''"
    "val (abi_Debit item) = key_booked akd_Debit (in_range ?tr) ?h (''receivable'', 7)"
    "val (abi_Balance item) = key_booked akd_Balance (until_end nanos ?tr) ?h (''receivable'', 7)"
    "val (abi_StartBalance item) = key_booked akd_Balance (\<lambda>t. \<not> after_start nanos ?tr t) ?h (''receivable'', 7)"
    by (auto simp: sample_key_rows tr(2) Let_def) (auto simp: key_day_row_def)
  then have "val (abi_Debit item) = 50 \<and> val (abi_Balance item) = 150 \<and> val (abi_StartBalance item) = 100"
    by (simp add: key_booked_def sample_key_rows key_day_row_def akd_key_def in_range_def until_end_def after_start_def val_f64_of day_ns_def)
  with st items it(1,2) show ?thesis by blast
qed

end
