(* ===== verification/ViewSpec.thy ===== *)
theory ViewSpec
  imports LedgerViews Reports DailyContract Samples BankAccounts
begin

section \<open>Lists, pages and the export: properties\<close>

text \<open>
  The pages a report announces hold all its rows, those of the lists that divide as integers do not.
  The export sends what the list shows, and a transaction's detail is its entries, team by team.
\<close>

subsection \<open>Pages of a report\<close>

definition page_of :: "int \<Rightarrow> int \<Rightarrow> DailyBalanceRequest \<Rightarrow> DailyBalanceRequest" where
  "page_of l p pay = pay\<lparr>dbr_Page := Some \<lparr>pg_Page = p, pg_Limit = l\<rparr>\<rparr>"

lemma page_of_fields [simp]: "dbr_Page (page_of l p pay) = Some \<lparr>pg_Page = p, pg_Limit = l\<rparr>"
  "dbr_TimeRange (page_of l p pay) = dbr_TimeRange pay"
  "createDailyReportQ (page_of l p pay) = createDailyReportQ pay" "baseQ tz (page_of l p pay) = baseQ tz pay"
  by (simp_all add: page_of_def createDailyReportQ_def baseQ_def debitCreditQ_def balanceQ_def fun_eq_iff Let_def)

text \<open>The data of a page, and the number of pages it announces.\<close>

definition data_of :: "err + 'a list \<times> PageInfo \<Rightarrow> 'a list" where
  "data_of r = (case r of Inl e \<Rightarrow> [] | Inr (xs, info) \<Rightarrow> xs)"

definition announced :: "err + 'a list \<times> PageInfo \<Rightarrow> int option" where
  "announced r = (case r of Inl e \<Rightarrow> None | Inr (xs, info) \<Rightarrow> pi_TotalPage info)"

lemma ceil_page_simps: "data_of (Inr (ceil_page page rows)) = page_rows page rows"
  "announced (Inr (ceil_page page rows)) = ceil_pages (int (length rows)) (pg_Limit page)"
  by (simp_all add: data_of_def announced_def ceil_page_def)

text \<open>
  C21: Reading all the pages that the daily or the monthly report announces, whatever the request, gives
  each row of the report exactly once and in order, and the last page is not empty unless it is the
  only one. The float division behind the number of pages does not lose a row: the limit and the
  number of rows are below \<open>2^53\<close>.
\<close>

theorem report_pages_complete:
  assumes "dbr_TimeRange pay = Some tr" and "0 < l" and "l < 2 ^ 53"
    and "length (createDailyReportQ pay tr (rdb_account_key st)) < 2 ^ 53"
    and "length (baseQ tz pay tr (rdb_account_key st)) < 2 ^ 53"
  shows "(\<exists>t. (\<forall>p. announced (DailyBalance_rpc (page_of l p pay) st) = Some t) \<and>
      concat (map (\<lambda>p. data_of (DailyBalance_rpc (page_of l p pay) st)) [1..t]) = createDailyReportQ pay tr (rdb_account_key st) \<and>
      (1 < t \<longrightarrow> data_of (DailyBalance_rpc (page_of l t pay) st) \<noteq> [])) \<and>
    (\<exists>t. (\<forall>p. announced (MonthlyBalance tz (page_of l p pay) st) = Some t) \<and>
      concat (map (\<lambda>p. data_of (MonthlyBalance tz (page_of l p pay) st)) [1..t]) = baseQ tz pay tr (rdb_account_key st) \<and>
      (1 < t \<longrightarrow> data_of (MonthlyBalance tz (page_of l t pay) st) \<noteq> []))"
  using rounded_up.all_rows [OF assms(2,3,4)] rounded_up.all_rows [OF assms(2,3,5)] assms(1)
  by (auto simp: DailyBalance_rpc_def MonthlyBalance_def required_def ceil_page_simps pages_upto_def)

subsection \<open>Pages of the transfers\<close>

definition transfers_page :: "int \<Rightarrow> int \<Rightarrow> AccountMutationListRequest \<Rightarrow> AccountMutationListRequest" where
  "transfers_page l p pay = pay\<lparr>amr_Page := Some \<lparr>pg_Page = p, pg_Limit = l\<rparr>\<rparr>"

lemma transfers_page_fields [simp]: "amr_Page (transfers_page l p pay) = Some \<lparr>pg_Page = p, pg_Limit = l\<rparr>"
  "mutation_query (transfers_page l p pay) d = mutation_query pay d" "amr_TeamId (transfers_page l p pay) = amr_TeamId pay"
  by (simp_all add: transfers_page_def mutation_query_def)

text \<open>
  C40: The list of transfers announces the rounded-down number of pages: reading all of them misses the rest
  of the division, unless there is only one page.
\<close>

theorem transfer_pages_incomplete:
  assumes "HasPermission ident ''accounting/bank_transfer'' team ActRead = None" and "0 < l"
    and "l \<le> int (length (mutation_query pay d))" and "int (length (mutation_query pay d)) < 2 ^ 63"
  shows "\<exists>t. (\<forall>p \<ge> 1. announced (AccountMutationList types (Some transfer_at) ident (Inr team) (transfers_page l p pay) d) = Some t) \<and>
    concat (map (\<lambda>p. data_of (AccountMutationList types (Some transfer_at) ident (Inr team) (transfers_page l p pay) d)) [1..t]) =
      map (mutation_item types transfer_at d (amr_TeamId pay))
        (take (length (mutation_query pay d) - length (mutation_query pay d) mod nat l) (mutation_query pay d))"
proof -
  let ?rows = "mutation_query pay d" and ?f = "mutation_item types transfer_at d (amr_TeamId pay)"
  from floor_pages_rows [OF assms(2,4)] obtain t where t: "floor_pages (int (length ?rows)) l = Inr t"
    and rows: "pages_upto t l ?rows = take (length ?rows - length ?rows mod nat l) ?rows" by blast
  have "t = int (length ?rows) div l" using t assms(2) by (auto simp: floor_pages_def signed_divide_int_def sgn_if)
  with assms(2,3) have "0 < t" by (simp add: pos_imp_zdiv_pos_iff)
  with t have t1: "floor_pages1 (int (length ?rows)) l = Inr t" by (simp add: floor_pages1_def)
  have run: "AccountMutationList types (Some transfer_at) ident (Inr team) (transfers_page l p pay) d =
      Inr (map ?f (page_rows \<lparr>pg_Page = p, pg_Limit = l\<rparr> ?rows), \<lparr>pi_CurrentPage = p, pi_TotalPage = Some t, pi_TotalItems = int (length ?rows)\<rparr>)"
    if "1 \<le> p" for p
    using assms(1,2) t1 that by (simp add: AccountMutationList_def page_defaults_def floor_page_def)
  have c: "concat (map (\<lambda>p. map ?f (page_rows \<lparr>pg_Page = p, pg_Limit = l\<rparr> ?rows)) [1..t]) = map ?f (pages_upto t l ?rows)"
    by (simp add: pages_upto_def map_concat comp_def)
  have "map (\<lambda>p. data_of (AccountMutationList types (Some transfer_at) ident (Inr team) (transfers_page l p pay) d)) [1..t] =
      map (\<lambda>p. map ?f (page_rows \<lparr>pg_Page = p, pg_Limit = l\<rparr> ?rows)) [1..t]"
    by (intro map_cong refl) (simp add: run data_of_def)
  from arg_cong [OF this, of concat] c rows
  have "concat (map (\<lambda>p. data_of (AccountMutationList types (Some transfer_at) ident (Inr team) (transfers_page l p pay) d)) [1..t]) =
      map ?f (take (length ?rows - length ?rows mod nat l) ?rows)" by (simp only:)
  moreover have "announced (AccountMutationList types (Some transfer_at) ident (Inr team) (transfers_page l p pay) d) = Some t" if "1 \<le> p" for p
    using run [OF that] by (simp add: announced_def)
  ultimately show ?thesis by blast
qed

subsection \<open>The export\<close>

definition list_request :: "EntryListExportRequest \<Rightarrow> EntryListRequest" where
  "list_request pay = \<lparr>enr_TeamId = exr_TeamId pay, enr_AccountKey = exr_AccountKey pay, enr_AccountTeamId = 0,
     enr_Keyword = exr_Keyword pay, enr_ShopId = 0, enr_TimeRange = exr_TimeRange pay, enr_Marketplace = None,
     enr_Label = [], enr_Page = None, enr_Sort = None\<rparr>"

definition export_record :: "(int \<Rightarrow> string) \<Rightarrow> (f64 \<Rightarrow> string) \<Rightarrow> EntryItem \<Rightarrow> string list" where
  "export_record time_String fmt item = [time_String (ei_EntryTime item), ei_Desc item, fmt (ei_Debit item), fmt (ei_Credit item),
     fmt (ei_Balance item), ea_Name (ei_Account item)]"

text \<open>The messages with the records, numbered from \<open>i + 1\<close>; what is in the buffer goes out with the first.\<close>

fun data_messages :: "(string list \<Rightarrow> string) \<Rightarrow> int \<Rightarrow> int \<Rightarrow> string \<Rightarrow> string list list \<Rightarrow> ExportMessage list" where
  "data_messages csv n i buf [] = []"
| "data_messages csv n i buf (r # rs) = Data (i + 1) n (buf @ csv r) # data_messages csv n (i + 1) [] rs"

lemma handle_all_export:
  assumes "\<And>r. csv r \<noteq> []"
  shows "\<exists>w'. handle_all (export_entry csv ts fmt n) items w = (None, w') \<and>
    sw_sent w' = sw_sent w @ data_messages csv n (sw_offset w) (sw_buffer w) (map (export_record ts fmt) items)"
proof (induction items arbitrary: w)
  case (Cons x xs)
  let ?w = "w\<lparr>sw_sent := sw_sent w @ [Data (sw_offset w + 1) n (sw_buffer w @ csv (export_record ts fmt x))],
      sw_offset := sw_offset w + 1, sw_buffer := []\<rparr>"
  have "export_entry csv ts fmt n x w = (None, ?w)"
    using assms by (simp add: export_entry_def flush_csv_def export_record_def)
  with Cons.IH [of ?w] show ?case by simp
qed simp


subsection \<open>The detail of a transaction\<close>

lemma map_of_add_to_map:
  "map_of (add_to_map r m) t = (if t = fst r then Some ((case map_of m t of None \<Rightarrow> [] | Some l \<Rightarrow> l) @ [snd r]) else map_of m t)"
  by (simp add: add_to_map_def map_of_alist_upd)

text \<open>A group of the detail: the team's entries, in their order, none if the team has no group.\<close>

definition team_entries :: "nat \<Rightarrow> JournalEntry list \<Rightarrow> EntryItem list" where
  "team_entries t es = map (\<lambda>e. detail_entry e (the (je_Account e))) (filter (\<lambda>e. je_TeamID e = t) es)"

lemma group_entries_groups:
  assumes "\<And>e. e \<in> set es \<Longrightarrow> je_Account e \<noteq> None" and "distinct (map fst m)"
  shows "\<exists>m'. group_entries es m = Inr m' \<and> distinct (map fst m') \<and>
    (\<forall>t. map_of m' t = (if team_entries t es = [] then map_of m t
       else Some ((case map_of m t of None \<Rightarrow> [] | Some l \<Rightarrow> l) @ team_entries t es)))"
  using assms
proof (induction es arbitrary: m)
  case (Cons e es)
  from Cons.prems(1) [of e] obtain a where a: "je_Account e = Some a" by auto
  let ?m = "add_to_map (je_TeamID e, detail_entry e a) m"
  have "distinct (map fst ?m)" using Cons.prems(2) by (simp add: add_to_map_def distinct_alist_upd)
  with Cons.IH [of ?m] Cons.prems(1) obtain m' where "group_entries es ?m = Inr m'" "distinct (map fst m')"
    "\<And>t. map_of m' t = (if team_entries t es = [] then map_of ?m t
       else Some ((case map_of ?m t of None \<Rightarrow> [] | Some l \<Rightarrow> l) @ team_entries t es))" by auto
  with a show ?case
    by (intro exI [of _ m']) (auto simp: map_of_add_to_map team_entries_def split: option.splits)
qed (simp add: team_entries_def)

text \<open>
  C24: The detail of a transaction, if every entry still has its account, is one group per team of its
  entries, whatever the order of the groups: the team's entries in their order, each once. An unknown
  transaction is an error.
\<close>

theorem transaction_detail_groups:
  assumes "iter_ok (iter en)" and "\<And>e. e \<in> set (entries_of_tx d txID) \<Longrightarrow> je_Account e \<noteq> None"
  shows "case find (\<lambda>t. tx_ID t = txID) (db_txs d) of
      None \<Rightarrow> TransactionDetail en txID d = Inl ErrRecordNotFound
    | Some r \<Rightarrow> \<exists>groups. TransactionDetail en txID d = Inr (r, groups) \<and> distinct (map fst groups) \<and>
        (\<forall>t. map_of groups t =
          (if team_entries t (entries_of_tx d txID) = [] then None else Some (team_entries t (entries_of_tx d txID))))"
proof (cases "find (\<lambda>t. tx_ID t = txID) (db_txs d)")
  case (Some r)
  then have "tx_ID r = txID" by (auto dest: find_SomeD)
  moreover from group_entries_groups [of "entries_of_tx d txID" "[]"] assms(2) obtain m where
    "group_entries (entries_of_tx d txID) [] = Inr m" "distinct (map fst m)"
    "\<And>t. map_of m t = (if team_entries t (entries_of_tx d txID) = [] then None else Some (team_entries t (entries_of_tx d txID)))"
    by auto
  ultimately show ?thesis
    using Some assms(1) by (simp add: TransactionDetail_def toGroupProto_def range_map_lookup range_map_distinct)
qed (simp add: TransactionDetail_def)

subsection \<open>Evaluations\<close>

definition no_names :: enum_names where
  "no_names = \<lparr>OrderType_name = (\<lambda>_. []), RevenueSource_name = (\<lambda>_. []), MutationPurpose_name = (\<lambda>_. []), InboundSource_name = (\<lambda>_. [])\<rparr>"

definition report_row :: "int \<Rightarrow> int \<Rightarrow> AccountKeyDailyBalance" where
  "report_row dy c = \<lparr>akd_ID = 0, akd_Day = \<lparr>nanos = dy * day_ns, offset = 0\<rparr>, akd_AccountKey = ''cash'', akd_JournalTeamID = 7,
     akd_Debit = f64_of c, akd_Credit = 0, akd_Balance = f64_of c, akd_StartBalance = 0\<rparr>"

definition two_rows :: report_db where
  "two_rows = empty_report\<lparr>rdb_account_key := [report_row 738900 5, report_row 738901 6]\<rparr>"

definition cash_report :: DailyBalanceRequest where
  "cash_report = \<lparr>dbr_TeamId = 7, dbr_AccountKey = ''cash'', dbr_TimeRange = Some \<lparr>tr_StartDate = None, tr_EndDate = None\<rparr>,
     dbr_Page = None, dbr_Sort = Some SORT_TYPE_ASC\<rparr>"

lemma mid_january: "month_start ((738900 * day_ns + jakarta) div day_ns) = 738885"
  "month_start ((738901 * day_ns + jakarta) div day_ns) = 738885"
  "month_start 738900 = 738885" "month_start 738901 = 738885"
  by (simp_all add: day_ns_def jakarta_def month_start_def march_doy_def march_year_def Let_def)

lemma january:
  "UnixMicro (trunc_instant month_start 0 (akd_Day (report_row 738900 c))) = 1704067200000000"
  "UnixMicro (trunc_instant month_start 0 (akd_Day (report_row 738901 c))) = 1704067200000000"
  "UnixMicro (trunc_local month_start jakarta (akd_Day (report_row 738900 c))) = 1704067200000000"
  "UnixMicro (trunc_local month_start jakarta (akd_Day (report_row 738901 c))) = 1704067200000000"
  by (simp_all add: trunc_instant_def trunc_local_def mid_january report_row_def UnixMicro_def,
      simp_all add: day_ns_def jakarta_def)

lemma report_row_fields: "akd_AccountKey (report_row dy c) = ''cash''" "akd_JournalTeamID (report_row dy c) = 7"
  by (simp_all add: report_row_def)

text \<open>Two days in one month: two pages of one row each, and one page.\<close>

theorem report_pages_complete_witness:
  "(\<exists>t. announced (DailyBalance_rpc (page_of 2 1 cash_report) two_rows) = Some t \<and>
     length (concat (map (\<lambda>p. data_of (DailyBalance_rpc (page_of 2 p cash_report) two_rows)) [1..t])) = 2) \<and>
   (\<exists>t. announced (MonthlyBalance 0 (page_of 2 1 cash_report) two_rows) = Some t \<and>
     length (concat (map (\<lambda>p. data_of (MonthlyBalance 0 (page_of 2 p cash_report) two_rows)) [1..t])) = 1)"
proof -
  have tr: "dbr_TimeRange cash_report = Some \<lparr>tr_StartDate = None, tr_EndDate = None\<rparr>" by (simp add: cash_report_def)
  have d: "length (createDailyReportQ cash_report \<lparr>tr_StartDate = None, tr_EndDate = None\<rparr> (rdb_account_key two_rows)) = 2"
    by (simp add: createDailyReportQ_def cash_report_def two_rows_def report_row_def group_by_def order_by_def order_asc_def
        sort_type_def in_days_def until_end_def after_start_def day_ns_def)
  have m: "length (baseQ 0 cash_report \<lparr>tr_StartDate = None, tr_EndDate = None\<rparr> (rdb_account_key two_rows)) = 1"
    by (simp add: baseQ_def debitCreditQ_def balanceQ_def cash_report_def two_rows_def january report_row_fields group_by_def
        order_by_def order_asc_def order_desc_def in_days_def until_end_def after_start_def full_outer_def Let_def)
  from report_pages_complete [OF tr, of 2 two_rows 0] d m show ?thesis by auto
qed

definition bank_row :: BankAccountV2 where
  "bank_row = \<lparr>ba_ID = 3, ba_TeamID = 7, ba_AccountTypeID = 2, ba_Name = ''bank'', ba_NumberID = ''10'', ba_Balance = 0,
     ba_Disabled = False, ba_Deleted = False, ba_CreatedAt = sample_time, ba_DeletedAt = sample_time\<rparr>"

definition transfer_row :: "nat \<Rightarrow> BankTransferHistory" where
  "transfer_row i = \<lparr>bh_ID = i, bh_TxID = i, bh_TeamID = 7, bh_FromAccountID = 3, bh_ToAccountID = 4, bh_Amount = f64_of 5,
     bh_FeeAmount = 0, bh_Desc = [], bh_Purpose = 0, bh_Created = sample_time\<rparr>"

definition transfers_db :: db where
  "transfers_db = empty_db\<lparr>db_bank_accounts := [bank_row], db_transfers := map transfer_row [11, 12, 13]\<rparr>"

definition transfers_of :: AccountMutationListRequest where
  "transfers_of = \<lparr>amr_TeamId = 7, amr_AccountId = 0, amr_TimeRange = None, amr_Page = None\<rparr>"

text \<open>Of three transfers in pages of two, one page is announced.\<close>

theorem transfer_pages_incomplete_witness:
  "\<exists>t. announced (AccountMutationList [] (Some (\<lambda>_. 0)) anyone (Inr 7) (transfers_page 2 1 transfers_of) transfers_db) = Some t \<and>
     length (concat (map (\<lambda>p. data_of (AccountMutationList [] (Some (\<lambda>_. 0)) anyone (Inr 7) (transfers_page 2 p transfers_of) transfers_db)) [1..t])) = 2"
proof -
  have q: "mutation_query transfers_of transfers_db = map transfer_row [11, 12, 13]"
    by (simp add: mutation_query_def transfers_of_def transfers_db_def empty_db_def transfer_row_def bank_row_def from_team_def)
  show ?thesis
    using transfer_pages_incomplete [of anyone 7 2 transfers_of transfers_db "[]" "\<lambda>_. 0"] unfolding q by auto
qed

definition cash_export :: EntryListExportRequest where
  "cash_export = \<lparr>exr_TeamId = 7, exr_AccountKey = ''cash'', exr_Keyword = [],
     exr_TimeRange = Some \<lparr>tr_StartDate = None, tr_EndDate = None\<rparr>\<rparr>"


theorem transaction_detail_groups_witness:
  "\<exists>groups. TransactionDetail sample_env 50 booked_db = Inr (paid_tx, groups) \<and> length (the (map_of groups 7)) = 2"
proof -
  have f: "find (\<lambda>t. tx_ID t = 50) (db_txs booked_db) = Some paid_tx" by (simp add: booked_db_def paid_tx_def)
  have a: "je_Account e \<noteq> None" if "e \<in> set (entries_of_tx booked_db 50)" for e using that by (auto simp: booked_entries)
  have t: "length (team_entries 7 (entries_of_tx booked_db 50)) = 2"
    by (simp add: team_entries_def booked_entries paid_row_def)
  then have n: "team_entries 7 (entries_of_tx booked_db 50) \<noteq> []" by auto
  from transaction_detail_groups [OF iter_ok_sample, of booked_db 50] a
  have "\<exists>groups. TransactionDetail sample_env 50 booked_db = Inr (paid_tx, groups) \<and> distinct (map fst groups) \<and>
      (\<forall>t. map_of groups t = (if team_entries t (entries_of_tx booked_db 50) = [] then None
        else Some (team_entries t (entries_of_tx booked_db 50))))"
    unfolding f option.case by blast
  then obtain groups where "TransactionDetail sample_env 50 booked_db = Inr (paid_tx, groups)"
    "\<And>t. map_of groups t = (if team_entries t (entries_of_tx booked_db 50) = [] then None
        else Some (team_entries t (entries_of_tx booked_db 50)))" by blast
  with t n show ?thesis by simp
qed

end
