(* ===== verification/Reporting.thy ===== *)
theory Reporting
  imports BookingSpec
begin

section \<open>The journal and what the report service is told\<close>

text \<open>
  The handlers of the services, \<open>OpenTransaction\<close> and the report service together: which of the rows that a
  request adds to the journal reach the daily balances.
\<close>

subsection \<open>What a transaction's book knows of its rows\<close>

text \<open>A row as the report service sees it, without its id.\<close>

definition plain :: "EntryPayload \<Rightarrow> EntryPayload" where
  "plain p = p\<lparr>ep_Id := 0\<rparr>"

definition plain_row :: "JournalEntry \<Rightarrow> EntryPayload" where
  "plain_row e = plain (entry_payload e)"

definition same_booking :: "EntryPayload \<Rightarrow> EntryPayload \<Rightarrow> bool" where
  "same_booking l p \<longleftrightarrow> ep_AccountId p = ep_AccountId l \<and> ep_TeamId p = ep_TeamId l \<and>
     ep_TransactionId p = ep_TransactionId l \<and> ep_EntryTime p = ep_EntryTime l"

text \<open>The debit rows of entries with both sides; the rows of their credits are among \<open>rows\<close>.\<close>

definition halves :: "JournalEntry list \<Rightarrow> EntryPayload list \<Rightarrow> bool" where
  "halves rows lost \<longleftrightarrow> (\<forall>l \<in> set lost. ep_Credit l = 0 \<and> 0 < ep_Debit l \<and>
     (\<exists>p \<in> set rows. same_booking l (entry_payload p) \<and> je_Debit p = 0 \<and> 0 < je_Credit p))"

text \<open>New rows of the journal against new entries of the book.\<close>

definition told :: "JournalEntry list \<Rightarrow> EntryPayload list \<Rightarrow> EntryPayload list \<Rightarrow> bool" where
  "told rows ps lost \<longleftrightarrow> mset (map plain_row rows) = mset (map plain ps) + mset lost"

definition grows :: "session \<Rightarrow> session \<Rightarrow> bool" where
  "grows s s' \<longleftrightarrow> (\<exists>rows es lost. db_entries (s_db s') = db_entries (s_db s) @ rows \<and> s_entries s' = s_entries s @ es \<and>
     halves rows lost \<and> ((\<forall>e \<in> set es. je_ID e \<noteq> 0) \<longrightarrow> told rows (map entry_payload es) lost))"

lemma grows_same: "db_entries (s_db s') = db_entries (s_db s) \<Longrightarrow> s_entries s' = s_entries s \<Longrightarrow> grows s s'"
  unfolding grows_def by (intro exI [of _ "[]"]) (simp add: halves_def told_def)

lemma halves_append: "halves rows lost \<Longrightarrow> halves rows' lost' \<Longrightarrow> halves (rows @ rows') (lost @ lost')"
  unfolding halves_def by auto

lemma told_append: "told rows ps lost \<Longrightarrow> told rows' ps' lost' \<Longrightarrow> told (rows @ rows') (ps @ ps') (lost @ lost')"
  by (simp add: told_def)

lemma grows_trans:
  assumes "grows s s1" and "grows s1 s2"
  shows "grows s s2"
proof -
  from assms(1) obtain rows es lost where
    1: "db_entries (s_db s1) = db_entries (s_db s) @ rows" "s_entries s1 = s_entries s @ es" "halves rows lost"
      "(\<forall>e \<in> set es. je_ID e \<noteq> 0) \<Longrightarrow> told rows (map entry_payload es) lost" unfolding grows_def by blast
  from assms(2) obtain rows' es' lost' where
    2: "db_entries (s_db s2) = db_entries (s_db s1) @ rows'" "s_entries s2 = s_entries s1 @ es'" "halves rows' lost'"
      "(\<forall>e \<in> set es'. je_ID e \<noteq> 0) \<Longrightarrow> told rows' (map entry_payload es') lost'" unfolding grows_def by blast
  from told_append [OF 1(4) 2(4)] show ?thesis
    unfolding grows_def
    by (intro exI [of _ "rows @ rows'"] exI [of _ "es @ es'"] exI [of _ "lost @ lost'"])
      (use 1(1,2) 2(1,2) halves_append [OF 1(3) 2(3)] in auto)
qed

subsection \<open>A commit\<close>

lemma plain_number_rows: "map plain_row (number_rows n R) = map plain_row R"
  by (induction n R rule: number_rows.induct) (simp_all add: plain_row_def plain_def entry_payload_def)

lemma book_entry_rows:
  assumes "book_entry incl e b" and "je_ID b \<noteq> 0"
  shows "\<exists>lost. mset (map plain_row (rows_of incl e)) = {#plain_row b#} + mset lost \<and>
    (\<forall>l \<in> set lost. ep_Credit l = 0 \<and> 0 < ep_Debit l \<and>
       (\<exists>p \<in> set (rows_of incl e). same_booking l (entry_payload p) \<and> je_Debit p = 0 \<and> 0 < je_Credit p))"
proof -
  have b: "plain_row b = plain_row (final_of incl e)"
  proof -
    have "plain_row b = plain_row (b\<lparr>je_ID := 0\<rparr>)" by (simp add: plain_row_def plain_def entry_payload_def)
    with assms(1) show ?thesis by (simp add: book_entry_def)
  qed
  show ?thesis
  proof (cases "je_Debit e > 0 \<and> je_Credit e > 0 \<and> (incl \<or> je_Debit e \<noteq> je_Credit e)")
    case True
    then show ?thesis
      by (intro exI [of _ "[plain_row (e\<lparr>je_Credit := 0\<rparr>)]"])
        (unfold b, auto simp: rows_of_def final_of_def plain_row_def plain_def entry_payload_def same_booking_def)
  next
    case False
    with assms show ?thesis
      by (intro exI [of _ "[]"]) (unfold b, auto simp: rows_of_def final_of_def book_entry_def split: if_splits)
  qed
qed

lemma book_rows:
  assumes "\<And>k. k \<in> set K \<Longrightarrow> book_entry incl (P k) (B k)" and "\<And>k. k \<in> set K \<Longrightarrow> je_ID (B k) \<noteq> 0"
  shows "\<exists>lost. mset (map plain_row (concat (map (\<lambda>k. rows_of incl (P k)) K))) = mset (map plain_row (map B K)) + mset lost \<and>
    (\<forall>l \<in> set lost. ep_Credit l = 0 \<and> 0 < ep_Debit l \<and> (\<exists>p \<in> set (concat (map (\<lambda>k. rows_of incl (P k)) K)).
       same_booking l (entry_payload p) \<and> je_Debit p = 0 \<and> 0 < je_Credit p))"
  using assms
proof (induction K)
  case (Cons k K)
  from Cons obtain lost where 1: "mset (map plain_row (concat (map (\<lambda>k. rows_of incl (P k)) K))) =
      mset (map plain_row (map B K)) + mset lost"
    "\<forall>l \<in> set lost. ep_Credit l = 0 \<and> 0 < ep_Debit l \<and> (\<exists>p \<in> set (concat (map (\<lambda>k. rows_of incl (P k)) K)).
       same_booking l (entry_payload p) \<and> je_Debit p = 0 \<and> 0 < je_Credit p)" by auto
  from book_entry_rows [of incl "P k" "B k"] Cons.prems obtain lost' where
    2: "mset (map plain_row (rows_of incl (P k))) = {#plain_row (B k)#} + mset lost'"
      "\<forall>l \<in> set lost'. ep_Credit l = 0 \<and> 0 < ep_Debit l \<and>
       (\<exists>p \<in> set (rows_of incl (P k)). same_booking l (entry_payload p) \<and> je_Debit p = 0 \<and> 0 < je_Credit p)" by auto
  have "mset (map plain_row (concat (map (\<lambda>k. rows_of incl (P k)) (k # K)))) =
      mset (map plain_row (map B (k # K))) + mset (lost' @ lost)"
    using 1(1) 2(1) by simp
  moreover have "\<forall>l \<in> set (lost' @ lost). ep_Credit l = 0 \<and> 0 < ep_Debit l \<and>
      (\<exists>p \<in> set (concat (map (\<lambda>k. rows_of incl (P k)) (k # K))).
        same_booking l (entry_payload p) \<and> je_Debit p = 0 \<and> 0 < je_Credit p)"
    using 1(2) 2(2) by fastforce
  ultimately show ?case by blast
qed simp

lemma range_map_values:
  assumes "\<And>k. k \<in> set (it (map fst m)) \<Longrightarrow> map_of m k = Some (V k)"
  shows "range_map it m = map (\<lambda>k. (k, V k)) (it (map fst m))"
proof -
  have "List.map_filter (\<lambda>k. map_option (Pair k) (map_of m k)) ks = map (\<lambda>k. (k, V k)) ks"
    if "set ks \<subseteq> set (it (map fst m))" for ks
    using that assms by (induction ks) (auto simp: List.map_filter_simps)
  then show ?thesis by (simp add: range_map_def)
qed

lemma commit_grows:
  assumes p: "plain_opts opts incl f" and it: "iter_ok (iter en)" and c: "fresh_builder c"
    and run: "commitA en opts c s = (Inr (), s')"
  shows "grows s s'"
proof -
  from commitA_Inr [OF run] have ne: "ce_entries c \<noteq> []" and err: "ce_err (fst (Commit en opts c s)) = None"
    and s': "s' = snd (Commit en opts c s)" by auto
  from Commit_book [OF p it c ne err] obtain m where m: "s_entries s' = s_entries s @ map snd (range_map (iter en) m)"
    "map fst m = map fst (ce_entries c)"
    "\<And>k e. map_of (ce_entries c) k = Some e \<Longrightarrow> \<exists>b. map_of m k = Some b \<and> book_entry incl (prepared en c f e) b"
    unfolding s' by blast
  let ?K = "iter en (map fst (ce_entries c))"
  define E where "E k = the (map_of (ce_entries c) k)" for k
  define B where "B k = the (map_of m k)" for k
  have K: "set ?K = fst ` set (ce_entries c)" using it unfolding iter_ok_def by (metis set_map set_mset_mset)
  have E: "map_of (ce_entries c) k = Some (E k)" if "k \<in> set ?K" for k
  proof -
    from that K have "map_of (ce_entries c) k \<noteq> None" by (simp add: map_of_eq_None_iff)
    then show ?thesis by (auto simp: E_def)
  qed
  have B: "map_of m k = Some (B k) \<and> book_entry incl (prepared en c f (E k)) (B k)" if "k \<in> set ?K" for k
    using m(3) [OF E [OF that]] by (auto simp: B_def)
  let ?R = "concat (map (\<lambda>k. rows_of incl (prepared en c f (E k))) ?K)"
  have "commit_rows en incl f c = ?R"
    using range_map_values [of "iter en" "ce_entries c" E] E by (simp add: commit_rows_def comp_def)
  with Commit_rows_db [OF p it c err] have d: "db_entries (s_db s') = db_entries (s_db s) @ number_rows (db_seq (s_db s)) ?R"
    by (simp add: s' insert_rows_def)
  have es: "s_entries s' = s_entries s @ map B ?K"
    using range_map_values [of "iter en" m B] B m(1,2) by (simp add: comp_def)
  show ?thesis
  proof (cases "\<forall>e \<in> set (map B ?K). je_ID e \<noteq> 0")
    case True
    with book_rows [of ?K incl "\<lambda>k. prepared en c f (E k)" B] B obtain lost where
      l: "mset (map plain_row ?R) = mset (map plain_row (map B ?K)) + mset lost"
      "\<forall>l \<in> set lost. ep_Credit l = 0 \<and> 0 < ep_Debit l \<and> (\<exists>p \<in> set ?R.
       same_booking l (entry_payload p) \<and> je_Debit p = 0 \<and> 0 < je_Credit p)" by auto
    have "\<exists>q \<in> set (number_rows (db_seq (s_db s)) ?R). same_booking l (entry_payload q) \<and> je_Debit q = 0 \<and> 0 < je_Credit q"
      if "p \<in> set ?R" "same_booking l (entry_payload p)" "je_Debit p = 0" "0 < je_Credit p" for l p
    proof -
      from number_rows_member [OF that(1)] obtain i where "p\<lparr>je_ID := i\<rparr> \<in> set (number_rows (db_seq (s_db s)) ?R)" by blast
      with that(2-4) show ?thesis
        by (intro bexI [of _ "p\<lparr>je_ID := i\<rparr>"]) (simp_all add: same_booking_def entry_payload_def)
    qed
    with l(2) have "halves (number_rows (db_seq (s_db s)) ?R) lost" unfolding halves_def by blast
    moreover have "told (number_rows (db_seq (s_db s)) ?R) (map entry_payload (map B ?K)) lost"
      using l(1) unfolding told_def plain_number_rows by (simp add: plain_row_def comp_def)
    ultimately show ?thesis unfolding grows_def using d es by blast
  next
    case False
    then show ?thesis unfolding grows_def
      by (intro exI [of _ "number_rows (db_seq (s_db s)) ?R"] exI [of _ "map B ?K"] exI [of _ "[]"] conjI impI d es)
        (simp add: halves_def, erule notE [OF False])
  qed
qed

subsection \<open>Handlers\<close>

text \<open>A handler that sends nothing itself, and whose book knows its rows if it succeeds.\<close>

definition recorded :: "'a action \<Rightarrow> bool" where
  "recorded h \<longleftrightarrow> (\<forall>s r s'. h s = (r, s') \<longrightarrow> s_outbox s' = s_outbox s \<and> (\<forall>x. r = Inr x \<longrightarrow> grows s s'))"

named_theorems rec \<open>rules for \<open>recorded\<close>\<close>

lemma recordedI:
  "(\<And>s r s'. h s = (r, s') \<Longrightarrow> s_outbox s' = s_outbox s) \<Longrightarrow> (\<And>s x s'. h s = (Inr x, s') \<Longrightarrow> grows s s') \<Longrightarrow> recorded h"
  by (auto simp: recorded_def)

lemma recordedD: "recorded h \<Longrightarrow> h s = (r, s') \<Longrightarrow> s_outbox s' = s_outbox s"
  "recorded h \<Longrightarrow> h s = (Inr x, s') \<Longrightarrow> grows s s'"
  by (auto simp: recorded_def)

lemma recorded_simple [rec]: "recorded (returnA x)" "recorded (failA e)" "recorded (checkA eo)" "recorded (readA f)"
  "recorded (derefA p)" "recorded (uncommittedA en team user calls)"
  by (auto intro!: recordedI grows_same
      simp: returnA_def failA_def checkA_def readA_def derefA_def uncommittedA_def split: option.splits)

lemma recorded_update [rec]: "(\<And>d. db_entries (f d) = db_entries d) \<Longrightarrow> recorded (updateA f)"
  by (auto intro!: recordedI grows_same simp: updateA_def)

lemma recorded_bind [rec]:
  assumes "recorded m" and "\<And>x. recorded (n x)"
  shows "recorded (bindA m n)"
proof (rule recordedI)
  fix s r s' assume "bindA m n s = (r, s')"
  then show "s_outbox s' = s_outbox s"
    using recordedD(1) [OF assms(1), of s] recordedD(1) [OF assms(2)]
    by (auto simp: bindA_def split: prod.splits sum.splits)
next
  fix s x s' assume "bindA m n s = (Inr x, s')"
  then show "grows s s'"
    using recordedD(2) [OF assms(1), of s] recordedD(2) [OF assms(2)] by (auto simp: bindA_Inr intro: grows_trans)
qed

lemma recorded_then [rec]: "recorded m \<Longrightarrow> recorded n \<Longrightarrow> recorded (thenA m n)"
  unfolding thenA_def by (rule recorded_bind)

lemma recorded_when [rec]: "(b \<Longrightarrow> recorded m) \<Longrightarrow> recorded (whenA b m)"
  by (simp add: whenA_def recorded_simple)

lemma recorded_for [rec]: "(\<And>x. x \<in> set xs \<Longrightarrow> recorded (m x)) \<Longrightarrow> recorded (forA xs m)"
  by (induction xs) (auto intro: rec)

lemma recorded_if [rec]: "recorded m \<Longrightarrow> recorded n \<Longrightarrow> recorded (if b then m else n)"
  by simp

lemma recorded_unit [rec]: "recorded m \<Longrightarrow> recorded (unitA m)"
  unfolding unitA_def by (intro rec)

lemma run_tx_call_outbox: "s_outbox (snd (run_tx_call en call c s)) = s_outbox s"
proof -
  have l: "s_outbox (snd (AddTypeLabel ls c s)) = s_outbox s" "s_outbox (snd (AddTags en ts c s)) = s_outbox s" for ls ts c s
    by (auto simp: AddTypeLabel_def AddTags_def on_db_def on_labels_def Let_def split: sum.splits prod.splits)
  have t: "AddTypeLabel ls c s0 = (c1, s1) \<Longrightarrow> s_outbox s1 = s_outbox s0" for ls c s0 c1 s1
    using l(1) [of ls c s0] by simp
  show ?thesis
  proof (cases call)
    case (LShop i)
    then show ?thesis
      by (auto simp: AddShopID_def Let_def l on_labels_def on_db_def split: option.splits prod.splits dest!: t)
  qed (simp_all add: l AddCustomerServiceID_def AddSupplierID_def on_labels_def on_db_def)
qed

lemma run_tx_calls_outbox: "s_outbox (snd (run_tx_calls en calls c s)) = s_outbox s"
proof (induction en calls c s rule: run_tx_calls.induct)
  case (2 en f fs c s)
  then show ?case using run_tx_call_outbox [of en f c s] by (cases "run_tx_call en f c s") simp
qed simp

lemma newTxA_outbox: "newTxA en tran calls s = (r, s') \<Longrightarrow> s_outbox s' = s_outbox s"
proof -
  obtain c1 s1 where n: "NewTransaction s = (c1, s1)" "s_outbox s1 = s_outbox s" by (simp add: NewTransaction_def)
  obtain tran2 c2 s2 where c: "CreateT en tran c1 s1 = (tran2, c2, s2)" by (cases "CreateT en tran c1 s1")
  obtain c3 s3 where l: "run_tx_calls en calls c2 s2 = (c3, s3)" by (cases "run_tx_calls en calls c2 s2")
  have "s_outbox (snd (snd (CreateT en tran c1 s1))) = s_outbox s1"
    by (auto simp: CreateT_def Let_def split: sum.splits prod.splits)
  then have "s_outbox s3 = s_outbox s" using run_tx_calls_outbox [of en calls c2 s2] n c l by simp
  moreover assume "newTxA en tran calls s = (r, s')"
  ultimately show ?thesis by (simp add: newTxA_def n(1) c l split: option.splits)
qed

lemma recorded_newTx [rec]: "recorded (newTxA en tran calls)"
  using newTxA_outbox newTxA_entries newTxA_core by (intro recordedI grows_same) (blast, simp add: core_def, blast+)

lemma recorded_entry [rec]:
  assumes "iter_ok (iter en)" and "list_all source_option opts" and "list_all plain_call calls"
  shows "recorded (entryA en team user calls opts)"
proof (rule recordedI)
  from source_plain [OF assms(2)] obtain incl f where p: "plain_opts opts incl f" by blast
  have "list_all plain_call calls \<Longrightarrow> fresh_builder c \<Longrightarrow> fresh_builder (run_calls en d calls c)" for d c
    by (induction calls arbitrary: c) (simp_all add: run_calls_def fresh_run_call)
  with assms(3) fresh_new have c: "fresh_builder (chain_of en (s_db s) team user calls)" for s
    unfolding chain_of_def by blast
  fix s x s' assume "entryA en team user calls opts s = (Inr x, s')"
  then show "grows s s'" using commit_grows [OF p assms(1) c] by (simp add: entryA_chain)
next
  fix s r s' assume "entryA en team user calls opts s = (r, s')"
  then show "s_outbox s' = s_outbox s"
    using Commit_outbox [of en opts "chain_of en (s_db s) team user calls" s]
    by (auto simp: entryA_chain commitA_def split: prod.splits option.splits)
qed

subsection \<open>Requests\<close>

text \<open>
  A request of the services outside every transaction. The report service is the one registered
  handler and takes every message.
\<close>

definition one_handler :: "env \<Rightarrow> bool" where
  "one_handler en \<longleftrightarrow> iter_ok (iter en) \<and> accepting en \<and> length (customHandler en) = 1"

definition tells :: "session \<Rightarrow> session \<Rightarrow> bool" where
  "tells s s' \<longleftrightarrow> (\<exists>rows ms lost. db_entries (s_db s') = db_entries (s_db s) @ rows \<and>
     map snd (s_outbox s') = map snd (s_outbox s) @ ms \<and> halves rows lost \<and> told rows (concat (map dr_Entries ms)) lost)"

lemma tells_same: "db_entries (s_db s') = db_entries (s_db s) \<Longrightarrow> s_outbox s' = s_outbox s \<Longrightarrow> tells s s'"
  unfolding tells_def by (intro exI [of _ "[]"]) (simp add: halves_def told_def)

lemma tells_trans:
  assumes "tells s s1" and "tells s1 s2"
  shows "tells s s2"
proof -
  from assms(1) obtain rows ms lost where
    1: "db_entries (s_db s1) = db_entries (s_db s) @ rows" "map snd (s_outbox s1) = map snd (s_outbox s) @ ms"
      "halves rows lost" "told rows (concat (map dr_Entries ms)) lost" unfolding tells_def by blast
  from assms(2) obtain rows' ms' lost' where
    2: "db_entries (s_db s2) = db_entries (s_db s1) @ rows'" "map snd (s_outbox s2) = map snd (s_outbox s1) @ ms'"
      "halves rows' lost'" "told rows' (concat (map dr_Entries ms')) lost'" unfolding tells_def by blast
  from told_append [OF 1(4) 2(4)] halves_append [OF 1(3) 2(3)] 1(1,2) 2(1,2) show ?thesis
    unfolding tells_def
    by (intro exI [of _ "rows @ rows'"] exI [of _ "ms @ ms'"] exI [of _ "lost @ lost'"]) simp
qed

definition telling :: "'a action \<Rightarrow> bool" where
  "telling h \<longleftrightarrow> (\<forall>s r s'. h s = (r, s') \<longrightarrow> tells s s')"

named_theorems tell \<open>rules for \<open>telling\<close>\<close>

lemma telling_simple [tell]: "telling (returnA x)" "telling (failA e)" "telling (checkA eo)" "telling (readA f)"
  "telling (derefA p)"
  by (auto intro!: tells_same simp: telling_def returnA_def failA_def checkA_def readA_def derefA_def split: option.splits)

lemma telling_update [tell]: "(\<And>d. db_entries (f d) = db_entries d) \<Longrightarrow> telling (updateA f)"
  by (auto intro!: tells_same simp: telling_def updateA_def)

lemma telling_bind [tell]: "telling m \<Longrightarrow> (\<And>x. telling (n x)) \<Longrightarrow> telling (bindA m n)"
  by (auto simp: telling_def bindA_def split: prod.splits sum.splits) (metis tells_trans)

lemma telling_then [tell]: "telling m \<Longrightarrow> telling n \<Longrightarrow> telling (thenA m n)"
  unfolding thenA_def by (rule telling_bind)

lemma telling_unit [tell]: "telling m \<Longrightarrow> telling (unitA m)"
  unfolding unitA_def by (intro tell)

lemma telling_transaction [tell]:
  assumes "recorded h" and "\<And>s x s'. h s = (Inr x, s') \<Longrightarrow> db_entries (s_db s') = db_entries (s_db s)"
  shows "telling (transactionA h)"
  unfolding telling_def
proof (intro allI impI)
  fix s r s' assume t: "transactionA h s = (r, s')"
  obtain q s1 where q: "h s = (q, s1)" by (cases "h s")
  with t recordedD(1) [OF assms(1) q] assms(2) [of s _ s1] show "tells s s'"
    by (cases q) (auto simp: transactionA_def intro!: tells_same)
qed

text \<open>A transaction that fails before its messages has sent none, and its messages are taken.\<close>

lemma failed_body_silent:
  assumes "recorded h" and "tx_body h s = (Inl e, s1)"
  shows "s_outbox s1 = s_outbox s"
proof -
  obtain q s2 where q: "h (open_book s) = (q, s2)" by (cases "h (open_book s)")
  show ?thesis
    using recordedD(1) [OF assms(1) q] assms(2) q
    by (auto simp: tx_body_def open_book_def [symmetric] split: sum.splits if_splits option.splits)
qed

lemma message_taken:
  assumes "one_handler en" and "tx_body h s = (Inr xu, s1)"
  obtains x s3 where "OpenTransaction en h s = (Inr (Some x), s3)"
proof -
  obtain x where x: "xu = (x, DailyUpdateData s1)" using assms(2) by (auto simp: tx_body_Inr)
  from assms(1) obtain s3 where "dispatch (customHandler en) (DailyUpdateData s1) (restore_book s s1) = (Inr (), s3)"
    using dispatch_accepting unfolding one_handler_def accepting_def by blast
  with assms(2) x have "OpenTransaction en h s = (Inr (Some x), s3)" by (simp add: OpenTransaction_Some)
  then show thesis by (rule that)
qed

lemma failed_silent:
  assumes "recorded h" and "one_handler en" and "OpenTransaction en h s = (Inl e, s')"
  shows "s_outbox s' = s_outbox s"
proof -
  obtain b s1 where b: "tx_body h s = (b, s1)" by (cases "tx_body h s")
  show ?thesis
  proof (cases b)
    case (Inl e')
    with failed_body_silent [OF assms(1)] OpenTransaction_Inl [of h s e' s1 en] b assms(3) show ?thesis
      by (auto split: if_splits)
  next
    case (Inr xu)
    with message_taken [OF assms(2)] b assms(3) show ?thesis by (metis Inl_Inr_False prod.inject)
  qed
qed

lemma telling_OpenTransaction [tell]:
  assumes h: "recorded h" and en: "one_handler en"
  shows "telling (OpenTransaction en h)"
  unfolding telling_def
proof (intro allI impI)
  fix s r s' assume run: "OpenTransaction en h s = (r, s')"
  obtain b s1 where b: "tx_body h s = (b, s1)" by (cases "tx_body h s")
  show "tells s s'"
  proof (cases b)
    case (Inl e)
    with failed_body_silent [OF h] b have "s_outbox s1 = s_outbox s" by simp
    with OpenTransaction_Inl [of h s e s1 en] b Inl run show ?thesis by (auto intro!: tells_same)
  next
    case (Inr xu)
    with message_taken [OF en] b run obtain x where "OpenTransaction en h s = (Inr (Some x), s')" by (metis prod.inject)
    from OpenTransaction_Some_db [OF this] obtain s4 where
      4: "h (open_book s) = (Inr x, s4)" "s_db s' = s_db s4" "\<forall>e \<in> set (s_entries s4). je_ID e \<noteq> 0"
        "s_outbox s' = s_outbox s4 @ map (\<lambda>(name, h). (name, DailyUpdateData s4)) (customHandler en)" by metis
    from recordedD(2) [OF h 4(1)] obtain rows es lost where
      g: "db_entries (s_db s4) = db_entries (s_db s) @ rows" "s_entries s4 = es" "halves rows lost"
        "(\<forall>e \<in> set es. je_ID e \<noteq> 0) \<Longrightarrow> told rows (map entry_payload es) lost" unfolding grows_def by auto
    from en have "map snd (map (\<lambda>(name, h). (name, DailyUpdateData s4)) (customHandler en)) = [DailyUpdateData s4]"
      by (cases "customHandler en") (auto simp: one_handler_def)
    with 4(4) recordedD(1) [OF h 4(1)] have o: "map snd (s_outbox s') = map snd (s_outbox s) @ [DailyUpdateData s4]" by simp
    from g(4) 4(3) g(2) have "told rows (concat (map dr_Entries [DailyUpdateData s4])) lost"
      by (simp add: DailyUpdateData_entries)
    with g(1,3) 4(2) o show ?thesis unfolding tells_def by auto
  qed
qed

end
