(* ===== verification/ReportingSpec.thy ===== *)
theory ReportingSpec
  imports Reporting ReportSpec RevenueSpec
begin

section \<open>The journal and the daily balances\<close>

text \<open>
  The services, their transactions and the report service composed: after any requests the daily balances
  agree with the journal, but for the rows that no message carries; and a message can outlive its rows.
\<close>

subsection \<open>The services\<close>

lemma plain_chains [simp]:
  "list_all plain_call (goods_calls team sm)" "list_all plain_call (inbound_ware_calls ipay sm tran)"
  "list_all plain_call (inbound_sel_calls ipay sm tran)" "list_all plain_call (fund_calls team fu)"
  "list_all plain_call (stream_adjustment_calls team x)" "list_all plain_call (payer_calls pm tran)"
  "list_all plain_call (receiver_calls pm tran)" "list_all plain_call (adjust_goods_calls team x y)"
  "list_all plain_call (adj_calls adj k1 k2 tran)" "list_all plain_call (method_calls rpay team x)"
  by (auto simp: goods_calls_def inbound_ware_calls_def inbound_sel_calls_def fund_calls_def stream_adjustment_calls_def
      payer_calls_def receiver_calls_def adjust_goods_calls_def adj_calls_def method_calls_def move_receivable_def Let_def
      split: PaymentMethod.splits)

lemma plain_transfer [simp]: "list_all plain_call (transfer_ware_calls tpay teams)" "list_all plain_call (accept_ware_calls tpay teams)"
  "list_all plain_call (transfer_team_calls tpay products)" "list_all plain_call (accept_team_calls tpay products)"
  by (induction teams) (auto simp: transfer_ware_calls_def accept_ware_calls_def transfer_team_calls_def accept_team_calls_def Let_def)

lemma one_handler_iter: "one_handler en \<Longrightarrow> iter_ok (iter en)"
  by (simp add: one_handler_def)

lemmas plain_entry = recorded_entry [OF one_handler_iter]
lemmas recorded_rules = plain_entry recorded_simple recorded_update recorded_bind recorded_then recorded_when recorded_for recorded_unit
  recorded_newTx recorded_if
lemmas telling_rules = telling_OpenTransaction telling_simple telling_update telling_bind telling_then telling_unit

lemma recorded_skip [intro!]: "recorded (skip_existing ref)"
  by (auto simp: skip_existing_def intro!: recorded_rules split: option.splits)

lemma recorded_save_transfer [intro!]: "recorded (save_transfer hist)"
  by (rule recordedI) (auto simp: save_transfer_def Let_def split: if_splits intro!: grows_same)

lemma recorded_first [intro!]: "recorded (first_bank_account i)" "recorded (first_payment i)"
  by (auto simp: first_bank_account_def first_payment_def intro!: recorded_rules split: option.splits)

lemma recorded_skip_if [intro!]: "recorded m \<Longrightarrow> recorded (skip_if_exists m)"
  by (auto simp: recorded_def skip_if_exists_def split: prod.splits sum.splits)

text \<open>An expense opens its transaction inside another one; a failed transaction has sent nothing.\<close>

lemma telling_nested:
  assumes "recorded h" and "one_handler en" and "\<And>d. db_entries (f d) = db_entries d"
  shows "telling (transactionA (thenA (updateA f) (unitA (OpenTransaction en h))))"
  unfolding telling_def
proof (intro allI impI)
  let ?b = "thenA (updateA f) (unitA (OpenTransaction en h))"
  fix s r s' assume t: "transactionA ?b s = (r, s')"
  obtain q s1 where q: "?b s = (q, s1)" by (cases "?b s")
  have "telling ?b" using assms by (intro telling_rules)
  with q have g: "tells s s1" by (simp add: telling_def)
  show "tells s s'"
  proof (cases q)
    case (Inl e)
    have "s_outbox s1 = s_outbox s"
      using q Inl failed_silent [OF assms(1,2)]
      by (auto simp: thenA_def unitA_def bindA_def updateA_def returnA_def split: prod.splits sum.splits)
    with t q Inl show ?thesis by (auto simp: transactionA_def intro!: tells_same)
  next
    case (Inr x)
    with t q g show ?thesis by (simp add: transactionA_def)
  qed
qed

lemma telling_bookings:
  assumes "one_handler en"
  shows "telling (ExpenseCreate en nm ident ex)" and "telling (AdsExCreate en ts ident source ad)"
    and "telling (TransferCreate en nm ident tc)"
  using assms
  by (auto simp: ExpenseCreate_def ExpenseCreateT_def expense_calls_def save_expense_def
      AdsExCreate_def ads_calls_def upsert_tag_def TransferCreate_def transfer_body_def transfer_from_calls_def
      transfer_to_calls_def Let_def intro!: telling_nested recorded_rules telling_rules split: sum.splits)

lemma telling_order: "one_handler en \<Longrightarrow> telling (OnOrder en ident oo)"
  by (auto simp: OnOrder_def order_created_def createWarehouseFee_def ownProductStock_def own_stock_calls_def
      crossProductStock_def borrow_stock_def revenueOrder_def sale_calls_def additionalAmount_def extra_cost_def pay_with_def
      Let_def intro!: recorded_rules telling_rules split: OrderEvent.splits AdditionalPayment.splits OrderPaymentMethod.splits)

lemma telling_unless: "telling m \<Longrightarrow> telling (unless_exists ref m)"
  by (auto simp: unless_exists_def intro!: telling_rules)

lemma telling_revenue:
  assumes "one_handler en"
  shows "telling (RevenueOther en ident src ot)" and "telling (SellingExpenseOther en ident src ot)"
    and "telling (Withdrawal en ident wd)" and "telling (OrderReturn en ident rt)" and "telling (StockReturn en ident rt)"
  using assms
  by (auto simp: RevenueOther_def SellingExpenseOther_def source_checked_def labelled_entry_def Withdrawal_def withdraw_def
      withdrawal_calls_def OrderReturn_def StockReturn_def return_body_def return_calls_def Let_def
      intro!: telling_unless recorded_rules telling_rules split: sum.splits)

lemma telling_stream:
  assumes "one_handler en"
  shows "telling (RevenueStream en nm n tok serr isAuth init msgs)"
proof (induction msgs arbitrary: isAuth init)
  case (Cons msg msgs)
  show ?case
  proof (cases msg)
    case (Some ev)
    with Cons.IH assms show ?thesis
      by (cases ev) (auto simp: fund_def stream_adjustment_def stream_withdrawal_def withdraw_def withdrawal_calls_def Let_def
          intro!: telling_unless recorded_rules telling_rules)
  qed (auto intro: telling_rules)
qed (auto intro: telling_rules)

lemma telling_stock:
  assumes "one_handler en"
  shows "telling (InboundCreate en nm ident ic)" and "telling (InboundAccept en nm ident ia)"
    and "telling (StockAdjustment en ident sa)" and "telling (TransferToWarehouse en ident tw)"
    and "telling (TransferToWarehouseAccept en ident tw)"
  using assms
  by (auto simp: InboundCreate_def restock_calls_def InboundAccept_def accept_body_def StockAdjustment_def adjustment_def
      adjust_ware_calls_def adjust_sel_calls_def TransferToWarehouse_def TransferToWarehouseAccept_def Let_def
      intro!: recorded_rules telling_rules split: option.splits)


lemma recorded_adjust: "one_handler en \<Longrightarrow> recorded (adjust_accounts en nm ident from tran adjs)"
  by (induction adjs arbitrary: tran)
    (auto simp: ensure_adj_account_def save_account_def intro!: recorded_rules split: option.splits)

lemma telling_checks: "telling (forA xs (\<lambda>x. checkA (f x)))"
  by (induction xs) (auto intro: telling_rules)

lemma telling_adjustment: "one_handler en \<Longrightarrow> telling (AccountAdjustment en nm uuid ident aa)"
  by (auto simp: AccountAdjustment_def split_beta intro!: recorded_adjust recorded_rules telling_rules telling_checks)

lemma telling_keeping:
  assumes "recorded h" and "\<And>E. keeps (\<lambda>d. db_entries d = E) h"
  shows "telling (transactionA h)"
  using keepsD [OF assms(2)] by (intro telling_transaction assms(1)) blast

lemma keeps_entries: "(\<And>d. db_entries (f d) = db_entries d) \<Longrightarrow> keeps (\<lambda>d. db_entries d = E) (updateA f)"
  by (auto intro!: keepsI simp: updateA_def)

lemma telling_payments:
  "one_handler en \<Longrightarrow> telling (PaymentAccept en ident pr)" "telling (PaymentCreate en ident pc)"
  "telling (PaymentCancel ident pr)" "telling (PaymentReject ident pr)"
  by (auto simp: PaymentAccept_def check_pending_def book_payment_def save_payment_def PaymentCreate_def PaymentCancel_def
      PaymentReject_def close_payment_def Let_def first_payment_def
      intro!: telling_keeping keeps_entries recorded_rules telling_rules keep split: option.splits)


text \<open>One request to one of the services, whatever its outcome.\<close>

inductive reported_step :: "env \<Rightarrow> session \<Rightarrow> session \<Rightarrow> bool" for en where
  expense: "ExpenseCreate en nm ident ex s = (r, s') \<Longrightarrow> reported_step en s s'"
| ads: "AdsExCreate en ts ident source ad s = (r1, s') \<Longrightarrow> reported_step en s s'"
| bank_transfer: "TransferCreate en nm ident tc s = (r2, s') \<Longrightarrow> reported_step en s s'"
| account_adjustment: "AccountAdjustment en nm1 uuid ident aa s = (r2, s') \<Longrightarrow> reported_step en s s'"
| order: "OnOrder en ident oo s = (r2, s') \<Longrightarrow> reported_step en s s'"
| revenue_other: "RevenueOther en ident src ot s = (r1, s') \<Longrightarrow> reported_step en s s'"
| expense_other: "SellingExpenseOther en ident src ot s = (r1, s') \<Longrightarrow> reported_step en s s'"
| withdrawal: "Withdrawal en ident wd s = (r2, s') \<Longrightarrow> reported_step en s s'"
| stream: "RevenueStream en nm n tok serr isAuth init msgs s = (r, s') \<Longrightarrow> reported_step en s s'"
| order_return: "OrderReturn en ident rt s = (r2, s') \<Longrightarrow> reported_step en s s'"
| stock_return: "StockReturn en ident rt s = (r2, s') \<Longrightarrow> reported_step en s s'"
| restock: "InboundCreate en nm2 ident ic s = (r1, s') \<Longrightarrow> reported_step en s s'"
| inbound: "InboundAccept en nm2 ident ia s = (r1, s') \<Longrightarrow> reported_step en s s'"
| stock_adjustment: "StockAdjustment en ident sa s = (r2, s') \<Longrightarrow> reported_step en s s'"
| stock_transfer: "TransferToWarehouse en ident tw s = (r2, s') \<Longrightarrow> reported_step en s s'"
| stock_transfer_accept: "TransferToWarehouseAccept en ident tw s = (r2, s') \<Longrightarrow> reported_step en s s'"
| payment_create: "PaymentCreate en ident pc s = (r3, s') \<Longrightarrow> reported_step en s s'"
| payment_accept: "PaymentAccept en ident pr s = (r2, s') \<Longrightarrow> reported_step en s s'"
| payment_cancel: "PaymentCancel ident pr s = (r, s') \<Longrightarrow> reported_step en s s'"
| payment_reject: "PaymentReject ident pr s = (r, s') \<Longrightarrow> reported_step en s s'"

lemma tellingD: "telling h \<Longrightarrow> h s = (r, s') \<Longrightarrow> tells s s'"
  by (simp add: telling_def)

lemmas request_tells = telling_bookings [THEN tellingD] telling_adjustment [THEN tellingD] telling_order [THEN tellingD]
  telling_revenue [THEN tellingD] telling_stream [THEN tellingD] telling_stock [THEN tellingD]
  telling_payments [THEN tellingD]

lemma reported_step_tells: "reported_step en s s' \<Longrightarrow> one_handler en \<Longrightarrow> tells s s'"
  by (induction rule: reported_step.induct) (blast intro: request_tells)+

lemma requests_tell:
  assumes "(reported_step en)\<^sup>*\<^sup>* s s'" and "one_handler en"
  shows "tells s s'"
  using assms(1) by (induction rule: rtranclp_induct) (auto intro: tells_same tells_trans reported_step_tells [OF _ assms(2)])

subsection \<open>The daily balances against the journal\<close>

text \<open>Where the report service files an entry and a row, and what it counts of an entry, on the message's form of it.\<close>

definition pay_place :: "EntryPayload \<Rightarrow> int \<times> nat \<times> nat" where
  "pay_place p = (nanos (ParseDate (AsUTC (ep_EntryTime p))), ep_AccountId p, ep_TeamId p)"

definition pay_debit :: "EntryPayload \<Rightarrow> rat" where
  "pay_debit p = (if ep_Rollback p then - val (ep_Credit p) else val (ep_Debit p))"

definition pay_credit :: "EntryPayload \<Rightarrow> rat" where
  "pay_credit p = (if ep_Rollback p then - val (ep_Debit p) else val (ep_Credit p))"

definition row_place :: "AccountDailyBalance \<Rightarrow> int \<times> nat \<times> nat" where
  "row_place r = (acd_day r, acd_slot r)"

definition entry_place :: "JournalEntry \<Rightarrow> int \<times> nat \<times> nat" where
  "entry_place e = pay_place (entry_payload e)"

text \<open>The debits and credits of the entries at a place.\<close>

definition debits_at :: "int \<times> nat \<times> nat \<Rightarrow> JournalEntry list \<Rightarrow> rat" where
  "debits_at k es = (\<Sum>e\<leftarrow>filter (\<lambda>e. entry_place e = k) es. pay_debit (entry_payload e))"

definition credits_at :: "int \<times> nat \<times> nat \<Rightarrow> JournalEntry list \<Rightarrow> rat" where
  "credits_at k es = (\<Sum>e\<leftarrow>filter (\<lambda>e. entry_place e = k) es. pay_credit (entry_payload e))"

lemma plain_fields [simp]: "pay_place (plain p) = pay_place p" "pay_debit (plain p) = pay_debit p" "pay_credit (plain p) = pay_credit p"
  "same_booking (plain l) p = same_booking l p" "ep_Debit (plain p) = ep_Debit p" "ep_Credit (plain p) = ep_Credit p"
  by (simp_all add: plain_def pay_place_def pay_debit_def pay_credit_def same_booking_def)

lemma amounts_places:
  assumes "amounts_of d p = Some a"
  shows "row_place (new_acd a) = pay_place p" and "val (acd_Debit (new_acd a)) = pay_debit p"
    and "val (acd_Credit (new_acd a)) = pay_credit p"
  using assms
  by (auto simp: amounts_of_def entry_amounts_def Let_def row_place_def acd_day_def acd_slot_def new_acd_def pay_place_def
      pay_debit_def pay_credit_def f64_times_minus_1 split: option.splits if_splits)

lemma booked_places:
  assumes "list_all (\<lambda>e. amounts_of d e \<noteq> None) ps" and "\<And>p a. amounts_of d p = Some a \<Longrightarrow> val (amt (new_acd a)) = g p"
  shows "booked acd_slot (\<lambda>x. acd_day x = dy) amt (map (new_acd \<circ> the \<circ> amounts_of d) ps) k =
    (\<Sum>p\<leftarrow>filter (\<lambda>p. pay_place p = (dy, k)) ps. g p)"
  using assms(1)
proof (induction ps)
  case (Cons p ps)
  then obtain a where a: "amounts_of d p = Some a" by auto
  from amounts_places(1) [OF a] have "pay_place p = (acd_day (new_acd a), acd_slot (new_acd a))" by (simp add: row_place_def)
  with Cons a assms(2) [OF a] show ?case by auto
qed simp

lemma sum_perm:
  fixes g :: "'a \<Rightarrow> rat"
  assumes "mset xs = mset ys"
  shows "sum_list (map g (filter P xs)) = sum_list (map g (filter P ys))"
proof -
  have "mset (map g (filter P xs)) = mset (map g (filter P ys))" by (simp only: mset_map mset_filter assms)
  then show ?thesis by (simp only: sum_mset_sum_list [symmetric])
qed

lemma split_told:
  assumes "told rows ps lost"
  obtains kept ls where "mset rows = mset kept + mset ls" and "mset (map plain_row kept) = mset (map plain ps)"
    and "mset (map plain_row ls) = mset lost"
proof -
  from assms have "image_mset plain_row (mset rows) = mset (map plain ps) + mset lost" by (simp add: told_def)
  from image_mset_eq_plusD [OF this] obtain K L where "mset rows = K + L" "mset (map plain ps) = image_mset plain_row K"
    "mset lost = image_mset plain_row L" by blast
  moreover obtain kept ls where "K = mset kept" "L = mset ls" using ex_mset by metis
  ultimately show thesis by (intro that [of kept ls]) simp_all
qed

lemma payload_rows: "map plain_row es = map plain (map entry_payload es)"
  by (simp add: plain_row_def)

lemma payload_amounts: "ep_Debit (entry_payload e) = je_Debit e" "ep_Credit (entry_payload e) = je_Credit e"
  by (simp_all add: entry_payload_def)

lemma place_sums:
  fixes g :: "EntryPayload \<Rightarrow> rat"
  assumes "mset (map plain_row kept) = mset (map plain ps)" and "\<And>p. g (plain p) = g p"
  shows "(\<Sum>p\<leftarrow>filter (\<lambda>p. pay_place p = k) ps. g p) = (\<Sum>e\<leftarrow>filter (\<lambda>e. entry_place e = k) kept. g (entry_payload e))"
proof -
  have *: "sum_list (map g (filter (\<lambda>p. pay_place p = k) (map plain qs))) = sum_list (map g (filter (\<lambda>p. pay_place p = k) qs))" for qs
    by (induction qs) (simp_all add: assms(2))
  from sum_perm [OF assms(1), of g "\<lambda>p. pay_place p = k"]
  have "sum_list (map g (filter (\<lambda>p. pay_place p = k) ps)) = sum_list (map g (filter (\<lambda>p. pay_place p = k) (map entry_payload kept)))"
    unfolding payload_rows * by simp
  then show ?thesis by (simp add: filter_map comp_def entry_place_def)
qed


subsection \<open>An expense that is reported\<close>

definition ads_params :: CreatePayload where
  "ads_params = \<lparr>cp_TeamID = 7, cp_ExpenseKey = AdsExpenseAccount, cp_ExpenseType = 3, cp_Amount = f64_of 50, cp_Desc = ''ads''\<rparr>"

definition ads_row :: "nat \<Rightarrow> nat \<Rightarrow> int \<Rightarrow> int \<Rightarrow> JournalEntry" where
  "ads_row i acc debit credit = (newEntry acc)\<lparr>je_ID := i, je_TeamID := 7, je_CreatedByID := 1, je_TransactionID := 102,
     je_EntryTime := sample_time, je_Desc := ''ads'', je_Debit := f64_of debit, je_Credit := f64_of credit\<rparr>"

definition ads_builder :: createEntry where
  "ads_builder = \<lparr>ce_teamID = 7, ce_createdByID = 1,
    ce_entries = [(11, (newEntry 11)\<lparr>je_Credit := f64_of 50, je_Desc := ''ads'', je_TransactionID := 102\<rparr>),
      (14, (newEntry 14)\<lparr>je_Debit := f64_of 50, je_Desc := ''ads'', je_TransactionID := 102\<rparr>)],
    ce_accountMap = [(11, sample_account 11 CashAccount 7 DebitBalance), (14, sample_account 14 AdsExpenseAccount 7 DebitBalance)],
    ce_err = None\<rparr>"

lemma ads_chain: "db_accounts d = db_accounts bank_db \<Longrightarrow> tx_ID tran = 102 \<Longrightarrow> tx_Desc tran = ''ads'' \<Longrightarrow>
    chain_of daily_env d 7 1 (expense_calls ads_params tran) = ads_builder"
  by (simp add: chain_of_def expense_calls_def ads_params_def run_calls_def builder_defs bank_db_def sample_account_def empty_db_def
     TransactionE_def isEntryEmpty_def on_entries_def CashAccount_def AdsExpenseAccount_def BankFeeAccount_def ads_builder_def)

lemma ads_commit: "db_seq (s_db s) = 102 \<Longrightarrow> db_entries (s_db s) = [] \<Longrightarrow> s_entries s = [] \<Longrightarrow>
    commitA daily_env [] ads_builder s = (Inr (), s\<lparr>s_db := (s_db s)\<lparr>db_seq := 104, db_entries := [ads_row 103 11 0 50, ads_row 104 14 50 0]\<rparr>,
      s_entries := [ads_row 103 11 0 50, ads_row 104 14 50 0]\<rparr>)"
  unfolding commitA_def
  by (simp add: commit_eval ads_builder_def newEntry_def daily_env_def RegisterCustomHandler_def sample_env_def zeroTime_def sample_time_def,
      simp add: ads_row_def newEntry_def zeroTime_def sample_time_def)


definition ads_message :: DailyUpdateBalanceRequest where
  "ads_message = \<lparr>dr_Entries = map entry_payload [ads_row 103 11 0 50, ads_row 104 14 50 0], dr_LabelExtra = emptyReportLabel\<rparr>"

lemma ads_books: "\<exists>s'. ExpenseCreate daily_env (\<lambda>_. ''ads'') anyone ads_request (session_of bank_db) = (Inr (), s') \<and>
    s_outbox s' = [(''daily'', ads_message)] \<and> db_entries (s_db s') = [ads_row 103 11 0 50, ads_row 104 14 50 0]"
proof -
  let ?s1 = "(session_of bank_db)\<lparr>s_db := save_expense daily_env anyone ads_request bank_db\<rparr>"
  let ?tx = "\<lparr>tx_ID = 0, tx_RefID = expense_ref daily_env (\<lambda>_. ''ads'') ads_params, tx_TeamID = 7,
     tx_CreatedByID = 1, tx_OrderID = None, tx_Desc = ''ads'', tx_Created = sample_time\<rparr>"
  let ?h = "bindA (newTxA daily_env ?tx []) (\<lambda>tran. entryA daily_env 7 1 (expense_calls ads_params tran) [])"
  have env: "now daily_env = sample_time" "GetUserID anyone = 1"
    by (simp_all add: daily_env_def RegisterCustomHandler_def sample_env_def anyone_def)
  have p: "\<lparr>cp_TeamID = ecr_TeamId ads_request, cp_ExpenseKey = ecr_ExpenseKey ads_request,
     cp_ExpenseType = ecr_ExpenseType ads_request, cp_Amount = ecr_Amount ads_request, cp_Desc = ecr_Desc ads_request\<rparr> = ads_params"
    by (simp add: ads_request_def ads_params_def)
  have d1: "db_seq (s_db ?s1) = 101" "db_txs (s_db ?s1) = []" "db_entries (s_db ?s1) = []" "db_accounts (s_db ?s1) = db_accounts bank_db"
    by (simp_all add: save_expense_def bank_db_def empty_db_def)
  have nz: "\<not> IsZero sample_time" by (simp add: IsZero_def sample_time_def)
  obtain s2 where n: "newTxA daily_env ?tx [] (open_book ?s1) = (Inr (?tx\<lparr>tx_ID := 102\<rparr>), s2)" "db_seq (s_db s2) = 102"
    "db_entries (s_db s2) = []" "s_entries s2 = []" "db_accounts (s_db s2) = db_accounts bank_db" "s_outbox s2 = []"
    "LabelExtra s2 = Some emptyLabel"
    using d1 nz by (simp add: newTxA_def NewTransaction_def CreateT_def save_tx_def Let_def LabelExtra_def) (simp add: open_book_def session_of_def)
  have "entryA daily_env 7 1 (expense_calls ads_params (?tx\<lparr>tx_ID := 102\<rparr>)) [] s2 = commitA daily_env [] ads_builder s2"
    unfolding entryA_chain by (subst ads_chain) (simp_all add: n)
  also note ads_commit [OF n(2,3,4)]
  finally obtain s3 where e: "entryA daily_env 7 1 (expense_calls ads_params (?tx\<lparr>tx_ID := 102\<rparr>)) [] s2 = (Inr (), s3)"
    "s_entries s3 = [ads_row 103 11 0 50, ads_row 104 14 50 0]" "s_outbox s3 = []" "LabelExtra s3 = Some emptyLabel"
    "db_entries (s_db s3) = [ads_row 103 11 0 50, ads_row 104 14 50 0]"
    using n(6,7) by (simp add: LabelExtra_def)
  have h: "?h (open_book ?s1) = (Inr (), s3)" unfolding bindA_Inr using n(1) e(1) by blast
  have m: "DailyUpdateData s3 = ads_message"
    by (simp add: DailyUpdateData_def e ads_message_def emptyLabel_def emptyReportLabel_def)
  have "tx_body ?h ?s1 = (Inr ((), DailyUpdateData s3), s3)"
    unfolding tx_body_Inr using h e(2) by (simp add: ads_row_def)
  moreover obtain s4 where s4: "dispatch (customHandler daily_env) (DailyUpdateData s3) (restore_book ?s1 s3) = (Inr (), s4)"
    "s_outbox s4 = [(''daily'', ads_message)]" "db_entries (s_db s4) = db_entries (s_db s3)" by (simp add: m e restore_book_def)
  ultimately have run: "OpenTransaction daily_env ?h ?s1 = (Inr (Some ()), s4)" unfolding OpenTransaction_Some by blast
  have f: "cp_TeamID ads_params = 7" "cp_Desc ads_params = ''ads''" by (simp_all add: ads_params_def)
  have "ExpenseCreate daily_env (\<lambda>_. ''ads'') anyone ads_request (session_of bank_db) = (Inr (), s4)"
    unfolding ExpenseCreate_def ExpenseCreateT_def Let_def p f env
    by (simp add: thenA_def bindA_def unitA_def checkA_def transactionA_def updateA_def returnA_def run del: One_nat_def)
  moreover have "db_entries (s_db s4) = [ads_row 103 11 0 50, ads_row 104 14 50 0]" using s4(3) e(5) by simp
  ultimately show ?thesis using s4(2) by blast
qed

lemma ads_accounts: "account_by_id bank_db 11 = Some (sample_account 11 CashAccount 7 DebitBalance)"
  "account_by_id bank_db 14 = Some (sample_account 14 AdsExpenseAccount 7 DebitBalance)"
  by (simp_all add: account_by_id_def bank_db_def empty_db_def sample_account_def)

lemma ads_amounts: "entry_amounts (sample_account i key team DebitBalance) (entry_payload (ads_row n a x y)) =
    Some \<lparr>da_Day = ParseDate (AsUTC (AsUTC sample_time)), da_AccountID = a, da_TeamID = 7, da_Debit = f64_of x, da_Credit = f64_of y,
      da_Balance = f64_of x - f64_of y\<rparr>"
  by (simp add: entry_amounts_def entry_payload_def ads_row_def sample_account_def newEntry_def)

lemma ads_handled: "\<exists>st. handled bank_db [ads_message] st"
proof -
  have a: "ep_AccountId (entry_payload (ads_row n a x y)) = a" for n a x y by (simp add: entry_payload_def ads_row_def newEntry_def)
  have "\<exists>st. DailyUpdateBalance bank_db ads_message empty_report = (None, st)"
    by (simp add: DailyUpdateBalance_def ads_message_def update_entry_def getAccountR_def empty_report_def a ads_accounts ads_amounts
      emptyReportLabel_def frame Let_def sample_account_fields)
  then show ?thesis using handled.message [OF handled.none, of bank_db ads_message] by auto
qed


subsection \<open>A rollback that is undone\<close>

lemma commitA_silent: "commitA en opts c s = (r, s') \<Longrightarrow> s_outbox s' = s_outbox s"
  using Commit_outbox [of en opts c s] by (auto simp: commitA_def split: prod.splits option.splits)

lemma rollback_handle_silent: "rollback_handle en u desc i es s = (r, s') \<Longrightarrow> s_outbox s' = s_outbox s"
proof -
  have for_silent: "forA xs m s = (r, s') \<Longrightarrow> s_outbox s' = s_outbox s"
    if "\<And>x s r s'. m x s = (r, s') \<Longrightarrow> s_outbox s' = s_outbox s" for xs :: "(nat \<times> createEntry) list" and m s r s'
    by (induction xs arbitrary: s r) (auto simp: bindA_def returnA_def split: prod.splits sum.splits dest!: that)
  show "rollback_handle en u desc i es s = (r, s') \<Longrightarrow> s_outbox s' = s_outbox s"
    by (auto simp: rollback_handle_def Let_def bindA_def readA_def failA_def split: sum.splits
        dest!: for_silent [rotated] intro: commitA_silent)
qed

text \<open>A rollback that succeeds has sent its message.\<close>

lemma rollback_message:
  assumes "iter_ok (iter en)" and "RollbackEntry en u desc t s = (t', s')" and "tm_err t' = None" and "tm_data t \<noteq> None"
  shows "\<exists>m. s_outbox s' = s_outbox s @ map (\<lambda>(name, h). (name, m)) (customHandler en) \<and> dr_Entries m \<noteq> []"
proof -
  from assms(4) obtain r where r: "tm_data t = Some r" by auto
  let ?h = "rollback_handle en u desc (tx_ID r) (entries_of_tx (s_db s) (tx_ID r))"
  obtain q s1 where run: "OpenTransaction en ?h s = (q, s1)" by (cases "OpenTransaction en ?h s")
  with assms(2,3) r have "q \<noteq> Inl e" and s1: "s1 = s'" for e
    by (auto simp: RollbackEntry_def tm_setErr_def Let_def split: if_splits sum.splits option.splits)
  then obtain x where q: "q = Inr x" by (cases q) auto
  show ?thesis
  proof (cases x)
    case None
    with OpenTransaction_None(2) [of en ?h s s'] run q s1 rollback_handle_error [OF assms(1)] show ?thesis by fastforce
  next
    case (Some y)
    from OpenTransaction_Some_db [of en ?h s y s'] run q s1 Some obtain s2 where
      "?h (open_book s) = (Inr y, s2)" "s_entries s2 \<noteq> []"
      "s_outbox s' = s_outbox s2 @ map (\<lambda>(name, h). (name, DailyUpdateData s2)) (customHandler en)" by metis
    with rollback_handle_silent show ?thesis
      by (intro exI [of _ "DailyUpdateData s2"]) (auto simp: DailyUpdateData_entries)
  qed
qed

text \<open>
  C34: A correction of a receivable that should only roll back fails and changes nothing, but if the rollback
  itself worked, its message has gone to every handler: the daily balances count entries that the
  journal does not have.
\<close>

theorem undone_rollback_reported:
  assumes "SellingReceivableAdjustment en nm ident pay s = (r, s')" and "rar_OnlyRollback pay" and "IdentityErr ident = None"
    and "iter_ok (iter en)" and "ref = NewStringRefID \<lparr>srd_RefType = SellingReceivableRef, srd_ID = rar_AdjRefId pay\<rparr>"
    and "RollbackEntry en (IdentityID ident) (''rollback '' @ rar_Desc pay @ '' with ref '' @ ref)
      (ByRefID ref (s_db s) NewTransactionMutation) (open_book s) = (t', s1)" and "tm_err t' = None"
  shows "r \<noteq> Inr (Some ()) \<and> s_db s' = s_db s \<and>
    (\<exists>m. s_outbox s' = s_outbox s @ map (\<lambda>(name, h). (name, m)) (customHandler en) \<and> dr_Entries m \<noteq> [])"
proof -
  let ?t = "ByRefID ref (s_db s) NewTransactionMutation" and ?b = "receivable_body en nm ident pay"
  have data: "tm_data ?t \<noteq> None" by (auto simp: ByRefID_def tm_setErr_def split: option.splits)
  have "tm_err t' = None \<Longrightarrow> tm_err ?t = None"
    using assms(6) by (auto simp: RollbackEntry_def tm_setErr_def Let_def split: if_splits option.splits sum.splits prod.splits)
  with assms(7) have e: "tm_err ?t = None" by simp
  from rollback_message [OF assms(4,6,7) data] obtain m where
    m: "s_outbox s1 = s_outbox s @ map (\<lambda>(name, h). (name, m)) (customHandler en)" "dr_Entries m \<noteq> []" by auto
  from data obtain tx where tx: "tm_data ?t = Some tx" by auto
  have roll: "rollbackA en ref (IdentityID ident) (''rollback '' @ rar_Desc pay @ '' with ref '' @ ref) (open_book s) = (Inr (), s1)"
    using assms(6,7) by (simp add: rollbackA_def checkA_def returnA_def)
  have b: "?b (open_book s) = (Inr (), s1)"
    using assms(2) roll e tx
    by (simp add: receivable_body_def receivable_tran_def assms(5) [symmetric] Let_def bindA_def readA_def thenA_def derefA_def returnA_def)
  have "s_entries s1 = []" using rollbackA_entries [OF roll] by simp
  with b have "tx_body ?b s = (Inl (ErrMsg ''entries empty in ending transaction''), s1)"
    by (simp add: tx_body_def open_book_def)
  from OpenTransaction_Inl [OF this, of en] assms(1,3) m show ?thesis
    by (auto simp: SellingReceivableAdjustment_def thenA_def bindA_def checkA_def returnA_def)
qed


text \<open>The payment of 250, now as a correction that is to be rolled back.\<close>

definition undo_ref :: RefID where
  "undo_ref = NewStringRefID \<lparr>srd_RefType = SellingReceivableRef, srd_ID = ''A-1''\<rparr>"

definition undo_db :: db where
  "undo_db = booked_db\<lparr>db_txs := [paid_tx\<lparr>tx_RefID := undo_ref\<rparr>]\<rparr>"

lemma undo_lookups: "account_by_id undo_db i = account_by_id booked_db i" "entries_of_tx undo_db i = entries_of_tx booked_db i"
  by (simp_all add: undo_db_def account_by_id_def entries_of_tx_def preload_account_def)

lemma undo_reverse: "reverse_teams daily_env undo_db 1 [(7, entries_of_tx booked_db 50)] [(7, newCreateEntry 7 1)] =
  Inr [(7, undo_builder)]"
proof -
  have e: "SetE undo_db = SetE booked_db" by (intro ext) (unfold SetE_def undo_lookups, rule refl)
  have a: "reverse_account undo_db = reverse_account booked_db"
    by (intro ext) (unfold reverse_account_def e, rule refl)
  have i: "iter daily_env = iter sample_env" by (simp add: daily_env_def RegisterCustomHandler_def)
  show ?thesis using booked_reverse unfolding reverse_teams.simps a i .
qed

lemma undo_rolls_back: "\<exists>s'. RollbackEntry daily_env 1 desc (ByRefID undo_ref undo_db NewTransactionMutation) (session_of undo_db) =
    (ByRefID undo_ref undo_db NewTransactionMutation, s')"
proof -
  let ?es = "entries_of_tx booked_db 50" and ?t = "ByRefID undo_ref undo_db NewTransactionMutation"
  have te: "group_by_team [] ?es = [(7, ?es)]" by (simp add: booked_entries paid_row_def)
  have t: "tm_data ?t = Some (paid_tx\<lparr>tx_RefID := undo_ref\<rparr>)" by (simp add: ByRefID_def undo_db_def paid_tx_def NewTransactionMutation_def)
  have u: "DescE desc (TransactionIDE 50 undo_builder) = undo_builder\<lparr>ce_entries :=
      [(1, (newEntry 1)\<lparr>je_Debit := f64_of 250, je_TransactionID := 50, je_Desc := desc\<rparr>),
       (2, (newEntry 2)\<lparr>je_Credit := f64_of 250, je_TransactionID := 50, je_Desc := desc\<rparr>)]\<rparr>" (is "_ = ?u")
    by (simp add: DescE_def TransactionIDE_def undo_builder_def on_entries_def isEntryEmpty_def newEntry_def)
  have i: "range_map (iter daily_env) m = m" if "distinct (map fst m)" for m :: "(nat \<times> 'a) list"
    using range_map_sample [OF that] by (simp add: daily_env_def RegisterCustomHandler_def)
  have "rollback_handle daily_env 1 desc 50 ?es (session_of undo_db) = commitA daily_env [RollbackOption] ?u (session_of undo_db)"
    by (simp add: rollback_handle_def te undo_reverse readA_def bindA_def u returnA_def i
        del: One_nat_def reverse_teams.simps split: prod.splits sum.splits)
  moreover obtain s1 es where "commitA daily_env [RollbackOption] ?u (session_of undo_db) = (Inr (), s1)"
    "s_entries s1 = es" "map je_ID es = [103, 104]"
    by (simp add: commitA_def commit_eval undo_builder_def newEntry_def RollbackOption_def zeroTime_def
          daily_env_def RegisterCustomHandler_def sample_env_def sample_time_def,
        simp add: session_of_def undo_db_def booked_db_def)
  ultimately have "tx_body (rollback_handle daily_env 1 desc 50 ?es) (session_of undo_db) = (Inr ((), DailyUpdateData s1), s1)"
    unfolding tx_body_Inr open_book_session by (auto dest: arg_cong [where f = set])
  moreover obtain s4 where "dispatch (customHandler daily_env) (DailyUpdateData s1) (restore_book (session_of undo_db) s1) = (Inr (), s4)"
    by simp
  ultimately have "OpenTransaction daily_env (rollback_handle daily_env 1 desc 50 ?es) (session_of undo_db) = (Inr (Some ()), s4)"
    unfolding OpenTransaction_Some by blast
  moreover have "?es \<noteq> []" by (simp add: booked_entries)
  ultimately show ?thesis
    by (intro exI [of _ s4]) (simp add: RollbackEntry_def t undo_lookups paid_tx_def emptyTransaction_def del: One_nat_def)
qed

theorem undone_rollback_reported_witness:
  "\<exists>r s' m. SellingReceivableAdjustment daily_env (\<lambda>_. ''t'') anyone undo_request (session_of undo_db) = (r, s') \<and>
    s_db s' = undo_db \<and> s_outbox s' = [(''daily'', m)] \<and> dr_Entries m \<noteq> []"
proof -
  obtain r s' where r: "SellingReceivableAdjustment daily_env (\<lambda>_. ''t'') anyone undo_request (session_of undo_db) = (r, s')"
    by (cases "SellingReceivableAdjustment daily_env (\<lambda>_. ''t'') anyone undo_request (session_of undo_db)")
  have q: "rar_OnlyRollback undo_request" "rar_AdjRefId undo_request = ''A-1''" "IdentityID anyone = 1"
    by (simp_all add: undo_request_def anyone_def)
  have ref: "undo_ref = NewStringRefID \<lparr>srd_RefType = SellingReceivableRef, srd_ID = rar_AdjRefId undo_request\<rparr>"
    by (simp add: undo_ref_def q)
  obtain s1 where b: "RollbackEntry daily_env (IdentityID anyone) (''rollback '' @ rar_Desc undo_request @ '' with ref '' @ undo_ref)
      (ByRefID undo_ref (s_db (session_of undo_db)) NewTransactionMutation) (open_book (session_of undo_db)) =
      (ByRefID undo_ref undo_db NewTransactionMutation, s1)"
    using undo_rolls_back unfolding open_book_session session_of_db q by blast
  have "tm_err (ByRefID undo_ref undo_db NewTransactionMutation) = None"
    by (simp add: ByRefID_def undo_db_def paid_tx_def NewTransactionMutation_def)
  from undone_rollback_reported [OF r q(1) _ iter_ok_daily ref b this] r show ?thesis
    by (auto simp: session_of_def)
qed

end
