(* ===== verification/Startup.thy ===== *)
theory Startup
  imports Setup BankAccounts SetupSpec
begin

section \<open>Migration and start-up data\<close>

text \<open>
  \<open>migration.go\<close> (the labels and account types every installation has), \<open>cmd/migration_prod\<close> (the set-up of all
  teams) and \<open>accounting_mock/account.go\<close>. \<open>AutoMigrate\<close> and the names of the generated constants are arguments.
\<close>

subsection \<open>Labels and account types\<close>

text \<open>\<open>Create\<close> with \<open>OnConflict DoNothing\<close> on the unique pair of key and label.\<close>

definition create_label :: "LabelKey \<Rightarrow> string \<Rightarrow> db \<Rightarrow> db" where
  "create_label key label d =
     (if \<exists>l \<in> set (db_type_labels d). tl_Key l = key \<and> tl_Label l = label then d
      else d\<lparr>db_seq := Suc (db_seq d), db_type_labels := db_type_labels d @ [\<lparr>tl_ID = Suc (db_seq d), tl_Key = key, tl_Label = label\<rparr>]\<rparr>)"

definition mplabels :: "MarketplaceType list" where
  "mplabels = [MARKETPLACE_TYPE_CUSTOM, MARKETPLACE_TYPE_LAZADA, MARKETPLACE_TYPE_MENGANTAR, MARKETPLACE_TYPE_TOKOPEDIA,
     MARKETPLACE_TYPE_TIKTOK, MARKETPLACE_TYPE_SHOPEE]"

datatype InboundSource = INBOUND_SOURCE_RESTOCK | INBOUND_SOURCE_RETURN | INBOUND_SOURCE_TRANSFER

definition inboundsources :: "InboundSource list" where
  "inboundsources = [INBOUND_SOURCE_RESTOCK, INBOUND_SOURCE_RETURN, INBOUND_SOURCE_TRANSFER]"

datatype BankType = BankTypeAccount | ShopeeTypeAccount

record AccountType =
  aty_ID :: nat
  aty_Key :: string
  aty_Name :: string
  aty_Type :: BankType

definition seed_types :: "AccountType list" where
  "seed_types =
     [\<lparr>aty_ID = 1, aty_Key = ''bni'', aty_Name = ''BNI'', aty_Type = BankTypeAccount\<rparr>,
      \<lparr>aty_ID = 2, aty_Key = ''bri'', aty_Name = ''BRI'', aty_Type = BankTypeAccount\<rparr>,
      \<lparr>aty_ID = 3, aty_Key = ''bca'', aty_Name = ''BCA'', aty_Type = BankTypeAccount\<rparr>,
      \<lparr>aty_ID = 4, aty_Key = ''mandiri'', aty_Name = ''Mandiri'', aty_Type = BankTypeAccount\<rparr>,
      \<lparr>aty_ID = 5, aty_Key = ''jago'', aty_Name = ''Jago'', aty_Type = BankTypeAccount\<rparr>,
      \<lparr>aty_ID = 6, aty_Key = ''seabank'', aty_Name = ''Seabank'', aty_Type = BankTypeAccount\<rparr>,
      \<lparr>aty_ID = 7, aty_Key = ''shopeepay'', aty_Name = ''ShopeePay'', aty_Type = ShopeeTypeAccount\<rparr>]"

text \<open>\<open>Save\<close>: rows with a known id are replaced, the others added.\<close>

definition save_type :: "AccountType \<Rightarrow> AccountType list \<Rightarrow> AccountType list" where
  "save_type t rows =
     (if \<exists>r \<in> set rows. aty_ID r = aty_ID t then map (\<lambda>r. if aty_ID r = aty_ID t then t else r) rows else rows @ [t])"

definition SeedAccountType :: "AccountType list \<Rightarrow> AccountType list" where
  "SeedAccountType rows = fold save_type seed_types rows"

text \<open>Errors of the seeds are logged only.\<close>

definition NewMigrationHandler ::
  "env \<Rightarrow> (InboundSource \<Rightarrow> string) \<Rightarrow> err option \<Rightarrow> db \<Rightarrow> AccountType list \<Rightarrow> err option \<times> db \<times> AccountType list" where
  "NewMigrationHandler en InboundSource_name auto_migrate d types =
     (case auto_migrate of
        Some e \<Rightarrow> (Some e, d, types)
      | None \<Rightarrow>
          let d = fold (\<lambda>mp. create_label LABEL_KEY_MARKETPLACE (MarketplaceType_name en mp)) mplabels d;
              d = fold (\<lambda>src. create_label LABEL_KEY_WAREHOUSE_TRANSACTION_TYPE (InboundSource_name src)) inboundsources d
          in (None, d, SeedAccountType types))"

subsection \<open>Setting up all teams\<close>

text \<open>The error of a stream is not read: a team whose set-up fails is left behind.\<close>

fun setup_teams ::
  "env \<Rightarrow> (grant \<Rightarrow> err option) \<Rightarrow> (RoleItem \<Rightarrow> RoleItem) \<Rightarrow> Team list \<Rightarrow> nat \<Rightarrow> Team list \<Rightarrow> db \<times> grant list \<Rightarrow> db \<times> grant list" where
  "setup_teams en add it teams rootDomain [] (d, gs) = (d, gs)"
| "setup_teams en add it teams rootDomain (team # ts) (d, gs) =
     (case Setup en add it teams rootDomain (team_ID team) d of
        (_, d', gs') \<Rightarrow> setup_teams en add it teams rootDomain ts (d', gs @ gs'))"

definition Migration_Run ::
  "env \<Rightarrow> (grant \<Rightarrow> err option) \<Rightarrow> (RoleItem \<Rightarrow> RoleItem) \<Rightarrow> nat \<Rightarrow> Team list \<Rightarrow> db \<Rightarrow> db \<times> grant list" where
  "Migration_Run en add it rootDomain teams d = setup_teams en add it teams rootDomain teams (d, [])"

text \<open>The accounts of a team for tests: an existing account is left as it is.\<close>

fun PopulateAccountKey :: "env \<Rightarrow> nat \<Rightarrow> (AccountKey \<times> CoaCode \<times> BalanceType) list \<Rightarrow> db \<Rightarrow> err + db" where
  "PopulateAccountKey en teamID [] d = Inr d"
| "PopulateAccountKey en teamID ((key, coa, tipe) # accs) d =
     (case find_account d key teamID of
        Some old \<Rightarrow>
          if acc_ID old \<noteq> 0 then PopulateAccountKey en teamID accs d
          else (case CreateAccount en tipe coa teamID key (key @ '' ('' @ show_nat teamID @ '')'') d of
                  Inl e \<Rightarrow> Inl e | Inr d \<Rightarrow> PopulateAccountKey en teamID accs d)
      | None \<Rightarrow>
          (case CreateAccount en tipe coa teamID key (key @ '' ('' @ show_nat teamID @ '')'') d of
             Inl e \<Rightarrow> Inl e | Inr d \<Rightarrow> PopulateAccountKey en teamID accs d))"

subsection \<open>Properties\<close>

lemma create_label_twice: "create_label k l (create_label k l d) = create_label k l d"
  by (auto simp: create_label_def)

text \<open>An account with the type of the seed list.\<close>

definition seeded_account :: "db \<Rightarrow> AccountKey \<Rightarrow> nat \<Rightarrow> bool" where
  "seeded_account d k t \<longleftrightarrow>
     (\<exists>x a. seed k = Some x \<and> find_account d k t = Some a \<and> acc_BalanceType a = snd x)"

lemma provided_seeded:
  assumes "provided DefaultSeedAccount T d d'"
  shows "seed k \<noteq> None \<Longrightarrow> seeded_account d' k T" and "seeded_account d k t \<Longrightarrow> seeded_account d' k t"
proof -
  show "seed k \<noteq> None \<Longrightarrow> seeded_account d' k T"
    using provided_account [OF assms, of k] unfolding seeded_account_def by blast
  show "seeded_account d k t \<Longrightarrow> seeded_account d' k t"
    using provided_keeps [OF assms, of k t] unfolding seeded_account_def by blast
qed

lemma setup_teams_provides:
  assumes "accounts_ok d" and "ids_used d" and "set ts \<subseteq> set teams"
  shows "\<exists>d' gs'. setup_teams en add it teams rd ts (d, gs) = (d', gs') \<and>
    (\<forall>k t. seeded_account d k t \<longrightarrow> seeded_account d' k t) \<and>
    (\<forall>k. \<forall>team \<in> set ts. seed k \<noteq> None \<longrightarrow> seeded_account d' k (team_ID team))"
  using assms
proof (induction ts arbitrary: d gs)
  case (Cons team ts)
  have "find (\<lambda>t. team_ID t = team_ID team) teams \<noteq> None" using Cons.prems(3) by (auto simp: find_None_iff)
  then obtain t where t: "find (\<lambda>t. team_ID t = team_ID team) teams = Some t" by blast
  let ?g = "snd (RegisterPermission add it rd (team_ID team) (team_Type t))"
  obtain d1 where s: "Setup en add it teams rd (team_ID team) d = (None, d1, ?g)"
    and ok: "accounts_ok d1" "ids_used d1" and p: "provided DefaultSeedAccount (team_ID team) d d1"
    by (rule Setup_run [OF Cons.prems(1,2) t])
  from Cons.prems(3) have "set ts \<subseteq> set teams" by simp
  from Cons.IH [OF ok this, of "gs @ ?g"] obtain d' gs' where
    r: "setup_teams en add it teams rd ts (d1, gs @ ?g) = (d', gs')" "\<forall>k t. seeded_account d1 k t \<longrightarrow> seeded_account d' k t"
      "\<forall>k. \<forall>team \<in> set ts. seed k \<noteq> None \<longrightarrow> seeded_account d' k (team_ID team)" by blast
  have "setup_teams en add it teams rd (team # ts) (d, gs) = (d', gs')" using s r(1) by simp
  moreover have "\<forall>k t. seeded_account d k t \<longrightarrow> seeded_account d' k t" using r(2) provided_seeded(2) [OF p] by blast
  moreover have "\<forall>k. \<forall>team \<in> set (team # ts). seed k \<noteq> None \<longrightarrow> seeded_account d' k (team_ID team)"
    using r(2,3) provided_seeded(1) [OF p] by simp
  ultimately show ?case by blast
qed simp

text \<open>
  The migration of an installation gives every team an account of every reserved key with the type of the
  seed list, whatever accounts there were before.
\<close>

theorem migration_provides_teams:
  assumes "accounts_ok d" and "ids_used d" and "team \<in> set teams" and "seed k \<noteq> None"
  shows "seeded_account (fst (Migration_Run en add it rd teams d)) k (team_ID team)"
proof -
  from setup_teams_provides [OF assms(1,2) subset_refl, of en add it teams rd "[]"] obtain d' gs' where
    "setup_teams en add it teams rd teams (d, []) = (d', gs')"
    "\<forall>k. \<forall>team \<in> set teams. seed k \<noteq> None \<longrightarrow> seeded_account d' k (team_ID team)" by blast
  with assms(3,4) show ?thesis by (simp add: Migration_Run_def)
qed

end
