(* ===== verification/Delivery.thy ===== *)
theory Delivery
  imports DailyUpdate "HOL-Library.Sublist"
begin

section \<open>Delivery of messages to the report service\<close>

text \<open>
  \<open>report/daily_update_balance_async.go\<close>, \<open>report/dispatcher.go\<close> and \<open>NewDailyBalanceHandler\<close>: the way of a message from
  \<open>OpenTransaction\<close> to \<open>DailyUpdateBalance\<close>, directly or as a task of a queue. The JSON codec, the propagation
  of the trace, the queue and the HTTP client are arguments.
\<close>

record CreateTaskRequest =
  ctk_Parent :: string
  ctk_Url :: string
  ctk_Headers :: "(string \<times> string) list"
  ctk_Body :: string

text \<open>
  The configuration of the service: its address, the path of the slow queue, the path of the procedure,
  \<open>protojson.Marshal\<close>, and what \<open>Inject\<close> makes of the headers of a request.
\<close>

record report_config =
  Endpoint :: string
  SlowQueue :: string
  DailyUpdateBalanceProcedure :: string
  Marshal :: "DailyUpdateBalanceRequest \<Rightarrow> err + string"
  Inject :: "(string \<times> string list) list \<Rightarrow> (string \<times> string list) list"

text \<open>The service's tables and the tasks in the queue.\<close>

type_synonym report_world = "report_db \<times> CreateTaskRequest list"

type_synonym ReportDispatcher = "CreateTaskRequest \<Rightarrow> report_world \<Rightarrow> err option \<times> report_world"

definition NewCloudTaskReportDispatcher :: "(CreateTaskRequest \<Rightarrow> err option) \<Rightarrow> ReportDispatcher" where
  "NewCloudTaskReportDispatcher CreateTask req w =
     (case CreateTask req of Some e \<Rightarrow> (Some e, w) | None \<Rightarrow> (None, (fst w, snd w @ [req])))"

text \<open>
  The local dispatcher makes a request of its own, with the address and the body only. \<open>valid_url\<close> tells whether
  \<open>http.NewRequest\<close> accepts the address, \<open>Do\<close> is the round trip: address, headers, body.
\<close>

definition NewLocalReportDispatcher ::
  "(string \<Rightarrow> bool) \<Rightarrow> (string \<Rightarrow> (string \<times> string) list \<Rightarrow> string \<Rightarrow> report_db \<Rightarrow> err option \<times> report_db) \<Rightarrow> ReportDispatcher" where
  "NewLocalReportDispatcher valid_url Do req w =
     (if \<not> valid_url (ctk_Url req) then (None, w)
      else case Do (ctk_Url req) [] (ctk_Body req) (fst w) of (e, st) \<Rightarrow> (e, (st, snd w)))"

definition reqheaders :: "(string \<times> string list) list \<Rightarrow> (string \<times> string) list" where
  "reqheaders headers =
     alist_upd ''Connect-Protocol-Version'' ''1'' (alist_upd ''Content-Type'' ''application/json''
       (map (\<lambda>(k, v). (k, hd v)) (filter (\<lambda>(k, v). v \<noteq> []) headers)))"

definition DailyUpdateBalanceAsync ::
  "report_config \<Rightarrow> ReportDispatcher \<Rightarrow> db \<Rightarrow> (string \<times> string list) list \<Rightarrow> DailyUpdateBalanceRequest \<Rightarrow> report_world \<Rightarrow>
   err option \<times> report_world" where
  "DailyUpdateBalanceAsync cfg dispather d headers req w =
     (if sublist ''localhost'' (Endpoint cfg) then
        (case DailyUpdateBalance d req (fst w) of (e, st) \<Rightarrow> (e, (st, snd w)))
      else case Marshal cfg req of
          Inl e \<Rightarrow> (Some e, w)
        | Inr content \<Rightarrow>
            dispather \<lparr>ctk_Parent = SlowQueue cfg, ctk_Url = Endpoint cfg @ DailyUpdateBalanceProcedure cfg,
              ctk_Headers = reqheaders (Inject cfg headers), ctk_Body = content\<rparr> w)"

text \<open>The handler that the application registers: a request without headers of its own.\<close>

definition NewDailyBalanceHandler ::
  "report_config \<Rightarrow> ReportDispatcher \<Rightarrow> db \<Rightarrow> DailyUpdateBalanceRequest \<Rightarrow> report_world \<Rightarrow> err option \<times> report_world" where
  "NewDailyBalanceHandler cfg dispather d msg = DailyUpdateBalanceAsync cfg dispather d [] msg"

subsection \<open>Properties\<close>

text \<open>What the server does with a task: it decodes the body of a JSON request to the procedure.\<close>

definition serves ::
  "report_config \<Rightarrow> (string \<Rightarrow> DailyUpdateBalanceRequest option) \<Rightarrow> db \<Rightarrow>
   (string \<Rightarrow> (string \<times> string) list \<Rightarrow> string \<Rightarrow> report_db \<Rightarrow> err option \<times> report_db) \<Rightarrow> bool" where
  "serves cfg Unmarshal d Do \<longleftrightarrow>
     (\<forall>hs body st. Do (Endpoint cfg @ DailyUpdateBalanceProcedure cfg) hs body st =
        (if map_of hs ''Content-Type'' \<noteq> Some ''application/json'' then (None, st)
         else case Unmarshal body of
             None \<Rightarrow> (None, st)
           | Some m \<Rightarrow> (None, snd (DailyUpdateBalance d m st))))"

lemma reqheaders_type: "map_of (reqheaders hs) ''Content-Type'' = Some ''application/json''"
  by (simp add: reqheaders_def map_of_alist_upd)

text \<open>A task of the queue, once it is run, does to the tables what the direct call does.\<close>

lemma queued_equals_direct:
  assumes "\<not> sublist ''localhost'' (Endpoint cfg)" and "Marshal cfg m = Inr body" and "Unmarshal body = Some m"
    and "\<And>t. CreateTask t = None" and "serves cfg Unmarshal d Do"
  shows "\<exists>t. NewDailyBalanceHandler cfg (NewCloudTaskReportDispatcher CreateTask) d m (st, q) = (None, (st, q @ [t])) \<and>
    Do (ctk_Url t) (ctk_Headers t) (ctk_Body t) st = (None, snd (DailyUpdateBalance d m st))"
  using assms by (simp add: NewDailyBalanceHandler_def DailyUpdateBalanceAsync_def NewCloudTaskReportDispatcher_def
      serves_def reqheaders_type)

text \<open>The local dispatcher drops the headers: the server refuses the request, no error is reported, and the message is lost.\<close>

lemma local_message_lost:
  assumes "\<not> sublist ''localhost'' (Endpoint cfg)" and "Marshal cfg m = Inr body" and "serves cfg Unmarshal d Do"
  shows "NewDailyBalanceHandler cfg (NewLocalReportDispatcher valid_url Do) d m w = (None, w)"
  using assms by (cases w) (simp add: NewDailyBalanceHandler_def DailyUpdateBalanceAsync_def NewLocalReportDispatcher_def serves_def)

end
