(* ===== verification/PrintEntries.thy ===== *)
theory PrintEntries
  imports Store
begin

section \<open>Printing journal entries\<close>

text \<open>
  \<open>PrintJournalEntries\<close> of \<open>accounting_core/model.go\<close>: it loads the account of each entry and prints a line for
  it, then a line with both totals. The console is a list of lines; the layouts of times (\<open>Format\<close>) and of
  amounts (\<open>%10.2f\<close>) are arguments. An entry keeps the account that was loaded, also the empty one of a
  failed lookup.
\<close>

definition pad_right :: "nat \<Rightarrow> string \<Rightarrow> string" where
  "pad_right n s = s @ replicate (n - length s) (CHR '' '')"

definition account_title :: "Account \<Rightarrow> string" where
  "account_title a =
     acc_Key a @ '' TeamID '' @ show_nat (acc_TeamID a) @ '' ('' @ acc_BalanceType a @ '')''"

definition entry_line :: "(Time \<Rightarrow> string) \<Rightarrow> (f64 \<Rightarrow> string) \<Rightarrow> JournalEntry \<Rightarrow> Account \<Rightarrow> string" where
  "entry_line Format money e a =
     ''['' @ Format (je_EntryTime e) @ ''] '' @ show_nat (je_TeamID e) @ '' | Txn #'' @ show_nat (je_TransactionID e) @
     '' | Debit: '' @ money (je_Debit e) @ '' | Credit: '' @ money (je_Credit e) @
     '' | Account: '' @ pad_right 20 (account_title a) @ '' | Desc: '' @ je_Desc e"

fun print_loop ::
  "(Time \<Rightarrow> string) \<Rightarrow> (f64 \<Rightarrow> string) \<Rightarrow> db \<Rightarrow> f64 \<Rightarrow> f64 \<Rightarrow> JournalEntry list \<Rightarrow> string list \<Rightarrow>
   (err + f64 \<times> f64) \<times> JournalEntry list \<times> string list" where
  "print_loop Format money d debit credit [] out = (Inr (debit, credit), [], out)"
| "print_loop Format money d debit credit (e # es) out =
     (let debit = debit + je_Debit e; credit = credit + je_Credit e in
      case account_by_id d (je_AccountID e) of
        None \<Rightarrow> (Inl ErrRecordNotFound, e\<lparr>je_Account := Some emptyAccount\<rparr> # es, out)
      | Some a \<Rightarrow>
          (case print_loop Format money d debit credit es (out @ [entry_line Format money e a]) of
             (r, es, out) \<Rightarrow> (r, e\<lparr>je_Account := Some a\<rparr> # es, out)))"

definition PrintJournalEntries ::
  "(Time \<Rightarrow> string) \<Rightarrow> (f64 \<Rightarrow> string) \<Rightarrow> db \<Rightarrow> JournalEntry list \<Rightarrow> err option \<times> JournalEntry list \<times> string list" where
  "PrintJournalEntries Format money d entries =
     (case print_loop Format money d 0 0 entries [''=== Journal Entries ===''] of
        (Inl e, es, out) \<Rightarrow> (Some e, es, out)
      | (Inr (debit, credit), es, out) \<Rightarrow>
          (None, es, out @ [''==========Debit: '' @ money debit @ '', Credit: '' @ money credit @ ''=============='']))"

subsection \<open>Properties\<close>

lemma print_loop_append:
  assumes "list_all (\<lambda>e. account_by_id d (je_AccountID e) \<noteq> None) es"
  shows "print_loop Format money d x y (es @ rest) out =
    (case DebitCredit_from x y es of (x', y') \<Rightarrow>
       case print_loop Format money d x' y' rest
           (out @ map (\<lambda>e. entry_line Format money e (the (account_by_id d (je_AccountID e)))) es) of
         (r, es', out') \<Rightarrow> (r, map (\<lambda>e. e\<lparr>je_Account := account_by_id d (je_AccountID e)\<rparr>) es @ es', out'))"
  using assms by (induction es arbitrary: x y out) (auto simp: Let_def split: prod.splits)

text \<open>When every account is found: one line per entry, in order, between the heading and the totals of \<open>DebitCredit\<close>.\<close>

lemma prints_all_entries:
  assumes "list_all (\<lambda>e. account_by_id d (je_AccountID e) \<noteq> None) es" and "DebitCredit es = (debit, credit)"
  shows "PrintJournalEntries Format money d es =
    (None, map (\<lambda>e. e\<lparr>je_Account := account_by_id d (je_AccountID e)\<rparr>) es,
     ''=== Journal Entries ==='' #
       map (\<lambda>e. entry_line Format money e (the (account_by_id d (je_AccountID e)))) es @
       [''==========Debit: '' @ money debit @ '', Credit: '' @ money credit @ ''==============''])"
  using assms(2) by (simp add: PrintJournalEntries_def print_loop_append [OF assms(1), of Format money 0 0 "[]", simplified] DebitCredit_def)

text \<open>A missing account stops the printing after the entries before it.\<close>

lemma printing_stops:
  assumes "list_all (\<lambda>e. account_by_id d (je_AccountID e) \<noteq> None) es" and "account_by_id d (je_AccountID e) = None"
  shows "PrintJournalEntries Format money d (es @ e # es2) =
    (Some ErrRecordNotFound,
     map (\<lambda>e. e\<lparr>je_Account := account_by_id d (je_AccountID e)\<rparr>) es @ e\<lparr>je_Account := Some emptyAccount\<rparr> # es2,
     ''=== Journal Entries ==='' # map (\<lambda>e. entry_line Format money e (the (account_by_id d (je_AccountID e)))) es)"
  using assms(2) by (simp add: PrintJournalEntries_def print_loop_append [OF assms(1)] Let_def split: prod.split)

end
