(* ===== verification/Spec2Isabelle.thy ===== *)
theory Spec2Isabelle
  imports CoreSpec DailySpec DailyCalc PaymentSpec Services StockSpec BookingSpec RevenueSpec Resync ExpenseLists Directory LedgerViews SetupSpec AccountSpec RecalcSpec ReportSpec ViewSpec ReportingSpec Startup Delivery PrintEntries
begin

text \<open>
  A model of the accounting service (Go, paths below are relative to \<open>src/\<close>) and its correctness.

  \<^bold>\<open>The program.\<close> The service keeps double-entry books for teams: selling teams, warehouses and the
  root team. \<open>accounting_core\<close> owns accounts, transactions and journal entries. A request handler of a
  service package (\<open>payment\<close>, \<open>expense\<close>, \<open>ads_expense\<close>, \<open>account\<close>, \<open>adjustment\<close>, \<open>stock\<close>, \<open>revenue\<close>) checks
  a permission and calls \<open>OpenTransaction\<close>, which opens a database transaction and a book; inside it the
  handler builds a transaction (\<open>CreateTransaction\<close>) and, per team, a chain of entries (\<open>CreateEntry\<close>) ended
  by \<open>Commit\<close>. When the handler returns, \<open>OpenTransaction\<close> checks the book, commits, and gives every
  registered handler one message with the entries and labels of the book. The message reaches
  \<open>report\<close>, which keeps seven tables of daily balances; the reports, \<open>ledger\<close> and the lists read the tables.
  \<open>setup\<close> and \<open>migration.go\<close> prepare the accounts; \<open>report/report_balance\<close> and
  \<open>setup/recalculate_daily.go\<close> compute daily balances from the journal again.

  \<^bold>\<open>Theories of the core.\<close>
  \<^item> \<open>Prelude\<close>: decimal printing, association lists for Go maps, the collections of rewrite rules, and the
    locale \<open>error_latch\<close>: builders that keep their first error and do nothing after it.
  \<^item> \<open>Float64\<close>: amounts. \<open>Reserved\<close> (\<open>reserved_account.go\<close>), \<open>Model\<close> (\<open>model.go\<close>), \<open>PrintEntries\<close>
    (\<open>PrintJournalEntries\<close>), \<open>Store\<close> (tables as lists of rows, the session \<open>s_db\<close>, \<open>s_labels\<close>, \<open>s_entries\<close>,
    \<open>s_outbox\<close> of an open book).
  \<^item> \<open>CreateEntry\<close> and \<open>Commit\<close> (\<open>journal_entries.go\<close>): the builder and its end; \<open>Commit\<close> is a loop over the
    accounts in the order a map yields them, and is refined by a list-level specification. \<open>Ledger\<close>: the
    balance of a team's books.
  \<^item> \<open>CreateTx\<close>, \<open>Mutation\<close>, \<open>Rollback\<close> (\<open>transaction.go\<close>): transactions, their labels, and their reversal.
  \<^item> \<open>Book\<close> (\<open>accounting_manage.go\<close>, \<open>custom_handler.go\<close>): \<open>OpenTransaction\<close>, the message and its dispatch.
  \<^item> \<open>CoreSpec\<close>: the properties of these. \<open>Samples\<close>: the tables the evaluations run on.

  \<^bold>\<open>Theories of the services.\<close>
  \<^item> \<open>Handler\<close>: identities, permissions, and the two kinds of chains as lists of calls (\<open>entry_call\<close>).
  \<^item> \<open>Payment\<close> (\<open>payment/\<close>), \<open>Bookings\<close> (\<open>accounting_transaction/\<close>, \<open>expense/\<close>, \<open>ads_expense/ads_ex_create.go\<close>,
    \<open>account/transfer_create.go\<close>, \<open>adjustment/\<close>), \<open>Stock\<close> (\<open>stock/\<close>), \<open>Revenue\<close> (\<open>revenue/\<close>), \<open>Setup\<close>
    (\<open>setup/service.go\<close>, \<open>setup/permissison.go\<close>), \<open>BankAccounts\<close> (\<open>account/\<close>), \<open>ExpenseLists\<close>, \<open>Directory\<close>
    (\<open>tag/\<close>, \<open>common/\<close>, \<open>core/\<close>, the list of payments), \<open>Startup\<close> (\<open>migration.go\<close>, \<open>cmd/migration_prod\<close>).
  \<^item> \<open>Posting\<close> is a calculus of chains: which entries a list of calls commits. \<open>Effects\<close> is one of handlers:
    \<open>books\<close> says what a handler adds to the balance of every account when it succeeds, and the locale
    \<open>ledger_invariant\<close> what it preserves; \<open>Outcomes\<close> says which outcomes a chain cannot have. The property
    theories \<open>PaymentSpec\<close>, \<open>BookingSpec\<close>, \<open>StockSpec\<close>, \<open>RevenueSpec\<close>, \<open>SetupSpec\<close>, \<open>AccountSpec\<close> and \<open>Services\<close>
    (all handlers together) rest on them.

  \<^bold>\<open>Theories of the reports.\<close>
  \<^item> \<open>DailyTables\<close> (\<open>model_daily.go\<close>) and \<open>DailyUpdate\<close> (\<open>daily_balance_update.go\<close>): the seven tables and the
    handler of the messages, written once over the interface \<open>DailyBalance\<close> of the code. \<open>DailyContract\<close>: the
    locale \<open>daily_table\<close>, interpreted for all seven tables. \<open>DailySpec\<close>: its consequences for messages.
  \<^item> \<open>DailyCalc\<close> and \<open>RecalcSpec\<close> (\<open>daily_balance.go\<close>, \<open>recalculate_daily.go\<close>), \<open>Resync\<close> and \<open>ResyncSpec\<close>
    (\<open>report/report_balance/\<close>, with the locale \<open>sync_table\<close>, an extension of \<open>daily_table\<close>).
  \<^item> \<open>Query\<close>: \<open>WHERE\<close>, \<open>ORDER BY\<close>, \<open>GROUP BY\<close>, \<open>DISTINCT ON\<close> and pages as list functions. \<open>Reports\<close>
    (the six reports), \<open>Pages\<close> (the locale \<open>page_count\<close>), \<open>LedgerViews\<close> (\<open>ledger/\<close>), \<open>ReportSpec\<close>, \<open>ViewSpec\<close>.
  \<^item> \<open>Delivery\<close> (\<open>daily_update_balance_async.go\<close>, \<open>dispatcher.go\<close>): the way of a message to the service.
  \<^item> \<open>Reporting\<close> and \<open>ReportingSpec\<close>: requests, transactions, messages and daily tables composed.
\<close>

text \<open>
  \<^bold>\<open>What is shown.\<close>
  \<^item> \<^emph>\<open>Books.\<close> \<open>Commit\<close> appends the rows of its specification or nothing; every team's debits equal its
    credits after any commits, and after any sequence of requests of the services, whatever their outcome.
    An error of \<open>OpenTransaction\<close> leaves the tables as they were, unless a registered handler refused the
    message; a success means a saved, non-empty book and one message per handler. A rollback cancels a
    transaction on every account. References are unique, and those of reserved types are injective.
  \<^item> \<^emph>\<open>Services.\<close> What payments, expenses, bank transfers, stock transfers and withdrawals move, exactly, on every
    account of every team; that a payment's status changes once; that a payment is accepted when nothing stands
    against it, and that \<open>Setup\<close> is enough for that; which requests can never be booked.
  \<^item> \<^emph>\<open>Tables.\<close> \<open>Setup\<close> and the migration provide exactly the reserved accounts; bank account numbers stay unique.
  \<^item> \<^emph>\<open>Reports.\<close> Messages in the order of days keep every running balance exact; the day's amounts are exact in
    any order; each day with entries has one row; the balance report shows the exact sums; the resync computes
    a list-level reference and depends on the order of its statements; pages hold each row once when
    the number of pages is rounded up; the export and the list show the same entries.
  \<^item> \<^emph>\<open>End to end.\<close> After any requests the daily balances hold the amounts of exactly the journal rows
    that were reported; the others are the debit halves of two-sided entries.
  \<^item> \<^emph>\<open>Defects.\<close> Where the code does not do what it means to, the behaviour it has is proved, e.g.
    \<open>two_sided_debit_not_reported\<close>, \<open>zero_net_account_refused\<close>, \<open>late_day_double_counts\<close>, \<open>lost_stock_refused\<close>,
    \<open>opening_balance_refused\<close>, \<open>undone_rollback_reported\<close>, \<open>deleted_number_reusable\<close>, \<open>local_message_lost\<close>.

  \<^bold>\<open>Choices.\<close>
  \<^item> A \<open>float64\<close> is a rational with a 53-bit significand and an unbounded exponent: each operation rounds to
    nearest, ties to even. Infinities, NaN and subnormal numbers are outside (a restock of zero goods with a fee
    divides by zero). Exact sums are claimed for whole amounts of at most \<open>2^48\<close>, or for the stated bounds.
  \<^item> Identifiers are natural numbers; one sequence numbers the rows of all tables. Page offsets are \<open>int64\<close>
    and wrap.
  \<^item> A table is a list of rows in insertion order; a query without an order keeps it. A null column reads as
    zero. Unique indexes are checked where the code's migration declares them.
  \<^item> The order in which Go visits a map is an argument (\<open>iter\<close>, of which only \<open>iter_ok\<close>, a permutation, is assumed).
    Requests run one after another; row locks only order concurrent sessions and are left out. A cache has
    no expiry.
  \<^item> Errors are values of \<open>err\<close>; \<open>None\<close> as the result of \<open>OpenTransaction\<close> is the skipped transaction.
  \<^item> A database transaction restores the tables on error; messages that were sent stay sent.
  \<^item> The authorization library, the pagination library, teams, name tables of generated constants,
    account types, the JSON and CSV codecs, the formatting of floats and times, the task queue and HTTP
    are arguments of the definitions that use them.
  \<^item> Every loop runs over a list, so all functions terminate structurally or by the length of a list
    (\<open>distinct_on\<close>); no fuel is used.

  \<^bold>\<open>Not modelled.\<close> \<open>register.go\<close>, \<open>cmd/app\<close>, \<open>cmd/playground\<close> (construction of services and of the
  server); \<open>statement\<close>, \<open>transfer\<close> and the methods of \<open>ads_expense/service.go\<close>, \<open>PaymentGet\<close>,
  \<open>TransferCancel\<close> and the other methods (in \<open>revenue/service.go\<close> and \<open>order_transaction/order.go\<close>) that panic
  as unimplemented; \<open>AccountTypeList\<close>, which returns a table of another
  program; \<open>AutoMigrate\<close> and other schema definitions beyond the unique indexes; logging, traces and the
  transport of streams, which are lists of messages here. \<open>AccountCache\<close> is an interface: its two
  implementations are in \<open>DailyCalc\<close>.
\<close>

end
